(* ===== verification/Prelude.thy ===== *)
theory Prelude
  imports "HOL-Library.Word"
begin

text \<open>
  The part of Rust the other theories share: the machine integers the sources
  use, \<open>Result\<close> with the possibility of a panic, the sequencing that the \<open>?\<close>
  operator gives to fallible code (once for code that only reads its context,
  once for code that also writes it), and the few functions of the standard
  library on strings that identifiers and paths are built with.

  Arithmetic on \<open>u64\<close> wraps around, as in a release build.  Strings are lists of
  characters and stand for ASCII text.
\<close>

section \<open>Machine integers\<close>

type_synonym u64 = "64 word"
type_synonym byte = "8 word"
type_synonym bytes = "byte list"

text \<open>Durations are \<open>core::time::Duration\<close>, counted in nanoseconds.\<close>

type_synonym duration = nat

definition u64_max :: u64 where
  "u64_max = - 1"

text \<open>The number of values of a \<open>u64\<close>.\<close>

definition u64_range :: nat where
  "u64_range = 2 ^ 64"

text \<open>Big endian bytes of a \<open>u64\<close>: \<open>u64::to_be_bytes\<close>.\<close>

definition to_be_bytes :: "u64 \<Rightarrow> bytes" where
  "to_be_bytes w = map (\<lambda>i. ucast (drop_bit (8 * i) w)) [7, 6, 5, 4, 3, 2, 1, 0]"

definition string_bytes :: "string \<Rightarrow> bytes" where
  "string_bytes s = map of_char s"


section \<open>Results\<close>

text \<open>The outcome of a Rust function that returns \<open>Result\<close>: a value, an error,
  or a panic (an index out of range, a failed \<open>expect\<close> or \<open>assert\<close>).\<close>

datatype ('a, 'e) result = Ok 'a | Err 'e | Panic

primrec and_then :: "('a, 'e) result \<Rightarrow> ('a \<Rightarrow> ('b, 'e) result) \<Rightarrow> ('b, 'e) result" where
  "and_then (Ok a) f = f a"
| "and_then (Err e) f = Err e"
| "and_then Panic f = Panic"

primrec map_err :: "('e \<Rightarrow> 'f) \<Rightarrow> ('a, 'e) result \<Rightarrow> ('a, 'f) result" where
  "map_err g (Ok a) = Ok a"
| "map_err g (Err e) = Err (g e)"
| "map_err g Panic = Panic"

primrec map_ok :: "('a \<Rightarrow> 'b) \<Rightarrow> ('a, 'e) result \<Rightarrow> ('b, 'e) result" where
  "map_ok g (Ok a) = Ok (g a)"
| "map_ok g (Err e) = Err e"
| "map_ok g Panic = Panic"

primrec ok_or :: "'a option \<Rightarrow> 'e \<Rightarrow> ('a, 'e) result" where
  "ok_or (Some a) e = Ok a"
| "ok_or None e = Err e"

definition ensure :: "bool \<Rightarrow> 'e \<Rightarrow> (unit, 'e) result" where
  "ensure b e = (if b then Ok () else Err e)"

text \<open>Indexing a slice, \<open>xs[i]\<close>, panics when the index is out of range.\<close>

definition index_res :: "'a list \<Rightarrow> nat \<Rightarrow> ('a, 'e) result" where
  "index_res xs i = (if i < length xs then Ok (xs ! i) else Panic)"

definition is_ok :: "('a, 'e) result \<Rightarrow> bool" where
  "is_ok r = (case r of Ok _ \<Rightarrow> True | _ \<Rightarrow> False)"


section \<open>Code that writes its context\<close>

text \<open>A function with a \<open>&mut\<close> argument returns its result and the new value of
  that argument.  What was written before an error stays written: undoing it is
  left to the host, outside the code modelled here.\<close>

type_synonym ('s, 'a, 'e) exec = "'s \<Rightarrow> ('a, 'e) result \<times> 's"

definition exec_return :: "'a \<Rightarrow> ('s, 'a, 'e) exec" where
  "exec_return a = (\<lambda>s. (Ok a, s))"

definition exec_bind ::
  "('s, 'a, 'e) exec \<Rightarrow> ('a \<Rightarrow> ('s, 'b, 'e) exec) \<Rightarrow> ('s, 'b, 'e) exec" where
  "exec_bind m f = (\<lambda>s. case m s of
      (Ok a, s') \<Rightarrow> f a s'
    | (Err e, s') \<Rightarrow> (Err e, s')
    | (Panic, s') \<Rightarrow> (Panic, s'))"

definition exec_lift :: "('a, 'e) result \<Rightarrow> ('s, 'a, 'e) exec" where
  "exec_lift r = (\<lambda>s. (r, s))"

definition exec_read :: "('s \<Rightarrow> ('a, 'e) result) \<Rightarrow> ('s, 'a, 'e) exec" where
  "exec_read f = (\<lambda>s. (f s, s))"

definition exec_write :: "('s \<Rightarrow> 's) \<Rightarrow> ('s, unit, 'e) exec" where
  "exec_write f = (\<lambda>s. (Ok (), f s))"

definition exec_map_err :: "('e \<Rightarrow> 'f) \<Rightarrow> ('s, 'a, 'e) exec \<Rightarrow> ('s, 'a, 'f) exec" where
  "exec_map_err g m = (\<lambda>s. case m s of (r, s') \<Rightarrow> (map_err g r, s'))"

text \<open>A loop \<open>for x in xs { body }\<close> whose body may fail or write.\<close>

primrec exec_for :: "'a list \<Rightarrow> ('a \<Rightarrow> ('s, unit, 'e) exec) \<Rightarrow> ('s, unit, 'e) exec" where
  "exec_for [] body = exec_return ()"
| "exec_for (x # xs) body = exec_bind (body x) (\<lambda>_. exec_for xs body)"

text \<open>Running code that works on a part of a pair of contexts.\<close>

definition exec_fst :: "('s, 'a, 'e) exec \<Rightarrow> ('s \<times> 'm, 'a, 'e) exec" where
  "exec_fst m = (\<lambda>(s, t). case m s of (r, s') \<Rightarrow> (r, (s', t)))"

definition exec_snd :: "('m, 'a, 'e) exec \<Rightarrow> ('s \<times> 'm, 'a, 'e) exec" where
  "exec_snd m = (\<lambda>(s, t). case m t of (r, t') \<Rightarrow> (r, (s, t')))"


section \<open>Strings of the standard library\<close>

definition digit_char :: "nat \<Rightarrow> char" where
  "digit_char d = char_of (48 + d)"

definition digit_val :: "char \<Rightarrow> nat option" where
  "digit_val c = (let n = (of_char c :: nat) in
     if 48 \<le> n \<and> n \<le> 57 then Some (n - 48) else None)"

text \<open>\<open>Display\<close> of an unsigned integer: its decimal digits.\<close>

fun show_nat :: "nat \<Rightarrow> string" where
  "show_nat n = (if n < 10 then [digit_char n]
     else show_nat (n div 10) @ [digit_char (n mod 10)])"

declare show_nat.simps [simp del]

definition show_u64 :: "u64 \<Rightarrow> string" where
  "show_u64 w = show_nat (unat w)"

text \<open>\<open>str::parse::<u64>\<close>: an optional \<open>+\<close>, at least one digit, and no overflow.\<close>

fun parse_digits :: "nat \<Rightarrow> string \<Rightarrow> nat option" where
  "parse_digits acc [] = Some acc"
| "parse_digits acc (c # cs) = (case digit_val c of
     None \<Rightarrow> None
   | Some d \<Rightarrow> if acc * 10 + d < 2 ^ 64 then parse_digits (acc * 10 + d) cs else None)"

definition parse_u64 :: "string \<Rightarrow> u64 option" where
  "parse_u64 s = (
     let ds = (case s of c # cs \<Rightarrow> if c = CHR ''+'' then cs else s | [] \<Rightarrow> s) in
     if ds = [] then None else map_option of_nat (parse_digits 0 ds))"

text \<open>Why \<open>parse::<u64>\<close> fails: \<open>ParseIntError\<close> with its text.  A lone sign counts as an
  invalid digit, and of two causes the one further left is reported.\<close>

datatype parse_int_error = EmptyInt | InvalidDigit | PosOverflow

fun parse_digits_error :: "nat \<Rightarrow> string \<Rightarrow> parse_int_error" where
  "parse_digits_error acc [] = PosOverflow"
| "parse_digits_error acc (c # cs) = (case digit_val c of
     None \<Rightarrow> InvalidDigit
   | Some d \<Rightarrow> if acc * 10 + d < 2 ^ 64 then parse_digits_error (acc * 10 + d) cs else PosOverflow)"

definition parse_u64_error :: "string \<Rightarrow> parse_int_error" where
  "parse_u64_error s = (case s of
     [] \<Rightarrow> EmptyInt
   | c # cs \<Rightarrow> if c = CHR ''+'' then (if cs = [] then InvalidDigit else parse_digits_error 0 cs)
              else parse_digits_error 0 s)"

fun parse_int_error_to_string :: "parse_int_error \<Rightarrow> string" where
  "parse_int_error_to_string EmptyInt = ''cannot parse integer from empty string''"
| "parse_int_error_to_string InvalidDigit = ''invalid digit found in string''"
| "parse_int_error_to_string PosOverflow = ''number too large to fit in target type''"

text \<open>\<open>str::split\<close> on a character: always at least one component.\<close>

fun split_on :: "char \<Rightarrow> string \<Rightarrow> string list" where
  "split_on c [] = [[]]"
| "split_on c (x # xs) = (if x = c then [] # split_on c xs
     else (case split_on c xs of y # ys \<Rightarrow> (x # y) # ys | [] \<Rightarrow> [[x]]))"

text \<open>\<open>str::split_once\<close>: at the first occurrence of the character.\<close>

fun split_once :: "char \<Rightarrow> string \<Rightarrow> (string \<times> string) option" where
  "split_once c [] = None"
| "split_once c (x # xs) = (if x = c then Some ([], xs)
     else map_option (\<lambda>(a, b). (x # a, b)) (split_once c xs))"

text \<open>\<open>[String]::join\<close>.\<close>

fun join :: "string \<Rightarrow> string list \<Rightarrow> string" where
  "join sep [] = []"
| "join sep [x] = x"
| "join sep (x # y # ys) = x @ sep @ join sep (y # ys)"

text \<open>\<open>str::rsplit_once\<close>: at the last occurrence of the character.\<close>

fun rsplit_once :: "char \<Rightarrow> string \<Rightarrow> (string \<times> string) option" where
  "rsplit_once c [] = None"
| "rsplit_once c (x # xs) = (case rsplit_once c xs of
     Some (a, b) \<Rightarrow> Some (x # a, b)
   | None \<Rightarrow> if x = c then Some ([], xs) else None)"

fun strip_prefix :: "string \<Rightarrow> string \<Rightarrow> string option" where
  "strip_prefix [] s = Some s"
| "strip_prefix (p # ps) (x # xs) = (if p = x then strip_prefix ps xs else None)"
| "strip_prefix (p # ps) [] = None"

definition is_digit :: "char \<Rightarrow> bool" where
  "is_digit c \<longleftrightarrow> digit_val c \<noteq> None"


section \<open>Lemmas on results\<close>

named_theorems result_simps \<open>equations that invert sequenced fallible code\<close>
named_theorems exec_defs \<open>definitions of the operations of the exec type\<close>

lemma and_then_Ok_iff [result_simps]:
  "and_then m f = Ok b \<longleftrightarrow> (\<exists>a. m = Ok a \<and> f a = Ok b)"
  by (cases m) auto

lemma map_err_Ok_iff [result_simps]: "map_err g r = Ok a \<longleftrightarrow> r = Ok a"
  by (cases r) auto

lemma map_err_Panic_iff [result_simps]: "map_err g r = Panic \<longleftrightarrow> r = Panic"
  by (cases r) auto

lemma map_ok_Ok_iff [result_simps]: "map_ok g r = Ok b \<longleftrightarrow> (\<exists>a. r = Ok a \<and> b = g a)"
  by (cases r) auto

lemma ok_or_Ok_iff [result_simps]: "ok_or x e = Ok a \<longleftrightarrow> x = Some a"
  by (cases x) auto

lemma ok_or_not_Panic [simp]: "ok_or x e \<noteq> Panic"
  by (cases x) auto

lemma ensure_Ok_iff [result_simps]: "ensure b e = Ok u \<longleftrightarrow> b"
  by (simp add: ensure_def)

lemma ensure_not_Panic [simp]: "ensure b e \<noteq> Panic"
  by (simp add: ensure_def)

lemma ensure_simps [simp]: "ensure True e = Ok ()" "ensure False e = Err e"
  by (simp_all add: ensure_def)

lemma index_res_Ok_iff [result_simps]:
  "index_res xs i = Ok x \<longleftrightarrow> i < length xs \<and> x = xs ! i"
  by (auto simp: index_res_def)

lemma index_res_Panic_iff [result_simps]: "index_res xs i = Panic \<longleftrightarrow> length xs \<le> i"
  by (auto simp: index_res_def)

lemma and_then_Panic_iff:
  "and_then m f = Panic \<longleftrightarrow> m = Panic \<or> (\<exists>a. m = Ok a \<and> f a = Panic)"
  by (cases m) auto

lemma and_then_assoc: "and_then (and_then m f) g = and_then m (\<lambda>a. and_then (f a) g)"
  by (cases m) auto

lemma is_ok_iff: "is_ok r \<longleftrightarrow> (\<exists>a. r = Ok a)"
  by (cases r) (auto simp: is_ok_def)

declare exec_return_def [exec_defs] exec_lift_def [exec_defs] exec_read_def [exec_defs]
  exec_write_def [exec_defs]

text \<open>Running a sequence forwards.\<close>

lemmas exec_eval = exec_bind_def exec_fst_def exec_snd_def exec_lift_def exec_read_def
  exec_write_def exec_return_def

text \<open>Inverting a sequence: either the whole of it ran, or it stopped at its
  first step.\<close>

lemma exec_bind_Ok_iff [result_simps]:
  "exec_bind m f s = (Ok b, s'') \<longleftrightarrow> (\<exists>a s'. m s = (Ok a, s') \<and> f a s' = (Ok b, s''))"
  by (auto simp: exec_bind_def split: prod.splits result.splits)

lemma exec_return_Ok_iff [result_simps]: "exec_return a s = (Ok b, s') \<longleftrightarrow> b = a \<and> s' = s"
  by (auto simp: exec_return_def)

lemma exec_lift_Ok_iff [result_simps]: "exec_lift r s = (Ok b, s') \<longleftrightarrow> r = Ok b \<and> s' = s"
  by (auto simp: exec_lift_def)

lemma exec_read_Ok_iff [result_simps]: "exec_read g s = (Ok b, s') \<longleftrightarrow> g s = Ok b \<and> s' = s"
  by (auto simp: exec_read_def)

lemma exec_write_Ok_iff [result_simps]: "exec_write g s = (Ok b, s') \<longleftrightarrow> s' = g s"
  by (auto simp: exec_write_def)

lemma exec_map_err_Ok_iff [result_simps]:
  "exec_map_err g m s = (Ok b, s') \<longleftrightarrow> m s = (Ok b, s')"
  by (auto simp: exec_map_err_def map_err_Ok_iff split: prod.splits)

lemma exec_fst_Ok_iff [result_simps]:
  "exec_fst m st = (Ok b, st') \<longleftrightarrow> m (fst st) = (Ok b, fst st') \<and> snd st' = snd st"
  by (cases st; cases st') (auto simp: exec_fst_def split: prod.splits)

lemma exec_snd_Ok_iff [result_simps]:
  "exec_snd m st = (Ok b, st') \<longleftrightarrow> m (snd st) = (Ok b, snd st') \<and> fst st' = fst st"
  by (cases st; cases st') (auto simp: exec_snd_def split: prod.splits)


subsection \<open>State relations kept by a sequence\<close>

text \<open>\<open>keeps R m\<close> says that however \<open>m\<close> ends, the contexts before and after it are
  in the relation \<open>R\<close>.  For a reflexive and transitive \<open>R\<close> this follows step by
  step from the operations of a handler.\<close>

definition keeps :: "('s \<Rightarrow> 's \<Rightarrow> bool) \<Rightarrow> ('s, 'a, 'e) exec \<Rightarrow> bool" where
  "keeps R m \<longleftrightarrow> (\<forall>s. R s (snd (m s)))"

named_theorems keeps_intros \<open>rules that derive keeps for composed code\<close>

lemma keepsD: "keeps R m \<Longrightarrow> m s = (r, s') \<Longrightarrow> R s s'"
  unfolding keeps_def by (metis snd_conv)

lemma keeps_return [keeps_intros]: "reflp R \<Longrightarrow> keeps R (exec_return a)"
  by (simp add: keeps_def exec_return_def reflpD)

lemma keeps_lift [keeps_intros]: "reflp R \<Longrightarrow> keeps R (exec_lift r)"
  by (simp add: keeps_def exec_lift_def reflpD)

lemma keeps_read [keeps_intros]: "reflp R \<Longrightarrow> keeps R (exec_read g)"
  by (simp add: keeps_def exec_read_def reflpD)

lemma keeps_write: "(\<And>s. R s (g s)) \<Longrightarrow> keeps R (exec_write g)"
  by (simp add: keeps_def exec_write_def)

lemma keeps_bind [keeps_intros]:
  assumes "transp R" "keeps R m" "\<And>a. keeps R (f a)"
  shows "keeps R (exec_bind m f)"
  unfolding keeps_def
proof
  fix s
  obtain r s' where m: "m s = (r, s')" by fastforce
  have 1: "R s s'" using assms(2) m by (rule keepsD)
  show "R s (snd (exec_bind m f s))"
  proof (cases r)
    case (Ok a)
    have "R s' (snd (f a s'))" using assms(3) by (simp add: keeps_def)
    with 1 show ?thesis using assms(1) Ok m by (auto simp: exec_bind_def dest: transpD)
  qed (use 1 m in \<open>auto simp: exec_bind_def\<close>)
qed

lemma keeps_map_err [keeps_intros]: "keeps R m \<Longrightarrow> keeps R (exec_map_err g m)"
  by (simp add: keeps_def exec_map_err_def split: prod.splits) (metis snd_conv)

lemma keeps_for [keeps_intros]:
  "reflp R \<Longrightarrow> transp R \<Longrightarrow> (\<And>x. keeps R (body x)) \<Longrightarrow> keeps R (exec_for xs body)"
  by (induction xs) (auto intro!: keeps_intros)


section \<open>Lemmas on strings\<close>

lemma digit_val_digit_char [simp]: "d < 10 \<Longrightarrow> digit_val (digit_char d) = Some d"
  by (simp add: digit_val_def digit_char_def of_char_of)

lemma show_nat_ne [simp]: "show_nat n \<noteq> []"
  by (subst show_nat.simps) simp

lemma show_nat_digits: "c \<in> set (show_nat n) \<Longrightarrow> \<exists>d<10. c = digit_char d"
proof (induction n rule: show_nat.induct)
  case (1 n)
  show ?case
  proof (cases "n < 10")
    case True
    then show ?thesis using "1.prems" by (subst (asm) show_nat.simps) auto
  next
    case False
    then have "c \<in> set (show_nat (n div 10)) \<or> c = digit_char (n mod 10)"
      using "1.prems" by (subst (asm) show_nat.simps) auto
    then show ?thesis using "1.IH" [OF False] by (metis mod_less_divisor zero_less_numeral)
  qed
qed

lemma show_nat_is_digit: "c \<in> set (show_nat n) \<Longrightarrow> is_digit c"
  using show_nat_digits by (fastforce simp: is_digit_def)

lemma show_nat_no_special [simp]:
  "CHR ''+'' \<notin> set (show_nat n)" "CHR ''-'' \<notin> set (show_nat n)" "CHR ''/'' \<notin> set (show_nat n)"
  by (auto dest!: show_nat_is_digit simp: is_digit_def digit_val_def)

lemma parse_digits_append:
  "parse_digits acc (xs @ ys) = Option.bind (parse_digits acc xs) (\<lambda>a. parse_digits a ys)"
  by (induction xs arbitrary: acc) (auto split: option.splits)

lemma parse_digits_show_nat: "n < 2 ^ 64 \<Longrightarrow> parse_digits 0 (show_nat n) = Some n"
proof (induction n rule: show_nat.induct)
  case (1 n)
  show ?case
  proof (cases "n < 10")
    case True
    then show ?thesis by (subst show_nat.simps) simp
  next
    case False
    then have "parse_digits 0 (show_nat (n div 10)) = Some (n div 10)"
      using "1.IH" "1.prems" by simp
    then show ?thesis using False "1.prems"
      by (subst show_nat.simps) (simp add: parse_digits_append)
  qed
qed

lemma parse_u64_show_nat: "n < 2 ^ 64 \<Longrightarrow> parse_u64 (show_nat n) = Some (of_nat n)"
proof -
  assume n: "n < 2 ^ 64"
  obtain c cs where s: "show_nat n = c # cs" by (cases "show_nat n") auto
  then have "c \<noteq> CHR ''+''" using show_nat_no_special(1) [of n] by auto
  then show ?thesis using s parse_digits_show_nat [OF n] by (simp add: parse_u64_def)
qed

lemma parse_u64_show_u64 [simp]: "parse_u64 (show_u64 w) = Some w"
  unfolding show_u64_def using parse_u64_show_nat [of "unat w"] unsigned_less [of w] by simp

lemma show_u64_inject [simp]: "show_u64 v = show_u64 w \<longleftrightarrow> v = w"
  by (metis option.inject parse_u64_show_u64)

lemma show_u64_ne [simp]: "show_u64 w \<noteq> []"
  by (simp add: show_u64_def)

lemma show_u64_no_special [simp]:
  "CHR ''+'' \<notin> set (show_u64 n)" "CHR ''-'' \<notin> set (show_u64 n)" "CHR ''/'' \<notin> set (show_u64 n)"
  by (simp_all add: show_u64_def)

lemma split_on_ne [simp]: "split_on c s \<noteq> []"
  by (induction s) (auto split: list.splits)

lemma split_on_plain: "c \<notin> set s \<Longrightarrow> split_on c s = [s]"
  by (induction s) auto

lemma split_on_append: "c \<notin> set s \<Longrightarrow> split_on c (s @ c # t) = s # split_on c t"
  by (induction s) auto

lemma split_once_append: "c \<notin> set s \<Longrightarrow> split_once c (s @ c # t) = Some (s, t)"
  by (induction s) auto

lemma split_once_SomeD: "split_once c s = Some (a, b) \<Longrightarrow> s = a @ c # b \<and> c \<notin> set a"
  by (induction s arbitrary: a) (auto split: if_splits)

lemma split_once_None_iff: "split_once c s = None \<longleftrightarrow> c \<notin> set s"
  by (induction s) auto

lemma join_Cons: "join sep (x # xs) = x @ (if xs = [] then [] else sep @ join sep xs)"
  by (cases xs) simp_all

lemma split_once_None: "c \<notin> set s \<Longrightarrow> split_once c s = None"
  by (induction s) auto

lemma rsplit_once_None: "c \<notin> set t \<Longrightarrow> rsplit_once c t = None"
  by (induction t) auto

lemma rsplit_once_append: "c \<notin> set t \<Longrightarrow> rsplit_once c (s @ c # t) = Some (s, t)"
  by (induction s) (auto simp: rsplit_once_None)

lemma rsplit_once_SomeD: "rsplit_once c s = Some (a, b) \<Longrightarrow> s = a @ c # b \<and> c \<notin> set b"
proof (induction s arbitrary: a)
  case (Cons x xs)
  have "rsplit_once c xs = None \<Longrightarrow> c \<notin> set xs"
    by (induction xs) (auto split: option.splits if_splits)
  then show ?case using Cons by (auto split: option.splits if_splits)
qed simp

lemma strip_prefix_append [simp]: "strip_prefix p (p @ s) = Some s"
  by (induction p) auto

lemma strip_prefix_SomeD: "strip_prefix p s = Some t \<Longrightarrow> s = p @ t"
  by (induction p s rule: strip_prefix.induct) (auto split: if_splits)


section \<open>Lemmas on words\<close>

lemma u64_Suc_unat: "w \<noteq> u64_max \<Longrightarrow> unat (w + 1) = unat w + 1"
proof -
  assume "w \<noteq> u64_max"
  then have "1 + w \<noteq> 0" unfolding u64_max_def by (metis add.commute eq_neg_iff_add_eq_0)
  then show ?thesis by (simp add: unatSuc add.commute)
qed

lemma to_be_bytes_length [simp]: "length (to_be_bytes w) = 8"
  by (simp add: to_be_bytes_def)

section \<open>Code that never panics\<close>

named_theorems panic_free \<open>rules for code that never panics\<close>

definition never_panics :: "('s, 'a, 'e) exec \<Rightarrow> bool" where
  "never_panics m \<longleftrightarrow> (\<forall>s. fst (m s) \<noteq> Panic)"

lemma never_panics_bind [panic_free]:
  assumes "never_panics m" "\<And>a. never_panics (f a)"
  shows "never_panics (exec_bind m f)"
proof (unfold never_panics_def, rule allI)
  fix s
  obtain r s' where "m s = (r, s')" by fastforce
  moreover from this assms(1) have "r \<noteq> Panic" by (metis fst_conv never_panics_def)
  ultimately show "fst (exec_bind m f s) \<noteq> Panic"
    using assms(2) by (cases r) (auto simp: exec_bind_def never_panics_def)
qed

lemma never_panics_read [panic_free]: "(\<And>s. g s \<noteq> Panic) \<Longrightarrow> never_panics (exec_read g)"
  by (simp add: never_panics_def exec_read_def)

lemma never_panics_lift [panic_free]: "r \<noteq> Panic \<Longrightarrow> never_panics (exec_lift r)"
  by (simp add: never_panics_def exec_lift_def)

lemma never_panics_return [panic_free]: "never_panics (exec_return a)"
  by (simp add: never_panics_def exec_return_def)

lemma never_panics_map_err [panic_free]: "never_panics m \<Longrightarrow> never_panics (exec_map_err g m)"
  by (simp add: never_panics_def exec_map_err_def map_err_Panic_iff case_prod_beta)

lemma never_panics_if [panic_free]:
  "(b \<Longrightarrow> never_panics m) \<Longrightarrow> (\<not> b \<Longrightarrow> never_panics n) \<Longrightarrow> never_panics (if b then m else n)"
  by simp

end
