(* ===== verification/Primitives.thy ===== *)
theory Primitives
  imports Prelude
begin

text \<open>
  The crate \<open>ibc-primitives\<close>: timestamps and signers.

  A \<open>tendermint::Time\<close> is represented by the instant it denotes, in nanoseconds
  since the Unix epoch.  Its arithmetic belongs to the \<open>tendermint\<close> crate, so the
  operations of \<open>Timestamp\<close> that use it take it as an argument.
\<close>

section \<open>Timestamps\<close>

type_synonym tm_time = int

datatype timestamp = Timestamp (ts_time: "tm_time option")

datatype expiry = Expired | NotExpired | InvalidTimestamp

datatype timestamp_overflow_error = TimestampOverflow

datatype parse_timestamp_error = ParseInt parse_int_error | DataOutOfRange string

definition zero_duration :: duration where
  "zero_duration = 0"

definition timestamp_from_nanoseconds :: "u64 \<Rightarrow> (timestamp, parse_timestamp_error) result" where
  "timestamp_from_nanoseconds n =
     (if n = 0 then Ok (Timestamp None) else Ok (Timestamp (Some (uint n))))"

definition timestamp_none :: timestamp where
  "timestamp_none = Timestamp None"

definition timestamp_from_time :: "tm_time \<Rightarrow> timestamp" where
  "timestamp_from_time t = Timestamp (Some t)"

definition timestamp_duration_since ::
  "(tm_time \<Rightarrow> tm_time \<Rightarrow> duration option) \<Rightarrow> timestamp \<Rightarrow> timestamp \<Rightarrow> duration option" where
  "timestamp_duration_since tm_duration_since self other = (case (ts_time self, ts_time other) of
       (Some time1, Some time2) \<Rightarrow> tm_duration_since time1 time2
     | _ \<Rightarrow> None)"

text \<open>The conversion back to \<open>u64\<close> asserts that the instant is not before the
  epoch and expects it to fit.\<close>

definition nanoseconds :: "timestamp \<Rightarrow> (u64, 'e) result" where
  "nanoseconds self = (case ts_time self of
       None \<Rightarrow> Ok 0
     | Some s \<Rightarrow> if 0 \<le> s \<and> s < 2 ^ 64 then Ok (word_of_int s) else Panic)"

definition check_expiry :: "timestamp \<Rightarrow> timestamp \<Rightarrow> expiry" where
  "check_expiry self other = (case (ts_time self, ts_time other) of
       (Some time1, Some time2) \<Rightarrow> if time2 < time1 then Expired else NotExpired
     | _ \<Rightarrow> InvalidTimestamp)"

definition timestamp_is_set :: "timestamp \<Rightarrow> bool" where
  "timestamp_is_set self \<longleftrightarrow> ts_time self \<noteq> None"

definition timestamp_add ::
  "(tm_time \<Rightarrow> duration \<Rightarrow> tm_time option) \<Rightarrow> timestamp \<Rightarrow> duration
     \<Rightarrow> (timestamp, timestamp_overflow_error) result" where
  "timestamp_add tm_add self d = (case ts_time self of
       None \<Rightarrow> Ok (Timestamp None)
     | Some t \<Rightarrow> (case tm_add t d of
           Some t' \<Rightarrow> Ok (Timestamp (Some t'))
         | None \<Rightarrow> Err TimestampOverflow))"

definition timestamp_sub ::
  "(tm_time \<Rightarrow> duration \<Rightarrow> tm_time option) \<Rightarrow> timestamp \<Rightarrow> duration
     \<Rightarrow> (timestamp, timestamp_overflow_error) result" where
  "timestamp_sub tm_sub self d = (case ts_time self of
       None \<Rightarrow> Ok (Timestamp None)
     | Some t \<Rightarrow> (case tm_sub t d of
           Some t' \<Rightarrow> Ok (Timestamp (Some t'))
         | None \<Rightarrow> Err TimestampOverflow))"

definition timestamp_from_str :: "string \<Rightarrow> (timestamp, parse_timestamp_error) result" where
  "timestamp_from_str s =
     and_then (ok_or (parse_u64 s) (ParseInt (parse_u64_error s))) (\<lambda>n. timestamp_from_nanoseconds n)"

text \<open>The derived order: an unset timestamp is below every set one.\<close>

instantiation timestamp :: linorder
begin

definition less_eq_timestamp :: "timestamp \<Rightarrow> timestamp \<Rightarrow> bool" where
  "less_eq_timestamp a b \<longleftrightarrow> (case (ts_time a, ts_time b) of
       (None, _) \<Rightarrow> True
     | (Some x, None) \<Rightarrow> False
     | (Some x, Some y) \<Rightarrow> x \<le> y)"

definition less_timestamp :: "timestamp \<Rightarrow> timestamp \<Rightarrow> bool" where
  "less_timestamp a b \<longleftrightarrow> (case (ts_time a, ts_time b) of
       (_, None) \<Rightarrow> False
     | (None, Some y) \<Rightarrow> True
     | (Some x, Some y) \<Rightarrow> x < y)"

instance
  by standard
    (auto simp: less_eq_timestamp_def less_timestamp_def timestamp.expand split: option.splits)

end

text \<open>Timestamps that come from a \<open>u64\<close>: those the wire format can carry.\<close>

definition wire_timestamp :: "timestamp \<Rightarrow> bool" where
  "wire_timestamp t \<longleftrightarrow> (case ts_time t of None \<Rightarrow> True | Some s \<Rightarrow> 0 < s \<and> s < 2 ^ 64)"


section \<open>Signers\<close>

datatype signer = Signer string

definition signer_to_string :: "signer \<Rightarrow> string" where
  "signer_to_string s = (case s of Signer t \<Rightarrow> t)"


section \<open>Protobuf \<open>Any\<close>\<close>

record any_msg =
  any_type_url :: string
  any_value :: bytes

text \<open>\<open>Protobuf::decode\<close> of the protobuf crates decodes the raw message and converts it.\<close>

definition protobuf_decode ::
  "(bytes \<Rightarrow> 'r option) \<Rightarrow> ('r \<Rightarrow> ('a, 'e) result) \<Rightarrow> (bytes \<Rightarrow> string)
     \<Rightarrow> ('e \<Rightarrow> string) \<Rightarrow> bytes \<Rightarrow> ('a, string) result" where
  "protobuf_decode decode convert decode_error convert_error value =
     and_then (ok_or (decode value) (decode_error value)) (\<lambda>raw.
     map_err convert_error (convert raw))"


section \<open>Lemmas\<close>

lemma signer_string [simp]: "Signer (signer_to_string s) = s" "signer_to_string (Signer t) = t"
  by (cases s; simp add: signer_to_string_def)+

lemma uint_word_of_int_u64: "0 \<le> s \<Longrightarrow> s < 2 ^ 64 \<Longrightarrow> uint (word_of_int s :: u64) = s"
  by (simp add: uint_word_of_int)

lemma from_nanoseconds_nanoseconds:
  assumes "wire_timestamp t"
  shows "\<exists>n. nanoseconds t = Ok n \<and> timestamp_from_nanoseconds n = Ok t"
proof (cases "ts_time t")
  case None
  then show ?thesis
    by (cases t) (simp add: nanoseconds_def timestamp_from_nanoseconds_def)
next
  case (Some s)
  then have s: "0 < s" "s < 2 ^ 64" using assms by (simp_all add: wire_timestamp_def)
  then have u: "uint (word_of_int s :: u64) = s" by (simp add: uint_word_of_int_u64)
  then have "(word_of_int s :: u64) \<noteq> 0" using s by (metis less_irrefl unsigned_0)
  then show ?thesis using Some s u
    by (cases t) (simp add: nanoseconds_def timestamp_from_nanoseconds_def)
qed

lemma nanoseconds_from_nanoseconds:
  assumes "timestamp_from_nanoseconds n = Ok t"
  shows "nanoseconds t = Ok n \<and> wire_timestamp t"
proof (cases "n = 0")
  case True
  then show ?thesis using assms
    by (auto simp: nanoseconds_def wire_timestamp_def timestamp_from_nanoseconds_def)
next
  case False
  then have "0 < uint n" by (simp add: uint_0_iff less_le)
  then show ?thesis using assms False uint_lt2p [of n]
    by (auto simp: nanoseconds_def wire_timestamp_def timestamp_from_nanoseconds_def)
qed

lemma wire_timestamp_nanoseconds_not_Panic: "wire_timestamp t \<Longrightarrow> nanoseconds t \<noteq> Panic"
  by (auto simp: wire_timestamp_def nanoseconds_def split: option.splits)

lemma check_expiry_iff_less:
  "check_expiry a b = Expired \<longleftrightarrow> timestamp_is_set a \<and> timestamp_is_set b \<and> b < a"
  by (auto simp: check_expiry_def timestamp_is_set_def less_timestamp_def split: option.splits)

end
