(* ===== verification/Identifiers.thy ===== *)
theory Identifiers
  imports Primitives
begin

text \<open>
  Identifiers of ICS-24 (\<open>ibc-core/ics24-host/types\<close>): the validators of
  \<open>validate.rs\<close>, the identifier types of \<open>identifiers/\<close> with their constructors and
  parsers, and chain identifiers with their revision numbers.
\<close>

section \<open>Errors and validators\<close>

datatype identifier_error =
    InvalidLength string u64 u64
  | InvalidCharacter string
  | InvalidPrefix string
  | UnformattedRevisionNumber string
  | RevisionNumberOverflow
  | InvalidStringAsSequence string string

definition valid_special_chars :: string where
  "valid_special_chars = ''._+-#[]<>''"

definition is_alphanumeric :: "char \<Rightarrow> bool" where
  "is_alphanumeric c \<longleftrightarrow> (let n = (of_char c :: nat) in
     (48 \<le> n \<and> n \<le> 57) \<or> (65 \<le> n \<and> n \<le> 90) \<or> (97 \<le> n \<and> n \<le> 122))"

definition valid_id_char :: "char \<Rightarrow> bool" where
  "valid_id_char c \<longleftrightarrow> is_alphanumeric c \<or> c \<in> set valid_special_chars"

definition validate_identifier_chars :: "string \<Rightarrow> (unit, identifier_error) result" where
  "validate_identifier_chars ident =
     (if \<not> list_all valid_id_char ident then Err (InvalidCharacter ident) else Ok ())"

definition validate_identifier_length ::
  "string \<Rightarrow> u64 \<Rightarrow> u64 \<Rightarrow> (unit, identifier_error) result" where
  "validate_identifier_length ident min_len max_len = (
     let min_len = max min_len 1 in
     if unat min_len \<le> length ident \<and> length ident \<le> unat max_len then Ok ()
     else Err (InvalidLength ident min_len max_len))"

definition saturating_sub :: "u64 \<Rightarrow> u64 \<Rightarrow> u64" where
  "saturating_sub a b = (if a < b then 0 else a - b)"

definition validate_prefix_length ::
  "string \<Rightarrow> u64 \<Rightarrow> u64 \<Rightarrow> (unit, identifier_error) result" where
  "validate_prefix_length prefix min_id_length max_id_length = (
     let min_len = saturating_sub min_id_length 2;
         max_len = saturating_sub max_id_length 21 in
     validate_identifier_length prefix min_len max_len)"

definition validate_named_u64_index :: "string \<Rightarrow> string \<Rightarrow> (unit, identifier_error) result" where
  "validate_named_u64_index ident name =
     and_then (ok_or (strip_prefix name ident) (InvalidPrefix ident)) (\<lambda>rest.
     and_then (ok_or (strip_prefix ''-'' rest) (InvalidPrefix ident)) (\<lambda>number_s.
     if take 1 number_s = ''0'' \<and> 1 < length number_s then Err (InvalidPrefix ident)
     else and_then (ok_or (parse_u64 number_s) (InvalidPrefix ident)) (\<lambda>_. Ok ())))"

definition channel_id_prefix :: string where
  "channel_id_prefix = ''channel''"

definition connection_id_prefix :: string where
  "connection_id_prefix = ''connection''"

definition validate_client_type :: "string \<Rightarrow> (unit, identifier_error) result" where
  "validate_client_type ident =
     and_then (validate_identifier_chars ident) (\<lambda>_. validate_prefix_length ident 9 64)"

definition validate_client_identifier :: "string \<Rightarrow> (unit, identifier_error) result" where
  "validate_client_identifier ident =
     and_then (validate_identifier_chars ident) (\<lambda>_. validate_identifier_length ident 9 64)"

definition validate_connection_identifier :: "string \<Rightarrow> (unit, identifier_error) result" where
  "validate_connection_identifier ident =
     and_then (validate_identifier_chars ident) (\<lambda>_.
     and_then (validate_identifier_length ident 10 64) (\<lambda>_.
     and_then (validate_named_u64_index ident connection_id_prefix) (\<lambda>_. Ok ())))"

definition validate_port_identifier :: "string \<Rightarrow> (unit, identifier_error) result" where
  "validate_port_identifier ident =
     and_then (validate_identifier_chars ident) (\<lambda>_. validate_identifier_length ident 2 128)"

definition validate_channel_identifier :: "string \<Rightarrow> (unit, identifier_error) result" where
  "validate_channel_identifier ident =
     and_then (validate_identifier_chars ident) (\<lambda>_.
     and_then (validate_identifier_length ident 8 64) (\<lambda>_.
     and_then (validate_named_u64_index ident channel_id_prefix) (\<lambda>_. Ok ())))"


section \<open>Identifier types\<close>

datatype client_type = ClientType (client_type_str: string)
datatype client_id = ClientId (client_id_str: string)
datatype connection_id = ConnectionId (connection_id_str: string)
datatype channel_id = ChannelId (channel_id_str: string)
datatype port_id = PortId (port_id_str: string)

text \<open>\<open>str::trim\<close> on ASCII white space.\<close>

definition is_whitespace :: "char \<Rightarrow> bool" where
  "is_whitespace c \<longleftrightarrow> (let n = (of_char c :: nat) in n = 32 \<or> (9 \<le> n \<and> n \<le> 13))"

definition str_trim :: "string \<Rightarrow> string" where
  "str_trim s = rev (dropWhile is_whitespace (rev (dropWhile is_whitespace s)))"

definition client_type_new :: "string \<Rightarrow> (client_type, identifier_error) result" where
  "client_type_new s = (let client_type = str_trim s in
     map_ok (\<lambda>_. ClientType client_type) (validate_client_type client_type))"

definition client_id_format :: "string \<Rightarrow> u64 \<Rightarrow> client_id" where
  "client_id_format client_type counter = ClientId (client_type @ ''-'' @ show_u64 counter)"

definition client_id_new :: "string \<Rightarrow> u64 \<Rightarrow> (client_id, identifier_error) result" where
  "client_id_new s counter = (let client_type = str_trim s in
     map_ok (\<lambda>_. client_id_format client_type counter) (validate_client_type client_type))"

definition build_client_id :: "client_type \<Rightarrow> u64 \<Rightarrow> client_id" where
  "build_client_id self counter = client_id_format (client_type_str self) counter"

definition client_id_from_str :: "string \<Rightarrow> (client_id, identifier_error) result" where
  "client_id_from_str s = map_ok (\<lambda>_. ClientId s) (validate_client_identifier s)"

definition connection_id_new :: "u64 \<Rightarrow> connection_id" where
  "connection_id_new n = ConnectionId (connection_id_prefix @ ''-'' @ show_u64 n)"

definition connection_id_from_str :: "string \<Rightarrow> (connection_id, identifier_error) result" where
  "connection_id_from_str s = map_ok (\<lambda>_. ConnectionId s) (validate_connection_identifier s)"

definition channel_id_new :: "u64 \<Rightarrow> channel_id" where
  "channel_id_new n = ChannelId (channel_id_prefix @ ''-'' @ show_u64 n)"

definition channel_id_from_str :: "string \<Rightarrow> (channel_id, identifier_error) result" where
  "channel_id_from_str s = map_ok (\<lambda>_. ChannelId s) (validate_channel_identifier s)"

definition port_id_from_str :: "string \<Rightarrow> (port_id, identifier_error) result" where
  "port_id_from_str s = map_ok (\<lambda>_. PortId s) (validate_port_identifier s)"

definition port_id_transfer :: port_id where
  "port_id_transfer = PortId ''transfer''"


section \<open>Sequences\<close>

type_synonym sequence = u64

definition sequence_from_str :: "string \<Rightarrow> (sequence, identifier_error) result" where
  "sequence_from_str s = ok_or (parse_u64 s)
     (InvalidStringAsSequence s (parse_int_error_to_string (parse_u64_error s)))"

definition sequence_is_zero :: "sequence \<Rightarrow> bool" where
  "sequence_is_zero s \<longleftrightarrow> s = 0"

definition sequence_increment :: "sequence \<Rightarrow> sequence" where
  "sequence_increment s = s + 1"

definition sequence_to_vec :: "sequence \<Rightarrow> bytes" where
  "sequence_to_vec s = to_be_bytes s"


section \<open>Chain identifiers\<close>

record chain_id =
  chain_id_str :: string
  chain_revision_number :: u64

definition parse_chain_id_string :: "string \<Rightarrow> (string \<times> u64, identifier_error) result" where
  "parse_chain_id_string s = ok_or
     (Option.bind (rsplit_once CHR ''-'' s) (\<lambda>(chain_name, rev_number_str).
        if take 1 rev_number_str \<noteq> ''0'' \<or> length rev_number_str = 1
        then map_option (\<lambda>n. (chain_name, n)) (parse_u64 rev_number_str)
        else None))
     (UnformattedRevisionNumber s)"

definition chain_id_from_str :: "string \<Rightarrow> (chain_id, identifier_error) result" where
  "chain_id_from_str ident = and_then (validate_identifier_chars ident) (\<lambda>_.
     case parse_chain_id_string ident of
       Ok (chain_name, revision_number) \<Rightarrow>
         and_then (validate_prefix_length chain_name 1 64) (\<lambda>_.
         Ok \<lparr>chain_id_str = ident, chain_revision_number = revision_number\<rparr>)
     | _ \<Rightarrow>
         and_then (validate_identifier_length ident 1 64) (\<lambda>_.
         Ok \<lparr>chain_id_str = ident, chain_revision_number = 0\<rparr>))"

definition split_chain_id :: "chain_id \<Rightarrow> (string \<times> u64, identifier_error) result" where
  "split_chain_id self = parse_chain_id_string (chain_id_str self)"

definition increment_revision_number :: "(chain_id, unit, identifier_error) exec" where
  "increment_revision_number =
     exec_bind (exec_read split_chain_id) (\<lambda>(chain_name, _).
     exec_bind (exec_read (\<lambda>self. if chain_revision_number self = u64_max
         then Err RevisionNumberOverflow else Ok (chain_revision_number self + 1)))
       (\<lambda>inc_revision_number.
     exec_bind (exec_write (chain_id_str_update
         (\<lambda>_. chain_name @ ''-'' @ show_u64 inc_revision_number))) (\<lambda>_.
     exec_write (chain_revision_number_update (\<lambda>_. inc_revision_number)))))"

definition chain_id_validate_length ::
  "chain_id \<Rightarrow> u64 \<Rightarrow> u64 \<Rightarrow> (unit, identifier_error) result" where
  "chain_id_validate_length self min_length max_length = (case split_chain_id self of
       Ok (chain_name, _) \<Rightarrow> validate_prefix_length chain_name min_length max_length
     | _ \<Rightarrow> validate_identifier_length (chain_id_str self) min_length max_length)"


section \<open>Lemmas\<close>

lemma digit_is_valid_id_char: "is_digit c \<Longrightarrow> valid_id_char c"
  by (auto simp: is_digit_def digit_val_def valid_id_char_def is_alphanumeric_def Let_def
      split: if_splits)

lemma show_nat_valid_chars: "list_all valid_id_char (show_nat n)"
  using show_nat_is_digit digit_is_valid_id_char by (auto simp: list_all_iff)

lemma slash_not_valid: "\<not> valid_id_char CHR ''/''"
  by (simp add: valid_id_char_def is_alphanumeric_def valid_special_chars_def)

lemma show_nat_length: "n < 10 ^ k \<Longrightarrow> 0 < k \<Longrightarrow> length (show_nat n) \<le> k"
proof (induction n arbitrary: k rule: show_nat.induct)
  case (1 n)
  show ?case
  proof (cases "n < 10")
    case True
    then show ?thesis using "1.prems" by (subst show_nat.simps) simp
  next
    case False
    then obtain k' where k: "k = Suc k'" "0 < k'"
      using "1.prems" by (cases k; cases "k - 1") auto
    then have "length (show_nat (n div 10)) \<le> k'"
      using "1.IH" [OF False, of k'] "1.prems" by (simp add: less_mult_imp_div_less)
    then show ?thesis using False k by (subst show_nat.simps) simp
  qed
qed

lemma show_u64_length: "length (show_u64 w) \<le> 20" "1 \<le> length (show_u64 w)"
proof -
  have "unat w < 2 ^ LENGTH(64)" by (rule unsigned_less)
  then have "unat w < 10 ^ 20" by simp
  then show "length (show_u64 w) \<le> 20" using show_nat_length [of "unat w" 20]
    by (simp add: show_u64_def)
  show "1 \<le> length (show_u64 w)" using show_u64_ne [of w] by (cases "show_u64 w") auto
qed

lemma show_nat_single: "length (show_nat n) = 1 \<longleftrightarrow> n < 10"
  by (subst show_nat.simps) (use show_nat_ne [of "n div 10"] in auto)

lemma show_nat_no_leading_zero: "take 1 (show_nat n) = ''0'' \<Longrightarrow> length (show_nat n) = 1"
proof (induction n rule: show_nat.induct)
  case (1 n)
  show ?case
  proof (cases "n < 10")
    case True
    then show ?thesis by (subst show_nat.simps) simp
  next
    case False
    then have step: "show_nat n = show_nat (n div 10) @ [digit_char (n mod 10)]"
      by (subst show_nat.simps) simp
    have "take 1 (show_nat (n div 10)) = ''0''"
      using "1.prems" step show_nat_ne [of "n div 10"] by (cases "show_nat (n div 10)") auto
    then have "length (show_nat (n div 10)) = 1" using "1.IH" [OF False] by simp
    then have "show_nat (n div 10) = ''0''"
      using \<open>take 1 (show_nat (n div 10)) = ''0''\<close> by (cases "show_nat (n div 10)") auto
    then have "n div 10 < 10" using show_nat_single [of "n div 10"] by simp
    then have "show_nat (n div 10) = [digit_char (n div 10)]" by (subst show_nat.simps) simp
    then have "digit_val (CHR ''0'') = Some (n div 10)"
      using \<open>show_nat (n div 10) = ''0''\<close> \<open>n div 10 < 10\<close>
      by (metis digit_val_digit_char list.inject)
    then have "n div 10 = 0" by (simp add: digit_val_def)
    with False show ?thesis by simp
  qed
qed

lemma validate_named_u64_index_show:
  "validate_named_u64_index (name @ ''-'' @ show_u64 n) name = Ok ()"
  using show_nat_no_leading_zero [of "unat n"] strip_prefix_append [of "''-''" "show_u64 n"]
  by (auto simp: validate_named_u64_index_def show_u64_def [symmetric])

lemma connection_id_valid:
  "validate_connection_identifier (connection_id_str (connection_id_new n)) = Ok ()"
  using show_nat_valid_chars [of "unat n"] show_u64_length [of n]
    validate_named_u64_index_show [of connection_id_prefix n]
  by (simp add: validate_connection_identifier_def connection_id_new_def connection_id_prefix_def
      validate_identifier_chars_def validate_identifier_length_def valid_id_char_def
      is_alphanumeric_def valid_special_chars_def show_u64_def max_def word_le_nat_alt)

lemma channel_id_valid:
  "validate_channel_identifier (channel_id_str (channel_id_new n)) = Ok ()"
  using show_nat_valid_chars [of "unat n"] show_u64_length [of n]
    validate_named_u64_index_show [of channel_id_prefix n]
  by (simp add: validate_channel_identifier_def channel_id_new_def channel_id_prefix_def
      validate_identifier_chars_def validate_identifier_length_def valid_id_char_def
      is_alphanumeric_def valid_special_chars_def show_u64_def max_def word_le_nat_alt)

lemma client_id_valid:
  assumes "validate_client_type ct = Ok ()"
  shows "validate_client_identifier (client_id_str (client_id_format ct n)) = Ok ()"
proof -
  have "valid_id_char CHR ''-''"
    by (simp add: valid_id_char_def valid_special_chars_def)
  then show ?thesis
    using assms show_nat_valid_chars [of "unat n"] show_u64_length [of n]
    by (auto simp: validate_client_type_def validate_client_identifier_def client_id_format_def
        validate_identifier_chars_def validate_identifier_length_def validate_prefix_length_def
        saturating_sub_def result_simps show_u64_def list_all_append max_def word_le_nat_alt
        split: if_splits)
qed

lemma connection_id_new_inject [simp]: "connection_id_new m = connection_id_new n \<longleftrightarrow> m = n"
  by (simp add: connection_id_new_def)

lemma channel_id_new_inject [simp]: "channel_id_new m = channel_id_new n \<longleftrightarrow> m = n"
  by (simp add: channel_id_new_def)

lemma client_id_format_rsplit:
  "rsplit_once CHR ''-'' (client_id_str (client_id_format ct n)) = Some (ct, show_u64 n)"
  by (simp add: client_id_format_def rsplit_once_append)

lemma client_id_format_inject [simp]:
  "client_id_format c m = client_id_format d n \<longleftrightarrow> c = d \<and> m = n"
  by (metis Pair_inject client_id_format_rsplit option.inject show_u64_inject)

lemma parse_chain_id_string_show:
  "parse_chain_id_string (name @ ''-'' @ show_u64 n) = Ok (name, n)"
  using show_nat_no_leading_zero [of "unat n"]
  by (auto simp: parse_chain_id_string_def rsplit_once_append show_u64_def [symmetric])

end
