(* ===== verification/Heights.thy ===== *)
theory Heights
  imports Identifiers
begin

text \<open>
  The domain types of ICS-02 (\<open>ibc-core/ics02-client/types\<close>): heights with their
  order, arithmetic and string form, the status of a client, the error types of the
  commitment and client layers, and the client messages.
\<close>

section \<open>Heights\<close>

datatype height = Height (revision_number: u64) (revision_height: u64)

datatype commitment_error =
    EmptyCommitmentPrefix
  | EmptyMerkleProof
  | EmptyMerkleRoot
  | EmptyVerifiedValue
  | EmptyProofSpecs
  | InvalidDepthRange int int
  | NumberOfSpecsMismatch
  | NumberOfKeysMismatch
  | InvalidMerkleProof
  | VerificationFailure
  | EncodingFailure string
  | DecodingFailure string
  | InvalidPrefixLengthRange int int
  | InvalidChildSize int
  | InvalidHashOp int
  | InvalidLengthOp int

datatype status = Active | Frozen | StatusExpired | Unauthorized

datatype update_kind = UpdateClientKind | SubmitMisbehaviourKind

datatype upgrade_client_error =
    InvalidUpgradeClientProof commitment_error
  | InvalidUpgradeConsensusStateProof commitment_error
  | LowUpgradeHeight height height
  | InvalidUpgradeProposal string
  | InvalidUpgradePlan string
  | OtherUpgradeError string

datatype (plugins only: code) client_error =
    Upgrade upgrade_client_error
  | ClientFrozen string
  | ClientNotActive status
  | ClientNotInactive status
  | ClientStateNotFound client_id
  | ClientStateAlreadyExists client_id
  | ClientRecoveryHeightMismatch height height
  | ClientRecoveryStateMismatch
  | ConsensusStateNotFound client_id height
  | UpdateMetaDataNotFound client_id height
  | HeaderVerificationFailure string
  | InvalidTrustThreshold u64 u64
  | FailedTrustThresholdConversion u64 u64
  | UnknownClientStateType string
  | EmptyPrefix
  | UnknownConsensusStateType string
  | UnknownHeaderType string
  | UnknownMisbehaviourType string
  | MissingRawClientState
  | MissingRawConsensusState
  | InvalidMsgUpdateClientId identifier_error
  | InvalidMsgRecoverClientId identifier_error
  | InvalidClientIdentifier identifier_error
  | InvalidRawHeader string
  | MissingClientMessage
  | InvalidRawMisbehaviour identifier_error
  | MissingRawMisbehaviour
  | InvalidHeight
  | InvalidHeightResult
  | InvalidProofHeight height height
  | InvalidCommitmentProof commitment_error
  | InvalidPacketTimestamp parse_timestamp_error
  | ClientArgsTypeMismatch client_type
  | InvalidConsensusStateTimestamp timestamp timestamp
  | MissingLocalConsensusState height
  | InvalidSigner string
  | Ics23Verification commitment_error
  | MisbehaviourHandlingFailure string
  | ClientSpecific string
  | ClientCounterOverflow
  | InvalidUpdateClientMessage
  | OtherClientError string

definition height_new :: "u64 \<Rightarrow> u64 \<Rightarrow> (height, client_error) result" where
  "height_new rev_number rev_height =
     (if rev_height = 0 then Err InvalidHeight else Ok (Height rev_number rev_height))"

definition height_min :: "u64 \<Rightarrow> height" where
  "height_min rev_number = Height rev_number 1"

definition height_add :: "height \<Rightarrow> u64 \<Rightarrow> height" where
  "height_add self delta = Height (revision_number self) (revision_height self + delta)"

definition height_increment :: "height \<Rightarrow> height" where
  "height_increment self = height_add self 1"

definition height_sub :: "height \<Rightarrow> u64 \<Rightarrow> (height, client_error) result" where
  "height_sub self delta =
     (if revision_height self \<le> delta then Err InvalidHeightResult
      else Ok (Height (revision_number self) (revision_height self - delta)))"

definition height_decrement :: "height \<Rightarrow> (height, client_error) result" where
  "height_decrement self = height_sub self 1"

datatype ordering = Less | Equal | Greater

definition height_cmp :: "height \<Rightarrow> height \<Rightarrow> ordering" where
  "height_cmp self other =
     (if revision_number self < revision_number other then Less
      else if revision_number self > revision_number other then Greater
      else if revision_height self < revision_height other then Less
      else if revision_height self > revision_height other then Greater
      else Equal)"

text \<open>\<open>PartialOrd\<close> derives the comparison operators from \<open>cmp\<close>.\<close>

instantiation height :: linorder
begin

definition less_eq_height :: "height \<Rightarrow> height \<Rightarrow> bool" where
  "less_eq_height a b \<longleftrightarrow> height_cmp a b \<noteq> Greater"

definition less_height :: "height \<Rightarrow> height \<Rightarrow> bool" where
  "less_height a b \<longleftrightarrow> height_cmp a b = Less"

instance
proof
  fix x y z :: height
  show "(x < y) = (x \<le> y \<and> \<not> y \<le> x)"
    by (auto simp: less_height_def less_eq_height_def height_cmp_def split: if_splits)
  show "x \<le> x" by (simp add: less_eq_height_def height_cmp_def)
  show "x \<le> y \<Longrightarrow> y \<le> z \<Longrightarrow> x \<le> z"
    by (auto simp: less_eq_height_def height_cmp_def split: if_splits)
  show "x \<le> y \<Longrightarrow> y \<le> x \<Longrightarrow> x = y"
    by (cases x; cases y) (auto simp: less_eq_height_def height_cmp_def split: if_splits)
  show "x \<le> y \<or> y \<le> x"
    by (auto simp: less_eq_height_def height_cmp_def split: if_splits)
qed

end

datatype height_error =
    HeightConversion string parse_int_error
  | ZeroHeight
  | InvalidFormat string

definition height_to_string :: "height \<Rightarrow> string" where
  "height_to_string self =
     show_u64 (revision_number self) @ ''-'' @ show_u64 (revision_height self)"

definition height_from_str :: "string \<Rightarrow> (height, height_error) result" where
  "height_from_str value_s =
     and_then (ok_or (split_once CHR ''-'' value_s) (InvalidFormat value_s))
       (\<lambda>(rev_number_str, rev_height_str).
     and_then (ok_or (parse_u64 rev_number_str)
         (HeightConversion value_s (parse_u64_error rev_number_str))) (\<lambda>rev_number.
     and_then (ok_or (parse_u64 rev_height_str)
         (HeightConversion value_s (parse_u64_error rev_height_str))) (\<lambda>rev_height.
     map_err (\<lambda>_. ZeroHeight) (height_new rev_number rev_height))))"


section \<open>Client status\<close>

definition status_is_active :: "status \<Rightarrow> bool" where
  "status_is_active self \<longleftrightarrow> self = Active"

definition status_is_frozen :: "status \<Rightarrow> bool" where
  "status_is_frozen self \<longleftrightarrow> self = Frozen"

definition status_is_expired :: "status \<Rightarrow> bool" where
  "status_is_expired self \<longleftrightarrow> self = StatusExpired"

definition verify_is_active :: "status \<Rightarrow> (unit, client_error) result" where
  "verify_is_active self = (case self of Active \<Rightarrow> Ok () | s \<Rightarrow> Err (ClientNotActive s))"

definition verify_is_inactive :: "status \<Rightarrow> (unit, client_error) result" where
  "verify_is_inactive self = (case self of
       Frozen \<Rightarrow> Ok ()
     | StatusExpired \<Rightarrow> Ok ()
     | s \<Rightarrow> Err (ClientNotInactive s))"

definition status_from_str :: "string \<Rightarrow> (status, client_error) result" where
  "status_from_str s =
     (if s = ''ACTIVE'' then Ok Active
      else if s = ''FROZEN'' then Ok Frozen
      else if s = ''EXPIRED'' then Ok StatusExpired
      else if s = ''UNAUTHORIZED'' then Ok Unauthorized
      else Err (OtherClientError (''invalid status string: '' @ s)))"


section \<open>Commitments\<close>

text \<open>The byte strings of ICS-23 the core handlers pass around.\<close>

datatype commitment_root = CommitmentRoot bytes
datatype commitment_proof_bytes = CommitmentProofBytes bytes
datatype commitment_prefix = CommitmentPrefix (commitment_prefix_bytes: bytes)

definition commitment_prefix_is_empty :: "commitment_prefix \<Rightarrow> bool" where
  "commitment_prefix_is_empty p \<longleftrightarrow> commitment_prefix_bytes p = []"


section \<open>Client messages\<close>

record msg_create_client =
  cc_client_state :: any_msg
  cc_consensus_state :: any_msg
  cc_signer :: signer

record msg_update_client =
  uc_client_id :: client_id
  uc_client_message :: any_msg
  uc_signer :: signer

record msg_submit_misbehaviour =
  sm_client_id :: client_id
  sm_misbehaviour :: any_msg
  sm_signer :: signer

record msg_upgrade_client =
  ug_client_id :: client_id
  ug_upgraded_client_state :: any_msg
  ug_upgraded_consensus_state :: any_msg
  ug_proof_upgrade_client :: commitment_proof_bytes
  ug_proof_upgrade_consensus_state :: commitment_proof_bytes
  ug_signer :: signer

record msg_recover_client =
  rc_subject_client_id :: client_id
  rc_substitute_client_id :: client_id
  rc_signer :: signer

datatype client_msg =
    CreateClientMsg msg_create_client
  | UpdateClientMsg msg_update_client
  | MisbehaviourMsg msg_submit_misbehaviour
  | UpgradeClientMsg msg_upgrade_client
  | RecoverClientMsg msg_recover_client

datatype msg_update_or_misbehaviour =
    UpdateClient msg_update_client
  | Misbehaviour msg_submit_misbehaviour

definition uom_client_id :: "msg_update_or_misbehaviour \<Rightarrow> client_id" where
  "uom_client_id m = (case m of UpdateClient x \<Rightarrow> uc_client_id x | Misbehaviour x \<Rightarrow> sm_client_id x)"

definition uom_client_message :: "msg_update_or_misbehaviour \<Rightarrow> any_msg" where
  "uom_client_message m =
     (case m of UpdateClient x \<Rightarrow> uc_client_message x | Misbehaviour x \<Rightarrow> sm_misbehaviour x)"

definition uom_signer :: "msg_update_or_misbehaviour \<Rightarrow> signer" where
  "uom_signer m = (case m of UpdateClient x \<Rightarrow> uc_signer x | Misbehaviour x \<Rightarrow> sm_signer x)"


section \<open>Lemmas\<close>

lemma height_less_iff:
  "(a :: height) < b \<longleftrightarrow> revision_number a < revision_number b
     \<or> (revision_number a = revision_number b \<and> revision_height a < revision_height b)"
  by (auto simp: less_height_def height_cmp_def)

lemma height_le_iff:
  "(a :: height) \<le> b \<longleftrightarrow> revision_number a < revision_number b
     \<or> (revision_number a = revision_number b \<and> revision_height a \<le> revision_height b)"
  by (auto simp: less_eq_height_def height_cmp_def)

lemma height_add_greater:
  assumes "0 < delta" "unat (revision_height h) + unat delta < 2 ^ 64"
  shows "h < height_add h delta"
proof -
  have "unat (revision_height h + delta) = unat (revision_height h) + unat delta"
    using assms(2) by (simp add: unat_add_lem [THEN iffD1])
  then show ?thesis using assms(1)
    by (simp add: height_less_iff height_add_def word_less_nat_alt unat_gt_0)
qed

lemma height_sub_add:
  "height_sub h delta = Ok h' \<Longrightarrow> height_add h' delta = h \<and> revision_height h' \<noteq> 0"
  by (cases h) (auto simp: height_sub_def height_add_def split: if_splits)

lemma height_from_to_string:
  "revision_height h \<noteq> 0 \<Longrightarrow> height_from_str (height_to_string h) = Ok h"
  by (cases h) (simp add: height_from_str_def height_to_string_def split_once_append height_new_def)

lemma height_from_str_nonzero: "height_from_str s = Ok h \<Longrightarrow> revision_height h \<noteq> 0"
  by (auto simp: height_from_str_def height_new_def result_simps split: prod.splits if_splits)

lemma verify_is_active_Ok_iff [result_simps]: "verify_is_active s = Ok u \<longleftrightarrow> s = Active"
  by (cases s) (auto simp: verify_is_active_def)

lemma verify_is_inactive_Ok_iff [result_simps]:
  "verify_is_inactive s = Ok u \<longleftrightarrow> s = Frozen \<or> s = StatusExpired"
  by (cases s) (auto simp: verify_is_inactive_def)

end
