(* ===== verification/Paths.thy ===== *)
theory Paths
  imports Heights
begin

text \<open>
  The store paths of ICS-24 (\<open>ibc-core/ics24-host/types/src/path.rs\<close>): the path
  types, their string form, the parser, and the key under which consensus states are
  iterated.
\<close>

section \<open>Path types\<close>

datatype client_state_path = ClientStatePath client_id
datatype client_consensus_state_path = ClientConsensusStatePath client_id u64 u64
datatype client_update_time_path = ClientUpdateTimePath client_id u64 u64
datatype client_update_height_path = ClientUpdateHeightPath client_id u64 u64
datatype client_connection_path = ClientConnectionPath client_id
datatype connection_path = ConnectionPath connection_id
datatype port_path = PortPath port_id
datatype channel_end_path = ChannelEndPath port_id channel_id
datatype seq_send_path = SeqSendPath port_id channel_id
datatype seq_recv_path = SeqRecvPath port_id channel_id
datatype seq_ack_path = SeqAckPath port_id channel_id
datatype commitment_path = CommitmentPath port_id channel_id sequence
datatype ack_path = AckPath port_id channel_id sequence
datatype receipt_path = ReceiptPath port_id channel_id sequence
datatype upgrade_client_path = UpgradedClientState u64 | UpgradedClientConsensusState u64

datatype (plugins only: code) path =
    Path_NextClientSequence
  | Path_NextConnectionSequence
  | Path_NextChannelSequence
  | Path_ClientState client_state_path
  | Path_ClientConsensusState client_consensus_state_path
  | Path_ClientUpdateTime client_update_time_path
  | Path_ClientUpdateHeight client_update_height_path
  | Path_ClientConnection client_connection_path
  | Path_Connection connection_path
  | Path_Ports port_path
  | Path_ChannelEnd channel_end_path
  | Path_SeqSend seq_send_path
  | Path_SeqRecv seq_recv_path
  | Path_SeqAck seq_ack_path
  | Path_Commitment commitment_path
  | Path_Ack ack_path
  | Path_Receipt receipt_path
  | Path_UpgradeClient upgrade_client_path

datatype sub_path = Channels channel_id | Sequences sequence

datatype path_error = ParseFailure string


section \<open>String form\<close>

fun upgrade_client_path_to_string :: "upgrade_client_path \<Rightarrow> string" where
  "upgrade_client_path_to_string (UpgradedClientState h) =
     ''upgradedIBCState/'' @ show_u64 h @ ''/upgradedClient''"
| "upgrade_client_path_to_string (UpgradedClientConsensusState h) =
     ''upgradedIBCState/'' @ show_u64 h @ ''/upgradedConsState''"

fun path_to_string :: "path \<Rightarrow> string" where
  "path_to_string Path_NextClientSequence = ''nextClientSequence''"
| "path_to_string Path_NextConnectionSequence = ''nextConnectionSequence''"
| "path_to_string Path_NextChannelSequence = ''nextChannelSequence''"
| "path_to_string (Path_ClientState (ClientStatePath c)) =
     ''clients/'' @ client_id_str c @ ''/clientState''"
| "path_to_string (Path_ClientConsensusState (ClientConsensusStatePath c n h)) =
     ''clients/'' @ client_id_str c @ ''/consensusStates/'' @ show_u64 n @ ''-'' @ show_u64 h"
| "path_to_string (Path_ClientUpdateTime (ClientUpdateTimePath c n h)) =
     ''clients/'' @ client_id_str c @ ''/consensusStates/'' @ show_u64 n @ ''-'' @ show_u64 h
       @ ''/processedTime''"
| "path_to_string (Path_ClientUpdateHeight (ClientUpdateHeightPath c n h)) =
     ''clients/'' @ client_id_str c @ ''/consensusStates/'' @ show_u64 n @ ''-'' @ show_u64 h
       @ ''/processedHeight''"
| "path_to_string (Path_ClientConnection (ClientConnectionPath c)) =
     ''clients/'' @ client_id_str c @ ''/connections''"
| "path_to_string (Path_Connection (ConnectionPath c)) = ''connections/'' @ connection_id_str c"
| "path_to_string (Path_Ports (PortPath p)) = ''ports/'' @ port_id_str p"
| "path_to_string (Path_ChannelEnd (ChannelEndPath p c)) =
     ''channelEnds/ports/'' @ port_id_str p @ ''/channels/'' @ channel_id_str c"
| "path_to_string (Path_SeqSend (SeqSendPath p c)) =
     ''nextSequenceSend/ports/'' @ port_id_str p @ ''/channels/'' @ channel_id_str c"
| "path_to_string (Path_SeqRecv (SeqRecvPath p c)) =
     ''nextSequenceRecv/ports/'' @ port_id_str p @ ''/channels/'' @ channel_id_str c"
| "path_to_string (Path_SeqAck (SeqAckPath p c)) =
     ''nextSequenceAck/ports/'' @ port_id_str p @ ''/channels/'' @ channel_id_str c"
| "path_to_string (Path_Commitment (CommitmentPath p c s)) =
     ''commitments/ports/'' @ port_id_str p @ ''/channels/'' @ channel_id_str c
       @ ''/sequences/'' @ show_u64 s"
| "path_to_string (Path_Ack (AckPath p c s)) =
     ''acks/ports/'' @ port_id_str p @ ''/channels/'' @ channel_id_str c
       @ ''/sequences/'' @ show_u64 s"
| "path_to_string (Path_Receipt (ReceiptPath p c s)) =
     ''receipts/ports/'' @ port_id_str p @ ''/channels/'' @ channel_id_str c
       @ ''/sequences/'' @ show_u64 s"
| "path_to_string (Path_UpgradeClient u) = upgrade_client_path_to_string u"

definition path_is_provable :: "path \<Rightarrow> bool" where
  "path_is_provable p = (case p of
       Path_ClientConnection _ \<Rightarrow> False
     | Path_Ports _ \<Rightarrow> False
     | _ \<Rightarrow> True)"

definition path_into_bytes :: "path \<Rightarrow> bytes" where
  "path_into_bytes p = string_bytes (path_to_string p)"

text \<open>The key under which a consensus state is found by iteration.\<close>

definition iteration_key :: "u64 \<Rightarrow> u64 \<Rightarrow> bytes" where
  "iteration_key rev_number rev_height =
     string_bytes ''iterateConsensusStates'' @ to_be_bytes rev_number @ to_be_bytes rev_height"


section \<open>Parser\<close>

definition ok_opt :: "('a, 'e) result \<Rightarrow> 'a option" where
  "ok_opt r = (case r of Ok a \<Rightarrow> Some a | _ \<Rightarrow> None)"

definition parse_next_sequence :: "string list \<Rightarrow> path option" where
  "parse_next_sequence components =
     (if length components \<noteq> 1 then None
      else if hd components = ''nextClientSequence'' then Some Path_NextClientSequence
      else if hd components = ''nextConnectionSequence'' then Some Path_NextConnectionSequence
      else if hd components = ''nextChannelSequence'' then Some Path_NextChannelSequence
      else None)"

text \<open>The component after \<open>clients\<close> is read by indexing, before its presence is
  checked.\<close>

definition parse_client_paths :: "string list \<Rightarrow> (path option, path_error) result" where
  "parse_client_paths components = (case components of
       [] \<Rightarrow> Ok None
     | first # _ \<Rightarrow>
         if first \<noteq> ''clients'' then Ok None
         else and_then (index_res components 1) (\<lambda>client_id_s.
           Ok (Option.bind (ok_opt (client_id_from_str client_id_s)) (\<lambda>client_id.
           if length components = 3 then
             (if components ! 2 = ''clientState''
              then Some (Path_ClientState (ClientStatePath client_id))
              else if components ! 2 = ''connections''
              then Some (Path_ClientConnection (ClientConnectionPath client_id))
              else None)
           else if length components = 4 \<or> length components = 5 then
             (if components ! 2 \<noteq> ''consensusStates'' then None
              else let epoch_height = split_on CHR ''-'' (components ! 3) in
                if length epoch_height \<noteq> 2 then None
                else Option.bind (parse_u64 (epoch_height ! 0)) (\<lambda>rev_number.
                  Option.bind (parse_u64 (epoch_height ! 1)) (\<lambda>rev_height.
                  if length components = 4
                  then Some (Path_ClientConsensusState
                         (ClientConsensusStatePath client_id rev_number rev_height))
                  else if components ! 4 = ''processedTime''
                  then Some (Path_ClientUpdateTime
                         (ClientUpdateTimePath client_id rev_number rev_height))
                  else if components ! 4 = ''processedHeight''
                  then Some (Path_ClientUpdateHeight
                         (ClientUpdateHeightPath client_id rev_number rev_height))
                  else None)))
           else None))))"

definition parse_connections :: "string list \<Rightarrow> path option" where
  "parse_connections components =
     (if length components \<noteq> 2 then None
      else if hd components \<noteq> ''connections'' then None
      else map_option (\<lambda>c. Path_Connection (ConnectionPath c))
             (ok_opt (connection_id_from_str (last components))))"

definition parse_ports :: "string list \<Rightarrow> path option" where
  "parse_ports components =
     (if length components \<noteq> 2 then None
      else if hd components \<noteq> ''ports'' then None
      else map_option (\<lambda>p. Path_Ports (PortPath p)) (ok_opt (port_id_from_str (last components))))"

definition parse_channels :: "string list \<Rightarrow> sub_path option" where
  "parse_channels components =
     (if length components \<noteq> 2 then None
      else if hd components \<noteq> ''channels'' then None
      else map_option Channels (ok_opt (channel_id_from_str (last components))))"

definition parse_sequences :: "string list \<Rightarrow> sub_path option" where
  "parse_sequences components =
     (if length components \<noteq> 2 then None
      else if hd components \<noteq> ''sequences'' then None
      else map_option Sequences (ok_opt (sequence_from_str (last components))))"

definition slice :: "'a list \<Rightarrow> nat \<Rightarrow> nat \<Rightarrow> 'a list" where
  "slice xs i j = take (Suc j - i) (drop i xs)"

definition parse_channel_ends :: "string list \<Rightarrow> path option" where
  "parse_channel_ends components =
     (if length components \<noteq> 5 then None
      else if hd components \<noteq> ''channelEnds'' then None
      else case (parse_ports (slice components 1 2), parse_channels (slice components 3 4)) of
        (Some (Path_Ports (PortPath port_id)), Some (Channels channel_id)) \<Rightarrow>
          Some (Path_ChannelEnd (ChannelEndPath port_id channel_id))
      | _ \<Rightarrow> None)"

definition parse_seqs :: "string list \<Rightarrow> path option" where
  "parse_seqs components =
     (if length components \<noteq> 5 then None
      else case (parse_ports (slice components 1 2), parse_channels (slice components 3 4)) of
        (Some (Path_Ports (PortPath port_id)), Some (Channels channel_id)) \<Rightarrow>
          if hd components = ''nextSequenceSend''
          then Some (Path_SeqSend (SeqSendPath port_id channel_id))
          else if hd components = ''nextSequenceRecv''
          then Some (Path_SeqRecv (SeqRecvPath port_id channel_id))
          else if hd components = ''nextSequenceAck''
          then Some (Path_SeqAck (SeqAckPath port_id channel_id))
          else None
      | _ \<Rightarrow> None)"

definition parse_commitments :: "string list \<Rightarrow> path option" where
  "parse_commitments components =
     (if length components \<noteq> 7 then None
      else if hd components \<noteq> ''commitments'' then None
      else case (parse_ports (slice components 1 2), parse_channels (slice components 3 4),
                 parse_sequences (drop 5 components)) of
        (Some (Path_Ports (PortPath port_id)), Some (Channels channel_id), Some (Sequences s)) \<Rightarrow>
          Some (Path_Commitment (CommitmentPath port_id channel_id s))
      | _ \<Rightarrow> None)"

definition parse_acks :: "string list \<Rightarrow> path option" where
  "parse_acks components =
     (if length components \<noteq> 7 then None
      else if hd components \<noteq> ''acks'' then None
      else case (parse_ports (slice components 1 2), parse_channels (slice components 3 4),
                 parse_sequences (drop 5 components)) of
        (Some (Path_Ports (PortPath port_id)), Some (Channels channel_id), Some (Sequences s)) \<Rightarrow>
          Some (Path_Ack (AckPath port_id channel_id s))
      | _ \<Rightarrow> None)"

definition parse_receipts :: "string list \<Rightarrow> path option" where
  "parse_receipts components =
     (if length components \<noteq> 7 then None
      else if hd components \<noteq> ''receipts'' then None
      else case (parse_ports (slice components 1 2), parse_channels (slice components 3 4),
                 parse_sequences (drop 5 components)) of
        (Some (Path_Ports (PortPath port_id)), Some (Channels channel_id), Some (Sequences s)) \<Rightarrow>
          Some (Path_Receipt (ReceiptPath port_id channel_id s))
      | _ \<Rightarrow> None)"

definition parse_upgrades :: "string list \<Rightarrow> path option" where
  "parse_upgrades components =
     (if length components \<noteq> 3 then None
      else if hd components \<noteq> ''upgradedIBCState'' then None
      else Option.bind (parse_u64 (components ! 1)) (\<lambda>h.
        if last components = ''upgradedClient''
        then Some (Path_UpgradeClient (UpgradedClientState h))
        else if last components = ''upgradedConsState''
        then Some (Path_UpgradeClient (UpgradedClientConsensusState h))
        else None))"

definition or_else :: "'a option \<Rightarrow> 'a option \<Rightarrow> 'a option" where
  "or_else a b = (case a of Some x \<Rightarrow> Some x | None \<Rightarrow> b)"

text \<open>The alternatives are tried in order, on the components of the string.\<close>

definition path_from_components :: "string \<Rightarrow> string list \<Rightarrow> (path, path_error) result" where
  "path_from_components s components = (case parse_next_sequence components of
       Some p \<Rightarrow> Ok p
     | None \<Rightarrow> and_then (parse_client_paths components) (\<lambda>from_client.
         ok_or (or_else from_client
               (or_else (parse_connections components)
               (or_else (parse_ports components)
               (or_else (parse_channel_ends components)
               (or_else (parse_seqs components)
               (or_else (parse_commitments components)
               (or_else (parse_acks components)
               (or_else (parse_receipts components)
                        (parse_upgrades components)))))))))
           (ParseFailure s)))"

definition path_from_str :: "string \<Rightarrow> (path, path_error) result" where
  "path_from_str s = path_from_components s (split_on CHR ''/'' s)"


section \<open>Lemmas\<close>

lemma ok_opt_Some_iff [result_simps]: "ok_opt r = Some a \<longleftrightarrow> r = Ok a"
  by (cases r) (simp_all add: ok_opt_def)

text \<open>The paths whose identifiers pass the validators of \<open>validate.rs\<close>.\<close>

definition valid_client_id :: "client_id \<Rightarrow> bool" where
  "valid_client_id c \<longleftrightarrow> is_ok (validate_client_identifier (client_id_str c))"

definition valid_connection_id :: "connection_id \<Rightarrow> bool" where
  "valid_connection_id c \<longleftrightarrow> is_ok (validate_connection_identifier (connection_id_str c))"

definition valid_port_id :: "port_id \<Rightarrow> bool" where
  "valid_port_id p \<longleftrightarrow> is_ok (validate_port_identifier (port_id_str p))"

definition valid_channel_id :: "channel_id \<Rightarrow> bool" where
  "valid_channel_id c \<longleftrightarrow> is_ok (validate_channel_identifier (channel_id_str c))"

fun valid_path :: "path \<Rightarrow> bool" where
  "valid_path (Path_ClientState (ClientStatePath c)) = valid_client_id c"
| "valid_path (Path_ClientConsensusState (ClientConsensusStatePath c n h)) = valid_client_id c"
| "valid_path (Path_ClientUpdateTime (ClientUpdateTimePath c n h)) = valid_client_id c"
| "valid_path (Path_ClientUpdateHeight (ClientUpdateHeightPath c n h)) = valid_client_id c"
| "valid_path (Path_ClientConnection (ClientConnectionPath c)) = valid_client_id c"
| "valid_path (Path_Connection (ConnectionPath c)) = valid_connection_id c"
| "valid_path (Path_Ports (PortPath p)) = valid_port_id p"
| "valid_path (Path_ChannelEnd (ChannelEndPath p c)) = (valid_port_id p \<and> valid_channel_id c)"
| "valid_path (Path_SeqSend (SeqSendPath p c)) = (valid_port_id p \<and> valid_channel_id c)"
| "valid_path (Path_SeqRecv (SeqRecvPath p c)) = (valid_port_id p \<and> valid_channel_id c)"
| "valid_path (Path_SeqAck (SeqAckPath p c)) = (valid_port_id p \<and> valid_channel_id c)"
| "valid_path (Path_Commitment (CommitmentPath p c s)) = (valid_port_id p \<and> valid_channel_id c)"
| "valid_path (Path_Ack (AckPath p c s)) = (valid_port_id p \<and> valid_channel_id c)"
| "valid_path (Path_Receipt (ReceiptPath p c s)) = (valid_port_id p \<and> valid_channel_id c)"
| "valid_path _ = True"

lemma valid_channel_id_new [simp]: "valid_channel_id (channel_id_new n)"
  by (simp add: valid_channel_id_def channel_id_valid is_ok_iff)

lemma valid_connection_id_new [simp]: "valid_connection_id (connection_id_new n)"
  by (simp add: valid_connection_id_def connection_id_valid is_ok_iff)

lemma valid_port_id_transfer [simp]: "valid_port_id port_id_transfer"
  by code_simp

lemma no_slash:
  "validate_identifier_chars s = Ok () \<Longrightarrow> CHR ''/'' \<notin> set s"
  using slash_not_valid by (auto simp: validate_identifier_chars_def list_all_iff split: if_splits)

lemma valid_client_id_no_slash: "valid_client_id c \<Longrightarrow> CHR ''/'' \<notin> set (client_id_str c)"
  by (auto simp: valid_client_id_def is_ok_iff validate_client_identifier_def result_simps no_slash)

lemma valid_connection_id_no_slash:
  "valid_connection_id c \<Longrightarrow> CHR ''/'' \<notin> set (connection_id_str c)"
  by (auto simp: valid_connection_id_def is_ok_iff validate_connection_identifier_def
      result_simps no_slash)

lemma valid_port_id_no_slash: "valid_port_id p \<Longrightarrow> CHR ''/'' \<notin> set (port_id_str p)"
  by (auto simp: valid_port_id_def is_ok_iff validate_port_identifier_def result_simps no_slash)

lemma valid_channel_id_no_slash: "valid_channel_id c \<Longrightarrow> CHR ''/'' \<notin> set (channel_id_str c)"
  by (auto simp: valid_channel_id_def is_ok_iff validate_channel_identifier_def
      result_simps no_slash)

lemmas valid_id_no_slash = valid_client_id_no_slash valid_connection_id_no_slash
  valid_port_id_no_slash valid_channel_id_no_slash

lemma parse_valid_ids:
  "valid_client_id c \<Longrightarrow> ok_opt (client_id_from_str (client_id_str c)) = Some c"
  "valid_connection_id n \<Longrightarrow> ok_opt (connection_id_from_str (connection_id_str n)) = Some n"
  "valid_port_id p \<Longrightarrow> ok_opt (port_id_from_str (port_id_str p)) = Some p"
  "valid_channel_id k \<Longrightarrow> ok_opt (channel_id_from_str (channel_id_str k)) = Some k"
  by (auto simp: valid_client_id_def valid_connection_id_def valid_port_id_def valid_channel_id_def
      is_ok_iff ok_opt_def client_id_from_str_def connection_id_from_str_def port_id_from_str_def
      channel_id_from_str_def)

lemmas parser_defs = parse_next_sequence_def parse_client_paths_def parse_connections_def
  parse_ports_def parse_channels_def parse_sequences_def parse_channel_ends_def parse_seqs_def
  parse_commitments_def parse_acks_def parse_receipts_def parse_upgrades_def or_else_def
  slice_def index_res_def path_from_components_def

text \<open>The components a path splits into.\<close>

fun path_components :: "path \<Rightarrow> string list" where
  "path_components Path_NextClientSequence = [''nextClientSequence'']"
| "path_components Path_NextConnectionSequence = [''nextConnectionSequence'']"
| "path_components Path_NextChannelSequence = [''nextChannelSequence'']"
| "path_components (Path_ClientState (ClientStatePath c)) =
     [''clients'', client_id_str c, ''clientState'']"
| "path_components (Path_ClientConsensusState (ClientConsensusStatePath c n h)) =
     [''clients'', client_id_str c, ''consensusStates'', show_u64 n @ ''-'' @ show_u64 h]"
| "path_components (Path_ClientUpdateTime (ClientUpdateTimePath c n h)) =
     [''clients'', client_id_str c, ''consensusStates'', show_u64 n @ ''-'' @ show_u64 h,
      ''processedTime'']"
| "path_components (Path_ClientUpdateHeight (ClientUpdateHeightPath c n h)) =
     [''clients'', client_id_str c, ''consensusStates'', show_u64 n @ ''-'' @ show_u64 h,
      ''processedHeight'']"
| "path_components (Path_ClientConnection (ClientConnectionPath c)) =
     [''clients'', client_id_str c, ''connections'']"
| "path_components (Path_Connection (ConnectionPath c)) = [''connections'', connection_id_str c]"
| "path_components (Path_Ports (PortPath p)) = [''ports'', port_id_str p]"
| "path_components (Path_ChannelEnd (ChannelEndPath p c)) =
     [''channelEnds'', ''ports'', port_id_str p, ''channels'', channel_id_str c]"
| "path_components (Path_SeqSend (SeqSendPath p c)) =
     [''nextSequenceSend'', ''ports'', port_id_str p, ''channels'', channel_id_str c]"
| "path_components (Path_SeqRecv (SeqRecvPath p c)) =
     [''nextSequenceRecv'', ''ports'', port_id_str p, ''channels'', channel_id_str c]"
| "path_components (Path_SeqAck (SeqAckPath p c)) =
     [''nextSequenceAck'', ''ports'', port_id_str p, ''channels'', channel_id_str c]"
| "path_components (Path_Commitment (CommitmentPath p c s)) =
     [''commitments'', ''ports'', port_id_str p, ''channels'', channel_id_str c,
      ''sequences'', show_u64 s]"
| "path_components (Path_Ack (AckPath p c s)) =
     [''acks'', ''ports'', port_id_str p, ''channels'', channel_id_str c,
      ''sequences'', show_u64 s]"
| "path_components (Path_Receipt (ReceiptPath p c s)) =
     [''receipts'', ''ports'', port_id_str p, ''channels'', channel_id_str c,
      ''sequences'', show_u64 s]"
| "path_components (Path_UpgradeClient (UpgradedClientState h)) =
     [''upgradedIBCState'', show_u64 h, ''upgradedClient'']"
| "path_components (Path_UpgradeClient (UpgradedClientConsensusState h)) =
     [''upgradedIBCState'', show_u64 h, ''upgradedConsState'']"

lemma split_join_dash:
  "split_on CHR ''/'' (show_u64 n @ CHR ''-'' # show_u64 h @ CHR ''/'' # b)
     = (show_u64 n @ CHR ''-'' # show_u64 h) # split_on CHR ''/'' b"
  using split_on_append [of "CHR ''/''" "show_u64 n @ CHR ''-'' # show_u64 h" b] by simp

lemma split_dash:
  "split_on CHR ''-'' (show_u64 n @ CHR ''-'' # show_u64 h) = [show_u64 n, show_u64 h]"
  by (simp add: split_on_append split_on_plain)

lemma split_path_to_string:
  "valid_path p \<Longrightarrow> split_on CHR ''/'' (path_to_string p) = path_components p"
  by (cases p rule: path_components.cases)
    (simp_all add: split_on_append split_on_plain split_join_dash valid_id_no_slash)

lemma path_from_to_string: "valid_path p \<Longrightarrow> path_from_str (path_to_string p) = Ok p"
proof -
  assume v: "valid_path p"
  then have "path_from_components t (path_components p) = Ok p" for t
    by (cases p rule: path_components.cases)
      (simp_all add: parser_defs parse_valid_ids split_dash sequence_from_str_def
         ok_opt_def [of "Ok _"])
  then show ?thesis using v by (simp add: path_from_str_def split_path_to_string)
qed

lemma path_to_string_inject:
  "valid_path p \<Longrightarrow> valid_path q \<Longrightarrow> path_to_string p = path_to_string q \<Longrightarrow> p = q"
  using path_from_to_string by (metis result.inject(1))

end
