(* ===== verification/Connection_Types.thy ===== *)
theory Connection_Types
  imports Paths "HOL-Library.List_Lexorder" "HOL-Library.Char_ord"
begin

text \<open>
  The domain types of ICS-03 (\<open>ibc-core/ics03-connection/types\<close>): versions and the
  negotiation of one, connection ends with their conversion from and to the wire
  form, the messages of the connection handshake, and the errors.
\<close>

section \<open>Versions\<close>

record version =
  version_identifier :: string
  version_features :: "string list"

datatype (plugins only: code) connection_error =
    ConnClient client_error
  | ConnInvalidState string string
  | InvalidConsensusHeight height height
  | ConnInvalidIdentifier identifier_error
  | EmptyProtoConnectionEnd
  | EmptyVersions
  | ConnInvalidVersionLength
  | VersionNotSupported version
  | NoCommonVersion
  | EmptyFeatures
  | FeatureNotSupported string
  | NoCommonFeatures
  | ConnMissingProofHeight
  | MissingConsensusHeight
  | ConnInvalidProof
  | VerifyConnectionState client_error
  | ConnInvalidSigner string
  | ConnectionNotFound connection_id
  | ConnInvalidCounterparty
  | ConnMissingCounterparty
  | MissingClientState
  | ConsensusStateVerificationFailure height client_error
  | ClientStateVerificationFailure client_id client_error
  | InvalidClientState string
  | NotEnoughBlocksElapsed height height
  | NotEnoughTimeElapsed timestamp timestamp
  | ConnTimestampOverflow timestamp_overflow_error
  | ConnCounterOverflow
  | OtherConnectionError string

definition find_supported_version ::
  "version \<Rightarrow> version list \<Rightarrow> (version, connection_error) result" where
  "find_supported_version v supported_versions =
     ok_or (List.find (\<lambda>sv. version_identifier sv = version_identifier v) supported_versions)
       (VersionNotSupported v)"

definition get_feature_set_intersection ::
  "string list \<Rightarrow> string list \<Rightarrow> (string list, connection_error) result" where
  "get_feature_set_intersection supported_features counterparty_features = (
     let feature_set_intersection =
       filter (\<lambda>f. f \<in> set counterparty_features) supported_features in
     if feature_set_intersection = [] then Err NoCommonFeatures
     else Ok feature_set_intersection)"

definition verify_feature_supported :: "version \<Rightarrow> string \<Rightarrow> (unit, connection_error) result" where
  "verify_feature_supported self feature =
     (if feature \<notin> set (version_features self) then Err (FeatureNotSupported feature) else Ok ())"

primrec verify_features_supported ::
  "version \<Rightarrow> string list \<Rightarrow> (unit, connection_error) result" where
  "verify_features_supported v [] = Ok ()"
| "verify_features_supported v (f # fs) =
     and_then (verify_feature_supported v f) (\<lambda>_. verify_features_supported v fs)"

definition verify_is_supported :: "version \<Rightarrow> version list \<Rightarrow> (unit, connection_error) result" where
  "verify_is_supported self supported_versions =
     and_then (find_supported_version self supported_versions) (\<lambda>maybe_supported_version.
     if version_features self = [] then Err EmptyFeatures
     else verify_features_supported maybe_supported_version (version_features self))"

definition version_compatibles :: "version list" where
  "version_compatibles =
     [\<lparr>version_identifier = ''1'', version_features = [''ORDER_ORDERED'', ''ORDER_UNORDERED'']\<rparr>]"

text \<open>The loop of \<open>pick_version\<close> that collects the common versions.\<close>

primrec version_intersection :: "version list \<Rightarrow> version list \<Rightarrow> version list" where
  "version_intersection [] counterparty_versions = []"
| "version_intersection (sv # svs) counterparty_versions =
     (case find_supported_version sv counterparty_versions of
        Ok cv \<Rightarrow> (case get_feature_set_intersection (version_features sv) (version_features cv) of
            Ok feature_set \<Rightarrow>
              [\<lparr>version_identifier = version_identifier cv, version_features = feature_set\<rparr>]
          | _ \<Rightarrow> [])
      | _ \<Rightarrow> []) @ version_intersection svs counterparty_versions"

definition pick_version :: "version list \<Rightarrow> version list \<Rightarrow> (version, connection_error) result" where
  "pick_version supported_versions counterparty_versions = (
     let intersection = version_intersection supported_versions counterparty_versions in
     if intersection = [] then Err NoCommonVersion
     else index_res (sort_key version_identifier intersection) 0)"


section \<open>Connection ends\<close>

datatype conn_state = ConnUninitialized | ConnInit | ConnTryOpen | ConnOpen

record conn_counterparty =
  ccp_client_id :: client_id
  ccp_connection_id :: "connection_id option"
  ccp_prefix :: commitment_prefix

record connection_end =
  ce_state :: conn_state
  ce_client_id :: client_id
  ce_counterparty :: conn_counterparty
  ce_versions :: "version list"
  ce_delay_period :: duration

definition conn_state_to_string :: "conn_state \<Rightarrow> string" where
  "conn_state_to_string s = (case s of
       ConnUninitialized \<Rightarrow> ''UNINITIALIZED''
     | ConnInit \<Rightarrow> ''INIT''
     | ConnTryOpen \<Rightarrow> ''TRYOPEN''
     | ConnOpen \<Rightarrow> ''OPEN'')"

definition conn_state_to_i32 :: "conn_state \<Rightarrow> int" where
  "conn_state_to_i32 s = (case s of
       ConnUninitialized \<Rightarrow> 0 | ConnInit \<Rightarrow> 1 | ConnTryOpen \<Rightarrow> 2 | ConnOpen \<Rightarrow> 3)"

definition show_int :: "int \<Rightarrow> string" where
  "show_int i = (if i < 0 then ''-'' @ show_nat (nat (- i)) else show_nat (nat i))"

definition conn_state_from_i32 :: "int \<Rightarrow> (conn_state, connection_error) result" where
  "conn_state_from_i32 v =
     (if v = 0 then Ok ConnUninitialized
      else if v = 1 then Ok ConnInit
      else if v = 2 then Ok ConnTryOpen
      else if v = 3 then Ok ConnOpen
      else Err (ConnInvalidState ''Must be one of: 0, 1, 2, 3'' (show_int v)))"

definition conn_less_or_equal_progress :: "conn_state \<Rightarrow> conn_state \<Rightarrow> bool" where
  "conn_less_or_equal_progress self other \<longleftrightarrow> conn_state_to_i32 self \<le> conn_state_to_i32 other"

definition connection_end_new ::
  "conn_state \<Rightarrow> client_id \<Rightarrow> conn_counterparty \<Rightarrow> version list \<Rightarrow> duration
     \<Rightarrow> (connection_end, connection_error) result" where
  "connection_end_new st client_id counterparty versions delay_period =
     (if st \<noteq> ConnInit \<and> length versions \<noteq> 1 then Err ConnInvalidVersionLength
      else Ok \<lparr>ce_state = st, ce_client_id = client_id, ce_counterparty = counterparty,
              ce_versions = versions, ce_delay_period = delay_period\<rparr>)"

definition ce_set_state :: "conn_state \<Rightarrow> connection_end \<Rightarrow> connection_end" where
  "ce_set_state new_state self = self\<lparr>ce_state := new_state\<rparr>"

definition ce_set_counterparty :: "conn_counterparty \<Rightarrow> connection_end \<Rightarrow> connection_end" where
  "ce_set_counterparty new_cparty self = self\<lparr>ce_counterparty := new_cparty\<rparr>"

definition ce_set_version :: "version \<Rightarrow> connection_end \<Rightarrow> connection_end" where
  "ce_set_version new_version self = self\<lparr>ce_versions := [new_version]\<rparr>"

definition ce_verify_state_matches ::
  "connection_end \<Rightarrow> conn_state \<Rightarrow> (unit, connection_error) result" where
  "ce_verify_state_matches self expected =
     (if ce_state self \<noteq> expected
      then Err (ConnInvalidState (conn_state_to_string expected) (conn_state_to_string (ce_state self)))
      else Ok ())"

definition verify_empty_connection_id :: "conn_counterparty \<Rightarrow> (unit, connection_error) result" where
  "verify_empty_connection_id self =
     (if ccp_connection_id self \<noteq> None then Err ConnInvalidCounterparty else Ok ())"


section \<open>Wire form\<close>

record raw_version =
  rv_identifier :: string
  rv_features :: "string list"

record raw_conn_counterparty =
  rcp_client_id :: string
  rcp_connection_id :: string
  rcp_prefix :: "bytes option"

record raw_connection_end =
  rce_client_id :: string
  rce_versions :: "raw_version list"
  rce_state :: int
  rce_counterparty :: "raw_conn_counterparty option"
  rce_delay_period :: u64

definition commitment_prefix_try_from ::
  "bytes \<Rightarrow> (commitment_prefix, commitment_error) result" where
  "commitment_prefix_try_from b =
     (if b = [] then Err EmptyCommitmentPrefix else Ok (CommitmentPrefix b))"

definition version_to_raw :: "version \<Rightarrow> raw_version" where
  "version_to_raw v = \<lparr>rv_identifier = version_identifier v, rv_features = version_features v\<rparr>"

definition version_try_from :: "raw_version \<Rightarrow> (version, connection_error) result" where
  "version_try_from v =
     (if str_trim (rv_identifier v) = [] then Err EmptyVersions
      else if list_ex (\<lambda>f. str_trim f = []) (rv_features v) then Err EmptyFeatures
      else Ok \<lparr>version_identifier = rv_identifier v, version_features = rv_features v\<rparr>)"

definition conn_counterparty_to_raw :: "conn_counterparty \<Rightarrow> raw_conn_counterparty" where
  "conn_counterparty_to_raw c =
     \<lparr>rcp_client_id = client_id_str (ccp_client_id c),
      rcp_connection_id =
        (case ccp_connection_id c of None \<Rightarrow> '''' | Some v \<Rightarrow> connection_id_str v),
      rcp_prefix = Some (commitment_prefix_bytes (ccp_prefix c))\<rparr>"

definition conn_counterparty_try_from ::
  "raw_conn_counterparty \<Rightarrow> (conn_counterparty, connection_error) result" where
  "conn_counterparty_try_from r =
     and_then (if rcp_connection_id r = [] then Ok None
               else map_ok Some (map_err ConnInvalidIdentifier
                      (connection_id_from_str (rcp_connection_id r)))) (\<lambda>connection_id.
     and_then (map_err ConnInvalidIdentifier (client_id_from_str (rcp_client_id r))) (\<lambda>client_id.
     and_then (ok_or (rcp_prefix r) ConnMissingCounterparty) (\<lambda>key_prefix.
     and_then (map_err (\<lambda>_. ConnClient EmptyPrefix) (commitment_prefix_try_from key_prefix))
       (\<lambda>prefix.
     Ok \<lparr>ccp_client_id = client_id, ccp_connection_id = connection_id,
         ccp_prefix = prefix\<rparr>))))"

text \<open>\<open>as_nanos() as u64\<close> keeps the low 64 bits of the duration.\<close>

definition connection_end_to_raw :: "connection_end \<Rightarrow> raw_connection_end" where
  "connection_end_to_raw c =
     \<lparr>rce_client_id = client_id_str (ce_client_id c),
      rce_versions = map version_to_raw (ce_versions c),
      rce_state = conn_state_to_i32 (ce_state c),
      rce_counterparty = Some (conn_counterparty_to_raw (ce_counterparty c)),
      rce_delay_period = of_nat (ce_delay_period c)\<rparr>"

primrec collect_results :: "('a, 'e) result list \<Rightarrow> ('a list, 'e) result" where
  "collect_results [] = Ok []"
| "collect_results (r # rs) =
     and_then r (\<lambda>x. and_then (collect_results rs) (\<lambda>xs. Ok (x # xs)))"

definition connection_end_try_from ::
  "raw_connection_end \<Rightarrow> (connection_end, connection_error) result" where
  "connection_end_try_from v =
     and_then (conn_state_from_i32 (rce_state v)) (\<lambda>st.
     if rce_client_id v = [] then Err EmptyProtoConnectionEnd
     else if rce_versions v = [] then Err EmptyVersions
     else
     and_then (map_err ConnInvalidIdentifier (client_id_from_str (rce_client_id v))) (\<lambda>client_id.
     and_then (ok_or (rce_counterparty v) ConnMissingCounterparty) (\<lambda>raw_counterparty.
     and_then (conn_counterparty_try_from raw_counterparty) (\<lambda>counterparty.
     and_then (collect_results (map version_try_from (rce_versions v))) (\<lambda>versions.
     connection_end_new st client_id counterparty versions (unat (rce_delay_period v)))))))"


section \<open>Messages\<close>

record msg_connection_open_init =
  coi_client_id_on_a :: client_id
  coi_counterparty :: conn_counterparty
  coi_version :: "version option"
  coi_delay_period :: duration
  coi_signer :: signer

record msg_connection_open_try =
  cot_client_id_on_b :: client_id
  cot_client_state_of_b_on_a :: any_msg
  cot_counterparty :: conn_counterparty
  cot_versions_on_a :: "version list"
  cot_proof_conn_end_on_a :: commitment_proof_bytes
  cot_proof_client_state_of_b_on_a :: commitment_proof_bytes
  cot_proof_consensus_state_of_b_on_a :: commitment_proof_bytes
  cot_proofs_height_on_a :: height
  cot_consensus_height_of_b_on_a :: height
  cot_delay_period :: duration
  cot_signer :: signer
  cot_proof_consensus_state_of_b :: "commitment_proof_bytes option"
  cot_previous_connection_id :: string

record msg_connection_open_ack =
  coa_conn_id_on_a :: connection_id
  coa_conn_id_on_b :: connection_id
  coa_client_state_of_a_on_b :: any_msg
  coa_proof_conn_end_on_b :: commitment_proof_bytes
  coa_proof_client_state_of_a_on_b :: commitment_proof_bytes
  coa_proof_consensus_state_of_a_on_b :: commitment_proof_bytes
  coa_proofs_height_on_b :: height
  coa_consensus_height_of_a_on_b :: height
  coa_version :: version
  coa_signer :: signer
  coa_proof_consensus_state_of_a :: "commitment_proof_bytes option"

record msg_connection_open_confirm =
  coc_conn_id_on_b :: connection_id
  coc_proof_conn_end_on_a :: commitment_proof_bytes
  coc_proof_height_on_a :: height
  coc_signer :: signer

datatype connection_msg =
    ConnOpenInit msg_connection_open_init
  | ConnOpenTry msg_connection_open_try
  | ConnOpenAck msg_connection_open_ack
  | ConnOpenConfirm msg_connection_open_confirm


section \<open>Lemmas\<close>

lemma find_supported_version_Ok_iff:
  "find_supported_version v vs = Ok w \<longleftrightarrow>
     List.find (\<lambda>sv. version_identifier sv = version_identifier v) vs = Some w"
  by (simp add: find_supported_version_def result_simps)

lemma find_supported_versionD:
  "find_supported_version v vs = Ok w \<Longrightarrow> w \<in> set vs \<and> version_identifier w = version_identifier v"
  by (auto simp: find_supported_version_Ok_iff find_Some_iff)

lemma version_intersectionD:
  assumes "v \<in> set (version_intersection svs cvs)"
  shows "\<exists>sv\<in>set svs. \<exists>cv\<in>set cvs. version_identifier sv = version_identifier v
     \<and> version_identifier cv = version_identifier v \<and> version_features v \<noteq> []
     \<and> set (version_features v) = set (version_features sv) \<inter> set (version_features cv)"
  using assms
proof (induction svs)
  case (Cons sv svs)
  show ?case
  proof (cases "v \<in> set (version_intersection svs cvs)")
    case True
    with Cons.IH show ?thesis by auto
  next
    case False
    obtain cv where cv: "find_supported_version sv cvs = Ok cv"
      using False Cons.prems by (cases "find_supported_version sv cvs") auto
    obtain fs where
      fs: "get_feature_set_intersection (version_features sv) (version_features cv) = Ok fs"
      using False Cons.prems cv
      by (cases "get_feature_set_intersection (version_features sv) (version_features cv)") auto
    have v: "v = \<lparr>version_identifier = version_identifier cv, version_features = fs\<rparr>"
      using False Cons.prems cv fs by simp
    from fs have "fs \<noteq> []" "set fs = set (version_features sv) \<inter> set (version_features cv)"
      by (auto simp: get_feature_set_intersection_def Let_def split: if_splits)
    with cv v find_supported_versionD [OF cv] show ?thesis by auto
  qed
qed simp

lemma pick_version_OkD:
  assumes "pick_version svs cvs = Ok v"
  shows "v \<in> set (version_intersection svs cvs)
     \<and> (\<forall>w\<in>set (version_intersection svs cvs). version_identifier v \<le> version_identifier w)"
proof -
  let ?xs = "version_intersection svs cvs"
  have "?xs \<noteq> []" and v: "v = sort_key version_identifier ?xs ! 0"
    using assms by (auto simp: pick_version_def Let_def index_res_def split: if_splits)
  then obtain y ys where s: "sort_key version_identifier ?xs = y # ys"
    by (metis list.exhaust length_0_conv length_sort)
  then have "\<forall>w\<in>set ys. version_identifier y \<le> version_identifier w"
    using sorted_sort_key [of version_identifier ?xs] by simp
  moreover have "set ?xs = set (y # ys)" using s by (metis set_sort)
  ultimately show ?thesis using v s by auto
qed

lemma collect_results_map_Ok:
  "(\<And>x. x \<in> set xs \<Longrightarrow> f (g x) = Ok x) \<Longrightarrow> collect_results (map f (map g xs)) = Ok xs"
  by (induction xs) auto

lemma ce_verify_state_matches_Ok_iff [result_simps]:
  "ce_verify_state_matches c s = Ok u \<longleftrightarrow> ce_state c = s"
  by (simp add: ce_verify_state_matches_def)

lemma conn_state_i32_round_trip [simp]: "conn_state_from_i32 (conn_state_to_i32 s) = Ok s"
  by (cases s) (simp_all add: conn_state_from_i32_def conn_state_to_i32_def)

end
