(* ===== verification/Channel_Types.thy ===== *)
theory Channel_Types
  imports Connection_Types
begin

text \<open>
  The domain types of ICS-04 (\<open>ibc-core/ics04-channel/types\<close>): channel ends,
  packets with their timeouts, the commitments to packets and acknowledgements, the
  conversions from and to the wire form, the messages, and the errors.

  The commitments hash with SHA-256, which is the crate \<open>sha2\<close>: the hash function
  is an argument.
\<close>

section \<open>Channel ends\<close>

datatype chan_state = Uninitialized | Init | TryOpen | Open | Closed

datatype order = OrderNone | Unordered | Ordered

datatype chan_version = ChanVersion (chan_version_str: string)

record chan_counterparty =
  hcp_port_id :: port_id
  hcp_channel_id :: "channel_id option"

record channel_end =
  ch_state :: chan_state
  ch_ordering :: order
  ch_remote :: chan_counterparty
  ch_connection_hops :: "connection_id list"
  ch_version :: chan_version

datatype timeout_height = Never | At height

datatype (plugins only: code) channel_error =
    InvalidChannelEnd string
  | InvalidChannelId string string
  | ChanInvalidState string string
  | InvalidOrderType string string
  | InvalidConnectionHopsLength u64 u64
  | ChanInvalidSigner string
  | ChanMissingHeight
  | NonUtf8PacketData
  | ChanMissingCounterparty
  | UnsupportedChannelUpgradeSequence
  | ChanVersionNotSupported chan_version chan_version
  | MissingChannel
  | ChannelNotFound port_id channel_id
  | PacketVerificationFailed sequence client_error
  | VerifyChannelFailed client_error
  | ChanInvalidStringAsSequence string parse_int_error
  | ChanInvalidCounterparty chan_counterparty chan_counterparty
  | ChanAppModule string
  | ChanUndefinedConnectionCounterparty connection_id
  | ChanInvalidProof
  | ChanInvalidIdentifier identifier_error
  | ChanCounterOverflow
  | OtherChannelError string

datatype (plugins only: code) packet_error =
    PacketConnection connection_error
  | PacketChannel channel_error
  | LowPacketHeight height timeout_height
  | LowPacketTimestamp
  | InvalidPacketSequence sequence sequence
  | InvalidChannelState channel_id chan_state
  | ConnectionNotOpen connection_id
  | PacketReceiptNotFound sequence
  | IncorrectPacketCommitment sequence
  | ImplementationSpecific
  | PacketUndefinedConnectionCounterparty connection_id
  | PacketInvalidProof
  | PacketTimeoutNotReached timeout_height height timestamp timestamp
  | AcknowledgementExists sequence
  | InvalidAcknowledgement
  | EmptyAcknowledgementStatus
  | PacketAcknowledgementNotFound sequence
  | PacketMissingHeight
  | MissingPacket
  | PacketInvalidSigner string
  | PacketAppModule string
  | PacketRouteNotFound
  | ZeroPacketSequence
  | ZeroPacketData
  | InvalidTimeoutHeight
  | PacketInvalidPacketTimestamp parse_timestamp_error
  | MissingTimeout
  | PacketInvalidIdentifier identifier_error
  | MissingNextSendSeq port_id channel_id
  | PacketChannelNotFound port_id channel_id
  | PacketCommitmentNotFound sequence
  | MissingNextRecvSeq port_id channel_id
  | MissingNextAckSeq port_id channel_id
  | OtherPacketError string

definition chan_state_to_string :: "chan_state \<Rightarrow> string" where
  "chan_state_to_string s = (case s of
       Uninitialized \<Rightarrow> ''UNINITIALIZED''
     | Init \<Rightarrow> ''INIT''
     | TryOpen \<Rightarrow> ''TRYOPEN''
     | Open \<Rightarrow> ''OPEN''
     | Closed \<Rightarrow> ''CLOSED'')"

definition chan_state_to_i32 :: "chan_state \<Rightarrow> int" where
  "chan_state_to_i32 s =
     (case s of Uninitialized \<Rightarrow> 0 | Init \<Rightarrow> 1 | TryOpen \<Rightarrow> 2 | Open \<Rightarrow> 3 | Closed \<Rightarrow> 4)"

definition chan_state_from_i32 :: "int \<Rightarrow> (chan_state, channel_error) result" where
  "chan_state_from_i32 s =
     (if s = 0 then Ok Uninitialized
      else if s = 1 then Ok Init
      else if s = 2 then Ok TryOpen
      else if s = 3 then Ok Open
      else if s = 4 then Ok Closed
      else Err (ChanInvalidState ''Must be one of: 0, 1, 2, 3, 4'' (show_int s)))"

definition chan_less_or_equal_progress :: "chan_state \<Rightarrow> chan_state \<Rightarrow> bool" where
  "chan_less_or_equal_progress self other \<longleftrightarrow> chan_state_to_i32 self \<le> chan_state_to_i32 other"

definition order_as_str :: "order \<Rightarrow> string" where
  "order_as_str o' = (case o' of
       OrderNone \<Rightarrow> ''ORDER_NONE_UNSPECIFIED''
     | Unordered \<Rightarrow> ''ORDER_UNORDERED''
     | Ordered \<Rightarrow> ''ORDER_ORDERED'')"

definition order_to_i32 :: "order \<Rightarrow> int" where
  "order_to_i32 o' = (case o' of OrderNone \<Rightarrow> 0 | Unordered \<Rightarrow> 1 | Ordered \<Rightarrow> 2)"

definition order_from_i32 :: "int \<Rightarrow> (order, channel_error) result" where
  "order_from_i32 nr =
     (if nr = 0 then Ok OrderNone
      else if nr = 1 then Ok Unordered
      else if nr = 2 then Ok Ordered
      else Err (InvalidOrderType ''Must be one of 0, 1, 2'' (show_int nr)))"

definition to_lower :: "char \<Rightarrow> char" where
  "to_lower c = (let n = (of_char c :: nat) in
     if 65 \<le> n \<and> n \<le> 90 then char_of (n + 32) else c)"

text \<open>\<open>trim_start_matches\<close> removes the prefix as often as it occurs.\<close>

function trim_start_matches :: "string \<Rightarrow> string \<Rightarrow> string" where
  "trim_start_matches p s = (case strip_prefix p s of
       Some t \<Rightarrow> if p = [] then s else trim_start_matches p t
     | None \<Rightarrow> s)"
  by pat_completeness auto

termination trim_start_matches
  by (relation "measure (\<lambda>(p, s). length s)") (auto dest: strip_prefix_SomeD)

definition single_quoted :: "string \<Rightarrow> string" where
  "single_quoted s = CHR 0x27 # s @ [CHR 0x27]"

definition order_from_str :: "string \<Rightarrow> (order, channel_error) result" where
  "order_from_str s = (let t = trim_start_matches ''order_'' (map to_lower s) in
     if t = ''uninitialized'' then Ok OrderNone
     else if t = ''unordered'' then Ok Unordered
     else if t = ''ordered'' then Ok Ordered
     else Err (InvalidOrderType
       (''Must be one of '' @ single_quoted ''uninitialized'' @ '', ''
        @ single_quoted ''unordered'' @ '', '' @ single_quoted ''ordered'') s))"

definition validate_basic :: "channel_end \<Rightarrow> (unit, channel_error) result" where
  "validate_basic self =
     (if ch_state self = Uninitialized
      then Err (ChanInvalidState ''Channel state cannot be Uninitialized''
             (chan_state_to_string (ch_state self)))
      else if ch_ordering self = OrderNone
      then Err (InvalidOrderType ''Channel ordering cannot be None''
             (order_as_str (ch_ordering self)))
      else Ok ())"

definition channel_end_new ::
  "chan_state \<Rightarrow> order \<Rightarrow> chan_counterparty \<Rightarrow> connection_id list \<Rightarrow> chan_version
     \<Rightarrow> (channel_end, channel_error) result" where
  "channel_end_new st chan_order remote connection_hops ver = (
     let channel_end = \<lparr>ch_state = st, ch_ordering = chan_order, ch_remote = remote,
                        ch_connection_hops = connection_hops, ch_version = ver\<rparr> in
     and_then (validate_basic channel_end) (\<lambda>_. Ok channel_end))"

definition ch_set_state :: "chan_state \<Rightarrow> channel_end \<Rightarrow> channel_end" where
  "ch_set_state s self = self\<lparr>ch_state := s\<rparr>"

definition ch_set_version :: "chan_version \<Rightarrow> channel_end \<Rightarrow> channel_end" where
  "ch_set_version v self = self\<lparr>ch_version := v\<rparr>"

definition ch_set_counterparty_channel_id :: "channel_id \<Rightarrow> channel_end \<Rightarrow> channel_end" where
  "ch_set_counterparty_channel_id c self =
     self\<lparr>ch_remote := (ch_remote self)\<lparr>hcp_channel_id := Some c\<rparr>\<rparr>"

definition ch_is_open :: "channel_end \<Rightarrow> bool" where
  "ch_is_open self \<longleftrightarrow> ch_state self = Open"

definition ch_verify_state_matches ::
  "channel_end \<Rightarrow> chan_state \<Rightarrow> (unit, channel_error) result" where
  "ch_verify_state_matches self expected =
     (if ch_state self \<noteq> expected
      then Err (ChanInvalidState (chan_state_to_string expected)
             (chan_state_to_string (ch_state self)))
      else Ok ())"

definition verify_not_closed :: "channel_end \<Rightarrow> (unit, channel_error) result" where
  "verify_not_closed self =
     (if ch_state self = Closed
      then Err (ChanInvalidState ''Channel state cannot be Closed''
             (chan_state_to_string (ch_state self)))
      else Ok ())"

definition verify_counterparty_matches ::
  "channel_end \<Rightarrow> chan_counterparty \<Rightarrow> (unit, channel_error) result" where
  "verify_counterparty_matches self expected =
     (if ch_remote self \<noteq> expected then Err (ChanInvalidCounterparty expected (ch_remote self))
      else Ok ())"

definition verify_connection_hops_length ::
  "connection_id list \<Rightarrow> u64 \<Rightarrow> (unit, channel_error) result" where
  "verify_connection_hops_length connection_hops expected =
     (if of_nat (length connection_hops) \<noteq> expected
      then Err (InvalidConnectionHopsLength expected (of_nat (length connection_hops)))
      else Ok ())"

definition ch_verify_connection_hops_length :: "channel_end \<Rightarrow> (unit, channel_error) result" where
  "ch_verify_connection_hops_length self =
     verify_connection_hops_length (ch_connection_hops self) 1"

definition verify_empty_channel_id :: "chan_counterparty \<Rightarrow> (unit, channel_error) result" where
  "verify_empty_channel_id self = (case hcp_channel_id self of
       Some c \<Rightarrow> Err (InvalidChannelId ''Counterparty channel id must be empty'' (channel_id_str c))
     | None \<Rightarrow> Ok ())"

definition chan_version_empty :: chan_version where
  "chan_version_empty = ChanVersion ''''"

definition chan_version_is_empty :: "chan_version \<Rightarrow> bool" where
  "chan_version_is_empty v \<longleftrightarrow> chan_version_str v = []"

definition verify_is_expected ::
  "chan_version \<Rightarrow> chan_version \<Rightarrow> (unit, channel_error) result" where
  "verify_is_expected self expected =
     (if self \<noteq> expected then Err (ChanVersionNotSupported expected self) else Ok ())"


section \<open>Timeouts and packets\<close>

definition timeout_height_is_set :: "timeout_height \<Rightarrow> bool" where
  "timeout_height_is_set self = (case self of At _ \<Rightarrow> True | Never \<Rightarrow> False)"

definition commitment_revision_number :: "timeout_height \<Rightarrow> u64" where
  "commitment_revision_number self = (case self of At h \<Rightarrow> revision_number h | Never \<Rightarrow> 0)"

definition commitment_revision_height :: "timeout_height \<Rightarrow> u64" where
  "commitment_revision_height self = (case self of At h \<Rightarrow> revision_height h | Never \<Rightarrow> 0)"

definition has_expired :: "timeout_height \<Rightarrow> height \<Rightarrow> bool" where
  "has_expired self h = (case self of At timeout_height \<Rightarrow> timeout_height < h | Never \<Rightarrow> False)"

definition to_event_attribute_value :: "timeout_height \<Rightarrow> string" where
  "to_event_attribute_value self = (case self of At h \<Rightarrow> height_to_string h | Never \<Rightarrow> ''0-0'')"

record packet =
  seq_on_a :: sequence
  port_id_on_a :: port_id
  chan_id_on_a :: channel_id
  port_id_on_b :: port_id
  chan_id_on_b :: channel_id
  packet_data :: bytes
  timeout_height_on_b :: timeout_height
  timeout_timestamp_on_b :: timestamp

text \<open>The identifiers and store paths a packet names on its two chains.\<close>

definition packet_counterparty_on_b :: "packet \<Rightarrow> chan_counterparty" where
  "packet_counterparty_on_b packet =
     \<lparr>hcp_port_id = port_id_on_b packet, hcp_channel_id = Some (chan_id_on_b packet)\<rparr>"

definition packet_counterparty_on_a :: "packet \<Rightarrow> chan_counterparty" where
  "packet_counterparty_on_a packet =
     \<lparr>hcp_port_id = port_id_on_a packet, hcp_channel_id = Some (chan_id_on_a packet)\<rparr>"

definition chan_end_path_on_a :: "packet \<Rightarrow> channel_end_path" where
  "chan_end_path_on_a packet = ChannelEndPath (port_id_on_a packet) (chan_id_on_a packet)"

definition chan_end_path_on_b :: "packet \<Rightarrow> channel_end_path" where
  "chan_end_path_on_b packet = ChannelEndPath (port_id_on_b packet) (chan_id_on_b packet)"

definition commitment_path_on_a :: "packet \<Rightarrow> commitment_path" where
  "commitment_path_on_a packet =
     CommitmentPath (port_id_on_a packet) (chan_id_on_a packet) (seq_on_a packet)"

definition ack_path_on_b :: "packet \<Rightarrow> ack_path" where
  "ack_path_on_b packet = AckPath (port_id_on_b packet) (chan_id_on_b packet) (seq_on_a packet)"

definition receipt_path_on_b :: "packet \<Rightarrow> receipt_path" where
  "receipt_path_on_b packet =
     ReceiptPath (port_id_on_b packet) (chan_id_on_b packet) (seq_on_a packet)"

definition seq_recv_path_on_b :: "packet \<Rightarrow> seq_recv_path" where
  "seq_recv_path_on_b packet = SeqRecvPath (port_id_on_b packet) (chan_id_on_b packet)"

datatype receipt = ReceiptOk

definition timed_out :: "packet \<Rightarrow> timestamp \<Rightarrow> height \<Rightarrow> bool" where
  "timed_out self dst_chain_ts dst_chain_height = (
     let height_timed_out = has_expired (timeout_height_on_b self) dst_chain_height;
         timestamp_timed_out = (timestamp_is_set (timeout_timestamp_on_b self)
           \<and> check_expiry dst_chain_ts (timeout_timestamp_on_b self) = Expired) in
     height_timed_out \<or> timestamp_timed_out)"


section \<open>Commitments\<close>

datatype packet_commitment = PacketCommitment (packet_commitment_bytes: bytes)
datatype ack_commitment = AcknowledgementCommitment (ack_commitment_bytes: bytes)
datatype acknowledgement = Acknowledgement (acknowledgement_bytes: bytes)

text \<open>The input of the outer hash: 24 bytes for the timeout, then the hash of the
  data.\<close>

definition commitment_hash_input ::
  "(bytes \<Rightarrow> bytes) \<Rightarrow> bytes \<Rightarrow> timeout_height \<Rightarrow> u64 \<Rightarrow> bytes" where
  "commitment_hash_input hash data timeout_height nanos =
     to_be_bytes nanos
     @ to_be_bytes (commitment_revision_number timeout_height)
     @ to_be_bytes (commitment_revision_height timeout_height)
     @ hash data"

definition compute_packet_commitment ::
  "(bytes \<Rightarrow> bytes) \<Rightarrow> bytes \<Rightarrow> timeout_height \<Rightarrow> timestamp \<Rightarrow> (packet_commitment, 'e) result" where
  "compute_packet_commitment hash data timeout_height timeout_timestamp =
     and_then (nanoseconds timeout_timestamp) (\<lambda>nanos.
     Ok (PacketCommitment (hash (commitment_hash_input hash data timeout_height nanos))))"

definition compute_ack_commitment :: "(bytes \<Rightarrow> bytes) \<Rightarrow> acknowledgement \<Rightarrow> ack_commitment" where
  "compute_ack_commitment hash ack = AcknowledgementCommitment (hash (acknowledgement_bytes ack))"

definition acknowledgement_try_from :: "bytes \<Rightarrow> (acknowledgement, packet_error) result" where
  "acknowledgement_try_from b =
     (if b = [] then Err InvalidAcknowledgement else Ok (Acknowledgement b))"

datatype status_value = StatusValue string

datatype acknowledgement_status = AckSuccess status_value | AckError status_value

definition status_value_new :: "string \<Rightarrow> (status_value, packet_error) result" where
  "status_value_new v = (if v = [] then Err EmptyAcknowledgementStatus else Ok (StatusValue v))"

definition ack_status_is_successful :: "acknowledgement_status \<Rightarrow> bool" where
  "ack_status_is_successful s = (case s of AckSuccess _ \<Rightarrow> True | AckError _ \<Rightarrow> False)"

fun ack_status_to_string :: "acknowledgement_status \<Rightarrow> string" where
  "ack_status_to_string (AckSuccess (StatusValue v)) = v"
| "ack_status_to_string (AckError (StatusValue v)) = v"

text \<open>The bytes of a status, a JSON object written by hand: the value goes between the
  quotes (\<open>CHR 0x22\<close>) as it is, with nothing escaped.\<close>

fun ack_status_to_bytes :: "acknowledgement_status \<Rightarrow> bytes" where
  "ack_status_to_bytes (AckSuccess (StatusValue v)) = string_bytes
     (''{'' @ CHR 0x22 # ''result'' @ CHR 0x22 # '':'' @ CHR 0x22 # v @ CHR 0x22 # ''}'')"
| "ack_status_to_bytes (AckError (StatusValue v)) = string_bytes
     (''{'' @ CHR 0x22 # ''error'' @ CHR 0x22 # '':'' @ CHR 0x22 # v @ CHR 0x22 # ''}'')"

definition acknowledgement_from_status ::
  "acknowledgement_status \<Rightarrow> (acknowledgement, 'e) result" where
  "acknowledgement_from_status ack_status =
     (case acknowledgement_try_from (ack_status_to_bytes ack_status) of
        Ok ack \<Rightarrow> Ok ack
      | _ \<Rightarrow> Panic)"

lemma ack_status_to_bytes_not_empty [simp]: "ack_status_to_bytes s \<noteq> []"
  by (cases s rule: ack_status_to_bytes.cases) (simp_all add: string_bytes_def)

lemma acknowledgement_from_status_total [simp]:
  "acknowledgement_from_status s = Ok (Acknowledgement (ack_status_to_bytes s))"
  by (simp add: acknowledgement_from_status_def acknowledgement_try_from_def)


section \<open>Wire form\<close>

record raw_chan_counterparty =
  rhc_port_id :: string
  rhc_channel_id :: string

record raw_channel =
  rch_state :: int
  rch_ordering :: int
  rch_counterparty :: "raw_chan_counterparty option"
  rch_connection_hops :: "string list"
  rch_version :: string
  rch_upgrade_sequence :: u64

record raw_height =
  rh_revision_number :: u64
  rh_revision_height :: u64

record raw_packet =
  rp_sequence :: u64
  rp_source_port :: string
  rp_source_channel :: string
  rp_destination_port :: string
  rp_destination_channel :: string
  rp_data :: bytes
  rp_timeout_height :: "raw_height option"
  rp_timeout_timestamp :: u64

definition chan_counterparty_to_raw :: "chan_counterparty \<Rightarrow> raw_chan_counterparty" where
  "chan_counterparty_to_raw c =
     \<lparr>rhc_port_id = port_id_str (hcp_port_id c),
      rhc_channel_id = (case hcp_channel_id c of None \<Rightarrow> '''' | Some v \<Rightarrow> channel_id_str v)\<rparr>"

definition chan_counterparty_try_from ::
  "raw_chan_counterparty \<Rightarrow> (chan_counterparty, channel_error) result" where
  "chan_counterparty_try_from r =
     and_then (if rhc_channel_id r = [] then Ok None
               else map_ok Some (map_err ChanInvalidIdentifier
                      (channel_id_from_str (rhc_channel_id r)))) (\<lambda>channel_id.
     and_then (map_err ChanInvalidIdentifier (port_id_from_str (rhc_port_id r))) (\<lambda>port_id.
     Ok \<lparr>hcp_port_id = port_id, hcp_channel_id = channel_id\<rparr>))"

definition channel_end_to_raw :: "channel_end \<Rightarrow> raw_channel" where
  "channel_end_to_raw c =
     \<lparr>rch_state = chan_state_to_i32 (ch_state c),
      rch_ordering = order_to_i32 (ch_ordering c),
      rch_counterparty = Some (chan_counterparty_to_raw (ch_remote c)),
      rch_connection_hops = map connection_id_str (ch_connection_hops c),
      rch_version = chan_version_str (ch_version c),
      rch_upgrade_sequence = 0\<rparr>"

definition channel_end_try_from :: "raw_channel \<Rightarrow> (channel_end, channel_error) result" where
  "channel_end_try_from v =
     and_then (chan_state_from_i32 (rch_state v)) (\<lambda>st.
     and_then (order_from_i32 (rch_ordering v)) (\<lambda>chan_order.
     and_then (ok_or (rch_counterparty v) ChanMissingCounterparty) (\<lambda>counterparty.
     and_then (chan_counterparty_try_from counterparty) (\<lambda>remote.
     and_then (collect_results (map (\<lambda>s. map_err ChanInvalidIdentifier (connection_id_from_str s))
         (rch_connection_hops v))) (\<lambda>connection_hops.
     channel_end_new st chan_order remote connection_hops (ChanVersion (rch_version v)))))))"

definition height_to_raw :: "height \<Rightarrow> raw_height" where
  "height_to_raw h =
     \<lparr>rh_revision_number = revision_number h, rh_revision_height = revision_height h\<rparr>"

definition height_try_from :: "raw_height \<Rightarrow> (height, client_error) result" where
  "height_try_from r = height_new (rh_revision_number r) (rh_revision_height r)"

definition timeout_height_try_from :: "raw_height option \<Rightarrow> (timeout_height, client_error) result" where
  "timeout_height_try_from r = (case r of
       None \<Rightarrow> Ok Never
     | Some rh \<Rightarrow>
         if rh_revision_number rh = 0 \<and> rh_revision_height rh = 0 then Ok Never
         else and_then (height_try_from rh) (\<lambda>h. Ok (At h)))"

definition timeout_height_to_raw :: "timeout_height \<Rightarrow> raw_height option" where
  "timeout_height_to_raw t = Some (case t of
       At h \<Rightarrow> height_to_raw h
     | Never \<Rightarrow> \<lparr>rh_revision_number = 0, rh_revision_height = 0\<rparr>)"

definition packet_try_from :: "raw_packet \<Rightarrow> (packet, packet_error) result" where
  "packet_try_from r =
     (if sequence_is_zero (rp_sequence r) then Err ZeroPacketSequence
      else if rp_data r = [] then Err ZeroPacketData
      else
      and_then (map_err (\<lambda>_. InvalidTimeoutHeight)
          (timeout_height_try_from (rp_timeout_height r))) (\<lambda>packet_timeout_height.
      and_then (map_err PacketInvalidPacketTimestamp
          (timestamp_from_nanoseconds (rp_timeout_timestamp r))) (\<lambda>timeout_timestamp.
      if \<not> timeout_height_is_set packet_timeout_height \<and> \<not> timestamp_is_set timeout_timestamp
      then Err MissingTimeout
      else
      and_then (map_err PacketInvalidIdentifier (port_id_from_str (rp_source_port r))) (\<lambda>p_a.
      and_then (map_err PacketInvalidIdentifier (channel_id_from_str (rp_source_channel r))) (\<lambda>c_a.
      and_then (map_err PacketInvalidIdentifier (port_id_from_str (rp_destination_port r))) (\<lambda>p_b.
      and_then (map_err PacketInvalidIdentifier
          (channel_id_from_str (rp_destination_channel r))) (\<lambda>c_b.
      Ok \<lparr>seq_on_a = rp_sequence r, port_id_on_a = p_a, chan_id_on_a = c_a,
          port_id_on_b = p_b, chan_id_on_b = c_b, packet_data = rp_data r,
          timeout_height_on_b = packet_timeout_height,
          timeout_timestamp_on_b = timeout_timestamp\<rparr>)))))))"

definition packet_to_raw :: "packet \<Rightarrow> (raw_packet, 'e) result" where
  "packet_to_raw p = and_then (nanoseconds (timeout_timestamp_on_b p)) (\<lambda>nanos.
     Ok \<lparr>rp_sequence = seq_on_a p, rp_source_port = port_id_str (port_id_on_a p),
         rp_source_channel = channel_id_str (chan_id_on_a p),
         rp_destination_port = port_id_str (port_id_on_b p),
         rp_destination_channel = channel_id_str (chan_id_on_b p),
         rp_data = packet_data p,
         rp_timeout_height = timeout_height_to_raw (timeout_height_on_b p),
         rp_timeout_timestamp = nanos\<rparr>)"


section \<open>Messages\<close>

record msg_channel_open_init =
  hoi_port_id_on_a :: port_id
  hoi_connection_hops_on_a :: "connection_id list"
  hoi_port_id_on_b :: port_id
  hoi_ordering :: order
  hoi_signer :: signer
  hoi_version_proposal :: chan_version

record msg_channel_open_try =
  hot_port_id_on_b :: port_id
  hot_connection_hops_on_b :: "connection_id list"
  hot_port_id_on_a :: port_id
  hot_chan_id_on_a :: channel_id
  hot_version_supported_on_a :: chan_version
  hot_proof_chan_end_on_a :: commitment_proof_bytes
  hot_proof_height_on_a :: height
  hot_ordering :: order
  hot_signer :: signer
  hot_version_proposal :: chan_version

record msg_channel_open_ack =
  hoa_port_id_on_a :: port_id
  hoa_chan_id_on_a :: channel_id
  hoa_chan_id_on_b :: channel_id
  hoa_version_on_b :: chan_version
  hoa_proof_chan_end_on_b :: commitment_proof_bytes
  hoa_proof_height_on_b :: height
  hoa_signer :: signer

record msg_channel_open_confirm =
  hoc_port_id_on_b :: port_id
  hoc_chan_id_on_b :: channel_id
  hoc_proof_chan_end_on_a :: commitment_proof_bytes
  hoc_proof_height_on_a :: height
  hoc_signer :: signer

record msg_channel_close_init =
  hci_port_id_on_a :: port_id
  hci_chan_id_on_a :: channel_id
  hci_signer :: signer

record msg_channel_close_confirm =
  hcc_port_id_on_b :: port_id
  hcc_chan_id_on_b :: channel_id
  hcc_proof_chan_end_on_a :: commitment_proof_bytes
  hcc_proof_height_on_a :: height
  hcc_signer :: signer

record msg_recv_packet =
  rcv_packet :: packet
  rcv_proof_commitment_on_a :: commitment_proof_bytes
  rcv_proof_height_on_a :: height
  rcv_signer :: signer

record msg_acknowledgement =
  ack_packet :: packet
  ack_acknowledgement :: acknowledgement
  ack_proof_acked_on_b :: commitment_proof_bytes
  ack_proof_height_on_b :: height
  ack_signer :: signer

record msg_timeout =
  tmo_packet :: packet
  tmo_next_seq_recv_on_b :: sequence
  tmo_proof_unreceived_on_b :: commitment_proof_bytes
  tmo_proof_height_on_b :: height
  tmo_signer :: signer

record msg_timeout_on_close =
  toc_packet :: packet
  toc_next_seq_recv_on_b :: sequence
  toc_proof_unreceived_on_b :: commitment_proof_bytes
  toc_proof_close_on_b :: commitment_proof_bytes
  toc_proof_height_on_b :: height
  toc_signer :: signer

datatype channel_msg =
    ChanOpenInit msg_channel_open_init
  | ChanOpenTry msg_channel_open_try
  | ChanOpenAck msg_channel_open_ack
  | ChanOpenConfirm msg_channel_open_confirm
  | ChanCloseInit msg_channel_close_init
  | ChanCloseConfirm msg_channel_close_confirm

datatype packet_msg =
    PacketRecv msg_recv_packet
  | PacketAck msg_acknowledgement
  | PacketTimeout msg_timeout
  | PacketTimeoutOnClose msg_timeout_on_close

definition channel_msg_to_port_id :: "channel_msg \<Rightarrow> port_id" where
  "channel_msg_to_port_id msg = (case msg of
       ChanOpenInit m \<Rightarrow> hoi_port_id_on_a m
     | ChanOpenTry m \<Rightarrow> hot_port_id_on_b m
     | ChanOpenAck m \<Rightarrow> hoa_port_id_on_a m
     | ChanOpenConfirm m \<Rightarrow> hoc_port_id_on_b m
     | ChanCloseInit m \<Rightarrow> hci_port_id_on_a m
     | ChanCloseConfirm m \<Rightarrow> hcc_port_id_on_b m)"

definition packet_msg_to_port_id :: "packet_msg \<Rightarrow> port_id" where
  "packet_msg_to_port_id msg = (case msg of
       PacketRecv m \<Rightarrow> port_id_on_b (rcv_packet m)
     | PacketAck m \<Rightarrow> port_id_on_a (ack_packet m)
     | PacketTimeout m \<Rightarrow> port_id_on_a (tmo_packet m)
     | PacketTimeoutOnClose m \<Rightarrow> port_id_on_a (toc_packet m))"


section \<open>Lemmas\<close>

lemma channel_end_new_Ok_iff [result_simps]:
  "channel_end_new st chan_order remote hops ver = Ok c \<longleftrightarrow>
     st \<noteq> Uninitialized \<and> chan_order \<noteq> OrderNone
     \<and> c = \<lparr>ch_state = st, ch_ordering = chan_order, ch_remote = remote,
            ch_connection_hops = hops, ch_version = ver\<rparr>"
  by (auto simp: channel_end_new_def validate_basic_def Let_def)

lemma channel_end_new_not_Panic [simp]: "channel_end_new st chan_order remote hops ver \<noteq> Panic"
  by (simp add: channel_end_new_def validate_basic_def Let_def)

lemma ch_verify_Ok_iff [result_simps]:
  "ch_verify_state_matches c st = Ok u \<longleftrightarrow> ch_state c = st"
  "verify_not_closed c = Ok u \<longleftrightarrow> ch_state c \<noteq> Closed"
  "verify_counterparty_matches c cp = Ok u \<longleftrightarrow> ch_remote c = cp"
  by (auto simp: ch_verify_state_matches_def verify_not_closed_def verify_counterparty_matches_def)

lemma ch_verify_not_Panic [simp]:
  "ch_verify_state_matches c st \<noteq> Panic" "verify_not_closed c \<noteq> Panic"
  "verify_counterparty_matches c cp \<noteq> Panic" "verify_connection_hops_length hs n \<noteq> Panic"
  "ch_verify_connection_hops_length c \<noteq> Panic"
  by (simp_all add: ch_verify_state_matches_def verify_not_closed_def verify_counterparty_matches_def
      verify_connection_hops_length_def ch_verify_connection_hops_length_def)

lemma hops_length_ne: "verify_connection_hops_length hs 1 = Ok u \<Longrightarrow> hs \<noteq> []"
  by (auto simp: verify_connection_hops_length_def)

lemma has_expired_iff: "has_expired t h \<longleftrightarrow> (\<exists>th. t = At th \<and> th < h)"
  by (cases t) (simp_all add: has_expired_def)

end
