(* ===== verification/Handler_Types.thy ===== *)
theory Handler_Types
  imports Channel_Types
begin

text \<open>
  The types the handlers share (\<open>ics25-handler/types\<close>, \<open>ics26-routing\<close>): the error
  that wraps the errors of the layers, the events, the message envelope, and the
  interface of an application module.  A value of type \<open>'m\<close> is the state behind a
  \<open>dyn Module\<close>; the record \<open>module_ops\<close> is its table of callbacks.
\<close>

section \<open>Errors and messages\<close>

datatype router_error =
    UnknownMessageTypeUrl string
  | MalformedMessageBytes string
  | UnknownPort port_id
  | ModuleNotFound

datatype context_error =
    ClientError client_error
  | ConnectionError connection_error
  | ChannelError channel_error
  | PacketError packet_error
  | RouterError router_error

datatype msg_envelope =
    ClientEnvelope client_msg
  | ConnectionEnvelope connection_msg
  | ChannelEnvelope channel_msg
  | PacketEnvelope packet_msg


section \<open>Events\<close>

record module_event_attribute =
  mea_key :: string
  mea_value :: string

record module_event =
  me_kind :: string
  me_attributes :: "module_event_attribute list"

datatype message_event =
    MsgClient
  | MsgConnection
  | MsgChannel
  | MsgModule string

text \<open>An event carries the arguments of its constructor in the source.\<close>

datatype (plugins only: code) ibc_event =
    CreateClientEvent client_id client_type height
  | UpdateClientEvent client_id client_type height "height list" bytes
  | UpgradeClientEvent client_id client_type height
  | ClientMisbehaviourEvent client_id client_type
  | OpenInitConnection connection_id client_id client_id
  | OpenTryConnection connection_id client_id connection_id client_id
  | OpenAckConnection connection_id client_id connection_id client_id
  | OpenConfirmConnection connection_id client_id connection_id client_id
  | OpenInitChannel port_id channel_id port_id connection_id chan_version
  | OpenTryChannel port_id channel_id port_id channel_id connection_id chan_version
  | OpenAckChannel port_id channel_id port_id channel_id connection_id
  | OpenConfirmChannel port_id channel_id port_id channel_id connection_id
  | CloseInitChannel port_id channel_id port_id channel_id connection_id
  | CloseConfirmChannel port_id channel_id port_id channel_id connection_id
  | SendPacketEvent packet order connection_id
  | ReceivePacketEvent packet order connection_id
  | WriteAcknowledgementEvent packet acknowledgement connection_id
  | AcknowledgePacketEvent packet order connection_id
  | TimeoutPacketEvent packet order
  | ChannelClosedEvent port_id channel_id port_id "channel_id option" connection_id order
  | ModuleEvent module_event
  | MessageEvent message_event

definition module_attribute :: "message_event \<Rightarrow> string" where
  "module_attribute self = (case self of
       MsgClient \<Rightarrow> ''ibc_client''
     | MsgConnection \<Rightarrow> ''ibc_connection''
     | MsgChannel \<Rightarrow> ''ibc_channel''
     | MsgModule module_name \<Rightarrow> module_name)"


section \<open>Modules\<close>

datatype module_id = ModuleId string

record module_extras =
  extras_events :: "module_event list"
  extras_log :: "string list"

definition module_extras_empty :: module_extras where
  "module_extras_empty = \<lparr>extras_events = [], extras_log = []\<rparr>"

text \<open>The callbacks of the trait \<open>Module\<close>.  The ones that take \<open>&mut self\<close> return the
  new state of the module.\<close>

record 'm module_ops =
  on_chan_open_init_validate :: "order \<Rightarrow> connection_id list \<Rightarrow> port_id \<Rightarrow> channel_id
    \<Rightarrow> chan_counterparty \<Rightarrow> chan_version \<Rightarrow> 'm \<Rightarrow> (chan_version, channel_error) result"
  on_chan_open_init_execute :: "order \<Rightarrow> connection_id list \<Rightarrow> port_id \<Rightarrow> channel_id
    \<Rightarrow> chan_counterparty \<Rightarrow> chan_version
    \<Rightarrow> ('m, module_extras \<times> chan_version, channel_error) exec"
  on_chan_open_try_validate :: "order \<Rightarrow> connection_id list \<Rightarrow> port_id \<Rightarrow> channel_id
    \<Rightarrow> chan_counterparty \<Rightarrow> chan_version \<Rightarrow> 'm \<Rightarrow> (chan_version, channel_error) result"
  on_chan_open_try_execute :: "order \<Rightarrow> connection_id list \<Rightarrow> port_id \<Rightarrow> channel_id
    \<Rightarrow> chan_counterparty \<Rightarrow> chan_version
    \<Rightarrow> ('m, module_extras \<times> chan_version, channel_error) exec"
  on_chan_open_ack_validate ::
    "port_id \<Rightarrow> channel_id \<Rightarrow> chan_version \<Rightarrow> 'm \<Rightarrow> (unit, channel_error) result"
  on_chan_open_ack_execute ::
    "port_id \<Rightarrow> channel_id \<Rightarrow> chan_version \<Rightarrow> ('m, module_extras, channel_error) exec"
  on_chan_open_confirm_validate ::
    "port_id \<Rightarrow> channel_id \<Rightarrow> 'm \<Rightarrow> (unit, channel_error) result"
  on_chan_open_confirm_execute ::
    "port_id \<Rightarrow> channel_id \<Rightarrow> ('m, module_extras, channel_error) exec"
  on_chan_close_init_validate ::
    "port_id \<Rightarrow> channel_id \<Rightarrow> 'm \<Rightarrow> (unit, channel_error) result"
  on_chan_close_init_execute ::
    "port_id \<Rightarrow> channel_id \<Rightarrow> ('m, module_extras, channel_error) exec"
  on_chan_close_confirm_validate ::
    "port_id \<Rightarrow> channel_id \<Rightarrow> 'm \<Rightarrow> (unit, channel_error) result"
  on_chan_close_confirm_execute ::
    "port_id \<Rightarrow> channel_id \<Rightarrow> ('m, module_extras, channel_error) exec"
  on_recv_packet_execute :: "packet \<Rightarrow> signer \<Rightarrow> 'm \<Rightarrow> (module_extras \<times> acknowledgement) \<times> 'm"
  on_acknowledgement_packet_validate ::
    "packet \<Rightarrow> acknowledgement \<Rightarrow> signer \<Rightarrow> 'm \<Rightarrow> (unit, packet_error) result"
  on_acknowledgement_packet_execute :: "packet \<Rightarrow> acknowledgement \<Rightarrow> signer \<Rightarrow> 'm
    \<Rightarrow> (module_extras \<times> (unit, packet_error) result) \<times> 'm"
  on_timeout_packet_validate :: "packet \<Rightarrow> signer \<Rightarrow> 'm \<Rightarrow> (unit, packet_error) result"
  on_timeout_packet_execute :: "packet \<Rightarrow> signer \<Rightarrow> 'm
    \<Rightarrow> (module_extras \<times> (unit, packet_error) result) \<times> 'm"

end
