(* ===== verification/Error_Texts.thy ===== *)
theory Error_Texts
  imports Handler_Types
begin

text \<open>
  The texts of the errors: \<open>Display\<close> of the error enums of the core crates, which
  \<open>displaydoc\<close> derives from the comments of their variants, and of the types they show.
  They matter where one layer turns the error of another into text: a light client that
  fails on its context, and an application that answers with an error acknowledgement.

  The calendar text of an instant belongs to the crate \<open>tendermint\<close> and is an argument.
\<close>

definition quoted :: "string \<Rightarrow> string" where
  "quoted s = ''`'' @ s @ ''`''"

text \<open>\<open>Display\<close> of a signed integer.\<close>

definition pretty_slice :: "string list \<Rightarrow> string" where
  "pretty_slice xs = ''[ '' @ join '', '' xs @ '' ]''"

section \<open>Values\<close>

definition timestamp_to_string :: "(tm_time \<Rightarrow> string) \<Rightarrow> timestamp \<Rightarrow> string" where
  "timestamp_to_string rfc3339 self = ''Timestamp(''
     @ (case ts_time self of None \<Rightarrow> ''NoTimestamp'' | Some t \<Rightarrow> rfc3339 t) @ '')''"

fun timestamp_overflow_error_to_string :: "timestamp_overflow_error \<Rightarrow> string" where
  "timestamp_overflow_error_to_string TimestampOverflow =
     ''Timestamp overflow when modifying with duration''"

fun parse_timestamp_error_to_string :: "parse_timestamp_error \<Rightarrow> string" where
  "parse_timestamp_error_to_string (ParseInt e) =
     ''parsing u64 integer from string error: '' @ quoted (parse_int_error_to_string e)"
| "parse_timestamp_error_to_string (DataOutOfRange s) = ''Out of Range: '' @ quoted s"

fun status_to_string :: "status \<Rightarrow> string" where
  "status_to_string Active = ''Active''"
| "status_to_string Frozen = ''Frozen''"
| "status_to_string StatusExpired = ''Expired''"
| "status_to_string Unauthorized = ''Unauthorized''"

definition version_to_string :: "version \<Rightarrow> string" where
  "version_to_string self = ''Version { identifier: '' @ version_identifier self
     @ '', features: '' @ pretty_slice (version_features self) @ '' }''"

fun timeout_height_to_string :: "timeout_height \<Rightarrow> string" where
  "timeout_height_to_string (At h) = height_to_string h"
| "timeout_height_to_string Never = ''no timeout''"

definition chan_counterparty_to_string :: "chan_counterparty \<Rightarrow> string" where
  "chan_counterparty_to_string self = ''Counterparty(port_id: '' @ port_id_str (hcp_port_id self)
     @ '', channel_id: '' @ (case hcp_channel_id self of Some c \<Rightarrow> channel_id_str c | None \<Rightarrow> ''None'')
     @ '')''"

definition channel_end_to_string :: "channel_end \<Rightarrow> string" where
  "channel_end_to_string self = ''ChannelEnd { state: '' @ chan_state_to_string (ch_state self)
     @ '', ordering: '' @ order_as_str (ch_ordering self)
     @ '', remote: '' @ chan_counterparty_to_string (ch_remote self)
     @ '', connection_hops: '' @ pretty_slice (map connection_id_str (ch_connection_hops self))
     @ '', version: '' @ chan_version_str (ch_version self) @ '' }''"


section \<open>Identifiers, heights and commitments\<close>

primrec identifier_error_to_string :: "identifier_error \<Rightarrow> string" where
  "identifier_error_to_string (InvalidLength i mn mx) =
     ''identifier '' @ quoted i @ '' has invalid length; must be between '' @ quoted (show_u64 mn)
       @ '' and '' @ quoted (show_u64 mx) @ '' characters''"
| "identifier_error_to_string (InvalidCharacter i) =
     ''identifier '' @ quoted i @ '' must only contain alphanumeric characters or ''
       @ ''`.`, `_`, `+`, `-`, `#`, - `[`, `]`, `<`, `>`''"
| "identifier_error_to_string (InvalidPrefix p) = ''identifier prefix '' @ quoted p @ '' is invalid''"
| "identifier_error_to_string (UnformattedRevisionNumber c) =
     ''chain identifier is not formatted with revision number''"
| "identifier_error_to_string RevisionNumberOverflow = ''revision number overflowed''"
| "identifier_error_to_string (InvalidStringAsSequence v reason) =
     ''String '' @ quoted v @ '' cannot be converted to packet sequence, error: '' @ quoted reason"

fun height_error_to_string :: "height_error \<Rightarrow> string" where
  "height_error_to_string (HeightConversion h e) =
     ''cannot convert into a `Height` type from string '' @ quoted h"
| "height_error_to_string ZeroHeight = ''attempted to parse an invalid zero height''"
| "height_error_to_string (InvalidFormat raw) =
     ''the height('' @ quoted raw @ '') is not valid format, this format must be used: ''
       @ [CHR 0x5C] @ ''[revision_number'' @ [CHR 0x5C] @ '']-'' @ [CHR 0x5C]
       @ ''[revision_height'' @ [CHR 0x5C] @ '']''"

primrec commitment_error_to_string :: "commitment_error \<Rightarrow> string" where
  "commitment_error_to_string EmptyCommitmentPrefix = ''empty commitment prefix''"
| "commitment_error_to_string EmptyMerkleProof = ''empty merkle proof''"
| "commitment_error_to_string EmptyMerkleRoot = ''empty merkle root''"
| "commitment_error_to_string EmptyVerifiedValue = ''empty verified value''"
| "commitment_error_to_string EmptyProofSpecs = ''empty proof specs''"
| "commitment_error_to_string (InvalidDepthRange a b) =
     ''invalid depth range: ['' @ show_int a @ '', '' @ show_int b @ '']''"
| "commitment_error_to_string NumberOfSpecsMismatch =
     ''mismatch between the number of proofs with that of specs''"
| "commitment_error_to_string NumberOfKeysMismatch =
     ''mismatch between the number of proofs with that of keys''"
| "commitment_error_to_string InvalidMerkleProof = ''invalid merkle proof''"
| "commitment_error_to_string VerificationFailure = ''proof verification failed''"
| "commitment_error_to_string (EncodingFailure s) =
     ''encoded commitment prefix is not a valid hex string: '' @ quoted s"
| "commitment_error_to_string (DecodingFailure s) =
     ''decoding commitment proof bytes failed: '' @ quoted s"
| "commitment_error_to_string (InvalidPrefixLengthRange a b) =
     ''invalid prefix length range: `['' @ show_int a @ '', '' @ show_int b @ '']`''"
| "commitment_error_to_string (InvalidChildSize i) =
     ''invalid child size: '' @ quoted (show_int i)"
| "commitment_error_to_string (InvalidHashOp i) =
     ''invalid hash operation: '' @ quoted (show_int i)"
| "commitment_error_to_string (InvalidLengthOp i) =
     ''invalid length operation: '' @ quoted (show_int i)"


section \<open>Clients and connections\<close>

primrec upgrade_client_error_to_string :: "upgrade_client_error \<Rightarrow> string" where
  "upgrade_client_error_to_string (InvalidUpgradeClientProof e) =
     ''invalid proof for the upgraded client state error: ''
       @ quoted (commitment_error_to_string e)"
| "upgrade_client_error_to_string (InvalidUpgradeConsensusStateProof e) =
     ''invalid proof for the upgraded consensus state error: ''
       @ quoted (commitment_error_to_string e)"
| "upgrade_client_error_to_string (LowUpgradeHeight uh ch) =
     ''upgraded client height '' @ quoted (height_to_string uh)
       @ '' must be at greater than current client height '' @ quoted (height_to_string ch)"
| "upgrade_client_error_to_string (InvalidUpgradeProposal r) =
     ''invalid upgrade proposal: '' @ quoted r"
| "upgrade_client_error_to_string (InvalidUpgradePlan r) = ''invalid upgrade plan: '' @ quoted r"
| "upgrade_client_error_to_string (OtherUpgradeError r) =
     ''other upgrade client error: '' @ quoted r"

primrec client_error_to_string :: "(tm_time \<Rightarrow> string) \<Rightarrow> client_error \<Rightarrow> string" where
  "client_error_to_string rfc (Upgrade e) =
     ''upgrade client error: '' @ quoted (upgrade_client_error_to_string e)"
| "client_error_to_string rfc (ClientFrozen d) =
     ''client is frozen with description: '' @ quoted d"
| "client_error_to_string rfc (ClientNotActive st) =
     ''client is not active. Status='' @ quoted (status_to_string st)"
| "client_error_to_string rfc (ClientNotInactive st) =
     ''client is not frozen or expired. Status='' @ quoted (status_to_string st)"
| "client_error_to_string rfc (ClientStateNotFound c) =
     ''client state not found: '' @ quoted (client_id_str c)"
| "client_error_to_string rfc (ClientStateAlreadyExists c) =
     ''client state already exists: '' @ quoted (client_id_str c)"
| "client_error_to_string rfc (ClientRecoveryHeightMismatch sj sb) =
     ''Substitute client height '' @ quoted (height_to_string sb)
       @ '' is not greater than subject client height '' @ quoted (height_to_string sj)
       @ '' during client recovery''"
| "client_error_to_string rfc ClientRecoveryStateMismatch =
     ''Subject and substitute client state mismatch during client recovery''"
| "client_error_to_string rfc (ConsensusStateNotFound c h) =
     ''consensus state not found at: '' @ quoted (client_id_str c) @ '' at height ''
       @ quoted (height_to_string h)"
| "client_error_to_string rfc (UpdateMetaDataNotFound c h) =
     ''Processed time or height for the client '' @ quoted (client_id_str c) @ '' at height ''
       @ quoted (height_to_string h) @ '' not found''"
| "client_error_to_string rfc (HeaderVerificationFailure r) =
     ''header verification failed with reason: '' @ quoted r"
| "client_error_to_string rfc (InvalidTrustThreshold n d) =
     ''failed to build trust threshold from fraction: '' @ quoted (show_u64 n) @ ''/''
       @ quoted (show_u64 d)"
| "client_error_to_string rfc (FailedTrustThresholdConversion n d) =
     ''failed to build Tendermint domain type trust threshold from fraction: ''
       @ quoted (show_u64 n) @ ''/'' @ quoted (show_u64 d)"
| "client_error_to_string rfc (UnknownClientStateType ty) =
     ''unknown client state type: '' @ quoted ty"
| "client_error_to_string rfc EmptyPrefix = ''empty prefix''"
| "client_error_to_string rfc (UnknownConsensusStateType ty) =
     ''unknown client consensus state type: '' @ quoted ty"
| "client_error_to_string rfc (UnknownHeaderType ty) = ''unknown header type: '' @ quoted ty"
| "client_error_to_string rfc (UnknownMisbehaviourType ty) =
     ''unknown misbehaviour type: '' @ quoted ty"
| "client_error_to_string rfc MissingRawClientState = ''missing raw client state''"
| "client_error_to_string rfc MissingRawConsensusState = ''missing raw client consensus state''"
| "client_error_to_string rfc (InvalidMsgUpdateClientId e) =
     ''invalid client id in the update client message: ''
       @ quoted (identifier_error_to_string e)"
| "client_error_to_string rfc (InvalidMsgRecoverClientId e) =
     ''invalid client id in recover client message: '' @ quoted (identifier_error_to_string e)"
| "client_error_to_string rfc (InvalidClientIdentifier e) =
     ''invalid client identifier error: '' @ quoted (identifier_error_to_string e)"
| "client_error_to_string rfc (InvalidRawHeader r) = ''invalid raw header error: '' @ quoted r"
| "client_error_to_string rfc MissingClientMessage = ''missing raw client message''"
| "client_error_to_string rfc (InvalidRawMisbehaviour e) =
     ''invalid raw misbehaviour error: '' @ quoted (identifier_error_to_string e)"
| "client_error_to_string rfc MissingRawMisbehaviour = ''missing raw misbehaviour''"
| "client_error_to_string rfc InvalidHeight = ''revision height cannot be zero''"
| "client_error_to_string rfc InvalidHeightResult = ''height cannot end up zero or negative''"
| "client_error_to_string rfc (InvalidProofHeight l p) =
     ''the proof height is insufficient: latest_height='' @ quoted (height_to_string l)
       @ '' proof_height='' @ quoted (height_to_string p)"
| "client_error_to_string rfc (InvalidCommitmentProof e) =
     ''invalid commitment proof bytes error: '' @ quoted (commitment_error_to_string e)"
| "client_error_to_string rfc (InvalidPacketTimestamp e) =
     ''invalid packet timeout timestamp value error: ''
       @ quoted (parse_timestamp_error_to_string e)"
| "client_error_to_string rfc (ClientArgsTypeMismatch ct) =
     ''mismatch between client and arguments types''"
| "client_error_to_string rfc (InvalidConsensusStateTimestamp a b) =
     ''timestamp is invalid or missing, timestamp='' @ quoted (timestamp_to_string rfc a)
       @ '',  now='' @ quoted (timestamp_to_string rfc b)"
| "client_error_to_string rfc (MissingLocalConsensusState h) =
     ''the local consensus state could not be retrieved for height ''
       @ quoted (height_to_string h)"
| "client_error_to_string rfc (InvalidSigner r) = ''invalid signer error: '' @ quoted r"
| "client_error_to_string rfc (Ics23Verification e) =
     ''ics23 verification failure error: '' @ quoted (commitment_error_to_string e)"
| "client_error_to_string rfc (MisbehaviourHandlingFailure r) =
     ''misbehaviour handling failed with reason: '' @ quoted r"
| "client_error_to_string rfc (ClientSpecific d) = ''client specific error: '' @ quoted d"
| "client_error_to_string rfc ClientCounterOverflow = ''client counter overflow error''"
| "client_error_to_string rfc InvalidUpdateClientMessage =
     ''update client message did not contain valid header or misbehaviour''"
| "client_error_to_string rfc (OtherClientError d) = ''other error: '' @ quoted d"

primrec connection_error_to_string :: "(tm_time \<Rightarrow> string) \<Rightarrow> connection_error \<Rightarrow> string" where
  "connection_error_to_string rfc (ConnClient e) =
     ''client error: '' @ quoted (client_error_to_string rfc e)"
| "connection_error_to_string rfc (ConnInvalidState ex ac) =
     ''invalid connection state: expected '' @ quoted ex @ '', actual '' @ quoted ac"
| "connection_error_to_string rfc (InvalidConsensusHeight t c) =
     ''consensus height claimed by the client on the other party is too advanced: ''
       @ quoted (height_to_string t) @ '' (host chain current height: ''
       @ quoted (height_to_string c) @ '')''"
| "connection_error_to_string rfc (ConnInvalidIdentifier e) =
     ''identifier error: '' @ quoted (identifier_error_to_string e)"
| "connection_error_to_string rfc EmptyProtoConnectionEnd =
     ''ConnectionEnd domain object could not be constructed out of empty proto object''"
| "connection_error_to_string rfc EmptyVersions = ''empty supported versions''"
| "connection_error_to_string rfc ConnInvalidVersionLength =
     ''single version must be negotiated on connection before opening channel''"
| "connection_error_to_string rfc (VersionNotSupported v) =
     ''version '' @ [CHR 0x5C, CHR 0x22] @ quoted (version_to_string v) @ [CHR 0x5C, CHR 0x22]
       @ '' not supported''"
| "connection_error_to_string rfc NoCommonVersion = ''no common version''"
| "connection_error_to_string rfc EmptyFeatures = ''empty supported features''"
| "connection_error_to_string rfc (FeatureNotSupported f) =
     ''feature '' @ [CHR 0x5C, CHR 0x22] @ quoted f @ [CHR 0x5C, CHR 0x22] @ '' not supported''"
| "connection_error_to_string rfc NoCommonFeatures = ''no common features''"
| "connection_error_to_string rfc ConnMissingProofHeight = ''missing proof height''"
| "connection_error_to_string rfc MissingConsensusHeight = ''missing consensus height''"
| "connection_error_to_string rfc ConnInvalidProof = ''invalid connection proof error''"
| "connection_error_to_string rfc (VerifyConnectionState e) =
     ''verifying connection state error: '' @ quoted (client_error_to_string rfc e)"
| "connection_error_to_string rfc (ConnInvalidSigner r) = ''invalid signer error: '' @ quoted r"
| "connection_error_to_string rfc (ConnectionNotFound c) =
     ''no connection was found for the previous connection id provided ''
       @ quoted (connection_id_str c)"
| "connection_error_to_string rfc ConnInvalidCounterparty = ''invalid counterparty''"
| "connection_error_to_string rfc ConnMissingCounterparty = ''missing counterparty''"
| "connection_error_to_string rfc MissingClientState = ''missing client state''"
| "connection_error_to_string rfc (ConsensusStateVerificationFailure h e) =
     ''the consensus proof verification failed (height: '' @ quoted (height_to_string h)
       @ ''), client error: '' @ quoted (client_error_to_string rfc e)"
| "connection_error_to_string rfc (ClientStateVerificationFailure c e) =
     ''the client state proof verification failed for client id '' @ quoted (client_id_str c)
       @ '', client error: '' @ quoted (client_error_to_string rfc e)"
| "connection_error_to_string rfc (InvalidClientState r) = ''invalid client state: '' @ quoted r"
| "connection_error_to_string rfc (NotEnoughBlocksElapsed c e) =
     ''not enough blocks elapsed, current height '' @ quoted (height_to_string c)
       @ '' is still less than earliest acceptable height '' @ quoted (height_to_string e)"
| "connection_error_to_string rfc (NotEnoughTimeElapsed c e) =
     ''not enough time elapsed, current timestamp '' @ quoted (timestamp_to_string rfc c)
       @ '' is still less than earliest acceptable timestamp ''
       @ quoted (timestamp_to_string rfc e)"
| "connection_error_to_string rfc (ConnTimestampOverflow e) =
     ''timestamp overflowed error: '' @ quoted (timestamp_overflow_error_to_string e)"
| "connection_error_to_string rfc ConnCounterOverflow = ''connection counter overflow error''"
| "connection_error_to_string rfc (OtherConnectionError d) = ''other error: '' @ quoted d"


section \<open>Channels, packets and routing\<close>

primrec channel_error_to_string :: "(tm_time \<Rightarrow> string) \<Rightarrow> channel_error \<Rightarrow> string" where
  "channel_error_to_string rfc (InvalidChannelEnd c) = ''invalid channel end: '' @ quoted c"
| "channel_error_to_string rfc (InvalidChannelId ex ac) =
     ''invalid channel id: expected '' @ quoted ex @ '', actual '' @ quoted ac"
| "channel_error_to_string rfc (ChanInvalidState ex ac) =
     ''invalid channel state: expected '' @ quoted ex @ '', actual '' @ quoted ac"
| "channel_error_to_string rfc (InvalidOrderType ex ac) =
     ''invalid channel order type: expected '' @ quoted ex @ '', actual '' @ quoted ac"
| "channel_error_to_string rfc (InvalidConnectionHopsLength ex ac) =
     ''invalid connection hops length: expected '' @ quoted (show_u64 ex) @ ''; actual ''
       @ quoted (show_u64 ac)"
| "channel_error_to_string rfc (ChanInvalidSigner r) = ''invalid signer error: '' @ quoted r"
| "channel_error_to_string rfc ChanMissingHeight = ''invalid proof: missing height''"
| "channel_error_to_string rfc NonUtf8PacketData =
     ''packet data bytes must be valid UTF-8 (this restriction will be lifted in the future)''"
| "channel_error_to_string rfc ChanMissingCounterparty = ''missing counterparty''"
| "channel_error_to_string rfc UnsupportedChannelUpgradeSequence =
     ''unsupported channel upgrade sequence''"
| "channel_error_to_string rfc (ChanVersionNotSupported ex ac) =
     ''version not supported: expected '' @ quoted (chan_version_str ex) @ '', actual ''
       @ quoted (chan_version_str ac)"
| "channel_error_to_string rfc MissingChannel = ''missing channel end''"
| "channel_error_to_string rfc (ChannelNotFound p c) =
     ''the channel end ('' @ quoted (port_id_str p) @ '', '' @ quoted (channel_id_str c)
       @ '') does not exist''"
| "channel_error_to_string rfc (PacketVerificationFailed n e) =
     ''Verification fails for the packet with the sequence number '' @ quoted (show_u64 n)
       @ '', error: '' @ quoted (client_error_to_string rfc e)"
| "channel_error_to_string rfc (VerifyChannelFailed e) =
     ''Error verifying channel state error: '' @ quoted (client_error_to_string rfc e)"
| "channel_error_to_string rfc (ChanInvalidStringAsSequence v e) =
     ''String '' @ quoted v @ '' cannot be converted to packet sequence, error: ''
       @ quoted (parse_int_error_to_string e)"
| "channel_error_to_string rfc (ChanInvalidCounterparty ex ac) =
     ''invalid channel counterparty: expected '' @ quoted (chan_counterparty_to_string ex)
       @ '', actual '' @ quoted (chan_counterparty_to_string ac)"
| "channel_error_to_string rfc (ChanAppModule d) = ''application module error: '' @ quoted d"
| "channel_error_to_string rfc (ChanUndefinedConnectionCounterparty c) =
     ''Undefined counterparty connection for '' @ quoted (connection_id_str c)"
| "channel_error_to_string rfc ChanInvalidProof = ''invalid proof: empty proof''"
| "channel_error_to_string rfc (ChanInvalidIdentifier e) =
     ''identifier error: '' @ quoted (identifier_error_to_string e)"
| "channel_error_to_string rfc ChanCounterOverflow = ''channel counter overflow error''"
| "channel_error_to_string rfc (OtherChannelError d) = ''other error: '' @ quoted d"

primrec packet_error_to_string :: "(tm_time \<Rightarrow> string) \<Rightarrow> packet_error \<Rightarrow> string" where
  "packet_error_to_string rfc (PacketConnection e) =
     ''connection error: '' @ quoted (connection_error_to_string rfc e)"
| "packet_error_to_string rfc (PacketChannel e) =
     ''channel error: '' @ quoted (channel_error_to_string rfc e)"
| "packet_error_to_string rfc (LowPacketHeight c t) =
     ''Receiving chain block height '' @ quoted (height_to_string c)
       @ '' >= packet timeout height '' @ quoted (timeout_height_to_string t)"
| "packet_error_to_string rfc LowPacketTimestamp =
     ''Receiving chain block timestamp >= packet timeout timestamp''"
| "packet_error_to_string rfc (InvalidPacketSequence g n) =
     ''Invalid packet sequence '' @ quoted (show_u64 g) @ '' ''
       @ [char_of (226 :: nat), char_of (137 :: nat), char_of (160 :: nat)]
       @ '' next send sequence '' @ quoted (show_u64 n)"
| "packet_error_to_string rfc (InvalidChannelState c st) =
     ''Channel '' @ quoted (channel_id_str c) @ '' should not be state ''
       @ quoted (chan_state_to_string st)"
| "packet_error_to_string rfc (ConnectionNotOpen c) =
     ''the associated connection '' @ quoted (connection_id_str c) @ '' is not OPEN''"
| "packet_error_to_string rfc (PacketReceiptNotFound n) =
     ''Receipt for the packet '' @ quoted (show_u64 n) @ '' not found''"
| "packet_error_to_string rfc (IncorrectPacketCommitment n) =
     ''The stored commitment of the packet '' @ quoted (show_u64 n) @ '' is incorrect''"
| "packet_error_to_string rfc ImplementationSpecific = ''implementation specific error''"
| "packet_error_to_string rfc (PacketUndefinedConnectionCounterparty c) =
     ''Undefined counterparty connection for '' @ quoted (connection_id_str c)"
| "packet_error_to_string rfc PacketInvalidProof = ''invalid proof: empty proof''"
| "packet_error_to_string rfc (PacketTimeoutNotReached th ch tt ct) =
     ''Packet timeout height '' @ quoted (timeout_height_to_string th) @ '' > chain height ''
       @ ''`'' @ height_to_string ch @ '' and timeout timestamp ''
       @ quoted (timestamp_to_string rfc tt) @ '' > chain timestamp ''
       @ quoted (timestamp_to_string rfc ct)"
| "packet_error_to_string rfc (AcknowledgementExists n) =
     ''Packet acknowledgement exists for the packet with the sequence '' @ quoted (show_u64 n)"
| "packet_error_to_string rfc InvalidAcknowledgement = ''Acknowledgment cannot be empty''"
| "packet_error_to_string rfc EmptyAcknowledgementStatus =
     ''Acknowledgment status cannot be empty''"
| "packet_error_to_string rfc (PacketAcknowledgementNotFound n) =
     ''Acknowledgment for the packet '' @ quoted (show_u64 n) @ '' not found''"
| "packet_error_to_string rfc PacketMissingHeight = ''invalid proof: missing height''"
| "packet_error_to_string rfc MissingPacket = ''there is no packet in this message''"
| "packet_error_to_string rfc (PacketInvalidSigner r) = ''invalid signer error: '' @ quoted r"
| "packet_error_to_string rfc (PacketAppModule d) = ''application module error: '' @ quoted d"
| "packet_error_to_string rfc PacketRouteNotFound = ''route not found''"
| "packet_error_to_string rfc ZeroPacketSequence = ''packet sequence cannot be 0''"
| "packet_error_to_string rfc ZeroPacketData = ''packet data bytes cannot be empty''"
| "packet_error_to_string rfc InvalidTimeoutHeight = ''invalid timeout height for the packet''"
| "packet_error_to_string rfc (PacketInvalidPacketTimestamp e) =
     ''Invalid packet timeout timestamp value error: ''
       @ quoted (parse_timestamp_error_to_string e)"
| "packet_error_to_string rfc MissingTimeout = ''missing timeout''"
| "packet_error_to_string rfc (PacketInvalidIdentifier e) =
     ''invalid identifier error: '' @ quoted (identifier_error_to_string e)"
| "packet_error_to_string rfc (MissingNextSendSeq p c) =
     ''Missing sequence number for sending packets on port '' @ quoted (port_id_str p)
       @ '' and channel '' @ quoted (channel_id_str c)"
| "packet_error_to_string rfc (PacketChannelNotFound p c) =
     ''the channel end ('' @ quoted (port_id_str p) @ '', '' @ quoted (channel_id_str c)
       @ '') does not exist''"
| "packet_error_to_string rfc (PacketCommitmentNotFound n) =
     ''Commitment for the packet '' @ quoted (show_u64 n) @ '' not found''"
| "packet_error_to_string rfc (MissingNextRecvSeq p c) =
     ''Missing sequence number for receiving packets on port '' @ quoted (port_id_str p)
       @ '' and channel '' @ quoted (channel_id_str c)"
| "packet_error_to_string rfc (MissingNextAckSeq p c) =
     ''Missing sequence number for ack packets on port '' @ quoted (port_id_str p)
       @ '' and channel '' @ quoted (channel_id_str c)"
| "packet_error_to_string rfc (OtherPacketError d) = ''other error: '' @ quoted d"

primrec router_error_to_string :: "router_error \<Rightarrow> string" where
  "router_error_to_string (UnknownMessageTypeUrl u) = ''unknown type URL '' @ quoted u"
| "router_error_to_string (MalformedMessageBytes r) =
     ''the message is malformed and cannot be decoded error: '' @ quoted r"
| "router_error_to_string (UnknownPort p) = ''port '' @ quoted (port_id_str p) @ '' is unknown''"
| "router_error_to_string ModuleNotFound = ''module not found''"

primrec context_error_to_string :: "(tm_time \<Rightarrow> string) \<Rightarrow> context_error \<Rightarrow> string" where
  "context_error_to_string rfc (ClientError e) =
     ''ICS02 Client error: '' @ client_error_to_string rfc e"
| "context_error_to_string rfc (ConnectionError e) =
     ''ICS03 Connection error: '' @ connection_error_to_string rfc e"
| "context_error_to_string rfc (ChannelError e) =
     ''ICS04 Channel error: '' @ channel_error_to_string rfc e"
| "context_error_to_string rfc (PacketError e) =
     ''ICS04 Packet error: '' @ packet_error_to_string rfc e"
| "context_error_to_string rfc (RouterError e) =
     ''ICS26 Routing error: '' @ router_error_to_string e"
declare identifier_error_to_string.simps [simp del] commitment_error_to_string.simps [simp del]
  client_error_to_string.simps [simp del] connection_error_to_string.simps [simp del]
  channel_error_to_string.simps [simp del] packet_error_to_string.simps [simp del]
  router_error_to_string.simps [simp del] context_error_to_string.simps [simp del]

text \<open>A \<open>?\<close> on a \<open>ContextError\<close> in a function that returns a \<open>ClientError\<close>.\<close>

definition client_error_from_context ::
  "(tm_time \<Rightarrow> string) \<Rightarrow> context_error \<Rightarrow> client_error" where
  "client_error_from_context rfc e = (case e of
       ClientError ce \<Rightarrow> ce
     | _ \<Rightarrow> OtherClientError (context_error_to_string rfc e))"

end
