(* ===== verification/Host_Store.thy ===== *)
theory Host_Store
  imports Error_Texts
begin

text \<open>
  The host of the core handlers: the store of \<open>ibc-testkit/src/testapp/ibc/core\<close>
  (\<open>MockIbcStore\<close>) with its implementation of the traits \<open>ValidationContext\<close>,
  \<open>ExecutionContext\<close>, \<open>ClientValidationContext\<close> and \<open>ClientExecutionContext\<close>.

  The typed stores live in one key-value store under the string form of their
  paths, which is injective on valid paths (theory \<open>Paths\<close>); each is a map from its
  path type here.  The key-value store itself is the crate \<open>basecoin_store\<close>: it may
  refuse a write, which the field \<open>st_refuses\<close> decides.

  Client and consensus states are of arbitrary types \<open>'cs\<close> and \<open>'cons\<close>; the record
  \<open>client_ops\<close> holds the operations of the traits \<open>ClientStateCommon\<close>,
  \<open>ClientStateValidation\<close>, \<open>ClientStateExecution\<close> and \<open>ConsensusState\<close>, as Rust passes
  the implementation of a trait.  Its parent \<open>externals\<close> holds what the handlers use
  of other crates: SHA-256, the protobuf encoders, and the arithmetic and the text of
  \<open>tendermint::Time\<close>.
\<close>

section \<open>State\<close>

record ('cs, 'cons) ibc_store =
  st_revision_number :: u64
  st_current_height :: u64
  st_refuses :: "path \<Rightarrow> bool"
  client_counter_store :: "u64 option"
  conn_counter_store :: "u64 option"
  channel_counter_store :: "u64 option"
  client_processed_times :: "client_update_time_path \<rightharpoonup> timestamp"
  client_processed_heights :: "client_update_height_path \<rightharpoonup> height"
  client_state_store :: "client_state_path \<rightharpoonup> 'cs"
  consensus_state_store :: "client_consensus_state_path \<rightharpoonup> 'cons"
  connection_end_store :: "connection_path \<rightharpoonup> connection_end"
  connection_ids_store :: "client_connection_path \<rightharpoonup> connection_id list"
  channel_end_store :: "channel_end_path \<rightharpoonup> channel_end"
  send_sequence_store :: "seq_send_path \<rightharpoonup> sequence"
  recv_sequence_store :: "seq_recv_path \<rightharpoonup> sequence"
  ack_sequence_store :: "seq_ack_path \<rightharpoonup> sequence"
  packet_commitment_store :: "commitment_path \<rightharpoonup> packet_commitment"
  packet_receipt_store :: "receipt_path set"
  packet_ack_store :: "ack_path \<rightharpoonup> ack_commitment"
  host_consensus_states :: "u64 \<rightharpoonup> 'cons"
  ibc_commitment_proofs :: "u64 \<rightharpoonup> bytes"
  events :: "ibc_event list"
  logs :: "string list"

record externals =
  ext_hash :: "bytes \<Rightarrow> bytes"
  ext_encode_connection_end :: "raw_connection_end \<Rightarrow> bytes"
  ext_encode_channel_end :: "raw_channel \<Rightarrow> bytes"
  ext_encode_any :: "any_msg \<Rightarrow> bytes"
  ext_time_add :: "tm_time \<Rightarrow> duration \<Rightarrow> tm_time option"
  ext_time_duration_since :: "tm_time \<Rightarrow> tm_time \<Rightarrow> duration option"
  ext_time_to_rfc3339 :: "tm_time \<Rightarrow> string"

record ('cs, 'cons) client_ops = externals +
  cs_try_from_any :: "any_msg \<Rightarrow> ('cs, client_error) result"
  cs_to_any :: "'cs \<Rightarrow> (any_msg, client_error) result"
  cs_is_frozen :: "'cs \<Rightarrow> bool"
  cs_verify_consensus_state :: "'cs \<Rightarrow> any_msg \<Rightarrow> (unit, client_error) result"
  cs_client_type :: "'cs \<Rightarrow> client_type"
  cs_latest_height :: "'cs \<Rightarrow> height"
  cs_validate_proof_height :: "'cs \<Rightarrow> height \<Rightarrow> (unit, client_error) result"
  cs_verify_upgrade_client :: "'cs \<Rightarrow> any_msg \<Rightarrow> any_msg \<Rightarrow> commitment_proof_bytes
    \<Rightarrow> commitment_proof_bytes \<Rightarrow> commitment_root \<Rightarrow> (unit, client_error) result"
  cs_verify_membership :: "'cs \<Rightarrow> commitment_prefix \<Rightarrow> commitment_proof_bytes
    \<Rightarrow> commitment_root \<Rightarrow> path \<Rightarrow> bytes \<Rightarrow> (unit, client_error) result"
  cs_verify_non_membership :: "'cs \<Rightarrow> commitment_prefix \<Rightarrow> commitment_proof_bytes
    \<Rightarrow> commitment_root \<Rightarrow> path \<Rightarrow> (unit, client_error) result"
  cs_verify_client_message ::
    "'cs \<Rightarrow> ('cs, 'cons) ibc_store \<Rightarrow> client_id \<Rightarrow> any_msg \<Rightarrow> (unit, client_error) result"
  cs_check_for_misbehaviour ::
    "'cs \<Rightarrow> ('cs, 'cons) ibc_store \<Rightarrow> client_id \<Rightarrow> any_msg \<Rightarrow> (bool, client_error) result"
  cs_status :: "'cs \<Rightarrow> ('cs, 'cons) ibc_store \<Rightarrow> client_id \<Rightarrow> (status, client_error) result"
  cs_check_substitute ::
    "'cs \<Rightarrow> ('cs, 'cons) ibc_store \<Rightarrow> any_msg \<Rightarrow> (unit, client_error) result"
  cs_initialise ::
    "'cs \<Rightarrow> client_id \<Rightarrow> any_msg \<Rightarrow> (('cs, 'cons) ibc_store, unit, client_error) exec"
  cs_update_state ::
    "'cs \<Rightarrow> client_id \<Rightarrow> any_msg \<Rightarrow> (('cs, 'cons) ibc_store, height list, client_error) exec"
  cs_update_state_on_misbehaviour ::
    "'cs \<Rightarrow> client_id \<Rightarrow> any_msg \<Rightarrow> (('cs, 'cons) ibc_store, unit, client_error) exec"
  cs_update_state_on_upgrade :: "'cs \<Rightarrow> client_id \<Rightarrow> any_msg \<Rightarrow> any_msg
    \<Rightarrow> (('cs, 'cons) ibc_store, height, client_error) exec"
  cs_update_on_recovery :: "'cs \<Rightarrow> client_id \<Rightarrow> any_msg \<Rightarrow> any_msg
    \<Rightarrow> (('cs, 'cons) ibc_store, unit, client_error) exec"
  cons_to_any :: "'cons \<Rightarrow> (any_msg, client_error) result"
  cons_root :: "'cons \<Rightarrow> commitment_root"
  cons_timestamp :: "'cons \<Rightarrow> timestamp"

text \<open>The conversions \<open>Into<Any>\<close> return no error but may panic on a state whose
  timestamp or duration has no wire format.\<close>

text \<open>\<open>MockIbcStore::new\<close>: the three counters start at zero.\<close>

definition ibc_store_new :: "u64 \<Rightarrow> u64 \<Rightarrow> (path \<Rightarrow> bool) \<Rightarrow> ('cs, 'cons) ibc_store" where
  "ibc_store_new rev_number current_height refuses =
     \<lparr>st_revision_number = rev_number, st_current_height = current_height, st_refuses = refuses,
      client_counter_store = Some 0, conn_counter_store = Some 0, channel_counter_store = Some 0,
      client_processed_times = Map.empty, client_processed_heights = Map.empty,
      client_state_store = Map.empty, consensus_state_store = Map.empty,
      connection_end_store = Map.empty, connection_ids_store = Map.empty,
      channel_end_store = Map.empty, send_sequence_store = Map.empty,
      recv_sequence_store = Map.empty, ack_sequence_store = Map.empty,
      packet_commitment_store = Map.empty, packet_receipt_store = {},
      packet_ack_store = Map.empty, host_consensus_states = Map.empty,
      ibc_commitment_proofs = Map.empty, events = [], logs = []\<rparr>"


section \<open>Reading the store\<close>

definition host_height :: "('cs, 'cons) ibc_store \<Rightarrow> (height, context_error) result" where
  "host_height self =
     map_err ClientError (height_new (st_revision_number self) (st_current_height self))"

definition host_consensus_state ::
  "('cs, 'cons) ibc_store \<Rightarrow> height \<Rightarrow> ('cons, context_error) result" where
  "host_consensus_state self h =
     ok_or (host_consensus_states self (revision_height h))
       (ClientError (MissingLocalConsensusState h))"

definition host_timestamp ::
  "('cs, 'cons) client_ops \<Rightarrow> ('cs, 'cons) ibc_store \<Rightarrow> (timestamp, context_error) result" where
  "host_timestamp env self =
     and_then (host_height self) (\<lambda>h.
     and_then (host_consensus_state self h) (\<lambda>host_cons_state.
     Ok (cons_timestamp env host_cons_state)))"

definition client_counter :: "('cs, 'cons) ibc_store \<Rightarrow> (u64, context_error) result" where
  "client_counter self = ok_or (client_counter_store self)
     (ClientError (OtherClientError ''client counter not found''))"

definition connection_counter :: "('cs, 'cons) ibc_store \<Rightarrow> (u64, context_error) result" where
  "connection_counter self = ok_or (conn_counter_store self)
     (ConnectionError (OtherConnectionError ''connection counter not found''))"

definition channel_counter :: "('cs, 'cons) ibc_store \<Rightarrow> (u64, context_error) result" where
  "channel_counter self = ok_or (channel_counter_store self)
     (ChannelError (OtherChannelError ''channel counter not found''))"

definition connection_end ::
  "('cs, 'cons) ibc_store \<Rightarrow> connection_id \<Rightarrow> (connection_end, context_error) result" where
  "connection_end self conn_id =
     ok_or (connection_end_store self (ConnectionPath conn_id))
       (ConnectionError (ConnectionNotFound conn_id))"

definition commitment_prefix :: "('cs, 'cons) ibc_store \<Rightarrow> commitment_prefix" where
  "commitment_prefix self = CommitmentPrefix (string_bytes ''mock'')"

definition channel_end ::
  "('cs, 'cons) ibc_store \<Rightarrow> channel_end_path \<Rightarrow> (channel_end, context_error) result" where
  "channel_end self channel_end_path =
     ok_or (channel_end_store self channel_end_path) (ChannelError MissingChannel)"

definition get_next_sequence_send ::
  "('cs, 'cons) ibc_store \<Rightarrow> seq_send_path \<Rightarrow> (sequence, context_error) result" where
  "get_next_sequence_send self p =
     ok_or (send_sequence_store self p) (PacketError ImplementationSpecific)"

definition get_next_sequence_recv ::
  "('cs, 'cons) ibc_store \<Rightarrow> seq_recv_path \<Rightarrow> (sequence, context_error) result" where
  "get_next_sequence_recv self p =
     ok_or (recv_sequence_store self p) (PacketError ImplementationSpecific)"

definition get_next_sequence_ack ::
  "('cs, 'cons) ibc_store \<Rightarrow> seq_ack_path \<Rightarrow> (sequence, context_error) result" where
  "get_next_sequence_ack self p =
     ok_or (ack_sequence_store self p) (PacketError ImplementationSpecific)"

definition get_packet_commitment ::
  "('cs, 'cons) ibc_store \<Rightarrow> commitment_path \<Rightarrow> (packet_commitment, context_error) result" where
  "get_packet_commitment self p =
     ok_or (packet_commitment_store self p) (PacketError ImplementationSpecific)"

definition receipt_path_sequence :: "receipt_path \<Rightarrow> sequence" where
  "receipt_path_sequence p = (case p of ReceiptPath _ _ s \<Rightarrow> s)"

definition ack_path_sequence :: "ack_path \<Rightarrow> sequence" where
  "ack_path_sequence p = (case p of AckPath _ _ s \<Rightarrow> s)"

definition get_packet_receipt ::
  "('cs, 'cons) ibc_store \<Rightarrow> receipt_path \<Rightarrow> (receipt, context_error) result" where
  "get_packet_receipt self p =
     ok_or (if p \<in> packet_receipt_store self then Some ReceiptOk else None)
       (PacketError (PacketReceiptNotFound (receipt_path_sequence p)))"

definition get_packet_acknowledgement ::
  "('cs, 'cons) ibc_store \<Rightarrow> ack_path \<Rightarrow> (ack_commitment, context_error) result" where
  "get_packet_acknowledgement self p =
     ok_or (packet_ack_store self p)
       (PacketError (PacketAcknowledgementNotFound (ack_path_sequence p)))"

definition max_expected_time_per_block :: "('cs, 'cons) ibc_store \<Rightarrow> duration" where
  "max_expected_time_per_block self = 3 * 10 ^ 9"

definition as_secs :: "duration \<Rightarrow> nat" where
  "as_secs d = d div 10 ^ 9"

definition calculate_block_delay :: "duration \<Rightarrow> duration \<Rightarrow> u64" where
  "calculate_block_delay delay_period max_expected = (
     let delay_period_time = as_secs delay_period;
         max_time = as_secs max_expected in
     if max_time = 0 then 0
     else if delay_period_time mod max_time = 0 then of_nat (delay_period_time div max_time)
     else of_nat (delay_period_time div max_time) + 1)"

definition block_delay :: "('cs, 'cons) ibc_store \<Rightarrow> duration \<Rightarrow> u64" where
  "block_delay self delay_period_time =
     calculate_block_delay delay_period_time (max_expected_time_per_block self)"

definition validate_message_signer ::
  "('cs, 'cons) ibc_store \<Rightarrow> signer \<Rightarrow> (unit, context_error) result" where
  "validate_message_signer self signer = Ok ()"

definition get_compatible_versions :: "('cs, 'cons) ibc_store \<Rightarrow> version list" where
  "get_compatible_versions self = version_compatibles"

definition ctx_pick_version ::
  "('cs, 'cons) ibc_store \<Rightarrow> version list \<Rightarrow> (version, context_error) result" where
  "ctx_pick_version self counterparty_candidate_versions =
     map_err ConnectionError
       (pick_version (get_compatible_versions self) counterparty_candidate_versions)"

definition validate_self_client ::
  "('cs, 'cons) client_ops \<Rightarrow> ('cs, 'cons) ibc_store \<Rightarrow> 'cs \<Rightarrow> (unit, context_error) result" where
  "validate_self_client env self cs =
     (if cs_is_frozen env cs then Err (ClientError (ClientFrozen ''''))
      else and_then (host_height self) (\<lambda>latest_height.
        if revision_number latest_height \<noteq> revision_number (cs_latest_height env cs)
        then Err (ConnectionError (InvalidClientState
          (''client is not in the same revision as the chain. expected: ''
           @ show_u64 (revision_number latest_height) @ '', got: ''
           @ show_u64 (revision_number (cs_latest_height env cs)))))
        else let host_current_height = height_increment latest_height in
          if cs_latest_height env cs \<ge> host_current_height
          then Err (ConnectionError (InvalidClientState
            (''client has latest height '' @ height_to_string (cs_latest_height env cs)
             @ '' greater than or equal to chain height '' @ height_to_string host_current_height)))
          else Ok ()))"

definition client_state ::
  "('cs, 'cons) ibc_store \<Rightarrow> client_id \<Rightarrow> ('cs, context_error) result" where
  "client_state self client_id =
     ok_or (client_state_store self (ClientStatePath client_id))
       (ClientError (ClientStateNotFound client_id))"

definition consensus_state ::
  "('cs, 'cons) ibc_store \<Rightarrow> client_consensus_state_path \<Rightarrow> ('cons, context_error) result" where
  "consensus_state self p = (case p of ClientConsensusStatePath client_id n h \<Rightarrow>
     and_then (map_err (\<lambda>_. ClientError InvalidHeight) (height_new n h)) (\<lambda>height.
     ok_or (consensus_state_store self p)
       (ClientError (ConsensusStateNotFound client_id height))))"

definition client_update_meta ::
  "('cs, 'cons) ibc_store \<Rightarrow> client_id \<Rightarrow> height \<Rightarrow> (timestamp \<times> height, context_error) result" where
  "client_update_meta self client_id h =
     and_then (ok_or (client_processed_times self
         (ClientUpdateTimePath client_id (revision_number h) (revision_height h)))
         (ClientError (UpdateMetaDataNotFound client_id h))) (\<lambda>processed_timestamp.
     and_then (ok_or (client_processed_heights self
         (ClientUpdateHeightPath client_id (revision_number h) (revision_height h)))
         (ClientError (UpdateMetaDataNotFound client_id h))) (\<lambda>processed_height.
     Ok (processed_timestamp, processed_height)))"


section \<open>Writing the store\<close>

text \<open>\<open>set\<close> of a typed store, with the error the caller maps a refusal to.\<close>

definition typed_set ::
  "path \<Rightarrow> 'e \<Rightarrow> (('cs, 'cons) ibc_store \<Rightarrow> ('cs, 'cons) ibc_store)
     \<Rightarrow> (('cs, 'cons) ibc_store, unit, 'e) exec" where
  "typed_set p e upd = (\<lambda>s. if st_refuses s p then (Err e, s) else (Ok (), upd s))"

definition increase_client_counter :: "(('cs, 'cons) ibc_store, unit, context_error) exec" where
  "increase_client_counter =
     exec_bind (exec_read client_counter) (\<lambda>current_sequence.
     typed_set Path_NextClientSequence
       (ClientError (OtherClientError ''client counter update failed''))
       (client_counter_store_update (\<lambda>_. Some (current_sequence + 1))))"

definition increase_connection_counter :: "(('cs, 'cons) ibc_store, unit, context_error) exec" where
  "increase_connection_counter =
     exec_bind (exec_read connection_counter) (\<lambda>current_sequence.
     typed_set Path_NextConnectionSequence
       (ConnectionError (OtherConnectionError ''connection counter update failed''))
       (conn_counter_store_update (\<lambda>_. Some (current_sequence + 1))))"

definition increase_channel_counter :: "(('cs, 'cons) ibc_store, unit, context_error) exec" where
  "increase_channel_counter =
     exec_bind (exec_read channel_counter) (\<lambda>current_sequence.
     typed_set Path_NextChannelSequence
       (ChannelError (OtherChannelError ''channel counter update failed''))
       (channel_counter_store_update (\<lambda>_. Some (current_sequence + 1))))"

definition store_connection ::
  "connection_path \<Rightarrow> connection_end \<Rightarrow> (('cs, 'cons) ibc_store, unit, context_error) exec" where
  "store_connection p conn_end =
     typed_set (Path_Connection p)
       (ConnectionError (OtherConnectionError ''Connection end store error''))
       (connection_end_store_update (\<lambda>m. m(p \<mapsto> conn_end)))"

definition store_connection_to_client ::
  "client_connection_path \<Rightarrow> connection_id
     \<Rightarrow> (('cs, 'cons) ibc_store, unit, context_error) exec" where
  "store_connection_to_client p conn_id =
     typed_set (Path_ClientConnection p)
       (ConnectionError (OtherConnectionError ''Connection ids store error''))
       (connection_ids_store_update (\<lambda>m. m(p \<mapsto>
          (case m p of Some conn_ids \<Rightarrow> conn_ids | None \<Rightarrow> []) @ [conn_id])))"

definition store_packet_commitment ::
  "commitment_path \<Rightarrow> packet_commitment \<Rightarrow> (('cs, 'cons) ibc_store, unit, context_error) exec" where
  "store_packet_commitment p commitment =
     typed_set (Path_Commitment p) (PacketError ImplementationSpecific)
       (packet_commitment_store_update (\<lambda>m. m(p \<mapsto> commitment)))"

definition delete_packet_commitment ::
  "commitment_path \<Rightarrow> (('cs, 'cons) ibc_store, unit, context_error) exec" where
  "delete_packet_commitment p = exec_write (packet_commitment_store_update (\<lambda>m. m(p := None)))"

definition store_packet_receipt ::
  "receipt_path \<Rightarrow> receipt \<Rightarrow> (('cs, 'cons) ibc_store, unit, context_error) exec" where
  "store_packet_receipt p r =
     typed_set (Path_Receipt p) (PacketError ImplementationSpecific)
       (packet_receipt_store_update (insert p))"

definition store_packet_acknowledgement ::
  "ack_path \<Rightarrow> ack_commitment \<Rightarrow> (('cs, 'cons) ibc_store, unit, context_error) exec" where
  "store_packet_acknowledgement p ack_commitment =
     typed_set (Path_Ack p) (PacketError ImplementationSpecific)
       (packet_ack_store_update (\<lambda>m. m(p \<mapsto> ack_commitment)))"

definition delete_packet_acknowledgement ::
  "ack_path \<Rightarrow> (('cs, 'cons) ibc_store, unit, context_error) exec" where
  "delete_packet_acknowledgement p = exec_write (packet_ack_store_update (\<lambda>m. m(p := None)))"

definition store_channel ::
  "channel_end_path \<Rightarrow> channel_end \<Rightarrow> (('cs, 'cons) ibc_store, unit, context_error) exec" where
  "store_channel p chan_end =
     typed_set (Path_ChannelEnd p) (ChannelError (OtherChannelError ''Channel end store error''))
       (channel_end_store_update (\<lambda>m. m(p \<mapsto> chan_end)))"

definition store_next_sequence_send ::
  "seq_send_path \<Rightarrow> sequence \<Rightarrow> (('cs, 'cons) ibc_store, unit, context_error) exec" where
  "store_next_sequence_send p s =
     typed_set (Path_SeqSend p) (PacketError ImplementationSpecific)
       (send_sequence_store_update (\<lambda>m. m(p \<mapsto> s)))"

definition store_next_sequence_recv ::
  "seq_recv_path \<Rightarrow> sequence \<Rightarrow> (('cs, 'cons) ibc_store, unit, context_error) exec" where
  "store_next_sequence_recv p s =
     typed_set (Path_SeqRecv p) (PacketError ImplementationSpecific)
       (recv_sequence_store_update (\<lambda>m. m(p \<mapsto> s)))"

definition store_next_sequence_ack ::
  "seq_ack_path \<Rightarrow> sequence \<Rightarrow> (('cs, 'cons) ibc_store, unit, context_error) exec" where
  "store_next_sequence_ack p s =
     typed_set (Path_SeqAck p) (PacketError ImplementationSpecific)
       (ack_sequence_store_update (\<lambda>m. m(p \<mapsto> s)))"

definition emit_ibc_event :: "ibc_event \<Rightarrow> (('cs, 'cons) ibc_store, unit, context_error) exec" where
  "emit_ibc_event ev = exec_write (events_update (\<lambda>es. es @ [ev]))"

definition log_message :: "string \<Rightarrow> (('cs, 'cons) ibc_store, unit, context_error) exec" where
  "log_message msg = exec_write (logs_update (\<lambda>ls. ls @ [msg]))"

definition store_client_state ::
  "client_state_path \<Rightarrow> 'cs \<Rightarrow> (('cs, 'cons) ibc_store, unit, context_error) exec" where
  "store_client_state p cs =
     typed_set (Path_ClientState p) (ClientError (OtherClientError ''Client state store error''))
       (client_state_store_update (\<lambda>m. m(p \<mapsto> cs)))"

definition store_consensus_state ::
  "client_consensus_state_path \<Rightarrow> 'cons \<Rightarrow> (('cs, 'cons) ibc_store, unit, context_error) exec" where
  "store_consensus_state p cons =
     typed_set (Path_ClientConsensusState p)
       (ClientError (OtherClientError ''Consensus state store error''))
       (consensus_state_store_update (\<lambda>m. m(p \<mapsto> cons)))"

definition delete_consensus_state ::
  "client_consensus_state_path \<Rightarrow> (('cs, 'cons) ibc_store, unit, context_error) exec" where
  "delete_consensus_state p = exec_write (consensus_state_store_update (\<lambda>m. m(p := None)))"

definition store_update_meta ::
  "client_id \<Rightarrow> height \<Rightarrow> timestamp \<Rightarrow> height
     \<Rightarrow> (('cs, 'cons) ibc_store, unit, context_error) exec" where
  "store_update_meta client_id h host_ts host_h = (
     let time_path = ClientUpdateTimePath client_id (revision_number h) (revision_height h);
         height_path = ClientUpdateHeightPath client_id (revision_number h) (revision_height h) in
     exec_bind (typed_set (Path_ClientUpdateTime time_path)
         (ClientError (OtherClientError ''store update error''))
         (client_processed_times_update (\<lambda>m. m(time_path \<mapsto> host_ts)))) (\<lambda>_.
     typed_set (Path_ClientUpdateHeight height_path)
       (ClientError (OtherClientError ''store update error''))
       (client_processed_heights_update (\<lambda>m. m(height_path \<mapsto> host_h)))))"

definition delete_update_meta ::
  "client_id \<Rightarrow> height \<Rightarrow> (('cs, 'cons) ibc_store, unit, context_error) exec" where
  "delete_update_meta client_id h = (
     let time_path = ClientUpdateTimePath client_id (revision_number h) (revision_height h);
         height_path = ClientUpdateHeightPath client_id (revision_number h) (revision_height h) in
     exec_bind (exec_write (client_processed_times_update (\<lambda>m. m(time_path := None)))) (\<lambda>_.
     exec_write (client_processed_heights_update (\<lambda>m. m(height_path := None)))))"


section \<open>Blocks\<close>

text \<open>\<open>begin_block\<close> asserts the height and records the consensus state of the host;
  \<open>end_block\<close> commits, after which the store is at the next height.\<close>

definition begin_block ::
  "u64 \<Rightarrow> 'cons \<Rightarrow> bytes \<Rightarrow> (('cs, 'cons) ibc_store, unit, context_error) exec" where
  "begin_block h cons proof = (\<lambda>s.
     if st_current_height s \<noteq> h then (Panic, s)
     else (Ok (), s\<lparr>host_consensus_states := (host_consensus_states s)(h \<mapsto> cons),
                   ibc_commitment_proofs := (ibc_commitment_proofs s)(h \<mapsto> proof)\<rparr>))"

definition prune_host_consensus_states_till ::
  "height \<Rightarrow> (('cs, 'cons) ibc_store, unit, context_error) exec" where
  "prune_host_consensus_states_till h = (\<lambda>s.
     if revision_number h \<noteq> st_revision_number s then (Panic, s)
     else (Ok (), s\<lparr>host_consensus_states :=
              (host_consensus_states s) |` {k. k > revision_height h},
            ibc_commitment_proofs := (ibc_commitment_proofs s) |` {k. k > revision_height h}\<rparr>))"


section \<open>Lemmas\<close>

named_theorems store_reads \<open>definitions of the readers of the store\<close>
named_theorems store_writes \<open>definitions of the writers of the store\<close>

declare host_height_def [store_reads] host_consensus_state_def [store_reads]
  host_timestamp_def [store_reads] client_counter_def [store_reads]
  connection_counter_def [store_reads] channel_counter_def [store_reads]
  connection_end_def [store_reads] channel_end_def [store_reads]
  get_next_sequence_send_def [store_reads] get_next_sequence_recv_def [store_reads]
  get_next_sequence_ack_def [store_reads] get_packet_commitment_def [store_reads]
  get_packet_receipt_def [store_reads] get_packet_acknowledgement_def [store_reads]
  client_state_def [store_reads]

declare increase_client_counter_def [store_writes] increase_connection_counter_def [store_writes]
  increase_channel_counter_def [store_writes] store_connection_def [store_writes]
  store_connection_to_client_def [store_writes] store_packet_commitment_def [store_writes]
  delete_packet_commitment_def [store_writes] store_packet_receipt_def [store_writes]
  store_packet_acknowledgement_def [store_writes] delete_packet_acknowledgement_def [store_writes]
  store_channel_def [store_writes] store_next_sequence_send_def [store_writes]
  store_next_sequence_recv_def [store_writes] store_next_sequence_ack_def [store_writes]
  store_client_state_def [store_writes] store_consensus_state_def [store_writes]
  delete_consensus_state_def [store_writes] store_update_meta_def [store_writes]
  delete_update_meta_def [store_writes]

lemma typed_set_Ok_iff [result_simps]:
  "typed_set p e upd s = (Ok u, s') \<longleftrightarrow> \<not> st_refuses s p \<and> s' = upd s"
  by (auto simp: typed_set_def)

lemma emit_ibc_event_eq: "emit_ibc_event ev s = (Ok (), s\<lparr>events := events s @ [ev]\<rparr>)"
  by (cases s) (simp add: emit_ibc_event_def exec_write_def)

lemma log_message_eq: "log_message l s = (Ok (), s\<lparr>logs := logs s @ [l]\<rparr>)"
  by (cases s) (simp add: log_message_def exec_write_def)

lemma emit_ibc_event_Ok_iff [result_simps]:
  "emit_ibc_event ev s = (Ok u, s') \<longleftrightarrow> s' = s\<lparr>events := events s @ [ev]\<rparr>"
  by (auto simp: emit_ibc_event_eq)

lemma log_message_Ok_iff [result_simps]:
  "log_message l s = (Ok u, s') \<longleftrightarrow> s' = s\<lparr>logs := logs s @ [l]\<rparr>"
  by (auto simp: log_message_eq)


subsection \<open>The interface of a typed store\<close>

text \<open>Writing sets one key; a refused write changes nothing.\<close>

locale typed_store =
  fixes get :: "'s \<Rightarrow> 'k \<rightharpoonup> 'v"
    and put :: "'k \<Rightarrow> 'v \<Rightarrow> ('s, unit, 'e) exec"
  assumes get_put: "put k v s = (Ok (), s') \<Longrightarrow> get s' = (get s)(k \<mapsto> v)"
    and put_refused: "put k v s = (r, s') \<Longrightarrow> r \<noteq> Ok () \<Longrightarrow> s' = s"
begin

lemma get_put_same: "put k v s = (Ok (), s') \<Longrightarrow> get s' k = Some v"
  by (simp add: get_put)

lemma get_put_other: "put k v s = (Ok (), s') \<Longrightarrow> k' \<noteq> k \<Longrightarrow> get s' k' = get s k'"
  by (simp add: get_put)

text \<open>A sequence of writes: the last one to a key wins, and when one is refused those
  before it stand.\<close>

lemma get_puts:
  "exec_for kvs (\<lambda>(k, v). put k v) s = (r, s')
     \<Longrightarrow> \<exists>n\<le>length kvs. (r = Ok () \<longrightarrow> n = length kvs) \<and> get s' = get s ++ map_of (rev (take n kvs))"
proof (induction kvs arbitrary: s)
  case Nil
  then show ?case by (simp add: exec_return_def)
next
  case (Cons kv kvs)
  obtain k v where kv: "kv = (k, v)" by fastforce
  obtain r1 s1 where p: "put k v s = (r1, s1)" by fastforce
  show ?case
  proof (cases "r1 = Ok ()")
    case True
    then have "exec_for kvs (\<lambda>(k, v). put k v) s1 = (r, s')"
      using Cons.prems p kv by (simp add: exec_bind_def)
    then obtain n where n: "n \<le> length kvs" "r = Ok () \<longrightarrow> n = length kvs"
        "get s' = get s1 ++ map_of (rev (take n kvs))"
      using Cons.IH by blast
    have "get s1 = (get s)(k \<mapsto> v)" using p True get_put by simp
    then have "get s' = get s ++ map_of (rev (take (Suc n) (kv # kvs)))"
      using n kv by (simp add: map_add_def fun_eq_iff map_of_append split: option.splits)
    with n show ?thesis by (intro exI [of _ "Suc n"]) simp
  next
    case False
    then have "s' = s" "r \<noteq> Ok ()"
      using Cons.prems p kv put_refused by (auto simp: exec_bind_def split: result.splits)
    then show ?thesis by (intro exI [of _ 0]) simp
  qed
qed

end

locale deletable_store = typed_store get put
  for get :: "'s \<Rightarrow> 'k \<rightharpoonup> 'v" and put :: "'k \<Rightarrow> 'v \<Rightarrow> ('s, unit, 'e) exec" +
  fixes del :: "'k \<Rightarrow> ('s, unit, 'e) exec"
  assumes get_del: "del k s = (r, s') \<Longrightarrow> r = Ok () \<and> get s' = (get s)(k := None)"
begin

lemma put_del: "put k v s = (Ok (), s1) \<Longrightarrow> del k s1 = (r, s2) \<Longrightarrow> get s2 = (get s)(k := None)"
  using get_put [of k v s s1] get_del [of k s1 r s2] by simp

end

interpretation conns: typed_store connection_end_store store_connection
  by unfold_locales (auto simp: store_writes typed_set_def split: if_splits)

interpretation chans: typed_store channel_end_store store_channel
  by unfold_locales (auto simp: store_writes typed_set_def split: if_splits)

interpretation seq_sends: typed_store send_sequence_store store_next_sequence_send
  by unfold_locales (auto simp: store_writes typed_set_def split: if_splits)

interpretation seq_recvs: typed_store recv_sequence_store store_next_sequence_recv
  by unfold_locales (auto simp: store_writes typed_set_def split: if_splits)

interpretation seq_acks: typed_store ack_sequence_store store_next_sequence_ack
  by unfold_locales (auto simp: store_writes typed_set_def split: if_splits)

interpretation client_states: typed_store client_state_store store_client_state
  by unfold_locales (auto simp: store_writes typed_set_def split: if_splits)

interpretation commitments: deletable_store packet_commitment_store store_packet_commitment
    delete_packet_commitment
  by unfold_locales (auto simp: store_writes typed_set_def exec_write_def split: if_splits)

interpretation acks: deletable_store packet_ack_store store_packet_acknowledgement
    delete_packet_acknowledgement
  by unfold_locales (auto simp: store_writes typed_set_def exec_write_def split: if_splits)

interpretation cons_states: deletable_store consensus_state_store store_consensus_state
    delete_consensus_state
  by unfold_locales (auto simp: store_writes typed_set_def exec_write_def split: if_splits)

end
