(* ===== verification/Client_Handlers.thy ===== *)
theory Client_Handlers
  imports Host_Store
begin

text \<open>
  The handlers of ICS-02 (\<open>ibc-core/ics02-client/src/handler\<close>): creation, update,
  misbehaviour, upgrade and recovery of a client.  Each has a validation step, which
  reads the store, and an execution step, which writes it.
\<close>

section \<open>Create\<close>

definition create_client_validate ::
  "('cs, 'cons) client_ops \<Rightarrow> ('cs, 'cons) ibc_store \<Rightarrow> msg_create_client
     \<Rightarrow> (unit, context_error) result" where
  "create_client_validate env ctx msg =
     and_then (validate_message_signer ctx (cc_signer msg)) (\<lambda>_.
     and_then (client_counter ctx) (\<lambda>id_counter.
     and_then (map_err ClientError (cs_try_from_any env (cc_client_state msg))) (\<lambda>cs.
     let client_id = build_client_id (cs_client_type env cs) id_counter in
     and_then (map_err ClientError (cs_status env cs ctx client_id)) (\<lambda>status.
     if status_is_frozen status then Err (ClientError (ClientFrozen ''the client is frozen''))
     else
     and_then (map_err ClientError (cs_verify_consensus_state env cs (cc_consensus_state msg))) (\<lambda>_.
     if is_ok (client_state ctx client_id)
     then Err (ClientError (ClientStateAlreadyExists client_id))
     else Ok ())))))"

definition create_client_execute ::
  "('cs, 'cons) client_ops \<Rightarrow> msg_create_client
     \<Rightarrow> (('cs, 'cons) ibc_store, unit, context_error) exec" where
  "create_client_execute env msg =
     exec_bind (exec_read client_counter) (\<lambda>id_counter.
     exec_bind (exec_lift (map_err ClientError (cs_try_from_any env (cc_client_state msg)))) (\<lambda>cs.
     let client_type = cs_client_type env cs;
         client_id = build_client_id client_type id_counter in
     exec_bind (exec_map_err ClientError (cs_initialise env cs client_id (cc_consensus_state msg)))
       (\<lambda>_.
     exec_bind increase_client_counter (\<lambda>_.
     exec_bind (emit_ibc_event (MessageEvent MsgClient)) (\<lambda>_.
     exec_bind (emit_ibc_event
         (CreateClientEvent client_id client_type (cs_latest_height env cs))) (\<lambda>_.
     log_message (''success: generated new client identifier: '' @ client_id_str client_id)))))))"


section \<open>Update and misbehaviour\<close>

definition update_client_validate ::
  "('cs, 'cons) client_ops \<Rightarrow> ('cs, 'cons) ibc_store \<Rightarrow> msg_update_or_misbehaviour
     \<Rightarrow> (unit, context_error) result" where
  "update_client_validate env ctx msg =
     and_then (validate_message_signer ctx (uom_signer msg)) (\<lambda>_.
     let client_id = uom_client_id msg in
     and_then (client_state ctx client_id) (\<lambda>cs.
     and_then (map_err ClientError (cs_status env cs ctx client_id)) (\<lambda>status.
     and_then (map_err ClientError (verify_is_active status)) (\<lambda>_.
     map_err ClientError (cs_verify_client_message env cs ctx client_id (uom_client_message msg))))))"

definition update_client_execute ::
  "('cs, 'cons) client_ops \<Rightarrow> msg_update_or_misbehaviour
     \<Rightarrow> (('cs, 'cons) ibc_store, unit, context_error) exec" where
  "update_client_execute env msg = (
     let client_id = uom_client_id msg;
         update_kind = (case msg of
             UpdateClient _ \<Rightarrow> UpdateClientKind
           | Misbehaviour _ \<Rightarrow> SubmitMisbehaviourKind);
         client_message = uom_client_message msg in
     exec_bind (exec_read (\<lambda>ctx. client_state ctx client_id)) (\<lambda>cs.
     exec_bind (exec_read (\<lambda>ctx. map_err ClientError
         (cs_check_for_misbehaviour env cs ctx client_id client_message))) (\<lambda>found_misbehaviour.
     if found_misbehaviour then
       exec_bind (exec_map_err ClientError
           (cs_update_state_on_misbehaviour env cs client_id client_message)) (\<lambda>_.
       exec_bind (emit_ibc_event (MessageEvent MsgClient)) (\<lambda>_.
       emit_ibc_event (ClientMisbehaviourEvent client_id (cs_client_type env cs))))
     else if update_kind \<noteq> UpdateClientKind then
       exec_lift (Err (ClientError
         (MisbehaviourHandlingFailure ''misbehaviour submitted, but none found'')))
     else
       exec_bind (exec_map_err ClientError
           (cs_update_state env cs client_id client_message)) (\<lambda>consensus_heights.
       exec_bind (exec_lift (ok_or (case consensus_heights of h # _ \<Rightarrow> Some h | [] \<Rightarrow> None)
           (ClientError (OtherClientError ''client update state returned no updated height''))))
         (\<lambda>consensus_height.
       exec_bind (emit_ibc_event (MessageEvent MsgClient)) (\<lambda>_.
       emit_ibc_event (UpdateClientEvent client_id (cs_client_type env cs) consensus_height
         consensus_heights (ext_encode_any env client_message))))))))"


section \<open>Upgrade\<close>

definition upgrade_client_validate ::
  "('cs, 'cons) client_ops \<Rightarrow> ('cs, 'cons) ibc_store \<Rightarrow> msg_upgrade_client
     \<Rightarrow> (unit, context_error) result" where
  "upgrade_client_validate env ctx msg = (
     let client_id = ug_client_id msg in
     and_then (validate_message_signer ctx (ug_signer msg)) (\<lambda>_.
     and_then (client_state ctx client_id) (\<lambda>old_client_state.
     and_then (map_err ClientError (cs_status env old_client_state ctx client_id)) (\<lambda>status.
     and_then (map_err ClientError (verify_is_active status)) (\<lambda>_.
     let latest = cs_latest_height env old_client_state in
     and_then (map_err (\<lambda>_. ClientError (ConsensusStateNotFound client_id latest))
         (consensus_state ctx (ClientConsensusStatePath client_id
            (revision_number latest) (revision_height latest)))) (\<lambda>old_consensus_state.
     map_err ClientError (cs_verify_upgrade_client env old_client_state
       (ug_upgraded_client_state msg) (ug_upgraded_consensus_state msg)
       (ug_proof_upgrade_client msg) (ug_proof_upgrade_consensus_state msg)
       (cons_root env old_consensus_state))))))))"

definition upgrade_client_execute ::
  "('cs, 'cons) client_ops \<Rightarrow> msg_upgrade_client
     \<Rightarrow> (('cs, 'cons) ibc_store, unit, context_error) exec" where
  "upgrade_client_execute env msg = (
     let client_id = ug_client_id msg in
     exec_bind (exec_read (\<lambda>ctx. client_state ctx client_id)) (\<lambda>old_client_state.
     exec_bind (exec_map_err ClientError (cs_update_state_on_upgrade env old_client_state client_id
         (ug_upgraded_client_state msg) (ug_upgraded_consensus_state msg))) (\<lambda>latest_height.
     exec_bind (emit_ibc_event (MessageEvent MsgClient)) (\<lambda>_.
     emit_ibc_event (UpgradeClientEvent client_id
       (cs_client_type env old_client_state) latest_height)))))"


section \<open>Recovery\<close>

definition recover_client_validate ::
  "('cs, 'cons) client_ops \<Rightarrow> ('cs, 'cons) ibc_store \<Rightarrow> msg_recover_client
     \<Rightarrow> (unit, context_error) result" where
  "recover_client_validate env ctx msg = (
     let subject_client_id = rc_subject_client_id msg;
         substitute_client_id = rc_substitute_client_id msg in
     and_then (validate_message_signer ctx (rc_signer msg)) (\<lambda>_.
     and_then (client_state ctx subject_client_id) (\<lambda>subject_client_state.
     and_then (client_state ctx substitute_client_id) (\<lambda>substitute_client_state.
     let subject_height = cs_latest_height env subject_client_state;
         substitute_height = cs_latest_height env substitute_client_state in
     if subject_height \<ge> substitute_height
     then Err (ClientError (ClientRecoveryHeightMismatch subject_height substitute_height))
     else
     and_then (map_err ClientError
         (cs_status env substitute_client_state ctx substitute_client_id)) (\<lambda>status_substitute.
     and_then (map_err ClientError (verify_is_active status_substitute)) (\<lambda>_.
     and_then (map_err ClientError
         (cs_status env subject_client_state ctx subject_client_id)) (\<lambda>status_subject.
     and_then (map_err ClientError (verify_is_inactive status_subject)) (\<lambda>_.
     and_then (map_err ClientError (cs_to_any env substitute_client_state)) (\<lambda>substitute_any.
     map_err ClientError (cs_check_substitute env subject_client_state ctx
       substitute_any))))))))))"

definition recover_client_execute ::
  "('cs, 'cons) client_ops \<Rightarrow> msg_recover_client
     \<Rightarrow> (('cs, 'cons) ibc_store, unit, context_error) exec" where
  "recover_client_execute env msg = (
     let subject_client_id = rc_subject_client_id msg;
         substitute_client_id = rc_substitute_client_id msg in
     exec_bind (exec_read (\<lambda>ctx. client_state ctx subject_client_id)) (\<lambda>subject_client_state.
     exec_bind (exec_read (\<lambda>ctx. client_state ctx substitute_client_id))
       (\<lambda>substitute_client_state.
     let latest = cs_latest_height env substitute_client_state in
     exec_bind (exec_read (\<lambda>ctx. consensus_state ctx
         (ClientConsensusStatePath substitute_client_id
            (revision_number latest) (revision_height latest)))) (\<lambda>substitute_consensus_state.
     exec_bind (exec_lift (map_err ClientError (cs_to_any env substitute_client_state)))
       (\<lambda>substitute_client_any.
     exec_bind (exec_lift (map_err ClientError (cons_to_any env substitute_consensus_state)))
       (\<lambda>substitute_consensus_any.
     exec_map_err ClientError (cs_update_on_recovery env subject_client_state subject_client_id
       substitute_client_any substitute_consensus_any)))))))"

end
