(* ===== verification/Connection_Handlers.thy ===== *)
theory Connection_Handlers
  imports Client_Handlers
begin

text \<open>
  The handlers of ICS-03 (\<open>ibc-core/ics03-connection/src\<close>): the four messages of the
  connection handshake and the check that the delay of a connection has passed.
\<close>

section \<open>Delay\<close>

definition verify_conn_delay_passed ::
  "('cs, 'cons) client_ops \<Rightarrow> ('cs, 'cons) ibc_store \<Rightarrow> height \<Rightarrow> connection_end
     \<Rightarrow> (unit, context_error) result" where
  "verify_conn_delay_passed env ctx packet_proof_height conn_end =
     and_then (host_timestamp env ctx) (\<lambda>current_host_time.
     and_then (host_height ctx) (\<lambda>current_host_height.
     and_then (client_update_meta ctx (ce_client_id conn_end) packet_proof_height)
       (\<lambda>(last_time, last_height).
     let conn_delay_time_period = ce_delay_period conn_end;
         conn_delay_height_period = block_delay ctx conn_delay_time_period in
     and_then (map_err (\<lambda>e. ConnectionError (ConnTimestampOverflow e))
         (timestamp_add (ext_time_add env) last_time conn_delay_time_period))
       (\<lambda>earliest_valid_time.
     if current_host_time < earliest_valid_time
     then Err (ConnectionError (NotEnoughTimeElapsed current_host_time earliest_valid_time))
     else let earliest_valid_height = height_add last_height conn_delay_height_period in
       if current_host_height < earliest_valid_height
       then Err (ConnectionError
         (NotEnoughBlocksElapsed current_host_height earliest_valid_height))
       else Ok ()))))"


section \<open>Proof verification shared by the handlers\<close>

text \<open>Reading a client for the verification of proofs: it must be active and have
  seen the height of the proof.\<close>

definition active_client_at ::
  "('cs, 'cons) client_ops \<Rightarrow> ('cs, 'cons) ibc_store \<Rightarrow> client_id \<Rightarrow> client_id \<Rightarrow> height
     \<Rightarrow> ('cs, context_error) result" where
  "active_client_at env ctx client_id status_id proof_height =
     and_then (client_state ctx client_id) (\<lambda>cs.
     and_then (map_err ClientError (cs_status env cs ctx status_id)) (\<lambda>status.
     and_then (map_err ClientError (verify_is_active status)) (\<lambda>_.
     and_then (map_err ClientError (cs_validate_proof_height env cs proof_height)) (\<lambda>_.
     Ok cs))))"

definition consensus_state_at ::
  "('cs, 'cons) ibc_store \<Rightarrow> client_id \<Rightarrow> height \<Rightarrow> ('cons, context_error) result" where
  "consensus_state_at ctx client_id h =
     consensus_state ctx
       (ClientConsensusStatePath client_id (revision_number h) (revision_height h))"

definition encode_connection_end :: "('cs, 'cons) client_ops \<Rightarrow> connection_end \<Rightarrow> bytes" where
  "encode_connection_end env c = ext_encode_connection_end env (connection_end_to_raw c)"


section \<open>Open init\<close>

definition conn_open_init_validate ::
  "('cs, 'cons) client_ops \<Rightarrow> ('cs, 'cons) ibc_store \<Rightarrow> msg_connection_open_init
     \<Rightarrow> (unit, context_error) result" where
  "conn_open_init_validate env ctx_a msg =
     and_then (validate_message_signer ctx_a (coi_signer msg)) (\<lambda>_.
     and_then (client_state ctx_a (coi_client_id_on_a msg)) (\<lambda>cs.
     and_then (map_err ClientError (cs_status env cs ctx_a (coi_client_id_on_a msg))) (\<lambda>status.
     and_then (map_err ClientError (verify_is_active status)) (\<lambda>_.
     case coi_version msg of
       Some ver \<Rightarrow>
         map_err ConnectionError (verify_is_supported ver (get_compatible_versions ctx_a))
     | None \<Rightarrow> Ok ()))))"

definition conn_open_init_execute ::
  "msg_connection_open_init \<Rightarrow> (('cs, 'cons) ibc_store, unit, context_error) exec" where
  "conn_open_init_execute msg =
     exec_bind (exec_read (\<lambda>ctx_a. case coi_version msg of
         Some ver \<Rightarrow> and_then (map_err ConnectionError
             (verify_is_supported ver (get_compatible_versions ctx_a))) (\<lambda>_. Ok [ver])
       | None \<Rightarrow> Ok (get_compatible_versions ctx_a))) (\<lambda>versions.
     exec_bind (exec_lift (map_err ConnectionError
         (connection_end_new ConnInit (coi_client_id_on_a msg)
            \<lparr>ccp_client_id = ccp_client_id (coi_counterparty msg), ccp_connection_id = None,
             ccp_prefix = ccp_prefix (coi_counterparty msg)\<rparr>
            versions (coi_delay_period msg)))) (\<lambda>conn_end_on_a.
     exec_bind (exec_read connection_counter) (\<lambda>counter.
     let conn_id_on_a = connection_id_new counter in
     exec_bind (log_message (''success: conn_open_init: generated new connection identifier: ''
         @ connection_id_str conn_id_on_a)) (\<lambda>_.
     exec_bind (emit_ibc_event (MessageEvent MsgConnection)) (\<lambda>_.
     exec_bind (emit_ibc_event (OpenInitConnection conn_id_on_a (coi_client_id_on_a msg)
         (ccp_client_id (coi_counterparty msg)))) (\<lambda>_.
     exec_bind increase_connection_counter (\<lambda>_.
     exec_bind (store_connection_to_client (ClientConnectionPath (coi_client_id_on_a msg))
         conn_id_on_a) (\<lambda>_.
     store_connection (ConnectionPath conn_id_on_a) conn_end_on_a))))))))"


section \<open>Open try\<close>

record conn_open_try_vars =
  cotv_conn_id_on_b :: connection_id
  cotv_conn_end_on_b :: connection_end
  cotv_client_id_on_a :: client_id
  cotv_conn_id_on_a :: connection_id

definition conn_open_try_vars_new ::
  "('cs, 'cons) ibc_store \<Rightarrow> msg_connection_open_try
     \<Rightarrow> (conn_open_try_vars, context_error) result" where
  "conn_open_try_vars_new ctx_b msg =
     and_then (ctx_pick_version ctx_b (cot_versions_on_a msg)) (\<lambda>version_on_b.
     and_then (connection_counter ctx_b) (\<lambda>counter.
     and_then (map_err ConnectionError (connection_end_new ConnTryOpen (cot_client_id_on_b msg)
         (cot_counterparty msg) [version_on_b] (cot_delay_period msg))) (\<lambda>conn_end_on_b.
     and_then (ok_or (ccp_connection_id (cot_counterparty msg))
         (ConnectionError ConnInvalidCounterparty)) (\<lambda>conn_id_on_a.
     Ok \<lparr>cotv_conn_id_on_b = connection_id_new counter, cotv_conn_end_on_b = conn_end_on_b,
         cotv_client_id_on_a = ccp_client_id (cot_counterparty msg),
         cotv_conn_id_on_a = conn_id_on_a\<rparr>))))"

definition conn_open_try_validate_impl ::
  "('cs, 'cons) client_ops \<Rightarrow> ('cs, 'cons) ibc_store \<Rightarrow> msg_connection_open_try
     \<Rightarrow> conn_open_try_vars \<Rightarrow> (unit, context_error) result" where
  "conn_open_try_validate_impl env ctx_b msg vars =
     and_then (validate_message_signer ctx_b (cot_signer msg)) (\<lambda>_.
     and_then (map_err ClientError (cs_try_from_any env (cot_client_state_of_b_on_a msg)))
       (\<lambda>client_state_of_b_on_a.
     and_then (validate_self_client env ctx_b client_state_of_b_on_a) (\<lambda>_.
     and_then (map_err (\<lambda>_. ConnectionError (OtherConnectionError ''failed to get host height''))
         (host_height ctx_b)) (\<lambda>host_h.
     if cot_consensus_height_of_b_on_a msg > host_h
     then Err (ConnectionError
       (InvalidConsensusHeight (cot_consensus_height_of_b_on_a msg) host_h))
     else
     let client_id_on_a = ccp_client_id (cot_counterparty msg) in
     and_then (active_client_at env ctx_b (ce_client_id (cotv_conn_end_on_b vars))
         (cot_client_id_on_b msg) (cot_proofs_height_on_a msg)) (\<lambda>client_state_of_a_on_b.
     and_then (consensus_state_at ctx_b (cot_client_id_on_b msg) (cot_proofs_height_on_a msg))
       (\<lambda>consensus_state_of_a_on_b.
     let prefix_on_a = ccp_prefix (ce_counterparty (cotv_conn_end_on_b vars));
         prefix_on_b = commitment_prefix ctx_b;
         root = cons_root env consensus_state_of_a_on_b in
     and_then (map_err ConnectionError (connection_end_new ConnInit client_id_on_a
         \<lparr>ccp_client_id = cot_client_id_on_b msg, ccp_connection_id = None,
          ccp_prefix = prefix_on_b\<rparr>
         (cot_versions_on_a msg) (cot_delay_period msg))) (\<lambda>expected_conn_end_on_a.
     and_then (map_err (\<lambda>e. ConnectionError (VerifyConnectionState e))
         (cs_verify_membership env client_state_of_a_on_b prefix_on_a
            (cot_proof_conn_end_on_a msg) root
            (Path_Connection (ConnectionPath (cotv_conn_id_on_a vars)))
            (encode_connection_end env expected_conn_end_on_a))) (\<lambda>_.
     and_then (map_err (\<lambda>e. ConnectionError
           (ClientStateVerificationFailure (cot_client_id_on_b msg) e))
         (cs_verify_membership env client_state_of_a_on_b prefix_on_a
            (cot_proof_client_state_of_b_on_a msg) root
            (Path_ClientState (ClientStatePath client_id_on_a))
            (ext_encode_any env (cot_client_state_of_b_on_a msg)))) (\<lambda>_.
     and_then (host_consensus_state ctx_b (cot_consensus_height_of_b_on_a msg))
       (\<lambda>expected_consensus_state_of_b_on_a.
     and_then (map_err ClientError (cons_to_any env expected_consensus_state_of_b_on_a))
       (\<lambda>expected_any.
     map_err (\<lambda>e. ConnectionError
         (ConsensusStateVerificationFailure (cot_proofs_height_on_a msg) e))
       (cs_verify_membership env client_state_of_a_on_b prefix_on_a
          (cot_proof_consensus_state_of_b_on_a msg) root
          (Path_ClientConsensusState (ClientConsensusStatePath client_id_on_a
             (revision_number (cot_consensus_height_of_b_on_a msg))
             (revision_height (cot_consensus_height_of_b_on_a msg))))
          (ext_encode_any env expected_any)))))))))))))"

definition conn_open_try_validate ::
  "('cs, 'cons) client_ops \<Rightarrow> ('cs, 'cons) ibc_store \<Rightarrow> msg_connection_open_try
     \<Rightarrow> (unit, context_error) result" where
  "conn_open_try_validate env ctx_b msg =
     and_then (conn_open_try_vars_new ctx_b msg) (\<lambda>vars.
     conn_open_try_validate_impl env ctx_b msg vars)"

definition conn_open_try_execute_impl ::
  "msg_connection_open_try \<Rightarrow> conn_open_try_vars
     \<Rightarrow> (('cs, 'cons) ibc_store, unit, context_error) exec" where
  "conn_open_try_execute_impl msg vars =
     exec_bind (exec_lift (ok_or (ccp_connection_id (ce_counterparty (cotv_conn_end_on_b vars)))
         (ConnectionError ConnInvalidCounterparty))) (\<lambda>conn_id_on_a.
     exec_bind (emit_ibc_event (MessageEvent MsgConnection)) (\<lambda>_.
     exec_bind (emit_ibc_event (OpenTryConnection (cotv_conn_id_on_b vars)
         (cot_client_id_on_b msg) conn_id_on_a (cotv_client_id_on_a vars))) (\<lambda>_.
     exec_bind (log_message ''success: conn_open_try verification passed'') (\<lambda>_.
     exec_bind increase_connection_counter (\<lambda>_.
     exec_bind (store_connection_to_client (ClientConnectionPath (cot_client_id_on_b msg))
         (cotv_conn_id_on_b vars)) (\<lambda>_.
     store_connection (ConnectionPath (cotv_conn_id_on_b vars)) (cotv_conn_end_on_b vars)))))))"

definition conn_open_try_execute ::
  "msg_connection_open_try \<Rightarrow> (('cs, 'cons) ibc_store, unit, context_error) exec" where
  "conn_open_try_execute msg =
     exec_bind (exec_read (\<lambda>ctx_b. conn_open_try_vars_new ctx_b msg)) (\<lambda>vars.
     conn_open_try_execute_impl msg vars)"


section \<open>Open ack\<close>

definition conn_open_ack_validate_impl ::
  "('cs, 'cons) client_ops \<Rightarrow> ('cs, 'cons) ibc_store \<Rightarrow> msg_connection_open_ack
     \<Rightarrow> connection_end \<Rightarrow> (unit, context_error) result" where
  "conn_open_ack_validate_impl env ctx_a msg conn_end_on_a = (
     let client_id_on_a = ce_client_id conn_end_on_a;
         client_id_on_b = ccp_client_id (ce_counterparty conn_end_on_a) in
     and_then (validate_message_signer ctx_a (coa_signer msg)) (\<lambda>_.
     and_then (map_err (\<lambda>_. ConnectionError (OtherConnectionError ''failed to get host height''))
         (host_height ctx_a)) (\<lambda>host_h.
     if coa_consensus_height_of_a_on_b msg > host_h
     then Err (ConnectionError
       (InvalidConsensusHeight (coa_consensus_height_of_a_on_b msg) host_h))
     else
     and_then (map_err ClientError (cs_try_from_any env (coa_client_state_of_a_on_b msg)))
       (\<lambda>client_state_of_a_on_b.
     and_then (validate_self_client env ctx_a client_state_of_a_on_b) (\<lambda>_.
     and_then (map_err ConnectionError
         (verify_is_supported (coa_version msg) (ce_versions conn_end_on_a))) (\<lambda>_.
     and_then (map_err ConnectionError (ce_verify_state_matches conn_end_on_a ConnInit)) (\<lambda>_.
     and_then (active_client_at env ctx_a client_id_on_a client_id_on_a
         (coa_proofs_height_on_b msg)) (\<lambda>client_state_of_b_on_a.
     and_then (consensus_state_at ctx_a client_id_on_a (coa_proofs_height_on_b msg))
       (\<lambda>consensus_state_of_b_on_a.
     let prefix_on_a = commitment_prefix ctx_a;
         prefix_on_b = ccp_prefix (ce_counterparty conn_end_on_a);
         root = cons_root env consensus_state_of_b_on_a in
     and_then (map_err ConnectionError (connection_end_new ConnTryOpen client_id_on_b
         \<lparr>ccp_client_id = client_id_on_a, ccp_connection_id = Some (coa_conn_id_on_a msg),
          ccp_prefix = prefix_on_a\<rparr>
         [coa_version msg] (ce_delay_period conn_end_on_a))) (\<lambda>expected_conn_end_on_b.
     and_then (map_err (\<lambda>e. ConnectionError (VerifyConnectionState e))
         (cs_verify_membership env client_state_of_b_on_a prefix_on_b
            (coa_proof_conn_end_on_b msg) root
            (Path_Connection (ConnectionPath (coa_conn_id_on_b msg)))
            (encode_connection_end env expected_conn_end_on_b))) (\<lambda>_.
     and_then (map_err (\<lambda>e. ConnectionError (ClientStateVerificationFailure client_id_on_b e))
         (cs_verify_membership env client_state_of_b_on_a prefix_on_b
            (coa_proof_client_state_of_a_on_b msg) root
            (Path_ClientState (ClientStatePath client_id_on_b))
            (ext_encode_any env (coa_client_state_of_a_on_b msg)))) (\<lambda>_.
     and_then (host_consensus_state ctx_a (coa_consensus_height_of_a_on_b msg))
       (\<lambda>expected_consensus_state_of_a_on_b.
     and_then (map_err ClientError (cons_to_any env expected_consensus_state_of_a_on_b))
       (\<lambda>expected_any.
     map_err (\<lambda>e. ConnectionError
         (ConsensusStateVerificationFailure (coa_proofs_height_on_b msg) e))
       (cs_verify_membership env client_state_of_b_on_a prefix_on_b
          (coa_proof_consensus_state_of_a_on_b msg) root
          (Path_ClientConsensusState (ClientConsensusStatePath client_id_on_b
             (revision_number (coa_consensus_height_of_a_on_b msg))
             (revision_height (coa_consensus_height_of_a_on_b msg))))
          (ext_encode_any env expected_any))))))))))))))))"

definition conn_open_ack_validate ::
  "('cs, 'cons) client_ops \<Rightarrow> ('cs, 'cons) ibc_store \<Rightarrow> msg_connection_open_ack
     \<Rightarrow> (unit, context_error) result" where
  "conn_open_ack_validate env ctx_a msg =
     and_then (connection_end ctx_a (coa_conn_id_on_a msg)) (\<lambda>conn_end_on_a.
     conn_open_ack_validate_impl env ctx_a msg conn_end_on_a)"

definition conn_open_ack_execute ::
  "msg_connection_open_ack \<Rightarrow> (('cs, 'cons) ibc_store, unit, context_error) exec" where
  "conn_open_ack_execute msg =
     exec_bind (exec_read (\<lambda>ctx_a. connection_end ctx_a (coa_conn_id_on_a msg)))
       (\<lambda>conn_end_on_a.
     exec_bind (emit_ibc_event (MessageEvent MsgConnection)) (\<lambda>_.
     exec_bind (emit_ibc_event (OpenAckConnection (coa_conn_id_on_a msg)
         (ce_client_id conn_end_on_a) (coa_conn_id_on_b msg)
         (ccp_client_id (ce_counterparty conn_end_on_a)))) (\<lambda>_.
     exec_bind (log_message ''success: conn_open_ack verification passed'') (\<lambda>_.
     let counterparty =
           (ce_counterparty conn_end_on_a)\<lparr>ccp_connection_id := Some (coa_conn_id_on_b msg)\<rparr>;
         new_conn_end_on_a = ce_set_counterparty counterparty
           (ce_set_version (coa_version msg) (ce_set_state ConnOpen conn_end_on_a)) in
     store_connection (ConnectionPath (coa_conn_id_on_a msg)) new_conn_end_on_a))))"


section \<open>Open confirm\<close>

definition coc_conn_id_on_a :: "connection_end \<Rightarrow> (connection_id, context_error) result" where
  "coc_conn_id_on_a conn_end_on_b =
     ok_or (ccp_connection_id (ce_counterparty conn_end_on_b))
       (ConnectionError ConnInvalidCounterparty)"

definition conn_open_confirm_validate_impl ::
  "('cs, 'cons) client_ops \<Rightarrow> ('cs, 'cons) ibc_store \<Rightarrow> msg_connection_open_confirm
     \<Rightarrow> connection_end \<Rightarrow> (unit, context_error) result" where
  "conn_open_confirm_validate_impl env ctx_b msg conn_end_on_b =
     and_then (validate_message_signer ctx_b (coc_signer msg)) (\<lambda>_.
     and_then (map_err ConnectionError (ce_verify_state_matches conn_end_on_b ConnTryOpen)) (\<lambda>_.
     let client_id_on_a = ccp_client_id (ce_counterparty conn_end_on_b);
         client_id_on_b = ce_client_id conn_end_on_b in
     and_then (coc_conn_id_on_a conn_end_on_b) (\<lambda>conn_id_on_a.
     and_then (active_client_at env ctx_b client_id_on_b client_id_on_b
         (coc_proof_height_on_a msg)) (\<lambda>client_state_of_a_on_b.
     and_then (consensus_state_at ctx_b client_id_on_b (coc_proof_height_on_a msg))
       (\<lambda>consensus_state_of_a_on_b.
     let prefix_on_a = ccp_prefix (ce_counterparty conn_end_on_b);
         prefix_on_b = commitment_prefix ctx_b in
     and_then (map_err ConnectionError (connection_end_new ConnOpen client_id_on_a
         \<lparr>ccp_client_id = client_id_on_b, ccp_connection_id = Some (coc_conn_id_on_b msg),
          ccp_prefix = prefix_on_b\<rparr>
         (ce_versions conn_end_on_b) (ce_delay_period conn_end_on_b)))
       (\<lambda>expected_conn_end_on_a.
     map_err (\<lambda>e. ConnectionError (VerifyConnectionState e))
       (cs_verify_membership env client_state_of_a_on_b prefix_on_a
          (coc_proof_conn_end_on_a msg) (cons_root env consensus_state_of_a_on_b)
          (Path_Connection (ConnectionPath conn_id_on_a))
          (encode_connection_end env expected_conn_end_on_a))))))))"

definition conn_open_confirm_validate ::
  "('cs, 'cons) client_ops \<Rightarrow> ('cs, 'cons) ibc_store \<Rightarrow> msg_connection_open_confirm
     \<Rightarrow> (unit, context_error) result" where
  "conn_open_confirm_validate env ctx_b msg =
     and_then (connection_end ctx_b (coc_conn_id_on_b msg)) (\<lambda>conn_end_on_b.
     conn_open_confirm_validate_impl env ctx_b msg conn_end_on_b)"

definition conn_open_confirm_execute ::
  "msg_connection_open_confirm \<Rightarrow> (('cs, 'cons) ibc_store, unit, context_error) exec" where
  "conn_open_confirm_execute msg =
     exec_bind (exec_read (\<lambda>ctx_b. connection_end ctx_b (coc_conn_id_on_b msg)))
       (\<lambda>conn_end_on_b.
     exec_bind (exec_lift (coc_conn_id_on_a conn_end_on_b)) (\<lambda>conn_id_on_a.
     exec_bind (emit_ibc_event (MessageEvent MsgConnection)) (\<lambda>_.
     exec_bind (emit_ibc_event (OpenConfirmConnection (coc_conn_id_on_b msg)
         (ce_client_id conn_end_on_b) conn_id_on_a
         (ccp_client_id (ce_counterparty conn_end_on_b)))) (\<lambda>_.
     exec_bind (log_message ''success: conn_open_confirm verification passed'') (\<lambda>_.
     store_connection (ConnectionPath (coc_conn_id_on_b msg))
       (ce_set_state ConnOpen conn_end_on_b))))))"


section \<open>Lemmas\<close>

lemma connection_end_new_Ok_iff [result_simps]:
  "connection_end_new st cid cp vs d = Ok c \<longleftrightarrow> (st = ConnInit \<or> length vs = 1)
     \<and> c = \<lparr>ce_state = st, ce_client_id = cid, ce_counterparty = cp, ce_versions = vs,
            ce_delay_period = d\<rparr>"
  by (auto simp: connection_end_new_def)

lemma active_client_at_Ok_iff [result_simps]:
  "active_client_at env ctx cid sid h = Ok cs \<longleftrightarrow>
     client_state_store ctx (ClientStatePath cid) = Some cs
     \<and> cs_status env cs ctx sid = Ok Active \<and> cs_validate_proof_height env cs h = Ok ()"
  by (auto simp: active_client_at_def result_simps store_reads)

text \<open>The delay of a connection has passed exactly when enough time and enough blocks
  have passed since the client learnt the height of the proof.\<close>

lemma verify_conn_delay_passed_Ok_iff:
  "verify_conn_delay_passed env ctx h conn_end = Ok u \<longleftrightarrow>
     (\<exists>now now_h t0 h0 earliest.
        host_timestamp env ctx = Ok now \<and> host_height ctx = Ok now_h
        \<and> client_update_meta ctx (ce_client_id conn_end) h = Ok (t0, h0)
        \<and> timestamp_add (ext_time_add env) t0 (ce_delay_period conn_end) = Ok earliest
        \<and> earliest \<le> now \<and> height_add h0 (block_delay ctx (ce_delay_period conn_end)) \<le> now_h)"
  by (auto simp: verify_conn_delay_passed_def result_simps Let_def not_less split: if_splits) blast

lemma conn_open_init_execute_OkD:
  assumes "conn_open_init_execute msg s = (Ok (), s')"
  shows "\<exists>n vs. conn_counter_store s = Some n
    \<and> vs = (case coi_version msg of Some v \<Rightarrow> [v] | None \<Rightarrow> version_compatibles)
    \<and> s' = s\<lparr>
        connection_end_store := (connection_end_store s)(ConnectionPath (connection_id_new n) \<mapsto>
          \<lparr>ce_state = ConnInit, ce_client_id = coi_client_id_on_a msg,
           ce_counterparty = (coi_counterparty msg)\<lparr>ccp_connection_id := None\<rparr>,
           ce_versions = vs, ce_delay_period = coi_delay_period msg\<rparr>),
        conn_counter_store := Some (n + 1),
        connection_ids_store := (connection_ids_store s)
          (ClientConnectionPath (coi_client_id_on_a msg) \<mapsto>
             (case connection_ids_store s (ClientConnectionPath (coi_client_id_on_a msg)) of
                Some ids \<Rightarrow> ids | None \<Rightarrow> []) @ [connection_id_new n]),
        events := events s @ [MessageEvent MsgConnection, OpenInitConnection (connection_id_new n)
          (coi_client_id_on_a msg) (ccp_client_id (coi_counterparty msg))],
        logs := logs s @ [''success: conn_open_init: generated new connection identifier: ''
          @ connection_id_str (connection_id_new n)]\<rparr>"
  using assms
  by (cases "coi_counterparty msg")
    (auto simp: conn_open_init_execute_def result_simps Let_def store_reads store_writes
      get_compatible_versions_def split: option.splits)

lemma conn_open_try_vars_OkD:
  assumes "conn_open_try_vars_new s msg = Ok vars"
  shows "\<exists>n v. conn_counter_store s = Some n
    \<and> pick_version version_compatibles (cot_versions_on_a msg) = Ok v
    \<and> ccp_connection_id (cot_counterparty msg) = Some (cotv_conn_id_on_a vars)
    \<and> cotv_conn_id_on_b vars = connection_id_new n
    \<and> cotv_client_id_on_a vars = ccp_client_id (cot_counterparty msg)
    \<and> cotv_conn_end_on_b vars =
        \<lparr>ce_state = ConnTryOpen, ce_client_id = cot_client_id_on_b msg,
         ce_counterparty = cot_counterparty msg, ce_versions = [v],
         ce_delay_period = cot_delay_period msg\<rparr>"
  using assms
  by (auto simp: conn_open_try_vars_new_def result_simps store_reads ctx_pick_version_def
      get_compatible_versions_def)

lemma conn_open_try_execute_OkD:
  assumes "conn_open_try_execute msg s = (Ok (), s')"
  shows "\<exists>n v conn_id_on_a. conn_counter_store s = Some n
    \<and> pick_version version_compatibles (cot_versions_on_a msg) = Ok v
    \<and> ccp_connection_id (cot_counterparty msg) = Some conn_id_on_a
    \<and> s' = s\<lparr>
        connection_end_store := (connection_end_store s)(ConnectionPath (connection_id_new n) \<mapsto>
          \<lparr>ce_state = ConnTryOpen, ce_client_id = cot_client_id_on_b msg,
           ce_counterparty = cot_counterparty msg, ce_versions = [v],
           ce_delay_period = cot_delay_period msg\<rparr>),
        conn_counter_store := Some (n + 1),
        connection_ids_store := (connection_ids_store s)
          (ClientConnectionPath (cot_client_id_on_b msg) \<mapsto>
             (case connection_ids_store s (ClientConnectionPath (cot_client_id_on_b msg)) of
                Some ids \<Rightarrow> ids | None \<Rightarrow> []) @ [connection_id_new n]),
        events := events s @ [MessageEvent MsgConnection, OpenTryConnection (connection_id_new n)
          (cot_client_id_on_b msg) conn_id_on_a (ccp_client_id (cot_counterparty msg))],
        logs := logs s @ [''success: conn_open_try verification passed'']\<rparr>"
  using assms
  by (auto simp: conn_open_try_execute_def conn_open_try_execute_impl_def result_simps Let_def
      store_reads store_writes dest!: conn_open_try_vars_OkD)

lemma conn_open_ack_execute_OkD:
  assumes "conn_open_ack_execute msg s = (Ok (), s')"
  shows "\<exists>c. connection_end_store s (ConnectionPath (coa_conn_id_on_a msg)) = Some c
    \<and> s' = s\<lparr>
        connection_end_store := (connection_end_store s)(ConnectionPath (coa_conn_id_on_a msg) \<mapsto>
          c\<lparr>ce_state := ConnOpen, ce_versions := [coa_version msg],
            ce_counterparty := (ce_counterparty c)
              \<lparr>ccp_connection_id := Some (coa_conn_id_on_b msg)\<rparr>\<rparr>),
        events := events s @ [MessageEvent MsgConnection, OpenAckConnection (coa_conn_id_on_a msg)
          (ce_client_id c) (coa_conn_id_on_b msg) (ccp_client_id (ce_counterparty c))],
        logs := logs s @ [''success: conn_open_ack verification passed'']\<rparr>"
  using assms
  by (auto simp: conn_open_ack_execute_def result_simps Let_def store_reads store_writes
      ce_set_state_def ce_set_version_def ce_set_counterparty_def)

lemma conn_open_confirm_execute_OkD:
  assumes "conn_open_confirm_execute msg s = (Ok (), s')"
  shows "\<exists>c conn_id_on_a. connection_end_store s (ConnectionPath (coc_conn_id_on_b msg)) = Some c
    \<and> ccp_connection_id (ce_counterparty c) = Some conn_id_on_a
    \<and> s' = s\<lparr>
        connection_end_store := (connection_end_store s)(ConnectionPath (coc_conn_id_on_b msg) \<mapsto>
          c\<lparr>ce_state := ConnOpen\<rparr>),
        events := events s @ [MessageEvent MsgConnection, OpenConfirmConnection
          (coc_conn_id_on_b msg) (ce_client_id c) conn_id_on_a (ccp_client_id (ce_counterparty c))],
        logs := logs s @ [''success: conn_open_confirm verification passed'']\<rparr>"
  using assms
  by (auto simp: conn_open_confirm_execute_def coc_conn_id_on_a_def result_simps Let_def
      store_reads store_writes ce_set_state_def)

end
