(* ===== verification/Channel_Handlers.thy ===== *)
theory Channel_Handlers
  imports Connection_Handlers
begin

text \<open>
  The channel handshake of ICS-04 (\<open>ibc-core/ics04-channel/src/handler/chan_*.rs\<close>):
  the six messages that open and close a channel.  The execution steps run on the
  store and the state of the application module, which the Rust code borrows
  separately.
\<close>

type_synonym ('cs, 'cons, 'm) host = "('cs, 'cons) ibc_store \<times> 'm"

section \<open>Shared parts\<close>

definition encode_channel_end :: "('cs, 'cons) client_ops \<Rightarrow> channel_end \<Rightarrow> bytes" where
  "encode_channel_end env c = ext_encode_channel_end env (channel_end_to_raw c)"

text \<open>The two loops that end a handler: module events, then module logs.\<close>

definition emit_module_extras ::
  "module_extras \<Rightarrow> (('cs, 'cons) ibc_store, unit, context_error) exec" where
  "emit_module_extras extras =
     exec_bind (exec_for (extras_events extras) (\<lambda>module_event.
       emit_ibc_event (ModuleEvent module_event))) (\<lambda>_.
     exec_for (extras_log extras) log_message)"

text \<open>The sequence numbers of a new channel start at one.\<close>

definition store_initial_sequences ::
  "port_id \<Rightarrow> channel_id \<Rightarrow> (('cs, 'cons) ibc_store, unit, context_error) exec" where
  "store_initial_sequences port_id chan_id =
     exec_bind (store_next_sequence_send (SeqSendPath port_id chan_id) 1) (\<lambda>_.
     exec_bind (store_next_sequence_recv (SeqRecvPath port_id chan_id) 1) (\<lambda>_.
     store_next_sequence_ack (SeqAckPath port_id chan_id) 1))"

text \<open>The client behind a connection must be active.\<close>

definition client_is_active ::
  "('cs, 'cons) client_ops \<Rightarrow> ('cs, 'cons) ibc_store \<Rightarrow> client_id \<Rightarrow> ('cs, context_error) result" where
  "client_is_active env ctx client_id =
     and_then (client_state ctx client_id) (\<lambda>cs.
     and_then (map_err ClientError (cs_status env cs ctx client_id)) (\<lambda>status.
     and_then (map_err ClientError (verify_is_active status)) (\<lambda>_. Ok cs)))"

text \<open>Verification of the proof that the counterparty stores the expected channel
  end.\<close>

definition verify_channel_end ::
  "('cs, 'cons) client_ops \<Rightarrow> 'cs \<Rightarrow> 'cons \<Rightarrow> connection_end \<Rightarrow> commitment_proof_bytes
     \<Rightarrow> channel_end_path \<Rightarrow> channel_end \<Rightarrow> (unit, channel_error) result" where
  "verify_channel_end env cs cons conn_end proof p expected =
     map_err VerifyChannelFailed
       (cs_verify_membership env cs (ccp_prefix (ce_counterparty conn_end)) proof
          (cons_root env cons) (Path_ChannelEnd p) (encode_channel_end env expected))"


section \<open>Open init\<close>

definition chan_open_init_validate_core ::
  "('cs, 'cons) client_ops \<Rightarrow> ('cs, 'cons) ibc_store \<Rightarrow> msg_channel_open_init
     \<Rightarrow> (unit, context_error) result" where
  "chan_open_init_validate_core env ctx_a msg =
     and_then (validate_message_signer ctx_a (hoi_signer msg)) (\<lambda>_.
     and_then (map_err ChannelError
         (verify_connection_hops_length (hoi_connection_hops_on_a msg) 1)) (\<lambda>_.
     and_then (index_res (hoi_connection_hops_on_a msg) 0) (\<lambda>conn_id_on_a.
     and_then (connection_end ctx_a conn_id_on_a) (\<lambda>conn_end_on_a.
     and_then (client_is_active env ctx_a (ce_client_id conn_end_on_a)) (\<lambda>_.
     and_then (index_res (ce_versions conn_end_on_a) 0) (\<lambda>conn_version.
     map_err ConnectionError
       (verify_feature_supported conn_version (order_as_str (hoi_ordering msg)))))))))"

definition chan_open_init_validate ::
  "('cs, 'cons) client_ops \<Rightarrow> 'm module_ops \<Rightarrow> ('cs, 'cons) ibc_store \<Rightarrow> 'm
     \<Rightarrow> msg_channel_open_init \<Rightarrow> (unit, context_error) result" where
  "chan_open_init_validate env mops ctx_a module msg =
     and_then (chan_open_init_validate_core env ctx_a msg) (\<lambda>_.
     and_then (channel_counter ctx_a) (\<lambda>counter.
     and_then (map_err ChannelError (on_chan_open_init_validate mops (hoi_ordering msg)
         (hoi_connection_hops_on_a msg) (hoi_port_id_on_a msg) (channel_id_new counter)
         \<lparr>hcp_port_id = hoi_port_id_on_b msg, hcp_channel_id = None\<rparr>
         (hoi_version_proposal msg) module)) (\<lambda>_.
     Ok ())))"

definition chan_open_init_execute ::
  "'m module_ops \<Rightarrow> msg_channel_open_init
     \<Rightarrow> (('cs, 'cons, 'm) host, unit, context_error) exec" where
  "chan_open_init_execute mops msg =
     exec_bind (exec_fst (exec_read channel_counter)) (\<lambda>counter.
     let chan_id_on_a = channel_id_new counter in
     exec_bind (exec_snd (exec_map_err ChannelError (on_chan_open_init_execute mops
         (hoi_ordering msg) (hoi_connection_hops_on_a msg) (hoi_port_id_on_a msg) chan_id_on_a
         \<lparr>hcp_port_id = hoi_port_id_on_b msg, hcp_channel_id = None\<rparr>
         (hoi_version_proposal msg)))) (\<lambda>(extras, ver).
     exec_bind (exec_lift (index_res (hoi_connection_hops_on_a msg) 0)) (\<lambda>conn_id_on_a.
     exec_bind (exec_lift (map_err ChannelError (channel_end_new Init (hoi_ordering msg)
         \<lparr>hcp_port_id = hoi_port_id_on_b msg, hcp_channel_id = None\<rparr>
         (hoi_connection_hops_on_a msg) (hoi_version_proposal msg)))) (\<lambda>chan_end_on_a.
     exec_fst (
     exec_bind (store_channel (ChannelEndPath (hoi_port_id_on_a msg) chan_id_on_a) chan_end_on_a)
       (\<lambda>_.
     exec_bind increase_channel_counter (\<lambda>_.
     exec_bind (store_initial_sequences (hoi_port_id_on_a msg) chan_id_on_a) (\<lambda>_.
     exec_bind (log_message (''success: channel open init with channel identifier: ''
         @ channel_id_str chan_id_on_a)) (\<lambda>_.
     exec_bind (emit_ibc_event (MessageEvent MsgChannel)) (\<lambda>_.
     exec_bind (emit_ibc_event (OpenInitChannel (hoi_port_id_on_a msg) chan_id_on_a
         (hoi_port_id_on_b msg) conn_id_on_a ver)) (\<lambda>_.
     emit_module_extras extras)))))))))))"


section \<open>Open try\<close>

definition chan_open_try_validate_core ::
  "('cs, 'cons) client_ops \<Rightarrow> ('cs, 'cons) ibc_store \<Rightarrow> msg_channel_open_try
     \<Rightarrow> (unit, context_error) result" where
  "chan_open_try_validate_core env ctx_b msg =
     and_then (validate_message_signer ctx_b (hot_signer msg)) (\<lambda>_.
     and_then (map_err ChannelError
         (verify_connection_hops_length (hot_connection_hops_on_b msg) 1)) (\<lambda>_.
     and_then (index_res (hot_connection_hops_on_b msg) 0) (\<lambda>conn_id_on_b.
     and_then (connection_end ctx_b conn_id_on_b) (\<lambda>conn_end_on_b.
     and_then (map_err ConnectionError (ce_verify_state_matches conn_end_on_b ConnOpen)) (\<lambda>_.
     and_then (index_res (ce_versions conn_end_on_b) 0) (\<lambda>conn_version.
     and_then (map_err ConnectionError
         (verify_feature_supported conn_version (order_as_str (hot_ordering msg)))) (\<lambda>_.
     let client_id_on_b = ce_client_id conn_end_on_b in
     and_then (active_client_at env ctx_b client_id_on_b client_id_on_b
         (hot_proof_height_on_a msg)) (\<lambda>client_state_of_a_on_b.
     and_then (consensus_state_at ctx_b client_id_on_b (hot_proof_height_on_a msg))
       (\<lambda>consensus_state_of_a_on_b.
     and_then (ok_or (ccp_connection_id (ce_counterparty conn_end_on_b))
         (ChannelError (ChanUndefinedConnectionCounterparty conn_id_on_b))) (\<lambda>conn_id_on_a.
     and_then (map_err ChannelError (channel_end_new Init (hot_ordering msg)
         \<lparr>hcp_port_id = hot_port_id_on_b msg, hcp_channel_id = None\<rparr>
         [conn_id_on_a] (hot_version_supported_on_a msg))) (\<lambda>expected_chan_end_on_a.
     map_err ChannelError (verify_channel_end env client_state_of_a_on_b consensus_state_of_a_on_b
       conn_end_on_b (hot_proof_chan_end_on_a msg)
       (ChannelEndPath (hot_port_id_on_a msg) (hot_chan_id_on_a msg))
       expected_chan_end_on_a))))))))))))"

definition chan_open_try_validate ::
  "('cs, 'cons) client_ops \<Rightarrow> 'm module_ops \<Rightarrow> ('cs, 'cons) ibc_store \<Rightarrow> 'm
     \<Rightarrow> msg_channel_open_try \<Rightarrow> (unit, context_error) result" where
  "chan_open_try_validate env mops ctx_b module msg =
     and_then (chan_open_try_validate_core env ctx_b msg) (\<lambda>_.
     and_then (channel_counter ctx_b) (\<lambda>counter.
     and_then (map_err ChannelError (on_chan_open_try_validate mops (hot_ordering msg)
         (hot_connection_hops_on_b msg) (hot_port_id_on_b msg) (channel_id_new counter)
         \<lparr>hcp_port_id = hot_port_id_on_a msg, hcp_channel_id = Some (hot_chan_id_on_a msg)\<rparr>
         (hot_version_supported_on_a msg) module)) (\<lambda>_.
     Ok ())))"

definition chan_open_try_execute ::
  "'m module_ops \<Rightarrow> msg_channel_open_try
     \<Rightarrow> (('cs, 'cons, 'm) host, unit, context_error) exec" where
  "chan_open_try_execute mops msg =
     exec_bind (exec_fst (exec_read channel_counter)) (\<lambda>counter.
     let chan_id_on_b = channel_id_new counter;
         counterparty = \<lparr>hcp_port_id = hot_port_id_on_a msg,
                         hcp_channel_id = Some (hot_chan_id_on_a msg)\<rparr> in
     exec_bind (exec_snd (exec_map_err ChannelError (on_chan_open_try_execute mops
         (hot_ordering msg) (hot_connection_hops_on_b msg) (hot_port_id_on_b msg) chan_id_on_b
         counterparty (hot_version_supported_on_a msg)))) (\<lambda>(extras, ver).
     exec_bind (exec_lift (index_res (hot_connection_hops_on_b msg) 0)) (\<lambda>conn_id_on_b.
     exec_bind (exec_lift (map_err ChannelError (channel_end_new TryOpen (hot_ordering msg)
         counterparty (hot_connection_hops_on_b msg) ver))) (\<lambda>chan_end_on_b.
     exec_fst (
     exec_bind (store_channel (ChannelEndPath (hot_port_id_on_b msg) chan_id_on_b) chan_end_on_b)
       (\<lambda>_.
     exec_bind increase_channel_counter (\<lambda>_.
     exec_bind (store_initial_sequences (hot_port_id_on_b msg) chan_id_on_b) (\<lambda>_.
     exec_bind (log_message (''success: channel open try with channel identifier: ''
         @ channel_id_str chan_id_on_b)) (\<lambda>_.
     exec_bind (emit_ibc_event (MessageEvent MsgChannel)) (\<lambda>_.
     exec_bind (emit_ibc_event (OpenTryChannel (hot_port_id_on_b msg) chan_id_on_b
         (hot_port_id_on_a msg) (hot_chan_id_on_a msg) conn_id_on_b ver)) (\<lambda>_.
     emit_module_extras extras)))))))))))"


section \<open>Open ack\<close>

definition chan_open_ack_validate_core ::
  "('cs, 'cons) client_ops \<Rightarrow> ('cs, 'cons) ibc_store \<Rightarrow> msg_channel_open_ack
     \<Rightarrow> (unit, context_error) result" where
  "chan_open_ack_validate_core env ctx_a msg =
     and_then (validate_message_signer ctx_a (hoa_signer msg)) (\<lambda>_.
     and_then (channel_end ctx_a (ChannelEndPath (hoa_port_id_on_a msg) (hoa_chan_id_on_a msg)))
       (\<lambda>chan_end_on_a.
     and_then (map_err ChannelError (ch_verify_state_matches chan_end_on_a Init)) (\<lambda>_.
     and_then (map_err ChannelError (ch_verify_connection_hops_length chan_end_on_a)) (\<lambda>_.
     and_then (index_res (ch_connection_hops chan_end_on_a) 0) (\<lambda>conn_id_on_a.
     and_then (connection_end ctx_a conn_id_on_a) (\<lambda>conn_end_on_a.
     and_then (map_err ConnectionError (ce_verify_state_matches conn_end_on_a ConnOpen)) (\<lambda>_.
     let client_id_on_a = ce_client_id conn_end_on_a in
     and_then (active_client_at env ctx_a client_id_on_a client_id_on_a
         (hoa_proof_height_on_b msg)) (\<lambda>client_state_of_b_on_a.
     and_then (consensus_state_at ctx_a client_id_on_a (hoa_proof_height_on_b msg))
       (\<lambda>consensus_state_of_b_on_a.
     let port_id_on_b = hcp_port_id (ch_remote chan_end_on_a) in
     and_then (ok_or (ccp_connection_id (ce_counterparty conn_end_on_a))
         (ChannelError (ChanUndefinedConnectionCounterparty conn_id_on_a))) (\<lambda>conn_id_on_b.
     and_then (map_err ChannelError (channel_end_new TryOpen (ch_ordering chan_end_on_a)
         \<lparr>hcp_port_id = hoa_port_id_on_a msg, hcp_channel_id = Some (hoa_chan_id_on_a msg)\<rparr>
         [conn_id_on_b] (hoa_version_on_b msg))) (\<lambda>expected_chan_end_on_b.
     map_err ChannelError (verify_channel_end env client_state_of_b_on_a consensus_state_of_b_on_a
       conn_end_on_a (hoa_proof_chan_end_on_b msg)
       (ChannelEndPath port_id_on_b (hoa_chan_id_on_b msg))
       expected_chan_end_on_b))))))))))))"

definition chan_open_ack_validate ::
  "('cs, 'cons) client_ops \<Rightarrow> 'm module_ops \<Rightarrow> ('cs, 'cons) ibc_store \<Rightarrow> 'm
     \<Rightarrow> msg_channel_open_ack \<Rightarrow> (unit, context_error) result" where
  "chan_open_ack_validate env mops ctx_a module msg =
     and_then (chan_open_ack_validate_core env ctx_a msg) (\<lambda>_.
     map_err ChannelError (on_chan_open_ack_validate mops (hoa_port_id_on_a msg)
       (hoa_chan_id_on_a msg) (hoa_version_on_b msg) module))"

definition chan_open_ack_execute ::
  "'m module_ops \<Rightarrow> msg_channel_open_ack
     \<Rightarrow> (('cs, 'cons, 'm) host, unit, context_error) exec" where
  "chan_open_ack_execute mops msg = (
     let chan_end_path_on_a = ChannelEndPath (hoa_port_id_on_a msg) (hoa_chan_id_on_a msg) in
     exec_bind (exec_snd (exec_map_err ChannelError (on_chan_open_ack_execute mops
         (hoa_port_id_on_a msg) (hoa_chan_id_on_a msg) (hoa_version_on_b msg)))) (\<lambda>extras.
     exec_fst (
     exec_bind (exec_read (\<lambda>ctx_a. channel_end ctx_a chan_end_path_on_a)) (\<lambda>chan_end_on_a.
     exec_bind (store_channel chan_end_path_on_a
         (ch_set_counterparty_channel_id (hoa_chan_id_on_b msg)
           (ch_set_version (hoa_version_on_b msg) (ch_set_state Open chan_end_on_a)))) (\<lambda>_.
     exec_bind (log_message ''success: channel open ack'') (\<lambda>_.
     exec_bind (exec_lift (index_res (ch_connection_hops chan_end_on_a) 0)) (\<lambda>conn_id_on_a.
     exec_bind (emit_ibc_event (MessageEvent MsgChannel)) (\<lambda>_.
     exec_bind (emit_ibc_event (OpenAckChannel (hoa_port_id_on_a msg) (hoa_chan_id_on_a msg)
         (hcp_port_id (ch_remote chan_end_on_a)) (hoa_chan_id_on_b msg) conn_id_on_a)) (\<lambda>_.
     emit_module_extras extras)))))))))"


section \<open>Open confirm\<close>

definition chan_open_confirm_validate_core ::
  "('cs, 'cons) client_ops \<Rightarrow> ('cs, 'cons) ibc_store \<Rightarrow> msg_channel_open_confirm
     \<Rightarrow> (unit, context_error) result" where
  "chan_open_confirm_validate_core env ctx_b msg =
     and_then (validate_message_signer ctx_b (hoc_signer msg)) (\<lambda>_.
     and_then (channel_end ctx_b (ChannelEndPath (hoc_port_id_on_b msg) (hoc_chan_id_on_b msg)))
       (\<lambda>chan_end_on_b.
     and_then (map_err ChannelError (ch_verify_state_matches chan_end_on_b TryOpen)) (\<lambda>_.
     and_then (map_err ChannelError (ch_verify_connection_hops_length chan_end_on_b)) (\<lambda>_.
     and_then (index_res (ch_connection_hops chan_end_on_b) 0) (\<lambda>conn_id_on_b.
     and_then (connection_end ctx_b conn_id_on_b) (\<lambda>conn_end_on_b.
     and_then (map_err ConnectionError (ce_verify_state_matches conn_end_on_b ConnOpen)) (\<lambda>_.
     let client_id_on_b = ce_client_id conn_end_on_b in
     and_then (active_client_at env ctx_b client_id_on_b client_id_on_b
         (hoc_proof_height_on_a msg)) (\<lambda>client_state_of_a_on_b.
     and_then (consensus_state_at ctx_b client_id_on_b (hoc_proof_height_on_a msg))
       (\<lambda>consensus_state_of_a_on_b.
     let port_id_on_a = hcp_port_id (ch_remote chan_end_on_b) in
     and_then (ok_or (hcp_channel_id (ch_remote chan_end_on_b))
         (ChannelError ChanMissingCounterparty)) (\<lambda>chan_id_on_a.
     and_then (ok_or (ccp_connection_id (ce_counterparty conn_end_on_b))
         (ChannelError (ChanUndefinedConnectionCounterparty conn_id_on_b))) (\<lambda>conn_id_on_a.
     and_then (map_err ChannelError (channel_end_new Open (ch_ordering chan_end_on_b)
         \<lparr>hcp_port_id = hoc_port_id_on_b msg, hcp_channel_id = Some (hoc_chan_id_on_b msg)\<rparr>
         [conn_id_on_a] (ch_version chan_end_on_b))) (\<lambda>expected_chan_end_on_a.
     map_err ChannelError (verify_channel_end env client_state_of_a_on_b consensus_state_of_a_on_b
       conn_end_on_b (hoc_proof_chan_end_on_a msg) (ChannelEndPath port_id_on_a chan_id_on_a)
       expected_chan_end_on_a)))))))))))))"

definition chan_open_confirm_validate ::
  "('cs, 'cons) client_ops \<Rightarrow> 'm module_ops \<Rightarrow> ('cs, 'cons) ibc_store \<Rightarrow> 'm
     \<Rightarrow> msg_channel_open_confirm \<Rightarrow> (unit, context_error) result" where
  "chan_open_confirm_validate env mops ctx_b module msg =
     and_then (chan_open_confirm_validate_core env ctx_b msg) (\<lambda>_.
     map_err ChannelError (on_chan_open_confirm_validate mops (hoc_port_id_on_b msg)
       (hoc_chan_id_on_b msg) module))"

definition chan_open_confirm_execute ::
  "'m module_ops \<Rightarrow> msg_channel_open_confirm
     \<Rightarrow> (('cs, 'cons, 'm) host, unit, context_error) exec" where
  "chan_open_confirm_execute mops msg = (
     let chan_end_path_on_b = ChannelEndPath (hoc_port_id_on_b msg) (hoc_chan_id_on_b msg) in
     exec_bind (exec_snd (exec_map_err ChannelError (on_chan_open_confirm_execute mops
         (hoc_port_id_on_b msg) (hoc_chan_id_on_b msg)))) (\<lambda>extras.
     exec_fst (
     exec_bind (exec_read (\<lambda>ctx_b. channel_end ctx_b chan_end_path_on_b)) (\<lambda>chan_end_on_b.
     exec_bind (store_channel chan_end_path_on_b (ch_set_state Open chan_end_on_b)) (\<lambda>_.
     exec_bind (log_message ''success: channel open confirm'') (\<lambda>_.
     exec_bind (exec_lift (index_res (ch_connection_hops chan_end_on_b) 0)) (\<lambda>conn_id_on_b.
     exec_bind (exec_lift (ok_or (hcp_channel_id (ch_remote chan_end_on_b))
         (ChannelError (OtherChannelError
           (''internal error: ChannelEnd doesn'' @ [CHR 0x27]
            @ ''t have a counterparty channel id in OpenConfirm''))))) (\<lambda>chan_id_on_a.
     exec_bind (emit_ibc_event (MessageEvent MsgChannel)) (\<lambda>_.
     exec_bind (emit_ibc_event (OpenConfirmChannel (hoc_port_id_on_b msg) (hoc_chan_id_on_b msg)
         (hcp_port_id (ch_remote chan_end_on_b)) chan_id_on_a conn_id_on_b)) (\<lambda>_.
     emit_module_extras extras))))))))))"


section \<open>Close init\<close>

definition chan_close_init_validate_core ::
  "('cs, 'cons) client_ops \<Rightarrow> ('cs, 'cons) ibc_store \<Rightarrow> msg_channel_close_init
     \<Rightarrow> (unit, context_error) result" where
  "chan_close_init_validate_core env ctx_a msg =
     and_then (validate_message_signer ctx_a (hci_signer msg)) (\<lambda>_.
     and_then (channel_end ctx_a (ChannelEndPath (hci_port_id_on_a msg) (hci_chan_id_on_a msg)))
       (\<lambda>chan_end_on_a.
     and_then (map_err ChannelError (verify_not_closed chan_end_on_a)) (\<lambda>_.
     and_then (map_err ChannelError (ch_verify_connection_hops_length chan_end_on_a)) (\<lambda>_.
     and_then (index_res (ch_connection_hops chan_end_on_a) 0) (\<lambda>conn_id_on_a.
     and_then (connection_end ctx_a conn_id_on_a) (\<lambda>conn_end_on_a.
     and_then (map_err ConnectionError (ce_verify_state_matches conn_end_on_a ConnOpen)) (\<lambda>_.
     and_then (client_is_active env ctx_a (ce_client_id conn_end_on_a)) (\<lambda>_.
     Ok ()))))))))"

definition chan_close_init_validate ::
  "('cs, 'cons) client_ops \<Rightarrow> 'm module_ops \<Rightarrow> ('cs, 'cons) ibc_store \<Rightarrow> 'm
     \<Rightarrow> msg_channel_close_init \<Rightarrow> (unit, context_error) result" where
  "chan_close_init_validate env mops ctx_a module msg =
     and_then (chan_close_init_validate_core env ctx_a msg) (\<lambda>_.
     map_err ChannelError (on_chan_close_init_validate mops (hci_port_id_on_a msg)
       (hci_chan_id_on_a msg) module))"

definition no_counterparty_in_close :: context_error where
  "no_counterparty_in_close = ChannelError (OtherChannelError
     (''internal error: ChannelEnd doesn'' @ [CHR 0x27]
      @ ''t have a counterparty channel id in CloseInit''))"

definition chan_close_init_execute ::
  "'m module_ops \<Rightarrow> msg_channel_close_init
     \<Rightarrow> (('cs, 'cons, 'm) host, unit, context_error) exec" where
  "chan_close_init_execute mops msg = (
     let chan_end_path_on_a = ChannelEndPath (hci_port_id_on_a msg) (hci_chan_id_on_a msg) in
     exec_bind (exec_snd (exec_map_err ChannelError (on_chan_close_init_execute mops
         (hci_port_id_on_a msg) (hci_chan_id_on_a msg)))) (\<lambda>extras.
     exec_fst (
     exec_bind (exec_read (\<lambda>ctx_a. channel_end ctx_a chan_end_path_on_a)) (\<lambda>chan_end_on_a.
     exec_bind (store_channel chan_end_path_on_a (ch_set_state Closed chan_end_on_a)) (\<lambda>_.
     exec_bind (log_message ''success: channel close init'') (\<lambda>_.
     exec_bind (exec_lift (ok_or (hcp_channel_id (ch_remote chan_end_on_a))
         no_counterparty_in_close)) (\<lambda>chan_id_on_b.
     exec_bind (exec_lift (index_res (ch_connection_hops chan_end_on_a) 0)) (\<lambda>conn_id_on_a.
     exec_bind (emit_ibc_event (MessageEvent MsgChannel)) (\<lambda>_.
     exec_bind (emit_ibc_event (CloseInitChannel (hci_port_id_on_a msg) (hci_chan_id_on_a msg)
         (hcp_port_id (ch_remote chan_end_on_a)) chan_id_on_b conn_id_on_a)) (\<lambda>_.
     emit_module_extras extras))))))))))"


section \<open>Close confirm\<close>

definition chan_close_confirm_validate_core ::
  "('cs, 'cons) client_ops \<Rightarrow> ('cs, 'cons) ibc_store \<Rightarrow> msg_channel_close_confirm
     \<Rightarrow> (unit, context_error) result" where
  "chan_close_confirm_validate_core env ctx_b msg =
     and_then (validate_message_signer ctx_b (hcc_signer msg)) (\<lambda>_.
     and_then (channel_end ctx_b (ChannelEndPath (hcc_port_id_on_b msg) (hcc_chan_id_on_b msg)))
       (\<lambda>chan_end_on_b.
     and_then (map_err ChannelError (verify_not_closed chan_end_on_b)) (\<lambda>_.
     and_then (index_res (ch_connection_hops chan_end_on_b) 0) (\<lambda>conn_id_on_b.
     and_then (connection_end ctx_b conn_id_on_b) (\<lambda>conn_end_on_b.
     and_then (map_err ConnectionError (ce_verify_state_matches conn_end_on_b ConnOpen)) (\<lambda>_.
     let client_id_on_b = ce_client_id conn_end_on_b in
     and_then (active_client_at env ctx_b client_id_on_b client_id_on_b
         (hcc_proof_height_on_a msg)) (\<lambda>client_state_of_a_on_b.
     and_then (consensus_state_at ctx_b client_id_on_b (hcc_proof_height_on_a msg))
       (\<lambda>consensus_state_of_a_on_b.
     let port_id_on_a = hcp_port_id (ch_remote chan_end_on_b) in
     and_then (ok_or (hcp_channel_id (ch_remote chan_end_on_b))
         (ChannelError ChanMissingCounterparty)) (\<lambda>chan_id_on_a.
     and_then (ok_or (ccp_connection_id (ce_counterparty conn_end_on_b))
         (ChannelError (ChanUndefinedConnectionCounterparty conn_id_on_b))) (\<lambda>conn_id_on_a.
     and_then (map_err ChannelError (channel_end_new Closed (ch_ordering chan_end_on_b)
         \<lparr>hcp_port_id = hcc_port_id_on_b msg, hcp_channel_id = Some (hcc_chan_id_on_b msg)\<rparr>
         [conn_id_on_a] (ch_version chan_end_on_b))) (\<lambda>expected_chan_end_on_a.
     map_err ChannelError (verify_channel_end env client_state_of_a_on_b consensus_state_of_a_on_b
       conn_end_on_b (hcc_proof_chan_end_on_a msg) (ChannelEndPath port_id_on_a chan_id_on_a)
       expected_chan_end_on_a))))))))))))"

definition chan_close_confirm_validate ::
  "('cs, 'cons) client_ops \<Rightarrow> 'm module_ops \<Rightarrow> ('cs, 'cons) ibc_store \<Rightarrow> 'm
     \<Rightarrow> msg_channel_close_confirm \<Rightarrow> (unit, context_error) result" where
  "chan_close_confirm_validate env mops ctx_b module msg =
     and_then (chan_close_confirm_validate_core env ctx_b msg) (\<lambda>_.
     map_err ChannelError (on_chan_close_confirm_validate mops (hcc_port_id_on_b msg)
       (hcc_chan_id_on_b msg) module))"

definition chan_close_confirm_execute ::
  "'m module_ops \<Rightarrow> msg_channel_close_confirm
     \<Rightarrow> (('cs, 'cons, 'm) host, unit, context_error) exec" where
  "chan_close_confirm_execute mops msg = (
     let chan_end_path_on_b = ChannelEndPath (hcc_port_id_on_b msg) (hcc_chan_id_on_b msg) in
     exec_bind (exec_snd (exec_map_err ChannelError (on_chan_close_confirm_execute mops
         (hcc_port_id_on_b msg) (hcc_chan_id_on_b msg)))) (\<lambda>extras.
     exec_fst (
     exec_bind (exec_read (\<lambda>ctx_b. channel_end ctx_b chan_end_path_on_b)) (\<lambda>chan_end_on_b.
     exec_bind (store_channel chan_end_path_on_b (ch_set_state Closed chan_end_on_b)) (\<lambda>_.
     exec_bind (log_message ''success: channel close confirm'') (\<lambda>_.
     exec_bind (exec_lift (ok_or (hcp_channel_id (ch_remote chan_end_on_b))
         no_counterparty_in_close)) (\<lambda>chan_id_on_a.
     exec_bind (exec_lift (index_res (ch_connection_hops chan_end_on_b) 0)) (\<lambda>conn_id_on_b.
     exec_bind (emit_ibc_event (MessageEvent MsgChannel)) (\<lambda>_.
     exec_bind (emit_ibc_event (CloseConfirmChannel (hcc_port_id_on_b msg)
         (hcc_chan_id_on_b msg) (hcp_port_id (ch_remote chan_end_on_b)) chan_id_on_a
         conn_id_on_b)) (\<lambda>_.
     emit_module_extras extras))))))))))"


section \<open>Effects of the execution steps\<close>

text \<open>What a successful execution does to the store and to the module, for each of the
  six messages.\<close>

lemma exec_for_write: "exec_for xs (\<lambda>x. exec_write (f x)) s = (Ok (), fold f xs s)"
  by (induction xs arbitrary: s) (simp_all add: exec_bind_def exec_defs)

lemma fold_events:
  "fold (\<lambda>x. events_update (\<lambda>es. es @ [g x])) xs s = s\<lparr>events := events s @ map g xs\<rparr>"
  by (induction xs arbitrary: s) simp_all

lemma fold_logs: "fold (\<lambda>x. logs_update (\<lambda>ls. ls @ [x])) xs s = s\<lparr>logs := logs s @ xs\<rparr>"
  by (induction xs arbitrary: s) simp_all

lemma emit_module_extras_eq:
  "emit_module_extras extras s =
     (Ok (), s\<lparr>events := events s @ map ModuleEvent (extras_events extras),
             logs := logs s @ extras_log extras\<rparr>)"
  by (simp add: emit_module_extras_def emit_ibc_event_def log_message_def [abs_def] exec_for_write
      exec_bind_def fold_events fold_logs)

text \<open>A new channel end under the next identifier, with its sequence numbers.\<close>

definition with_new_channel ::
  "port_id \<Rightarrow> u64 \<Rightarrow> channel_end \<Rightarrow> ('cs, 'cons) ibc_store \<Rightarrow> ('cs, 'cons) ibc_store" where
  "with_new_channel port n c s = s\<lparr>
     channel_end_store := (channel_end_store s)(ChannelEndPath port (channel_id_new n) \<mapsto> c),
     channel_counter_store := Some (n + 1),
     send_sequence_store := (send_sequence_store s)(SeqSendPath port (channel_id_new n) \<mapsto> 1),
     recv_sequence_store := (recv_sequence_store s)(SeqRecvPath port (channel_id_new n) \<mapsto> 1),
     ack_sequence_store := (ack_sequence_store s)(SeqAckPath port (channel_id_new n) \<mapsto> 1)\<rparr>"

text \<open>Appending the events of a handler and of its module, and their logs.\<close>

definition with_output ::
  "ibc_event list \<Rightarrow> string list \<Rightarrow> module_extras \<Rightarrow> ('cs, 'cons) ibc_store \<Rightarrow> ('cs, 'cons) ibc_store"
where
  "with_output evs ls extras s =
     s\<lparr>events := events s @ evs @ map ModuleEvent (extras_events extras),
       logs := logs s @ ls @ extras_log extras\<rparr>"

lemma chan_open_init_execute_OkD:
  assumes "chan_open_init_execute mops msg (s, m) = (Ok (), (s', m'))"
  shows "\<exists>n extras ver. channel_counter_store s = Some n
    \<and> hoi_connection_hops_on_a msg \<noteq> [] \<and> hoi_ordering msg \<noteq> OrderNone
    \<and> on_chan_open_init_execute mops (hoi_ordering msg) (hoi_connection_hops_on_a msg)
         (hoi_port_id_on_a msg) (channel_id_new n)
         \<lparr>hcp_port_id = hoi_port_id_on_b msg, hcp_channel_id = None\<rparr> (hoi_version_proposal msg) m
       = (Ok (extras, ver), m')
    \<and> s' = with_output
        [MessageEvent MsgChannel, OpenInitChannel (hoi_port_id_on_a msg) (channel_id_new n)
           (hoi_port_id_on_b msg) (hoi_connection_hops_on_a msg ! 0) ver]
        [''success: channel open init with channel identifier: ''
           @ channel_id_str (channel_id_new n)] extras
        (with_new_channel (hoi_port_id_on_a msg) n
           \<lparr>ch_state = Init, ch_ordering = hoi_ordering msg,
            ch_remote = \<lparr>hcp_port_id = hoi_port_id_on_b msg, hcp_channel_id = None\<rparr>,
            ch_connection_hops = hoi_connection_hops_on_a msg,
            ch_version = hoi_version_proposal msg\<rparr> s)"
  using assms
  by (auto simp: chan_open_init_execute_def result_simps Let_def store_reads store_writes
      store_initial_sequences_def emit_module_extras_eq with_new_channel_def with_output_def
      split: prod.splits)

lemma chan_open_try_execute_OkD:
  assumes "chan_open_try_execute mops msg (s, m) = (Ok (), (s', m'))"
  shows "\<exists>n extras ver. channel_counter_store s = Some n
    \<and> hot_connection_hops_on_b msg \<noteq> [] \<and> hot_ordering msg \<noteq> OrderNone
    \<and> on_chan_open_try_execute mops (hot_ordering msg) (hot_connection_hops_on_b msg)
         (hot_port_id_on_b msg) (channel_id_new n)
         \<lparr>hcp_port_id = hot_port_id_on_a msg, hcp_channel_id = Some (hot_chan_id_on_a msg)\<rparr>
         (hot_version_supported_on_a msg) m
       = (Ok (extras, ver), m')
    \<and> s' = with_output
        [MessageEvent MsgChannel, OpenTryChannel (hot_port_id_on_b msg) (channel_id_new n)
           (hot_port_id_on_a msg) (hot_chan_id_on_a msg) (hot_connection_hops_on_b msg ! 0) ver]
        [''success: channel open try with channel identifier: ''
           @ channel_id_str (channel_id_new n)] extras
        (with_new_channel (hot_port_id_on_b msg) n
           \<lparr>ch_state = TryOpen, ch_ordering = hot_ordering msg,
            ch_remote = \<lparr>hcp_port_id = hot_port_id_on_a msg,
                         hcp_channel_id = Some (hot_chan_id_on_a msg)\<rparr>,
            ch_connection_hops = hot_connection_hops_on_b msg, ch_version = ver\<rparr> s)"
  using assms
  by (auto simp: chan_open_try_execute_def result_simps Let_def store_reads store_writes
      store_initial_sequences_def emit_module_extras_eq with_new_channel_def with_output_def
      split: prod.splits)

lemma chan_open_ack_execute_OkD:
  assumes "chan_open_ack_execute mops msg (s, m) = (Ok (), (s', m'))"
  shows "\<exists>c extras evs.
      channel_end_store s (ChannelEndPath (hoa_port_id_on_a msg) (hoa_chan_id_on_a msg)) = Some c
    \<and> on_chan_open_ack_execute mops (hoa_port_id_on_a msg) (hoa_chan_id_on_a msg)
        (hoa_version_on_b msg) m = (Ok extras, m')
    \<and> evs = [MessageEvent MsgChannel, OpenAckChannel (hoa_port_id_on_a msg) (hoa_chan_id_on_a msg)
        (hcp_port_id (ch_remote c)) (hoa_chan_id_on_b msg) (ch_connection_hops c ! 0)]
    \<and> s' = with_output evs [''success: channel open ack''] extras
        (s\<lparr>channel_end_store := (channel_end_store s)
             (ChannelEndPath (hoa_port_id_on_a msg) (hoa_chan_id_on_a msg) \<mapsto>
                c\<lparr>ch_state := Open, ch_version := hoa_version_on_b msg,
                  ch_remote := (ch_remote c)\<lparr>hcp_channel_id := Some (hoa_chan_id_on_b msg)\<rparr>\<rparr>)\<rparr>)"
  using assms
  by (auto simp: chan_open_ack_execute_def result_simps Let_def store_reads store_writes
      emit_module_extras_eq with_output_def ch_set_state_def ch_set_version_def
      ch_set_counterparty_channel_id_def split: prod.splits)

lemma chan_open_confirm_execute_OkD:
  assumes "chan_open_confirm_execute mops msg (s, m) = (Ok (), (s', m'))"
  shows "\<exists>c chan_id_on_a extras evs.
      channel_end_store s (ChannelEndPath (hoc_port_id_on_b msg) (hoc_chan_id_on_b msg)) = Some c
    \<and> hcp_channel_id (ch_remote c) = Some chan_id_on_a
    \<and> on_chan_open_confirm_execute mops (hoc_port_id_on_b msg) (hoc_chan_id_on_b msg) m
        = (Ok extras, m')
    \<and> evs = [MessageEvent MsgChannel, OpenConfirmChannel (hoc_port_id_on_b msg)
        (hoc_chan_id_on_b msg) (hcp_port_id (ch_remote c)) chan_id_on_a (ch_connection_hops c ! 0)]
    \<and> s' = with_output evs [''success: channel open confirm''] extras
        (s\<lparr>channel_end_store := (channel_end_store s)
             (ChannelEndPath (hoc_port_id_on_b msg) (hoc_chan_id_on_b msg) \<mapsto>
                c\<lparr>ch_state := Open\<rparr>)\<rparr>)"
  using assms
  by (auto simp: chan_open_confirm_execute_def result_simps Let_def store_reads store_writes
      emit_module_extras_eq with_output_def ch_set_state_def split: prod.splits)

lemma chan_close_init_execute_OkD:
  assumes "chan_close_init_execute mops msg (s, m) = (Ok (), (s', m'))"
  shows "\<exists>c chan_id_on_b extras evs.
      channel_end_store s (ChannelEndPath (hci_port_id_on_a msg) (hci_chan_id_on_a msg)) = Some c
    \<and> hcp_channel_id (ch_remote c) = Some chan_id_on_b
    \<and> on_chan_close_init_execute mops (hci_port_id_on_a msg) (hci_chan_id_on_a msg) m
        = (Ok extras, m')
    \<and> evs = [MessageEvent MsgChannel, CloseInitChannel (hci_port_id_on_a msg)
        (hci_chan_id_on_a msg) (hcp_port_id (ch_remote c)) chan_id_on_b (ch_connection_hops c ! 0)]
    \<and> s' = with_output evs [''success: channel close init''] extras
        (s\<lparr>channel_end_store := (channel_end_store s)
             (ChannelEndPath (hci_port_id_on_a msg) (hci_chan_id_on_a msg) \<mapsto>
                c\<lparr>ch_state := Closed\<rparr>)\<rparr>)"
  using assms
  by (auto simp: chan_close_init_execute_def result_simps Let_def store_reads store_writes
      emit_module_extras_eq with_output_def ch_set_state_def split: prod.splits)

lemma chan_close_confirm_execute_OkD:
  assumes "chan_close_confirm_execute mops msg (s, m) = (Ok (), (s', m'))"
  shows "\<exists>c chan_id_on_a extras evs.
      channel_end_store s (ChannelEndPath (hcc_port_id_on_b msg) (hcc_chan_id_on_b msg)) = Some c
    \<and> hcp_channel_id (ch_remote c) = Some chan_id_on_a
    \<and> on_chan_close_confirm_execute mops (hcc_port_id_on_b msg) (hcc_chan_id_on_b msg) m
        = (Ok extras, m')
    \<and> evs = [MessageEvent MsgChannel, CloseConfirmChannel (hcc_port_id_on_b msg)
        (hcc_chan_id_on_b msg) (hcp_port_id (ch_remote c)) chan_id_on_a (ch_connection_hops c ! 0)]
    \<and> s' = with_output evs [''success: channel close confirm''] extras
        (s\<lparr>channel_end_store := (channel_end_store s)
             (ChannelEndPath (hcc_port_id_on_b msg) (hcc_chan_id_on_b msg) \<mapsto>
                c\<lparr>ch_state := Closed\<rparr>)\<rparr>)"
  using assms
  by (auto simp: chan_close_confirm_execute_def result_simps Let_def store_reads store_writes
      emit_module_extras_eq with_output_def ch_set_state_def split: prod.splits)

end
