(* ===== verification/Packet_Handlers.thy ===== *)
theory Packet_Handlers
  imports Channel_Handlers
begin

text \<open>
  The packet handlers of ICS-04 (\<open>ibc-core/ics04-channel/src/handler\<close>): sending a
  packet, receiving it, its acknowledgement and its two kinds of timeout.
\<close>

section \<open>Shared parts\<close>

text \<open>A callback of the module that returns its result next to its new state.\<close>

definition module_call :: "('m \<Rightarrow> 'a \<times> 'm) \<Rightarrow> ('m, 'a, 'e) exec" where
  "module_call f = (\<lambda>m. case f m of (a, m') \<Rightarrow> (Ok a, m'))"

definition packet_commitment_of ::
  "('cs, 'cons) client_ops \<Rightarrow> packet \<Rightarrow> (packet_commitment, 'e) result" where
  "packet_commitment_of env packet =
     compute_packet_commitment (ext_hash env) (packet_data packet) (timeout_height_on_b packet)
       (timeout_timestamp_on_b packet)"

definition packet_verification_failed :: "sequence \<Rightarrow> client_error \<Rightarrow> context_error" where
  "packet_verification_failed s e = PacketError (PacketChannel (PacketVerificationFailed s e))"

definition order_cannot_be_none :: "order \<Rightarrow> context_error" where
  "order_cannot_be_none chan_order =
     ChannelError (InvalidOrderType ''Channel ordering cannot be None'' (order_as_str chan_order))"


section \<open>Sending\<close>

definition send_packet_validate ::
  "('cs, 'cons) client_ops \<Rightarrow> packet \<Rightarrow> ('cs, 'cons) ibc_store \<Rightarrow> (unit, context_error) result" where
  "send_packet_validate env packet ctx_a =
     (if \<not> timeout_height_is_set (timeout_height_on_b packet)
         \<and> \<not> timestamp_is_set (timeout_timestamp_on_b packet)
      then Err (PacketError MissingTimeout)
      else
     and_then (channel_end ctx_a (chan_end_path_on_a packet)) (\<lambda>chan_end_on_a.
     and_then (map_err ChannelError (verify_not_closed chan_end_on_a)) (\<lambda>_.
     and_then (map_err ChannelError
         (verify_counterparty_matches chan_end_on_a (packet_counterparty_on_b packet))) (\<lambda>_.
     and_then (index_res (ch_connection_hops chan_end_on_a) 0) (\<lambda>conn_id_on_a.
     and_then (connection_end ctx_a conn_id_on_a) (\<lambda>conn_end_on_a.
     let client_id_on_a = ce_client_id conn_end_on_a in
     and_then (client_is_active env ctx_a client_id_on_a) (\<lambda>client_state_of_b_on_a.
     let latest_height_on_a = cs_latest_height env client_state_of_b_on_a in
     if has_expired (timeout_height_on_b packet) latest_height_on_a
     then Err (PacketError (LowPacketHeight latest_height_on_a (timeout_height_on_b packet)))
     else
     and_then (consensus_state_at ctx_a client_id_on_a latest_height_on_a)
       (\<lambda>consensus_state_of_b_on_a.
     if check_expiry (cons_timestamp env consensus_state_of_b_on_a)
          (timeout_timestamp_on_b packet) = Expired
     then Err (PacketError LowPacketTimestamp)
     else
     and_then (get_next_sequence_send ctx_a
         (SeqSendPath (port_id_on_a packet) (chan_id_on_a packet))) (\<lambda>next_seq_send_on_a.
     if seq_on_a packet \<noteq> next_seq_send_on_a
     then Err (PacketError (InvalidPacketSequence (seq_on_a packet) next_seq_send_on_a))
     else Ok ())))))))))"

definition send_packet_execute ::
  "('cs, 'cons) client_ops \<Rightarrow> packet \<Rightarrow> (('cs, 'cons) ibc_store, unit, context_error) exec" where
  "send_packet_execute env packet = (
     let seq_send_path_on_a = SeqSendPath (port_id_on_a packet) (chan_id_on_a packet) in
     exec_bind (exec_read (\<lambda>ctx_a. get_next_sequence_send ctx_a seq_send_path_on_a))
       (\<lambda>next_seq_send_on_a.
     exec_bind (store_next_sequence_send seq_send_path_on_a
         (sequence_increment next_seq_send_on_a)) (\<lambda>_.
     exec_bind (exec_lift (packet_commitment_of env packet)) (\<lambda>commitment.
     exec_bind (store_packet_commitment (commitment_path_on_a packet) commitment) (\<lambda>_.
     exec_bind (exec_read (\<lambda>ctx_a. channel_end ctx_a (chan_end_path_on_a packet)))
       (\<lambda>chan_end_on_a.
     exec_bind (exec_lift (index_res (ch_connection_hops chan_end_on_a) 0)) (\<lambda>conn_id_on_a.
     exec_bind (log_message ''success: packet send'') (\<lambda>_.
     exec_bind (emit_ibc_event (MessageEvent MsgChannel)) (\<lambda>_.
     emit_ibc_event (SendPacketEvent packet (ch_ordering chan_end_on_a) conn_id_on_a))))))))))"

definition send_packet ::
  "('cs, 'cons) client_ops \<Rightarrow> packet \<Rightarrow> (('cs, 'cons) ibc_store, unit, context_error) exec" where
  "send_packet env packet =
     exec_bind (exec_read (send_packet_validate env packet)) (\<lambda>_.
     send_packet_execute env packet)"


section \<open>Receiving\<close>

definition validate_write_acknowledgement ::
  "('cs, 'cons) ibc_store \<Rightarrow> msg_recv_packet \<Rightarrow> (unit, context_error) result" where
  "validate_write_acknowledgement ctx_b msg =
     (if is_ok (get_packet_acknowledgement ctx_b (ack_path_on_b (rcv_packet msg)))
      then Err (PacketError (AcknowledgementExists (seq_on_a (rcv_packet msg))))
      else Ok ())"

text \<open>The last part of the validation: what the order of the channel requires of the
  sequence number.  The receipt of an unordered channel is looked up under the
  identifiers of the sending chain, as the code has it.\<close>

definition recv_packet_validate_order ::
  "('cs, 'cons) ibc_store \<Rightarrow> msg_recv_packet \<Rightarrow> order \<Rightarrow> (unit, context_error) result" where
  "recv_packet_validate_order ctx_b msg chan_order = (
     let packet = rcv_packet msg in
     case chan_order of
       Ordered \<Rightarrow>
         and_then (get_next_sequence_recv ctx_b (seq_recv_path_on_b packet)) (\<lambda>next_seq_recv.
         if seq_on_a packet > next_seq_recv
         then Err (PacketError (InvalidPacketSequence (seq_on_a packet) next_seq_recv))
         else if seq_on_a packet = next_seq_recv then validate_write_acknowledgement ctx_b msg
         else Ok ())
     | Unordered \<Rightarrow>
         and_then (case get_packet_receipt ctx_b
             (ReceiptPath (port_id_on_a packet) (chan_id_on_a packet) (seq_on_a packet)) of
             Ok _ \<Rightarrow> Ok ()
           | Err e \<Rightarrow> (if e = PacketError (PacketReceiptNotFound (seq_on_a packet)) then Ok ()
                      else Err e)
           | Panic \<Rightarrow> Panic) (\<lambda>_.
         validate_write_acknowledgement ctx_b msg)
     | OrderNone \<Rightarrow> Err (order_cannot_be_none chan_order))"

definition recv_packet_validate ::
  "('cs, 'cons) client_ops \<Rightarrow> ('cs, 'cons) ibc_store \<Rightarrow> msg_recv_packet
     \<Rightarrow> (unit, context_error) result" where
  "recv_packet_validate env ctx_b msg = (
     let packet = rcv_packet msg in
     and_then (validate_message_signer ctx_b (rcv_signer msg)) (\<lambda>_.
     and_then (channel_end ctx_b (chan_end_path_on_b packet)) (\<lambda>chan_end_on_b.
     and_then (map_err ChannelError (ch_verify_state_matches chan_end_on_b Open)) (\<lambda>_.
     and_then (map_err ChannelError
         (verify_counterparty_matches chan_end_on_b (packet_counterparty_on_a packet))) (\<lambda>_.
     and_then (index_res (ch_connection_hops chan_end_on_b) 0) (\<lambda>conn_id_on_b.
     and_then (connection_end ctx_b conn_id_on_b) (\<lambda>conn_end_on_b.
     and_then (map_err ConnectionError (ce_verify_state_matches conn_end_on_b ConnOpen)) (\<lambda>_.
     and_then (host_height ctx_b) (\<lambda>latest_height.
     if has_expired (timeout_height_on_b packet) latest_height
     then Err (PacketError (LowPacketHeight latest_height (timeout_height_on_b packet)))
     else
     and_then (host_timestamp env ctx_b) (\<lambda>latest_timestamp.
     if check_expiry latest_timestamp (timeout_timestamp_on_b packet) = Expired
     then Err (PacketError LowPacketTimestamp)
     else
     let client_id_on_b = ce_client_id conn_end_on_b in
     and_then (active_client_at env ctx_b client_id_on_b client_id_on_b
         (rcv_proof_height_on_a msg)) (\<lambda>client_state_of_a_on_b.
     and_then (consensus_state_at ctx_b client_id_on_b (rcv_proof_height_on_a msg))
       (\<lambda>consensus_state_of_a_on_b.
     and_then (packet_commitment_of env packet) (\<lambda>expected_commitment_on_a.
     and_then (verify_conn_delay_passed env ctx_b (rcv_proof_height_on_a msg) conn_end_on_b)
       (\<lambda>_.
     and_then (map_err (packet_verification_failed (seq_on_a packet))
         (cs_verify_membership env client_state_of_a_on_b
            (ccp_prefix (ce_counterparty conn_end_on_b)) (rcv_proof_commitment_on_a msg)
            (cons_root env consensus_state_of_a_on_b)
            (Path_Commitment (commitment_path_on_a packet))
            (packet_commitment_bytes expected_commitment_on_a))) (\<lambda>_.
     recv_packet_validate_order ctx_b msg (ch_ordering chan_end_on_b))))))))))))))))"

definition packet_already_received ::
  "('cs, 'cons) ibc_store \<Rightarrow> packet \<Rightarrow> order \<Rightarrow> (bool, context_error) result" where
  "packet_already_received ctx_b packet chan_order = (case chan_order of
       OrderNone \<Rightarrow> Ok False
     | Unordered \<Rightarrow> Ok (is_ok (get_packet_receipt ctx_b (receipt_path_on_b packet)))
     | Ordered \<Rightarrow>
         and_then (get_next_sequence_recv ctx_b (seq_recv_path_on_b packet)) (\<lambda>next_seq_recv.
         Ok (seq_on_a packet < next_seq_recv)))"

definition recv_packet_record ::
  "packet \<Rightarrow> order \<Rightarrow> (('cs, 'cons) ibc_store, unit, context_error) exec" where
  "recv_packet_record packet chan_order = (case chan_order of
       Unordered \<Rightarrow> store_packet_receipt (receipt_path_on_b packet) ReceiptOk
     | Ordered \<Rightarrow>
         exec_bind (exec_read (\<lambda>ctx_b. get_next_sequence_recv ctx_b (seq_recv_path_on_b packet)))
           (\<lambda>next_seq_recv.
         store_next_sequence_recv (seq_recv_path_on_b packet) (sequence_increment next_seq_recv))
     | OrderNone \<Rightarrow> exec_return ())"

definition recv_packet_execute ::
  "('cs, 'cons) client_ops \<Rightarrow> 'm module_ops \<Rightarrow> msg_recv_packet
     \<Rightarrow> (('cs, 'cons, 'm) host, unit, context_error) exec" where
  "recv_packet_execute env mops msg = (
     let packet = rcv_packet msg in
     exec_bind (exec_fst (exec_read (\<lambda>ctx_b. channel_end ctx_b (chan_end_path_on_b packet))))
       (\<lambda>chan_end_on_b.
     exec_bind (exec_fst (exec_read (\<lambda>ctx_b.
         packet_already_received ctx_b packet (ch_ordering chan_end_on_b)))) (\<lambda>already_received.
     if already_received then exec_return ()
     else
     exec_bind (exec_snd (module_call (on_recv_packet_execute mops packet (rcv_signer msg))))
       (\<lambda>(extras, acknowledgement).
     exec_fst (
     exec_bind (recv_packet_record packet (ch_ordering chan_end_on_b)) (\<lambda>_.
     exec_bind (store_packet_acknowledgement (ack_path_on_b packet)
         (compute_ack_commitment (ext_hash env) acknowledgement)) (\<lambda>_.
     exec_bind (log_message ''success: packet receive'') (\<lambda>_.
     exec_bind (log_message ''success: packet write acknowledgement'') (\<lambda>_.
     exec_bind (exec_lift (index_res (ch_connection_hops chan_end_on_b) 0)) (\<lambda>conn_id_on_b.
     exec_bind (emit_ibc_event (MessageEvent MsgChannel)) (\<lambda>_.
     exec_bind (emit_ibc_event
         (ReceivePacketEvent packet (ch_ordering chan_end_on_b) conn_id_on_b)) (\<lambda>_.
     exec_bind (emit_ibc_event (MessageEvent MsgChannel)) (\<lambda>_.
     exec_bind (emit_ibc_event
         (WriteAcknowledgementEvent packet acknowledgement conn_id_on_b)) (\<lambda>_.
     emit_module_extras extras))))))))))))))"


section \<open>Acknowledgement\<close>

definition acknowledgement_validate_core ::
  "('cs, 'cons) client_ops \<Rightarrow> ('cs, 'cons) ibc_store \<Rightarrow> msg_acknowledgement
     \<Rightarrow> (unit, context_error) result" where
  "acknowledgement_validate_core env ctx_a msg = (
     let packet = ack_packet msg in
     and_then (validate_message_signer ctx_a (ack_signer msg)) (\<lambda>_.
     and_then (channel_end ctx_a (chan_end_path_on_a packet)) (\<lambda>chan_end_on_a.
     and_then (map_err ChannelError (ch_verify_state_matches chan_end_on_a Open)) (\<lambda>_.
     and_then (map_err ChannelError
         (verify_counterparty_matches chan_end_on_a (packet_counterparty_on_b packet))) (\<lambda>_.
     and_then (index_res (ch_connection_hops chan_end_on_a) 0) (\<lambda>conn_id_on_a.
     and_then (connection_end ctx_a conn_id_on_a) (\<lambda>conn_end_on_a.
     and_then (map_err ConnectionError (ce_verify_state_matches conn_end_on_a ConnOpen)) (\<lambda>_.
     case get_packet_commitment ctx_a (commitment_path_on_a packet) of
       Err _ \<Rightarrow> Ok ()
     | Panic \<Rightarrow> Panic
     | Ok commitment_on_a \<Rightarrow>
     and_then (packet_commitment_of env packet) (\<lambda>expected_commitment_on_a.
     if commitment_on_a \<noteq> expected_commitment_on_a
     then Err (PacketError (IncorrectPacketCommitment (seq_on_a packet)))
     else
     and_then (if ch_ordering chan_end_on_a = Ordered then
         and_then (get_next_sequence_ack ctx_a
             (SeqAckPath (port_id_on_a packet) (chan_id_on_a packet))) (\<lambda>next_seq_ack.
         if seq_on_a packet \<noteq> next_seq_ack
         then Err (PacketError (InvalidPacketSequence (seq_on_a packet) next_seq_ack))
         else Ok ())
       else Ok ()) (\<lambda>_.
     let client_id_on_a = ce_client_id conn_end_on_a in
     and_then (active_client_at env ctx_a client_id_on_a client_id_on_a
         (ack_proof_height_on_b msg)) (\<lambda>client_state_of_b_on_a.
     and_then (consensus_state_at ctx_a client_id_on_a (ack_proof_height_on_b msg))
       (\<lambda>consensus_state_of_b_on_a.
     and_then (verify_conn_delay_passed env ctx_a (ack_proof_height_on_b msg) conn_end_on_a)
       (\<lambda>_.
     map_err (packet_verification_failed (seq_on_a packet))
       (cs_verify_membership env client_state_of_b_on_a
          (ccp_prefix (ce_counterparty conn_end_on_a)) (ack_proof_acked_on_b msg)
          (cons_root env consensus_state_of_b_on_a) (Path_Ack (ack_path_on_b packet))
          (ack_commitment_bytes
            (compute_ack_commitment (ext_hash env) (ack_acknowledgement msg)))))))))))))))))"

definition acknowledgement_packet_validate ::
  "('cs, 'cons) client_ops \<Rightarrow> 'm module_ops \<Rightarrow> ('cs, 'cons) ibc_store \<Rightarrow> 'm
     \<Rightarrow> msg_acknowledgement \<Rightarrow> (unit, context_error) result" where
  "acknowledgement_packet_validate env mops ctx_a module msg =
     and_then (acknowledgement_validate_core env ctx_a msg) (\<lambda>_.
     map_err PacketError (on_acknowledgement_packet_validate mops (ack_packet msg)
       (ack_acknowledgement msg) (ack_signer msg) module))"

definition acknowledgement_packet_execute ::
  "'m module_ops \<Rightarrow> msg_acknowledgement
     \<Rightarrow> (('cs, 'cons, 'm) host, unit, context_error) exec" where
  "acknowledgement_packet_execute mops msg = (
     let packet = ack_packet msg in
     exec_bind (exec_fst (exec_read (\<lambda>ctx_a. channel_end ctx_a (chan_end_path_on_a packet))))
       (\<lambda>chan_end_on_a.
     exec_bind (exec_lift (index_res (ch_connection_hops chan_end_on_a) 0)) (\<lambda>conn_id_on_a.
     exec_bind (exec_fst (emit_ibc_event (MessageEvent MsgChannel))) (\<lambda>_.
     exec_bind (exec_fst (emit_ibc_event
         (AcknowledgePacketEvent packet (ch_ordering chan_end_on_a) conn_id_on_a))) (\<lambda>_.
     exec_bind (exec_fst (exec_read (\<lambda>ctx_a.
         Ok (is_ok (get_packet_commitment ctx_a (commitment_path_on_a packet)))))) (\<lambda>committed.
     if \<not> committed then exec_return ()
     else
     exec_bind (exec_snd (module_call (on_acknowledgement_packet_execute mops packet
         (ack_acknowledgement msg) (ack_signer msg)))) (\<lambda>(extras, cb_result).
     exec_bind (exec_lift (map_err PacketError cb_result)) (\<lambda>_.
     exec_fst (
     exec_bind (delete_packet_commitment (commitment_path_on_a packet)) (\<lambda>_.
     exec_bind (if ch_ordering chan_end_on_a = Ordered
         then store_next_sequence_ack (SeqAckPath (port_id_on_a packet) (chan_id_on_a packet))
                (sequence_increment (seq_on_a packet))
         else exec_return ()) (\<lambda>_.
     exec_bind (log_message ''success: packet acknowledgement'') (\<lambda>_.
     emit_module_extras extras))))))))))))"


section \<open>Timeout\<close>

datatype timeout_msg_type =
    Timeout msg_timeout
  | TimeoutOnClose msg_timeout_on_close

definition timeout_msg_parts :: "timeout_msg_type \<Rightarrow> packet \<times> signer" where
  "timeout_msg_parts t = (case t of
       Timeout msg \<Rightarrow> (tmo_packet msg, tmo_signer msg)
     | TimeoutOnClose msg \<Rightarrow> (toc_packet msg, toc_signer msg))"

text \<open>The proof that the packet was not received, shared by both kinds of timeout.\<close>

definition verify_packet_unreceived ::
  "('cs, 'cons) client_ops \<Rightarrow> 'cs \<Rightarrow> 'cons \<Rightarrow> connection_end \<Rightarrow> packet \<Rightarrow> sequence
     \<Rightarrow> commitment_proof_bytes \<Rightarrow> order \<Rightarrow> (unit, context_error) result" where
  "verify_packet_unreceived env cs cons conn_end_on_a packet next_seq_recv_on_b
       proof_unreceived_on_b chan_order = (
     let prefix = ccp_prefix (ce_counterparty conn_end_on_a) in
     case chan_order of
       Ordered \<Rightarrow>
         (if seq_on_a packet < next_seq_recv_on_b
          then Err (PacketError (InvalidPacketSequence (seq_on_a packet) next_seq_recv_on_b))
          else map_err (packet_verification_failed next_seq_recv_on_b)
            (cs_verify_membership env cs prefix proof_unreceived_on_b (cons_root env cons)
               (Path_SeqRecv (seq_recv_path_on_b packet))
               (sequence_to_vec (seq_on_a packet))))
     | Unordered \<Rightarrow>
         map_err (packet_verification_failed next_seq_recv_on_b)
           (cs_verify_non_membership env cs prefix proof_unreceived_on_b (cons_root env cons)
              (Path_Receipt (receipt_path_on_b packet)))
     | OrderNone \<Rightarrow> Err (order_cannot_be_none chan_order))"

definition timeout_validate_core ::
  "('cs, 'cons) client_ops \<Rightarrow> ('cs, 'cons) ibc_store \<Rightarrow> msg_timeout
     \<Rightarrow> (unit, context_error) result" where
  "timeout_validate_core env ctx_a msg = (
     let packet = tmo_packet msg in
     and_then (validate_message_signer ctx_a (tmo_signer msg)) (\<lambda>_.
     and_then (channel_end ctx_a (chan_end_path_on_a packet)) (\<lambda>chan_end_on_a.
     and_then (map_err ChannelError (ch_verify_state_matches chan_end_on_a Open)) (\<lambda>_.
     and_then (map_err ChannelError
         (verify_counterparty_matches chan_end_on_a (packet_counterparty_on_b packet))) (\<lambda>_.
     and_then (index_res (ch_connection_hops chan_end_on_a) 0) (\<lambda>conn_id_on_a.
     and_then (connection_end ctx_a conn_id_on_a) (\<lambda>conn_end_on_a.
     case get_packet_commitment ctx_a (commitment_path_on_a packet) of
       Err _ \<Rightarrow> Ok ()
     | Panic \<Rightarrow> Panic
     | Ok commitment_on_a \<Rightarrow>
     and_then (packet_commitment_of env packet) (\<lambda>expected_commitment_on_a.
     if commitment_on_a \<noteq> expected_commitment_on_a
     then Err (PacketError (IncorrectPacketCommitment (seq_on_a packet)))
     else
     let client_id_on_a = ce_client_id conn_end_on_a in
     and_then (active_client_at env ctx_a client_id_on_a client_id_on_a
         (tmo_proof_height_on_b msg)) (\<lambda>client_state_of_b_on_a.
     and_then (consensus_state_at ctx_a client_id_on_a (tmo_proof_height_on_b msg))
       (\<lambda>consensus_state_of_b_on_a.
     let timestamp_of_b = cons_timestamp env consensus_state_of_b_on_a in
     if \<not> timed_out packet timestamp_of_b (tmo_proof_height_on_b msg)
     then Err (PacketError (PacketTimeoutNotReached (timeout_height_on_b packet)
       (tmo_proof_height_on_b msg) (timeout_timestamp_on_b packet) timestamp_of_b))
     else
     and_then (verify_conn_delay_passed env ctx_a (tmo_proof_height_on_b msg) conn_end_on_a)
       (\<lambda>_.
     verify_packet_unreceived env client_state_of_b_on_a consensus_state_of_b_on_a conn_end_on_a
       packet (tmo_next_seq_recv_on_b msg) (tmo_proof_unreceived_on_b msg)
       (ch_ordering chan_end_on_a))))))))))))"

definition timeout_on_close_validate ::
  "('cs, 'cons) client_ops \<Rightarrow> ('cs, 'cons) ibc_store \<Rightarrow> msg_timeout_on_close
     \<Rightarrow> (unit, context_error) result" where
  "timeout_on_close_validate env ctx_a msg = (
     let packet = toc_packet msg in
     and_then (validate_message_signer ctx_a (toc_signer msg)) (\<lambda>_.
     and_then (channel_end ctx_a (chan_end_path_on_a packet)) (\<lambda>chan_end_on_a.
     and_then (map_err ChannelError
         (verify_counterparty_matches chan_end_on_a (packet_counterparty_on_b packet))) (\<lambda>_.
     case get_packet_commitment ctx_a (commitment_path_on_a packet) of
       Err _ \<Rightarrow> Ok ()
     | Panic \<Rightarrow> Panic
     | Ok commitment_on_a \<Rightarrow>
     and_then (packet_commitment_of env packet) (\<lambda>expected_commitment_on_a.
     if commitment_on_a \<noteq> expected_commitment_on_a
     then Err (PacketError (IncorrectPacketCommitment (seq_on_a packet)))
     else
     and_then (index_res (ch_connection_hops chan_end_on_a) 0) (\<lambda>conn_id_on_a.
     and_then (connection_end ctx_a conn_id_on_a) (\<lambda>conn_end_on_a.
     let client_id_on_a = ce_client_id conn_end_on_a in
     and_then (active_client_at env ctx_a client_id_on_a client_id_on_a
         (toc_proof_height_on_b msg)) (\<lambda>client_state_of_b_on_a.
     and_then (consensus_state_at ctx_a client_id_on_a (toc_proof_height_on_b msg))
       (\<lambda>consensus_state_of_b_on_a.
     let port_id_on_b = hcp_port_id (ch_remote chan_end_on_a) in
     and_then (ok_or (hcp_channel_id (ch_remote chan_end_on_a))
         (PacketError (PacketChannel ChanMissingCounterparty))) (\<lambda>chan_id_on_b.
     and_then (ok_or (ccp_connection_id (ce_counterparty conn_end_on_a))
         (PacketError (PacketUndefinedConnectionCounterparty conn_id_on_a))) (\<lambda>conn_id_on_b.
     and_then (map_err ChannelError (channel_end_new Closed (ch_ordering chan_end_on_a)
         (packet_counterparty_on_a packet) [conn_id_on_b] (ch_version chan_end_on_a)))
       (\<lambda>expected_chan_end_on_b.
     and_then (map_err (\<lambda>e. PacketError (PacketChannel e))
         (verify_channel_end env client_state_of_b_on_a consensus_state_of_b_on_a conn_end_on_a
            (toc_proof_close_on_b msg) (ChannelEndPath port_id_on_b chan_id_on_b)
            expected_chan_end_on_b)) (\<lambda>_.
     and_then (verify_conn_delay_passed env ctx_a (toc_proof_height_on_b msg) conn_end_on_a)
       (\<lambda>_.
     verify_packet_unreceived env client_state_of_b_on_a consensus_state_of_b_on_a conn_end_on_a
       packet (toc_next_seq_recv_on_b msg) (toc_proof_unreceived_on_b msg)
       (ch_ordering chan_end_on_a)))))))))))))))"

definition timeout_packet_validate ::
  "('cs, 'cons) client_ops \<Rightarrow> 'm module_ops \<Rightarrow> ('cs, 'cons) ibc_store \<Rightarrow> 'm
     \<Rightarrow> timeout_msg_type \<Rightarrow> (unit, context_error) result" where
  "timeout_packet_validate env mops ctx_a module timeout_msg_type =
     and_then (case timeout_msg_type of
         Timeout msg \<Rightarrow> timeout_validate_core env ctx_a msg
       | TimeoutOnClose msg \<Rightarrow> timeout_on_close_validate env ctx_a msg) (\<lambda>_.
     let (packet, signer) = timeout_msg_parts timeout_msg_type in
     map_err PacketError (on_timeout_packet_validate mops packet signer module))"

definition timeout_packet_execute ::
  "'m module_ops \<Rightarrow> timeout_msg_type
     \<Rightarrow> (('cs, 'cons, 'm) host, unit, context_error) exec" where
  "timeout_packet_execute mops timeout_msg_type = (
     let (packet, signer) = timeout_msg_parts timeout_msg_type in
     exec_bind (exec_fst (exec_read (\<lambda>ctx_a. channel_end ctx_a (chan_end_path_on_a packet))))
       (\<lambda>chan_end_on_a.
     exec_bind (exec_fst (emit_ibc_event (MessageEvent MsgChannel))) (\<lambda>_.
     exec_bind (exec_fst (emit_ibc_event
         (TimeoutPacketEvent packet (ch_ordering chan_end_on_a)))) (\<lambda>_.
     exec_bind (exec_fst (exec_read (\<lambda>ctx_a.
         Ok (is_ok (get_packet_commitment ctx_a (commitment_path_on_a packet)))))) (\<lambda>committed.
     if \<not> committed then exec_return ()
     else
     exec_bind (exec_snd (module_call (on_timeout_packet_execute mops packet signer)))
       (\<lambda>(extras, cb_result).
     exec_bind (exec_lift (map_err PacketError cb_result)) (\<lambda>_.
     exec_fst (
     exec_bind (delete_packet_commitment (commitment_path_on_a packet)) (\<lambda>_.
     exec_bind (if ch_ordering chan_end_on_a = Ordered
         then store_channel (chan_end_path_on_a packet) (ch_set_state Closed chan_end_on_a)
         else exec_return ()) (\<lambda>_.
     exec_bind (log_message ''success: packet timeout'') (\<lambda>_.
     exec_bind (if ch_ordering chan_end_on_a = Ordered
         then exec_bind (exec_lift (index_res (ch_connection_hops chan_end_on_a) 0))
             (\<lambda>conn_id_on_a.
           exec_bind (emit_ibc_event (MessageEvent MsgChannel)) (\<lambda>_.
           emit_ibc_event (ChannelClosedEvent (port_id_on_a packet) (chan_id_on_a packet)
             (hcp_port_id (ch_remote chan_end_on_a)) (hcp_channel_id (ch_remote chan_end_on_a))
             conn_id_on_a (ch_ordering chan_end_on_a))))
         else exec_return ()) (\<lambda>_.
     emit_module_extras extras))))))))))))"


section \<open>Lemmas\<close>

lemma module_call_Ok_iff [result_simps]: "module_call f m = (Ok a, m') \<longleftrightarrow> f m = (a, m')"
  by (auto simp: module_call_def split: prod.splits)

lemma is_ok_ok_or [simp]: "is_ok (ok_or x e) \<longleftrightarrow> x \<noteq> None"
  by (cases x) (simp_all add: is_ok_def)

text \<open>The sending side of a packet: what has to hold for \<open>send_packet\<close> to succeed.\<close>

definition send_allowed ::
  "('cs, 'cons) client_ops \<Rightarrow> ('cs, 'cons) ibc_store \<Rightarrow> packet \<Rightarrow> bool" where
  "send_allowed env s p \<longleftrightarrow>
     (timeout_height_is_set (timeout_height_on_b p) \<or> timestamp_is_set (timeout_timestamp_on_b p))
     \<and> send_sequence_store s (SeqSendPath (port_id_on_a p) (chan_id_on_a p)) = Some (seq_on_a p)
     \<and> (\<exists>c conn cs cons.
         channel_end_store s (chan_end_path_on_a p) = Some c \<and> ch_state c \<noteq> Closed
         \<and> ch_remote c = packet_counterparty_on_b p \<and> ch_connection_hops c \<noteq> []
         \<and> connection_end_store s (ConnectionPath (ch_connection_hops c ! 0)) = Some conn
         \<and> client_state_store s (ClientStatePath (ce_client_id conn)) = Some cs
         \<and> cs_status env cs s (ce_client_id conn) = Ok Active
         \<and> consensus_state_at s (ce_client_id conn) (cs_latest_height env cs) = Ok cons
         \<and> \<not> has_expired (timeout_height_on_b p) (cs_latest_height env cs)
         \<and> check_expiry (cons_timestamp env cons) (timeout_timestamp_on_b p) \<noteq> Expired)"

lemma client_is_active_Ok_iff [result_simps]:
  "client_is_active env ctx cid = Ok cs \<longleftrightarrow>
     client_state_store ctx (ClientStatePath cid) = Some cs \<and> cs_status env cs ctx cid = Ok Active"
  by (auto simp: client_is_active_def result_simps store_reads)

lemma send_packet_validate_Ok_iff:
  "send_packet_validate env p s = Ok u \<longleftrightarrow> send_allowed env s p"
  by (auto simp: send_packet_validate_def send_allowed_def result_simps store_reads Let_def
      split: if_splits)

lemma send_packet_execute_Ok_iff:
  "send_packet_execute env p s = (Ok (), s') \<longleftrightarrow>
     (\<exists>n k c. send_sequence_store s (SeqSendPath (port_id_on_a p) (chan_id_on_a p)) = Some n
       \<and> packet_commitment_of env p = (Ok k :: (packet_commitment, context_error) result)
       \<and> channel_end_store s (chan_end_path_on_a p) = Some c \<and> ch_connection_hops c \<noteq> []
       \<and> \<not> st_refuses s (Path_SeqSend (SeqSendPath (port_id_on_a p) (chan_id_on_a p)))
       \<and> \<not> st_refuses s (Path_Commitment (commitment_path_on_a p))
       \<and> s' = s\<lparr>
           send_sequence_store := (send_sequence_store s)
             (SeqSendPath (port_id_on_a p) (chan_id_on_a p) \<mapsto> n + 1),
           packet_commitment_store := (packet_commitment_store s)(commitment_path_on_a p \<mapsto> k),
           events := events s @ [MessageEvent MsgChannel,
             SendPacketEvent p (ch_ordering c) (ch_connection_hops c ! 0)],
           logs := logs s @ [''success: packet send'']\<rparr>)"
  by (auto simp: send_packet_execute_def result_simps store_reads store_writes Let_def
      sequence_increment_def)


subsection \<open>Receiving\<close>

text \<open>The client behind a connection is active and has a consensus state at the height of
  a proof.\<close>

definition verified_at ::
  "('cs, 'cons) client_ops \<Rightarrow> ('cs, 'cons) ibc_store \<Rightarrow> connection_end \<Rightarrow> height \<Rightarrow> 'cs \<Rightarrow> 'cons \<Rightarrow> bool"
where
  "verified_at env s conn h cs cons \<longleftrightarrow>
     client_state_store s (ClientStatePath (ce_client_id conn)) = Some cs
     \<and> cs_status env cs s (ce_client_id conn) = Ok Active
     \<and> cs_validate_proof_height env cs h = Ok ()
     \<and> consensus_state_at s (ce_client_id conn) h = Ok cons"

lemma validate_write_acknowledgement_Ok_iff [result_simps]:
  "validate_write_acknowledgement s msg = Ok u \<longleftrightarrow>
     packet_ack_store s (ack_path_on_b (rcv_packet msg)) = None"
  by (auto simp: validate_write_acknowledgement_def store_reads)

lemma recv_packet_validate_order_Ok_iff:
  "recv_packet_validate_order s msg chan_order = Ok u \<longleftrightarrow> (let p = rcv_packet msg in
     case chan_order of
       Ordered \<Rightarrow> (\<exists>n. recv_sequence_store s (seq_recv_path_on_b p) = Some n \<and> seq_on_a p \<le> n
         \<and> (seq_on_a p = n \<longrightarrow> packet_ack_store s (ack_path_on_b p) = None))
     | Unordered \<Rightarrow> packet_ack_store s (ack_path_on_b p) = None
     | OrderNone \<Rightarrow> False)"
  by (cases chan_order)
    (auto simp: recv_packet_validate_order_def result_simps store_reads Let_def
      receipt_path_sequence_def not_less split: if_splits)

lemma recv_packet_validate_Ok_iff:
  "recv_packet_validate env s msg = Ok u \<longleftrightarrow> (\<exists>c conn now_h now cs cons k. let p = rcv_packet msg in
     channel_end_store s (chan_end_path_on_b p) = Some c \<and> ch_state c = Open
     \<and> ch_remote c = packet_counterparty_on_a p \<and> ch_connection_hops c \<noteq> []
     \<and> connection_end_store s (ConnectionPath (ch_connection_hops c ! 0)) = Some conn
     \<and> ce_state conn = ConnOpen
     \<and> host_height s = Ok now_h \<and> \<not> has_expired (timeout_height_on_b p) now_h
     \<and> host_timestamp env s = Ok now \<and> check_expiry now (timeout_timestamp_on_b p) \<noteq> Expired
     \<and> verified_at env s conn (rcv_proof_height_on_a msg) cs cons
     \<and> packet_commitment_of env p = (Ok k :: (packet_commitment, context_error) result)
     \<and> verify_conn_delay_passed env s (rcv_proof_height_on_a msg) conn = Ok ()
     \<and> cs_verify_membership env cs (ccp_prefix (ce_counterparty conn)) (rcv_proof_commitment_on_a msg)
         (cons_root env cons) (Path_Commitment (commitment_path_on_a p)) (packet_commitment_bytes k)
       = Ok ()
     \<and> recv_packet_validate_order s msg (ch_ordering c) = Ok ())"
  by (auto simp: recv_packet_validate_def verified_at_def result_simps Let_def
      validate_message_signer_def channel_end_def connection_end_def ce_verify_state_matches_Ok_iff
      split: if_splits) blast

lemma recv_packet_execute_OkD:
  assumes "recv_packet_execute env mops msg (s, m) = (Ok (), (s', m'))"
    and p: "p = rcv_packet msg"
  shows "\<exists>c. channel_end_store s (chan_end_path_on_b p) = Some c \<and>
    (packet_already_received s p (ch_ordering c) = Ok True \<and> s' = s \<and> m' = m
     \<or> packet_already_received s p (ch_ordering c) = Ok False \<and>
       (\<exists>extras ack rec.
          on_recv_packet_execute mops p (rcv_signer msg) m = ((extras, ack), m')
          \<and> recv_packet_record p (ch_ordering c) s = (Ok (), rec)
          \<and> s' = with_output
              [MessageEvent MsgChannel, ReceivePacketEvent p (ch_ordering c) (ch_connection_hops c ! 0),
               MessageEvent MsgChannel, WriteAcknowledgementEvent p ack (ch_connection_hops c ! 0)]
              [''success: packet receive'', ''success: packet write acknowledgement''] extras
              (rec\<lparr>packet_ack_store := (packet_ack_store rec)
                 (ack_path_on_b p \<mapsto> compute_ack_commitment (ext_hash env) ack)\<rparr>)))"
  using assms(1) unfolding p
  by (auto simp: recv_packet_execute_def result_simps Let_def channel_end_def store_writes
      emit_module_extras_eq with_output_def split: prod.splits if_splits)

lemma recv_packet_record_Ok_iff [result_simps]:
  "recv_packet_record p chan_order s = (Ok (), s') \<longleftrightarrow> (case chan_order of
     Unordered \<Rightarrow> \<not> st_refuses s (Path_Receipt (receipt_path_on_b p))
       \<and> s' = s\<lparr>packet_receipt_store := insert (receipt_path_on_b p) (packet_receipt_store s)\<rparr>
   | Ordered \<Rightarrow> (\<exists>n. recv_sequence_store s (seq_recv_path_on_b p) = Some n
       \<and> \<not> st_refuses s (Path_SeqRecv (seq_recv_path_on_b p))
       \<and> s' = s\<lparr>recv_sequence_store := (recv_sequence_store s)(seq_recv_path_on_b p \<mapsto> n + 1)\<rparr>)
   | OrderNone \<Rightarrow> s' = s)"
  by (cases s; cases chan_order)
    (auto simp: recv_packet_record_def result_simps store_reads store_writes sequence_increment_def)

lemma packet_already_received_iff:
  "packet_already_received s p chan_order = Ok b \<longleftrightarrow> (case chan_order of
     OrderNone \<Rightarrow> \<not> b
   | Unordered \<Rightarrow> b = (receipt_path_on_b p \<in> packet_receipt_store s)
   | Ordered \<Rightarrow> (\<exists>n. recv_sequence_store s (seq_recv_path_on_b p) = Some n \<and> b = (seq_on_a p < n)))"
  by (cases chan_order) (auto simp: packet_already_received_def result_simps store_reads)


subsection \<open>Acknowledgement\<close>

lemma acknowledgement_validate_Ok_iff:
  "acknowledgement_validate_core env s msg = Ok u \<longleftrightarrow> (let p = ack_packet msg in \<exists>c conn.
     channel_end_store s (chan_end_path_on_a p) = Some c \<and> ch_state c = Open
     \<and> ch_remote c = packet_counterparty_on_b p \<and> ch_connection_hops c \<noteq> []
     \<and> connection_end_store s (ConnectionPath (ch_connection_hops c ! 0)) = Some conn
     \<and> ce_state conn = ConnOpen
     \<and> (packet_commitment_store s (commitment_path_on_a p) = None
        \<or> (\<exists>k cs cons. packet_commitment_store s (commitment_path_on_a p) = Some k
            \<and> packet_commitment_of env p = (Ok k :: (packet_commitment, context_error) result)
            \<and> (ch_ordering c = Ordered \<longrightarrow>
                 ack_sequence_store s (SeqAckPath (port_id_on_a p) (chan_id_on_a p)) = Some (seq_on_a p))
            \<and> verified_at env s conn (ack_proof_height_on_b msg) cs cons
            \<and> verify_conn_delay_passed env s (ack_proof_height_on_b msg) conn = Ok ()
            \<and> cs_verify_membership env cs (ccp_prefix (ce_counterparty conn)) (ack_proof_acked_on_b msg)
                (cons_root env cons) (Path_Ack (ack_path_on_b p))
                (ack_commitment_bytes (compute_ack_commitment (ext_hash env) (ack_acknowledgement msg)))
              = Ok ())))"
  by (cases "packet_commitment_store s (commitment_path_on_a (ack_packet msg))")
    (auto simp: acknowledgement_validate_core_def verified_at_def result_simps Let_def
      validate_message_signer_def channel_end_def connection_end_def get_packet_commitment_def
      get_next_sequence_ack_def ce_verify_state_matches_Ok_iff split: if_splits)

lemma acknowledgement_packet_execute_OkD:
  assumes "acknowledgement_packet_execute mops msg (s, m) = (Ok (), (s', m'))"
    and p: "p = ack_packet msg"
  shows "\<exists>c evs. channel_end_store s (chan_end_path_on_a p) = Some c
    \<and> evs = [MessageEvent MsgChannel,
        AcknowledgePacketEvent p (ch_ordering c) (ch_connection_hops c ! 0)]
    \<and> (packet_commitment_store s (commitment_path_on_a p) = None
         \<and> s' = s\<lparr>events := events s @ evs\<rparr> \<and> m' = m
       \<or> packet_commitment_store s (commitment_path_on_a p) \<noteq> None \<and>
         (\<exists>extras. on_acknowledgement_packet_execute mops p (ack_acknowledgement msg) (ack_signer msg) m
              = ((extras, Ok ()), m')
            \<and> s' = with_output evs [''success: packet acknowledgement''] extras
                (if ch_ordering c = Ordered
                 then s\<lparr>packet_commitment_store :=
                          (packet_commitment_store s)(commitment_path_on_a p := None),
                        ack_sequence_store := (ack_sequence_store s)
                          (SeqAckPath (port_id_on_a p) (chan_id_on_a p) \<mapsto> seq_on_a p + 1)\<rparr>
                 else s\<lparr>packet_commitment_store :=
                          (packet_commitment_store s)(commitment_path_on_a p := None)\<rparr>)))"
proof -
  obtain c where c: "channel_end_store s (chan_end_path_on_a p) = Some c"
      "ch_connection_hops c \<noteq> []"
    using assms
    by (auto simp: acknowledgement_packet_execute_def result_simps Let_def channel_end_def)
  obtain extras r m1 where r: "on_acknowledgement_packet_execute mops p
      (ack_acknowledgement msg) (ack_signer msg) m = ((extras, r), m1)" by (metis prod.exhaust)
  note eval = acknowledgement_packet_execute_def exec_eval Let_def channel_end_def index_res_def
    emit_ibc_event_eq get_packet_commitment_def
  show ?thesis
  proof (cases "packet_commitment_store s (commitment_path_on_a p)")
    case None
    then show ?thesis using assms c by (simp add: eval)
  next
    case (Some k)
    then show ?thesis using assms c r
      by (cases r; cases "ch_ordering c = Ordered")
        (auto simp: eval module_call_def delete_packet_commitment_def log_message_eq
          emit_module_extras_eq with_output_def store_next_sequence_ack_def typed_set_def
          sequence_increment_def split: if_splits)
  qed
qed


subsection \<open>Timeout\<close>

lemma timeout_validate_Ok_iff:
  "timeout_validate_core env s msg = Ok u \<longleftrightarrow> (let p = tmo_packet msg in \<exists>c conn.
     channel_end_store s (chan_end_path_on_a p) = Some c \<and> ch_state c = Open
     \<and> ch_remote c = packet_counterparty_on_b p \<and> ch_connection_hops c \<noteq> []
     \<and> connection_end_store s (ConnectionPath (ch_connection_hops c ! 0)) = Some conn
     \<and> (packet_commitment_store s (commitment_path_on_a p) = None
        \<or> (\<exists>k cs cons. packet_commitment_store s (commitment_path_on_a p) = Some k
            \<and> packet_commitment_of env p = (Ok k :: (packet_commitment, context_error) result)
            \<and> verified_at env s conn (tmo_proof_height_on_b msg) cs cons
            \<and> timed_out p (cons_timestamp env cons) (tmo_proof_height_on_b msg)
            \<and> verify_conn_delay_passed env s (tmo_proof_height_on_b msg) conn = Ok ()
            \<and> verify_packet_unreceived env cs cons conn p (tmo_next_seq_recv_on_b msg)
                (tmo_proof_unreceived_on_b msg) (ch_ordering c) = Ok ())))"
  by (cases "packet_commitment_store s (commitment_path_on_a (tmo_packet msg))")
    (auto simp: timeout_validate_core_def verified_at_def result_simps Let_def
      validate_message_signer_def channel_end_def connection_end_def get_packet_commitment_def
      split: if_splits)

lemma timeout_on_close_validate_Ok_iff:
  "timeout_on_close_validate env s msg = Ok u \<longleftrightarrow> (let p = toc_packet msg in \<exists>c.
     channel_end_store s (chan_end_path_on_a p) = Some c
     \<and> ch_remote c = packet_counterparty_on_b p
     \<and> (packet_commitment_store s (commitment_path_on_a p) = None
        \<or> (\<exists>k conn cs cons conn_id_on_b. packet_commitment_store s (commitment_path_on_a p) = Some k
            \<and> packet_commitment_of env p = (Ok k :: (packet_commitment, context_error) result)
            \<and> ch_connection_hops c \<noteq> []
            \<and> connection_end_store s (ConnectionPath (ch_connection_hops c ! 0)) = Some conn
            \<and> verified_at env s conn (toc_proof_height_on_b msg) cs cons
            \<and> ccp_connection_id (ce_counterparty conn) = Some conn_id_on_b
            \<and> ch_ordering c \<noteq> OrderNone
            \<and> verify_channel_end env cs cons conn (toc_proof_close_on_b msg) (chan_end_path_on_b p)
                \<lparr>ch_state = Closed, ch_ordering = ch_ordering c,
                 ch_remote = packet_counterparty_on_a p, ch_connection_hops = [conn_id_on_b],
                 ch_version = ch_version c\<rparr> = Ok ()
            \<and> verify_conn_delay_passed env s (toc_proof_height_on_b msg) conn = Ok ()
            \<and> verify_packet_unreceived env cs cons conn p (toc_next_seq_recv_on_b msg)
                (toc_proof_unreceived_on_b msg) (ch_ordering c) = Ok ())))"
  by (cases "packet_commitment_store s (commitment_path_on_a (toc_packet msg))")
    (auto simp: timeout_on_close_validate_def verified_at_def result_simps Let_def
      validate_message_signer_def channel_end_def connection_end_def get_packet_commitment_def
      packet_counterparty_on_b_def chan_end_path_on_b_def split: if_splits)

lemma timeout_packet_execute_OkD:
  assumes "timeout_packet_execute mops t (s, m) = (Ok (), (s', m'))"
    and p: "timeout_msg_parts t = (p, signer)"
  shows "\<exists>c evs. channel_end_store s (chan_end_path_on_a p) = Some c
    \<and> evs = [MessageEvent MsgChannel, TimeoutPacketEvent p (ch_ordering c)]
    \<and> (packet_commitment_store s (commitment_path_on_a p) = None
         \<and> s' = s\<lparr>events := events s @ evs\<rparr> \<and> m' = m
       \<or> packet_commitment_store s (commitment_path_on_a p) \<noteq> None \<and>
         (\<exists>extras. on_timeout_packet_execute mops p signer m = ((extras, Ok ()), m')
            \<and> s' = (if ch_ordering c = Ordered
                then with_output (evs @ [MessageEvent MsgChannel,
                    ChannelClosedEvent (port_id_on_a p) (chan_id_on_a p) (hcp_port_id (ch_remote c))
                      (hcp_channel_id (ch_remote c)) (ch_connection_hops c ! 0) Ordered])
                  [''success: packet timeout''] extras
                  (s\<lparr>packet_commitment_store :=
                       (packet_commitment_store s)(commitment_path_on_a p := None),
                     channel_end_store := (channel_end_store s)
                       (chan_end_path_on_a p \<mapsto> c\<lparr>ch_state := Closed\<rparr>)\<rparr>)
                else with_output evs [''success: packet timeout''] extras
                  (s\<lparr>packet_commitment_store :=
                       (packet_commitment_store s)(commitment_path_on_a p := None)\<rparr>))))"
proof -
  obtain c where c: "channel_end_store s (chan_end_path_on_a p) = Some c"
    using assms by (auto simp: timeout_packet_execute_def result_simps Let_def channel_end_def)
  obtain extras r m1 where r: "on_timeout_packet_execute mops p signer m = ((extras, r), m1)"
    by (metis prod.exhaust)
  note eval = timeout_packet_execute_def exec_eval Let_def channel_end_def emit_ibc_event_eq
    get_packet_commitment_def
  show ?thesis
  proof (cases "packet_commitment_store s (commitment_path_on_a p)")
    case None
    then show ?thesis using assms c by (simp add: eval)
  next
    case (Some k)
    then show ?thesis using assms c r
      by (cases r; cases "ch_ordering c = Ordered"; cases "ch_connection_hops c = []")
        (auto simp: eval module_call_def delete_packet_commitment_def log_message_eq
          index_res_def emit_module_extras_eq with_output_def store_channel_def typed_set_def
          ch_set_state_def split: if_splits)
  qed
qed

end
