(* ===== verification/Entrypoint.thy ===== *)
theory Entrypoint
  imports Packet_Handlers
begin

text \<open>
  The routing of messages: the router of \<open>ibc-core/ics26-routing\<close> as
  \<open>ibc-testkit/src/testapp/ibc/core/router\<close> implements it, and the entry point
  \<open>ibc-core/ics25-handler/src/entrypoint.rs\<close>.

  A module is an object behind \<open>dyn Module\<close>.  Here the type \<open>'m\<close> is the sum of the states
  of the modules of an application and one table of callbacks acts on it.
\<close>

section \<open>Router\<close>

record 'm mock_router =
  router :: "module_id \<rightharpoonup> 'm"
  port_to_module :: "port_id \<rightharpoonup> module_id"

definition router_empty :: "'m mock_router" where
  "router_empty = \<lparr>router = Map.empty, port_to_module = Map.empty\<rparr>"

definition get_route :: "'m mock_router \<Rightarrow> module_id \<Rightarrow> 'm option" where
  "get_route self module_id = router self module_id"

definition lookup_module :: "'m mock_router \<Rightarrow> port_id \<Rightarrow> module_id option" where
  "lookup_module self port_id = port_to_module self port_id"

text \<open>Inserting a module replaces the one under the same name, which is then an
  error.\<close>

definition add_route :: "module_id \<Rightarrow> 'm \<Rightarrow> ('m mock_router, unit, string) exec" where
  "add_route module_id module = (\<lambda>self.
     (case router self module_id of None \<Rightarrow> Ok () | Some _ \<Rightarrow> Err ''Duplicate module_id'',
      self\<lparr>router := (router self)(module_id \<mapsto> module)\<rparr>))"

definition scope_port_to_module ::
  "port_id \<Rightarrow> module_id \<Rightarrow> 'm mock_router \<Rightarrow> 'm mock_router" where
  "scope_port_to_module port_id module_id self =
     self\<lparr>port_to_module := (port_to_module self)(port_id \<mapsto> module_id)\<rparr>"

text \<open>The state of the application: the store and the router.\<close>

type_synonym ('cs, 'cons, 'm) app = "('cs, 'cons) ibc_store \<times> 'm mock_router"

definition module_of_port :: "'m mock_router \<Rightarrow> port_id \<Rightarrow> (module_id \<times> 'm, context_error) result"
where
  "module_of_port r port_id =
     and_then (ok_or (lookup_module r port_id) (RouterError (UnknownPort port_id))) (\<lambda>module_id.
     and_then (ok_or (get_route r module_id) (RouterError ModuleNotFound)) (\<lambda>module.
     Ok (module_id, module)))"

text \<open>Running a handler on the module behind \<open>get_route_mut\<close>.\<close>

definition with_module ::
  "port_id \<Rightarrow> (('cs, 'cons, 'm) host, 'a, context_error) exec
     \<Rightarrow> (('cs, 'cons, 'm) app, 'a, context_error) exec" where
  "with_module port_id handler = (\<lambda>(ctx, r). case module_of_port r port_id of
       Ok (module_id, module) \<Rightarrow>
         (case handler (ctx, module) of (res, (ctx', module')) \<Rightarrow>
            (res, (ctx', r\<lparr>router := (router r)(module_id \<mapsto> module')\<rparr>)))
     | Err e \<Rightarrow> (Err e, (ctx, r))
     | Panic \<Rightarrow> (Panic, (ctx, r)))"


section \<open>Validation\<close>

definition client_msg_validate ::
  "('cs, 'cons) client_ops \<Rightarrow> ('cs, 'cons) ibc_store \<Rightarrow> client_msg
     \<Rightarrow> (unit, context_error) result" where
  "client_msg_validate env ctx msg = (case msg of
       CreateClientMsg msg \<Rightarrow> create_client_validate env ctx msg
     | UpdateClientMsg msg \<Rightarrow> update_client_validate env ctx (UpdateClient msg)
     | MisbehaviourMsg msg \<Rightarrow> update_client_validate env ctx (Misbehaviour msg)
     | UpgradeClientMsg msg \<Rightarrow> upgrade_client_validate env ctx msg
     | RecoverClientMsg _ \<Rightarrow> Ok ())"

definition connection_msg_validate ::
  "('cs, 'cons) client_ops \<Rightarrow> ('cs, 'cons) ibc_store \<Rightarrow> connection_msg
     \<Rightarrow> (unit, context_error) result" where
  "connection_msg_validate env ctx msg = (case msg of
       ConnOpenInit msg \<Rightarrow> conn_open_init_validate env ctx msg
     | ConnOpenTry msg \<Rightarrow> conn_open_try_validate env ctx msg
     | ConnOpenAck msg \<Rightarrow> conn_open_ack_validate env ctx msg
     | ConnOpenConfirm msg \<Rightarrow> conn_open_confirm_validate env ctx msg)"

definition channel_msg_validate ::
  "('cs, 'cons) client_ops \<Rightarrow> 'm module_ops \<Rightarrow> ('cs, 'cons) ibc_store \<Rightarrow> 'm \<Rightarrow> channel_msg
     \<Rightarrow> (unit, context_error) result" where
  "channel_msg_validate env mops ctx module msg = (case msg of
       ChanOpenInit msg \<Rightarrow> chan_open_init_validate env mops ctx module msg
     | ChanOpenTry msg \<Rightarrow> chan_open_try_validate env mops ctx module msg
     | ChanOpenAck msg \<Rightarrow> chan_open_ack_validate env mops ctx module msg
     | ChanOpenConfirm msg \<Rightarrow> chan_open_confirm_validate env mops ctx module msg
     | ChanCloseInit msg \<Rightarrow> chan_close_init_validate env mops ctx module msg
     | ChanCloseConfirm msg \<Rightarrow> chan_close_confirm_validate env mops ctx module msg)"

definition packet_msg_validate ::
  "('cs, 'cons) client_ops \<Rightarrow> 'm module_ops \<Rightarrow> ('cs, 'cons) ibc_store \<Rightarrow> 'm \<Rightarrow> packet_msg
     \<Rightarrow> (unit, context_error) result" where
  "packet_msg_validate env mops ctx module msg = (case msg of
       PacketRecv msg \<Rightarrow> recv_packet_validate env ctx msg
     | PacketAck msg \<Rightarrow> acknowledgement_packet_validate env mops ctx module msg
     | PacketTimeout msg \<Rightarrow> timeout_packet_validate env mops ctx module (Timeout msg)
     | PacketTimeoutOnClose msg \<Rightarrow>
         timeout_packet_validate env mops ctx module (TimeoutOnClose msg))"

definition validate ::
  "('cs, 'cons) client_ops \<Rightarrow> 'm module_ops \<Rightarrow> msg_envelope \<Rightarrow> ('cs, 'cons, 'm) app
     \<Rightarrow> (unit, context_error) result" where
  "validate env mops msg st = (let (ctx, r) = st in case msg of
       ClientEnvelope msg \<Rightarrow> client_msg_validate env ctx msg
     | ConnectionEnvelope msg \<Rightarrow> connection_msg_validate env ctx msg
     | ChannelEnvelope msg \<Rightarrow>
         and_then (module_of_port r (channel_msg_to_port_id msg)) (\<lambda>(_, module).
         channel_msg_validate env mops ctx module msg)
     | PacketEnvelope msg \<Rightarrow>
         and_then (module_of_port r (packet_msg_to_port_id msg)) (\<lambda>(_, module).
         packet_msg_validate env mops ctx module msg))"


section \<open>Execution\<close>

definition client_msg_execute ::
  "('cs, 'cons) client_ops \<Rightarrow> client_msg
     \<Rightarrow> (('cs, 'cons) ibc_store, unit, context_error) exec" where
  "client_msg_execute env msg = (case msg of
       CreateClientMsg msg \<Rightarrow> create_client_execute env msg
     | UpdateClientMsg msg \<Rightarrow> update_client_execute env (UpdateClient msg)
     | MisbehaviourMsg msg \<Rightarrow> update_client_execute env (Misbehaviour msg)
     | UpgradeClientMsg msg \<Rightarrow> upgrade_client_execute env msg
     | RecoverClientMsg _ \<Rightarrow> exec_return ())"

definition connection_msg_execute ::
  "connection_msg \<Rightarrow> (('cs, 'cons) ibc_store, unit, context_error) exec" where
  "connection_msg_execute msg = (case msg of
       ConnOpenInit msg \<Rightarrow> conn_open_init_execute msg
     | ConnOpenTry msg \<Rightarrow> conn_open_try_execute msg
     | ConnOpenAck msg \<Rightarrow> conn_open_ack_execute msg
     | ConnOpenConfirm msg \<Rightarrow> conn_open_confirm_execute msg)"

definition channel_msg_execute ::
  "'m module_ops \<Rightarrow> channel_msg \<Rightarrow> (('cs, 'cons, 'm) host, unit, context_error) exec" where
  "channel_msg_execute mops msg = (case msg of
       ChanOpenInit msg \<Rightarrow> chan_open_init_execute mops msg
     | ChanOpenTry msg \<Rightarrow> chan_open_try_execute mops msg
     | ChanOpenAck msg \<Rightarrow> chan_open_ack_execute mops msg
     | ChanOpenConfirm msg \<Rightarrow> chan_open_confirm_execute mops msg
     | ChanCloseInit msg \<Rightarrow> chan_close_init_execute mops msg
     | ChanCloseConfirm msg \<Rightarrow> chan_close_confirm_execute mops msg)"

definition packet_msg_execute ::
  "('cs, 'cons) client_ops \<Rightarrow> 'm module_ops \<Rightarrow> packet_msg
     \<Rightarrow> (('cs, 'cons, 'm) host, unit, context_error) exec" where
  "packet_msg_execute env mops msg = (case msg of
       PacketRecv msg \<Rightarrow> recv_packet_execute env mops msg
     | PacketAck msg \<Rightarrow> acknowledgement_packet_execute mops msg
     | PacketTimeout msg \<Rightarrow> timeout_packet_execute mops (Timeout msg)
     | PacketTimeoutOnClose msg \<Rightarrow> timeout_packet_execute mops (TimeoutOnClose msg))"

definition execute ::
  "('cs, 'cons) client_ops \<Rightarrow> 'm module_ops \<Rightarrow> msg_envelope
     \<Rightarrow> (('cs, 'cons, 'm) app, unit, context_error) exec" where
  "execute env mops msg = (case msg of
       ClientEnvelope msg \<Rightarrow> exec_fst (client_msg_execute env msg)
     | ConnectionEnvelope msg \<Rightarrow> exec_fst (connection_msg_execute msg)
     | ChannelEnvelope msg \<Rightarrow>
         with_module (channel_msg_to_port_id msg) (channel_msg_execute mops msg)
     | PacketEnvelope msg \<Rightarrow>
         with_module (packet_msg_to_port_id msg) (packet_msg_execute env mops msg))"

definition dispatch ::
  "('cs, 'cons) client_ops \<Rightarrow> 'm module_ops \<Rightarrow> msg_envelope
     \<Rightarrow> (('cs, 'cons, 'm) app, unit, context_error) exec" where
  "dispatch env mops msg =
     exec_bind (exec_read (validate env mops msg)) (\<lambda>_. execute env mops msg)"

end
