(* ===== verification/Light_Client.thy ===== *)
theory Light_Client
  imports Client_Handlers
begin

text \<open>
  What the handlers rely on of a light client.  Its operations reach the host through
  the trait \<open>ClientExecutionContext\<close> (\<open>ibc-core/ics02-client/context/src/context.rs\<close>),
  which only writes client states, consensus states and their update metadata and
  has no operation that removes a client state.  The locale states this as a frame
  condition; theory \<open>Mock_Client\<close> discharges it for the mock client.  The second part is
  what the clients share: their operations are generic in the context that stores their
  states, and the record \<open>client_bounds\<close> holds what the trait bounds provide.
\<close>

section \<open>The frame of a client operation\<close>

definition core_of :: "('cs, 'cons) ibc_store \<Rightarrow> ('cs, 'cons) ibc_store" where
  "core_of s = s\<lparr>client_state_store := Map.empty, consensus_state_store := Map.empty,
     client_processed_times := Map.empty, client_processed_heights := Map.empty\<rparr>"

definition client_write :: "('cs, 'cons) ibc_store \<Rightarrow> ('cs, 'cons) ibc_store \<Rightarrow> bool" where
  "client_write s t \<longleftrightarrow>
     core_of t = core_of s \<and> dom (client_state_store s) \<subseteq> dom (client_state_store t)"

locale light_client =
  fixes env :: "('cs, 'cons) client_ops"
  assumes initialise_frame: "keeps client_write (cs_initialise env cs cid cons)"
    and update_state_frame: "keeps client_write (cs_update_state env cs cid header)"
    and misbehaviour_frame: "keeps client_write (cs_update_state_on_misbehaviour env cs cid ev)"
    and upgrade_frame: "keeps client_write (cs_update_state_on_upgrade env cs cid ucs ucons)"
    and recovery_frame: "keeps client_write (cs_update_on_recovery env cs cid scs scons)"

lemma client_write_refl: "reflp client_write"
  by (simp add: reflp_def client_write_def)

lemma client_write_trans: "transp client_write"
  by (auto simp: transp_def client_write_def)

lemma client_write_fields:
  assumes "client_write s t"
  shows "st_revision_number t = st_revision_number s" "st_current_height t = st_current_height s"
    "st_refuses t = st_refuses s" "client_counter_store t = client_counter_store s"
    "conn_counter_store t = conn_counter_store s"
    "channel_counter_store t = channel_counter_store s"
    "connection_end_store t = connection_end_store s"
    "connection_ids_store t = connection_ids_store s"
    "channel_end_store t = channel_end_store s" "send_sequence_store t = send_sequence_store s"
    "recv_sequence_store t = recv_sequence_store s" "ack_sequence_store t = ack_sequence_store s"
    "packet_commitment_store t = packet_commitment_store s"
    "packet_receipt_store t = packet_receipt_store s" "packet_ack_store t = packet_ack_store s"
    "host_consensus_states t = host_consensus_states s"
    "ibc_commitment_proofs t = ibc_commitment_proofs s" "events t = events s" "logs t = logs s"
  using assms by (cases s, cases t, simp add: client_write_def core_of_def)+

section \<open>The bounds of a generic client\<close>

text \<open>\<open>'k\<close> and \<open>'c\<close> are the client's own states, \<open>'cs\<close> and \<open>'cons\<close> those of the store.\<close>

record ('cs, 'cons, 'k, 'c) client_bounds =
  cb_host_timestamp :: "('cs, 'cons) ibc_store \<Rightarrow> (timestamp, context_error) result"
  cb_into_client_state :: "'k \<Rightarrow> 'cs"
  cb_into_consensus_state :: "'c \<Rightarrow> 'cons"
  cb_from_consensus_state :: "'cons \<Rightarrow> ('c, client_error) result"
  cb_time_to_rfc3339 :: "tm_time \<Rightarrow> string"

text \<open>What the trait \<open>ExtClientValidationContext\<close> adds: the heights of the consensus states
  of a client, and the neighbours of a height among them.\<close>

record ('cs, 'cons, 'k, 'c) ext_client_bounds = "('cs, 'cons, 'k, 'c) client_bounds" +
  cb_consensus_state_heights ::
    "('cs, 'cons) ibc_store \<Rightarrow> client_id \<Rightarrow> (height list, context_error) result"
  cb_next_consensus_state ::
    "('cs, 'cons) ibc_store \<Rightarrow> client_id \<Rightarrow> height \<Rightarrow> ('cons option, context_error) result"
  cb_prev_consensus_state ::
    "('cs, 'cons) ibc_store \<Rightarrow> client_id \<Rightarrow> height \<Rightarrow> ('cons option, context_error) result"

abbreviation ctx_err :: "('cs, 'cons, 'k, 'c, 'z) client_bounds_scheme \<Rightarrow> context_error \<Rightarrow> client_error" where
  "ctx_err cb \<equiv> client_error_from_context (cb_time_to_rfc3339 cb)"

text \<open>\<open>store_update_meta\<close> at the time and the height of the host, as the clients call it.\<close>

definition store_update_meta_now ::
  "('cs, 'cons, 'k, 'c, 'z) client_bounds_scheme \<Rightarrow> client_id \<Rightarrow> height
     \<Rightarrow> (('cs, 'cons) ibc_store, unit, client_error) exec" where
  "store_update_meta_now cb client_id h = exec_map_err (ctx_err cb) (
     exec_bind (exec_read (cb_host_timestamp cb)) (\<lambda>host_ts.
     exec_bind (exec_read host_height) (\<lambda>host_h.
     store_update_meta client_id h host_ts host_h)))"

text \<open>Storing a client state and the consensus state at its latest height.\<close>

definition put_client_state ::
  "('cs, 'cons, 'k, 'c, 'z) client_bounds_scheme \<Rightarrow> client_id \<Rightarrow> 'k
     \<Rightarrow> (('cs, 'cons) ibc_store, unit, client_error) exec" where
  "put_client_state cb client_id cs = exec_map_err (ctx_err cb)
     (store_client_state (ClientStatePath client_id) (cb_into_client_state cb cs))"

definition put_consensus_state ::
  "('cs, 'cons, 'k, 'c, 'z) client_bounds_scheme \<Rightarrow> client_id \<Rightarrow> height \<Rightarrow> 'c
     \<Rightarrow> (('cs, 'cons) ibc_store, unit, client_error) exec" where
  "put_consensus_state cb client_id h cons = exec_map_err (ctx_err cb)
     (store_consensus_state
        (ClientConsensusStatePath client_id (revision_number h) (revision_height h))
        (cb_into_consensus_state cb cons))"

named_theorems client_frame \<open>frame rules of the writes of a client\<close>

lemma keeps_typed_set: "(\<And>s. R s (upd s)) \<Longrightarrow> reflp R \<Longrightarrow> keeps R (typed_set p e upd)"
  by (simp add: keeps_def typed_set_def reflpD)

lemma put_client_state_frame [client_frame]: "keeps client_write (put_client_state cb cid cs)"
  by (auto simp: put_client_state_def store_client_state_def client_write_def core_of_def
      intro!: keeps_intros keeps_typed_set client_write_refl)

lemma put_consensus_state_frame [client_frame]: "keeps client_write (put_consensus_state cb cid h cons)"
  by (auto simp: put_consensus_state_def store_consensus_state_def client_write_def core_of_def
      intro!: keeps_intros keeps_typed_set client_write_refl)

lemma store_update_meta_frame [client_frame]: "keeps client_write (store_update_meta cid h t hh)"
  by (auto simp: store_update_meta_def client_write_def core_of_def Let_def
      intro!: keeps_intros keeps_typed_set client_write_refl client_write_trans)

lemma delete_update_meta_frame [client_frame]: "keeps client_write (delete_update_meta cid h)"
  by (auto simp: delete_update_meta_def client_write_def core_of_def Let_def
      intro!: keeps_intros keeps_write client_write_refl client_write_trans)

lemma delete_consensus_state_frame [client_frame]: "keeps client_write (delete_consensus_state p)"
  by (auto simp: delete_consensus_state_def client_write_def core_of_def intro!: keeps_write)

lemma store_update_meta_now_frame [client_frame]: "keeps client_write (store_update_meta_now cb cid h)"
  by (auto simp: store_update_meta_now_def
      intro!: keeps_intros client_frame client_write_refl client_write_trans)

lemmas client_frame_rules = keeps_intros client_frame client_write_refl client_write_trans

end
