(* ===== verification/Transitions.thy ===== *)
theory Transitions
  imports Prelude
begin

text \<open>
  Labelled transition systems: runs, the interface of an invariant that may depend on
  the number of steps taken, and the interface of a simulation.  The number of steps
  bounds the counters of the handlers, which are 64-bit words.
\<close>

inductive run :: "('e \<Rightarrow> 's \<Rightarrow> 's \<Rightarrow> bool) \<Rightarrow> 's \<Rightarrow> 'e list \<Rightarrow> 's \<Rightarrow> bool"
  for step :: "'e \<Rightarrow> 's \<Rightarrow> 's \<Rightarrow> bool" and s :: 's
where
  run_nil: "run step s [] s"
| run_snoc: "run step s es t \<Longrightarrow> step e t u \<Longrightarrow> run step s (es @ [e]) u"

inductive_cases run_nilE: "run step s [] t"
inductive_cases run_snocE: "run step s (es @ [e]) t"

lemma run_single: "step e s t \<Longrightarrow> run step s [e] t"
  using run_snoc [OF run_nil, of step e s t] by simp

lemma run_append: "run step t fs u \<Longrightarrow> run step s es t \<Longrightarrow> run step s (es @ fs) u"
  by (induction rule: run.induct) (auto simp del: append_assoc simp: append_assoc [symmetric]
    intro: run_snoc)

lemma run_cons: "step e s t \<Longrightarrow> run step t es u \<Longrightarrow> run step s (e # es) u"
  using run_append [OF _ run_single, of step t es u e s] by simp

text \<open>A relation between the states of a step, kept along a run.\<close>

lemma run_keeps:
  assumes "run step s es t" "reflp R" "transp R" "\<And>e x y. step e x y \<Longrightarrow> R x y"
  shows "R s t"
  using assms(1) by (induction rule: run.induct) (use assms(2-4) in \<open>blast dest: reflpD transpD\<close>)+


text \<open>An invariant of a system that takes fewer than \<open>bound\<close> steps.\<close>

locale counted_invariant =
  fixes step :: "'e \<Rightarrow> 's \<Rightarrow> 's \<Rightarrow> bool"
    and init :: 's
    and inv :: "nat \<Rightarrow> 's \<Rightarrow> bool"
    and bound :: nat
  assumes initially: "inv 0 init"
    and preserved: "step e s t \<Longrightarrow> inv n s \<Longrightarrow> Suc n < bound \<Longrightarrow> inv (Suc n) t"
begin

lemma holds: "run step init es s \<Longrightarrow> length es < bound \<Longrightarrow> inv (length es) s"
  by (induction rule: run.induct) (auto simp: initially intro: preserved)

text \<open>Along a run from a reachable state the invariant holds at every point.\<close>

lemma holds_between:
  assumes "run step init es s" "run step s fs t" "length es + length fs < bound"
  shows "inv (length es) s" "inv (length es + length fs) t"
  using holds [of es s] holds [of "es @ fs" t] assms by (simp_all add: run_append)

lemma relation_kept:
  assumes rel: "\<And>e n x y. step e x y \<Longrightarrow> inv n x \<Longrightarrow> Suc n < bound \<Longrightarrow> R x y"
    and "reflp R" "transp R"
    and "run step s fs t" "run step init es s" "length es + length fs < bound"
  shows "R s t"
  using assms(4-6)
proof (induction rule: run.induct)
  case run_nil
  show ?case using assms(2) by (rule reflpD)
next
  case (run_snoc fs t e u)
  have "inv (length es + length fs) t" using run_snoc holds_between by simp
  then have "R t u" using rel run_snoc by fastforce
  then show ?case using run_snoc assms(3) by (auto dest: transpD)
qed

end


text \<open>A simulation: every concrete step has an abstract one between the abstractions of
  its states.\<close>

locale simulation =
  fixes cstep :: "'e \<Rightarrow> 's \<Rightarrow> 's \<Rightarrow> bool"
    and astep :: "'f \<Rightarrow> 'a \<Rightarrow> 'a \<Rightarrow> bool"
    and abst :: "'s \<Rightarrow> 'a"
  assumes simulates: "cstep e s t \<Longrightarrow> \<exists>f. astep f (abst s) (abst t)"
begin

lemma runs: "run cstep s es t \<Longrightarrow> \<exists>fs. length fs = length es \<and> run astep (abst s) fs (abst t)"
proof (induction rule: run.induct)
  case run_nil
  show ?case using run.run_nil [of astep "abst s"] by fastforce
next
  case (run_snoc es t e u)
  obtain f where f: "astep f (abst t) (abst u)" using simulates run_snoc by blast
  obtain fs where "length fs = length es" "run astep (abst s) fs (abst t)" using run_snoc by blast
  then have "run astep (abst s) (fs @ [f]) (abst u)" "length (fs @ [f]) = length (es @ [e])"
    using f by (auto intro: run.run_snoc)
  then show ?case by blast
qed

end

end
