(* ===== verification/Core_Spec.thy ===== *)
theory Core_Spec
  imports Handler_Types Transitions
begin

text \<open>
  What the core handlers promise of connections, channels and packets on one chain:
  an abstract state machine without proofs, clients, modules, events or errors.  Each
  rule of \<open>core_step\<close> is one successful message (ICS-03 and ICS-04), with the part of its
  guard that concerns the stores.  Theory \<open>Refinement\<close> shows that the handlers follow
  it; the invariants are proved here, by rule induction.
\<close>

section \<open>State and transitions\<close>

record core_state =
  a_connections :: "connection_path \<rightharpoonup> connection_end"
  a_next_connection :: "u64 option"
  a_channels :: "channel_end_path \<rightharpoonup> channel_end"
  a_next_channel :: "u64 option"
  a_send :: "seq_send_path \<rightharpoonup> sequence"
  a_recv :: "seq_recv_path \<rightharpoonup> sequence"
  a_ack :: "seq_ack_path \<rightharpoonup> sequence"
  a_commitments :: "commitment_path \<rightharpoonup> packet_commitment"
  a_receipts :: "receipt_path set"
  a_acks :: "ack_path \<rightharpoonup> ack_commitment"
  a_delivered :: "packet list"

definition core_init :: core_state where
  "core_init = \<lparr>a_connections = Map.empty, a_next_connection = Some 0, a_channels = Map.empty,
     a_next_channel = Some 0, a_send = Map.empty, a_recv = Map.empty, a_ack = Map.empty,
     a_commitments = Map.empty, a_receipts = {}, a_acks = Map.empty, a_delivered = []\<rparr>"

datatype core_action =
    Internal
  | ConnectionAct connection_msg
  | ChannelAct channel_msg
  | PacketAct packet_msg
  | SendAct packet

definition put_connection :: "connection_id \<Rightarrow> connection_end \<Rightarrow> core_state \<Rightarrow> core_state" where
  "put_connection ident c a =
     a\<lparr>a_connections := (a_connections a)(ConnectionPath ident \<mapsto> c)\<rparr>"

definition add_connection :: "u64 \<Rightarrow> connection_end \<Rightarrow> core_state \<Rightarrow> core_state" where
  "add_connection n c a =
     put_connection (connection_id_new n) c (a\<lparr>a_next_connection := Some (n + 1)\<rparr>)"

definition conn_open :: "core_state \<Rightarrow> connection_id \<Rightarrow> bool" where
  "conn_open a ident \<longleftrightarrow>
     (\<exists>c. a_connections a (ConnectionPath ident) = Some c \<and> ce_state c = ConnOpen)"

definition put_channel :: "channel_end_path \<Rightarrow> channel_end \<Rightarrow> core_state \<Rightarrow> core_state" where
  "put_channel p c a = a\<lparr>a_channels := (a_channels a)(p \<mapsto> c)\<rparr>"

definition add_channel :: "port_id \<Rightarrow> u64 \<Rightarrow> channel_end \<Rightarrow> core_state \<Rightarrow> core_state" where
  "add_channel port n c a = (
     let ident = channel_id_new n in
     put_channel (ChannelEndPath port ident) c
       (a\<lparr>a_next_channel := Some (n + 1),
          a_send := (a_send a)(SeqSendPath port ident \<mapsto> 1),
          a_recv := (a_recv a)(SeqRecvPath port ident \<mapsto> 1),
          a_ack := (a_ack a)(SeqAckPath port ident \<mapsto> 1)\<rparr>))"

definition drop_commitment :: "packet \<Rightarrow> core_state \<Rightarrow> core_state" where
  "drop_commitment p a = a\<lparr>a_commitments := (a_commitments a)(commitment_path_on_a p := None)\<rparr>"

definition deliver :: "packet \<Rightarrow> ack_commitment \<Rightarrow> core_state \<Rightarrow> core_state" where
  "deliver p k a = a\<lparr>a_acks := (a_acks a)(ack_path_on_b p \<mapsto> k),
                    a_delivered := a_delivered a @ [p]\<rparr>"

text \<open>The packet and, for a timeout before the counterparty closed, the required state
  of the channel.\<close>

fun timeout_act :: "packet_msg \<Rightarrow> (packet \<times> bool) option" where
  "timeout_act (PacketTimeout m) = Some (tmo_packet m, True)"
| "timeout_act (PacketTimeoutOnClose m) = Some (toc_packet m, False)"
| "timeout_act _ = None"

text \<open>\<open>commits p k\<close> says that \<open>k\<close> is the commitment to \<open>p\<close>.\<close>

inductive core_step ::
  "(packet \<Rightarrow> packet_commitment \<Rightarrow> bool) \<Rightarrow> core_action \<Rightarrow> core_state \<Rightarrow> core_state \<Rightarrow> bool"
  for commits :: "packet \<Rightarrow> packet_commitment \<Rightarrow> bool"
where
  internal: "core_step commits Internal a a"
| conn_init: "a_next_connection a = Some n \<Longrightarrow> ce_state c = ConnInit \<Longrightarrow> ce_versions c \<noteq> []
    \<Longrightarrow> ce_client_id c = coi_client_id_on_a m \<Longrightarrow> ccp_connection_id (ce_counterparty c) = None
    \<Longrightarrow> core_step commits (ConnectionAct (ConnOpenInit m)) a (add_connection n c a)"
| conn_try: "a_next_connection a = Some n \<Longrightarrow> ce_state c = ConnTryOpen
    \<Longrightarrow> ce_versions c = [v] \<Longrightarrow> ce_client_id c = cot_client_id_on_b m
    \<Longrightarrow> ce_counterparty c = cot_counterparty m \<Longrightarrow> ccp_connection_id (cot_counterparty m) \<noteq> None
    \<Longrightarrow> core_step commits (ConnectionAct (ConnOpenTry m)) a (add_connection n c a)"
| conn_ack: "a_connections a (ConnectionPath (coa_conn_id_on_a m)) = Some c
    \<Longrightarrow> ce_state c = ConnInit
    \<Longrightarrow> verify_is_supported (coa_version m) (ce_versions c) = Ok ()
    \<Longrightarrow> core_step commits (ConnectionAct (ConnOpenAck m)) a
          (put_connection (coa_conn_id_on_a m)
             (c\<lparr>ce_state := ConnOpen, ce_versions := [coa_version m],
                ce_counterparty := (ce_counterparty c)
                  \<lparr>ccp_connection_id := Some (coa_conn_id_on_b m)\<rparr>\<rparr>) a)"
| conn_confirm: "a_connections a (ConnectionPath (coc_conn_id_on_b m)) = Some c
    \<Longrightarrow> ce_state c = ConnTryOpen
    \<Longrightarrow> core_step commits (ConnectionAct (ConnOpenConfirm m)) a
          (put_connection (coc_conn_id_on_b m) (c\<lparr>ce_state := ConnOpen\<rparr>) a)"
| chan_init: "a_next_channel a = Some n \<Longrightarrow> hoi_connection_hops_on_a m = h # hs
    \<Longrightarrow> a_connections a (ConnectionPath h) \<noteq> None \<Longrightarrow> hoi_ordering m \<noteq> OrderNone
    \<Longrightarrow> core_step commits (ChannelAct (ChanOpenInit m)) a
          (add_channel (hoi_port_id_on_a m) n
             \<lparr>ch_state = Init, ch_ordering = hoi_ordering m,
              ch_remote = \<lparr>hcp_port_id = hoi_port_id_on_b m, hcp_channel_id = None\<rparr>,
              ch_connection_hops = h # hs, ch_version = hoi_version_proposal m\<rparr> a)"
| chan_try: "a_next_channel a = Some n \<Longrightarrow> hot_connection_hops_on_b m = h # hs
    \<Longrightarrow> conn_open a h \<Longrightarrow> hot_ordering m \<noteq> OrderNone
    \<Longrightarrow> core_step commits (ChannelAct (ChanOpenTry m)) a
          (add_channel (hot_port_id_on_b m) n
             \<lparr>ch_state = TryOpen, ch_ordering = hot_ordering m,
              ch_remote = \<lparr>hcp_port_id = hot_port_id_on_a m,
                           hcp_channel_id = Some (hot_chan_id_on_a m)\<rparr>,
              ch_connection_hops = h # hs, ch_version = v\<rparr> a)"
| chan_ack: "p = ChannelEndPath (hoa_port_id_on_a m) (hoa_chan_id_on_a m)
    \<Longrightarrow> a_channels a p = Some c \<Longrightarrow> ch_state c = Init \<Longrightarrow> ch_connection_hops c = h # hs
    \<Longrightarrow> conn_open a h
    \<Longrightarrow> core_step commits (ChannelAct (ChanOpenAck m)) a
          (put_channel p (c\<lparr>ch_state := Open, ch_version := hoa_version_on_b m,
             ch_remote := (ch_remote c)\<lparr>hcp_channel_id := Some (hoa_chan_id_on_b m)\<rparr>\<rparr>) a)"
| chan_confirm: "p = ChannelEndPath (hoc_port_id_on_b m) (hoc_chan_id_on_b m)
    \<Longrightarrow> a_channels a p = Some c \<Longrightarrow> ch_state c = TryOpen \<Longrightarrow> ch_connection_hops c = h # hs
    \<Longrightarrow> conn_open a h
    \<Longrightarrow> core_step commits (ChannelAct (ChanOpenConfirm m)) a
          (put_channel p (c\<lparr>ch_state := Open\<rparr>) a)"
| chan_close_init: "p = ChannelEndPath (hci_port_id_on_a m) (hci_chan_id_on_a m)
    \<Longrightarrow> a_channels a p = Some c \<Longrightarrow> ch_state c \<noteq> Closed \<Longrightarrow> ch_connection_hops c = h # hs
    \<Longrightarrow> conn_open a h \<Longrightarrow> hcp_channel_id (ch_remote c) \<noteq> None
    \<Longrightarrow> core_step commits (ChannelAct (ChanCloseInit m)) a
          (put_channel p (c\<lparr>ch_state := Closed\<rparr>) a)"
| chan_close_confirm: "p = ChannelEndPath (hcc_port_id_on_b m) (hcc_chan_id_on_b m)
    \<Longrightarrow> a_channels a p = Some c \<Longrightarrow> ch_state c \<noteq> Closed \<Longrightarrow> ch_connection_hops c = h # hs
    \<Longrightarrow> conn_open a h \<Longrightarrow> hcp_channel_id (ch_remote c) \<noteq> None
    \<Longrightarrow> core_step commits (ChannelAct (ChanCloseConfirm m)) a
          (put_channel p (c\<lparr>ch_state := Closed\<rparr>) a)"
| send: "a_channels a (chan_end_path_on_a p) = Some c \<Longrightarrow> ch_state c \<noteq> Closed
    \<Longrightarrow> ch_remote c = packet_counterparty_on_b p
    \<Longrightarrow> q = SeqSendPath (port_id_on_a p) (chan_id_on_a p) \<Longrightarrow> a_send a q = Some (seq_on_a p)
    \<Longrightarrow> commits p k
    \<Longrightarrow> core_step commits (SendAct p) a
          (a\<lparr>a_send := (a_send a)(q \<mapsto> seq_on_a p + 1),
             a_commitments := (a_commitments a)(commitment_path_on_a p \<mapsto> k)\<rparr>)"
| recv_unordered: "p = rcv_packet m \<Longrightarrow> a_channels a (chan_end_path_on_b p) = Some c
    \<Longrightarrow> ch_state c = Open \<Longrightarrow> ch_remote c = packet_counterparty_on_a p
    \<Longrightarrow> ch_ordering c = Unordered
    \<Longrightarrow> receipt_path_on_b p \<notin> a_receipts a \<Longrightarrow> a_acks a (ack_path_on_b p) = None
    \<Longrightarrow> core_step commits (PacketAct (PacketRecv m)) a
          (deliver p k (a\<lparr>a_receipts := insert (receipt_path_on_b p) (a_receipts a)\<rparr>))"
| recv_ordered: "p = rcv_packet m \<Longrightarrow> a_channels a (chan_end_path_on_b p) = Some c
    \<Longrightarrow> ch_state c = Open \<Longrightarrow> ch_remote c = packet_counterparty_on_a p
    \<Longrightarrow> ch_ordering c = Ordered
    \<Longrightarrow> a_recv a (seq_recv_path_on_b p) = Some (seq_on_a p)
    \<Longrightarrow> a_acks a (ack_path_on_b p) = None
    \<Longrightarrow> core_step commits (PacketAct (PacketRecv m)) a
          (deliver p k (a\<lparr>a_recv := (a_recv a)(seq_recv_path_on_b p \<mapsto> seq_on_a p + 1)\<rparr>))"
| recv_again: "p = rcv_packet m \<Longrightarrow> a_channels a (chan_end_path_on_b p) = Some c
    \<Longrightarrow> ch_state c = Open
    \<Longrightarrow> ch_ordering c = Unordered \<and> receipt_path_on_b p \<in> a_receipts a
      \<or> ch_ordering c = Ordered \<and> a_recv a (seq_recv_path_on_b p) = Some n \<and> seq_on_a p < n
    \<Longrightarrow> core_step commits (PacketAct (PacketRecv m)) a a"
| acknowledge: "p = ack_packet m \<Longrightarrow> a_channels a (chan_end_path_on_a p) = Some c
    \<Longrightarrow> ch_state c = Open \<Longrightarrow> ch_remote c = packet_counterparty_on_b p
    \<Longrightarrow> a_commitments a (commitment_path_on_a p) = Some k \<Longrightarrow> commits p k
    \<Longrightarrow> q = SeqAckPath (port_id_on_a p) (chan_id_on_a p)
    \<Longrightarrow> ch_ordering c = Ordered \<Longrightarrow> a_ack a q = Some (seq_on_a p)
    \<Longrightarrow> core_step commits (PacketAct (PacketAck m)) a
          (drop_commitment p (a\<lparr>a_ack := (a_ack a)(q \<mapsto> seq_on_a p + 1)\<rparr>))"
| acknowledge_unordered: "p = ack_packet m \<Longrightarrow> a_channels a (chan_end_path_on_a p) = Some c
    \<Longrightarrow> ch_state c = Open \<Longrightarrow> ch_remote c = packet_counterparty_on_b p
    \<Longrightarrow> a_commitments a (commitment_path_on_a p) = Some k \<Longrightarrow> commits p k
    \<Longrightarrow> ch_ordering c \<noteq> Ordered
    \<Longrightarrow> core_step commits (PacketAct (PacketAck m)) a (drop_commitment p a)"
| acknowledge_again: "a_commitments a (commitment_path_on_a (ack_packet m)) = None
    \<Longrightarrow> core_step commits (PacketAct (PacketAck m)) a a"
| timeout: "timeout_act m = Some (p, must_be_open)
    \<Longrightarrow> a_channels a (chan_end_path_on_a p) = Some c \<Longrightarrow> must_be_open \<longrightarrow> ch_state c = Open
    \<Longrightarrow> ch_remote c = packet_counterparty_on_b p
    \<Longrightarrow> a_commitments a (commitment_path_on_a p) = Some k \<Longrightarrow> commits p k
    \<Longrightarrow> ch_ordering c = Unordered
    \<Longrightarrow> core_step commits (PacketAct m) a (drop_commitment p a)"
| timeout_ordered: "timeout_act m = Some (p, must_be_open)
    \<Longrightarrow> a_channels a (chan_end_path_on_a p) = Some c \<Longrightarrow> must_be_open \<longrightarrow> ch_state c = Open
    \<Longrightarrow> ch_remote c = packet_counterparty_on_b p
    \<Longrightarrow> a_commitments a (commitment_path_on_a p) = Some k \<Longrightarrow> commits p k
    \<Longrightarrow> ch_ordering c = Ordered
    \<Longrightarrow> core_step commits (PacketAct m) a
          (drop_commitment p (put_channel (chan_end_path_on_a p) (c\<lparr>ch_state := Closed\<rparr>) a))"
| timeout_again: "timeout_act m = Some (p, must_be_open)
    \<Longrightarrow> a_commitments a (commitment_path_on_a p) = None
    \<Longrightarrow> core_step commits (PacketAct m) a a"

end
