(* ===== verification/Core_Invariants.thy ===== *)
theory Core_Invariants
  imports Core_Spec
begin

text \<open>
  Invariants of the abstract machine: well-formedness of the stored ends, exactly-once
  delivery, freshness of generated identifiers, delivery in order on ordered channels
  and the window of outstanding commitments.
\<close>

section \<open>Definitions\<close>

definition conn_wf :: "connection_end \<Rightarrow> bool" where
  "conn_wf c \<longleftrightarrow> ce_state c \<noteq> ConnUninitialized \<and> ce_versions c \<noteq> []
     \<and> (ce_state c = ConnInit \<longleftrightarrow> ccp_connection_id (ce_counterparty c) = None)"

definition chan_wf :: "channel_end \<Rightarrow> bool" where
  "chan_wf c \<longleftrightarrow> ch_state c \<noteq> Uninitialized \<and> ch_ordering c \<noteq> OrderNone
     \<and> ch_connection_hops c \<noteq> []
     \<and> (ch_state c = Init \<longleftrightarrow> hcp_channel_id (ch_remote c) = None)"

text \<open>The stored ends are well formed and every channel has its three sequence
  numbers.\<close>

definition core_wf :: "core_state \<Rightarrow> bool" where
  "core_wf a \<longleftrightarrow> a_next_connection a \<noteq> None \<and> a_next_channel a \<noteq> None
     \<and> (\<forall>p c. a_connections a p = Some c \<longrightarrow> conn_wf c)
     \<and> (\<forall>port ident c. a_channels a (ChannelEndPath port ident) = Some c \<longrightarrow>
          chan_wf c \<and> a_send a (SeqSendPath port ident) \<noteq> None
          \<and> a_recv a (SeqRecvPath port ident) \<noteq> None \<and> a_ack a (SeqAckPath port ident) \<noteq> None)"

text \<open>No packet is delivered twice, and each delivered one has its acknowledgement.\<close>

definition delivered_once :: "core_state \<Rightarrow> bool" where
  "delivered_once a \<longleftrightarrow> distinct (map ack_path_on_b (a_delivered a))
     \<and> (\<forall>p\<in>set (a_delivered a). a_acks a (ack_path_on_b p) \<noteq> None)"

text \<open>Identifiers in use are below the counters; the counters did not wrap around.\<close>

definition ids_below :: "(u64 \<Rightarrow> 'i) \<Rightarrow> u64 \<Rightarrow> 'i set \<Rightarrow> bool" where
  "ids_below mk k S \<longleftrightarrow> S \<subseteq> mk ` {..<k}"

definition used_connections :: "core_state \<Rightarrow> connection_id set" where
  "used_connections a = {i. a_connections a (ConnectionPath i) \<noteq> None}"

definition used_channels :: "core_state \<Rightarrow> channel_id set" where
  "used_channels a = {i. \<exists>port. a_channels a (ChannelEndPath port i) \<noteq> None}"

definition fresh :: "nat \<Rightarrow> core_state \<Rightarrow> bool" where
  "fresh n a \<longleftrightarrow> (\<exists>kc kh. a_next_connection a = Some kc \<and> unat kc \<le> n
     \<and> a_next_channel a = Some kh \<and> unat kh \<le> n
     \<and> ids_below connection_id_new kc (used_connections a)
     \<and> ids_below channel_id_new kh (used_channels a))"

text \<open>Packet state belongs to existing channels, channels to existing connections.\<close>

definition anchored :: "core_state \<Rightarrow> bool" where
  "anchored a \<longleftrightarrow>
     (\<forall>port ident s. a_commitments a (CommitmentPath port ident s) \<noteq> None
        \<longrightarrow> a_channels a (ChannelEndPath port ident) \<noteq> None)
     \<and> (\<forall>p\<in>set (a_delivered a). a_channels a (chan_end_path_on_b p) \<noteq> None)
     \<and> (\<forall>p c h hs. a_channels a p = Some c \<longrightarrow> ch_connection_hops c = h # hs
          \<longrightarrow> a_connections a (ConnectionPath h) \<noteq> None
            \<and> (ch_state c = Open \<longrightarrow> conn_open a h))"

text \<open>An ordered channel has delivered the sequence numbers 1, 2, 3 and so on, and waits
  for the next one.\<close>

definition delivered_on :: "core_state \<Rightarrow> channel_end_path \<Rightarrow> packet list" where
  "delivered_on a p = filter (\<lambda>q. chan_end_path_on_b q = p) (a_delivered a)"

definition in_order :: "core_state \<Rightarrow> bool" where
  "in_order a \<longleftrightarrow> (\<forall>port ident c. a_channels a (ChannelEndPath port ident) = Some c
     \<longrightarrow> ch_ordering c = Ordered \<longrightarrow> (let ds = delivered_on a (ChannelEndPath port ident) in
       map seq_on_a ds = map of_nat [1..<Suc (length ds)]
       \<and> a_recv a (SeqRecvPath port ident) = Some (of_nat (Suc (length ds)))))"

text \<open>Commitments are outstanding only for sequence numbers already used.\<close>

definition send_window :: "nat \<Rightarrow> core_state \<Rightarrow> bool" where
  "send_window n a \<longleftrightarrow> (\<forall>port ident c. a_channels a (ChannelEndPath port ident) = Some c \<longrightarrow>
     (\<exists>k. a_send a (SeqSendPath port ident) = Some k \<and> 1 \<le> unat k \<and> unat k \<le> Suc n
       \<and> (\<forall>s. a_commitments a (CommitmentPath port ident s) \<noteq> None
            \<longrightarrow> 1 \<le> unat s \<and> unat s < unat k)))"

text \<open>The allowed changes of a stored connection and of a stored channel.\<close>

definition conn_state_le :: "conn_state \<Rightarrow> conn_state \<Rightarrow> bool" where
  "conn_state_le s t \<longleftrightarrow> t = s \<or> s \<in> {ConnInit, ConnTryOpen} \<and> t = ConnOpen"

definition chan_state_le :: "chan_state \<Rightarrow> chan_state \<Rightarrow> bool" where
  "chan_state_le s t \<longleftrightarrow> t = s \<or> s \<in> {Init, TryOpen} \<and> t \<in> {Open, Closed}
     \<or> s = Open \<and> t = Closed"

definition conn_le :: "connection_end \<Rightarrow> connection_end \<Rightarrow> bool" where
  "conn_le c d \<longleftrightarrow> ce_client_id d = ce_client_id c \<and> ce_delay_period d = ce_delay_period c
     \<and> ccp_client_id (ce_counterparty d) = ccp_client_id (ce_counterparty c)
     \<and> ccp_prefix (ce_counterparty d) = ccp_prefix (ce_counterparty c)
     \<and> conn_state_le (ce_state c) (ce_state d)
     \<and> (ce_state c \<noteq> ConnInit \<longrightarrow> ce_versions d = ce_versions c
          \<and> ce_counterparty d = ce_counterparty c)"

definition chan_le :: "channel_end \<Rightarrow> channel_end \<Rightarrow> bool" where
  "chan_le c d \<longleftrightarrow> ch_ordering d = ch_ordering c \<and> ch_connection_hops d = ch_connection_hops c
     \<and> hcp_port_id (ch_remote d) = hcp_port_id (ch_remote c)
     \<and> chan_state_le (ch_state c) (ch_state d)
     \<and> (ch_state c \<noteq> Init \<longrightarrow> ch_version d = ch_version c \<and> ch_remote d = ch_remote c)"

definition progress :: "core_state \<Rightarrow> core_state \<Rightarrow> bool" where
  "progress a b \<longleftrightarrow>
     (\<forall>p c. a_connections a p = Some c \<longrightarrow> (\<exists>d. a_connections b p = Some d \<and> conn_le c d))
     \<and> (\<forall>p c. a_channels a p = Some c \<longrightarrow> (\<exists>d. a_channels b p = Some d \<and> chan_le c d))"


section \<open>The helper functions on the fields of the state\<close>

lemma put_connection_simps [simp]:
  "a_connections (put_connection i c a) = (a_connections a)(ConnectionPath i \<mapsto> c)"
  "a_next_connection (put_connection i c a) = a_next_connection a"
  "a_channels (put_connection i c a) = a_channels a"
  "a_next_channel (put_connection i c a) = a_next_channel a"
  "a_send (put_connection i c a) = a_send a"
  "a_recv (put_connection i c a) = a_recv a"
  "a_ack (put_connection i c a) = a_ack a"
  "a_commitments (put_connection i c a) = a_commitments a"
  "a_acks (put_connection i c a) = a_acks a"
  "a_delivered (put_connection i c a) = a_delivered a"
  by (simp_all add: put_connection_def)

lemma add_connection_simps [simp]:
  "a_connections (add_connection n c a) = (a_connections a)(ConnectionPath (connection_id_new n) \<mapsto> c)"
  "a_next_connection (add_connection n c a) = Some (n + 1)"
  "a_channels (add_connection n c a) = a_channels a"
  "a_next_channel (add_connection n c a) = a_next_channel a"
  "a_send (add_connection n c a) = a_send a"
  "a_recv (add_connection n c a) = a_recv a"
  "a_ack (add_connection n c a) = a_ack a"
  "a_commitments (add_connection n c a) = a_commitments a"
  "a_acks (add_connection n c a) = a_acks a"
  "a_delivered (add_connection n c a) = a_delivered a"
  by (simp_all add: add_connection_def)

lemma put_channel_simps [simp]:
  "a_connections (put_channel p c a) = a_connections a"
  "a_next_connection (put_channel p c a) = a_next_connection a"
  "a_channels (put_channel p c a) = (a_channels a)(p \<mapsto> c)"
  "a_next_channel (put_channel p c a) = a_next_channel a"
  "a_send (put_channel p c a) = a_send a"
  "a_recv (put_channel p c a) = a_recv a"
  "a_ack (put_channel p c a) = a_ack a"
  "a_commitments (put_channel p c a) = a_commitments a"
  "a_acks (put_channel p c a) = a_acks a"
  "a_delivered (put_channel p c a) = a_delivered a"
  by (simp_all add: put_channel_def)

lemma add_channel_simps [simp]:
  "a_connections (add_channel port n c a) = a_connections a"
  "a_next_connection (add_channel port n c a) = a_next_connection a"
  "a_channels (add_channel port n c a) = (a_channels a)(ChannelEndPath port (channel_id_new n) \<mapsto> c)"
  "a_next_channel (add_channel port n c a) = Some (n + 1)"
  "a_send (add_channel port n c a) = (a_send a)(SeqSendPath port (channel_id_new n) \<mapsto> 1)"
  "a_recv (add_channel port n c a) = (a_recv a)(SeqRecvPath port (channel_id_new n) \<mapsto> 1)"
  "a_ack (add_channel port n c a) = (a_ack a)(SeqAckPath port (channel_id_new n) \<mapsto> 1)"
  "a_commitments (add_channel port n c a) = a_commitments a"
  "a_acks (add_channel port n c a) = a_acks a"
  "a_delivered (add_channel port n c a) = a_delivered a"
  by (simp_all add: add_channel_def Let_def)

lemma drop_commitment_simps [simp]:
  "a_connections (drop_commitment p a) = a_connections a"
  "a_next_connection (drop_commitment p a) = a_next_connection a"
  "a_channels (drop_commitment p a) = a_channels a"
  "a_next_channel (drop_commitment p a) = a_next_channel a"
  "a_send (drop_commitment p a) = a_send a"
  "a_recv (drop_commitment p a) = a_recv a"
  "a_ack (drop_commitment p a) = a_ack a"
  "a_commitments (drop_commitment p a) = (a_commitments a)(commitment_path_on_a p := None)"
  "a_acks (drop_commitment p a) = a_acks a"
  "a_delivered (drop_commitment p a) = a_delivered a"
  by (simp_all add: drop_commitment_def)

lemma deliver_simps [simp]:
  "a_connections (deliver p k a) = a_connections a"
  "a_next_connection (deliver p k a) = a_next_connection a"
  "a_channels (deliver p k a) = a_channels a"
  "a_next_channel (deliver p k a) = a_next_channel a"
  "a_send (deliver p k a) = a_send a"
  "a_recv (deliver p k a) = a_recv a"
  "a_ack (deliver p k a) = a_ack a"
  "a_commitments (deliver p k a) = a_commitments a"
  "a_acks (deliver p k a) = (a_acks a)(ack_path_on_b p \<mapsto> k)"
  "a_delivered (deliver p k a) = a_delivered a @ [p]"
  by (simp_all add: deliver_def)

lemmas packet_path_defs =
  chan_end_path_on_a_def chan_end_path_on_b_def commitment_path_on_a_def ack_path_on_b_def
  receipt_path_on_b_def seq_recv_path_on_b_def packet_counterparty_on_a_def
  packet_counterparty_on_b_def


section \<open>Preservation\<close>

lemma verify_is_supported_ne: "verify_is_supported v vs = Ok () \<Longrightarrow> vs \<noteq> []"
  by (cases vs) (simp_all add: verify_is_supported_def find_supported_version_def)

lemma core_wf_init: "core_wf core_init"
  by (simp add: core_wf_def core_init_def)

lemma chan_wf_changes:
  "chan_wf c \<Longrightarrow> chan_wf (c\<lparr>ch_state := Open, ch_version := v,
     ch_remote := (ch_remote c)\<lparr>hcp_channel_id := Some i\<rparr>\<rparr>)"
  "chan_wf c \<Longrightarrow> ch_state c = TryOpen \<Longrightarrow> chan_wf (c\<lparr>ch_state := Open\<rparr>)"
  "chan_wf c \<Longrightarrow> hcp_channel_id (ch_remote c) \<noteq> None \<Longrightarrow> chan_wf (c\<lparr>ch_state := Closed\<rparr>)"
  by (auto simp: chan_wf_def)

lemma conn_wf_changes:
  "conn_wf c \<Longrightarrow> conn_wf (c\<lparr>ce_state := ConnOpen, ce_versions := [v],
     ce_counterparty := (ce_counterparty c)\<lparr>ccp_connection_id := Some i\<rparr>\<rparr>)"
  "conn_wf c \<Longrightarrow> ce_state c = ConnTryOpen \<Longrightarrow> conn_wf (c\<lparr>ce_state := ConnOpen\<rparr>)"
  by (auto simp: conn_wf_def)

lemma core_wf_put_connection: "core_wf a \<Longrightarrow> conn_wf c \<Longrightarrow> core_wf (put_connection i c a)"
  by (simp add: core_wf_def)

lemma core_wf_put_channel:
  "core_wf a \<Longrightarrow> chan_wf c \<Longrightarrow> a_channels a p \<noteq> None \<Longrightarrow> core_wf (put_channel p c a)"
  by (cases p) (auto simp: core_wf_def)

lemma core_wfD:
  "core_wf a \<Longrightarrow> a_connections a p = Some c \<Longrightarrow> conn_wf c"
  "core_wf a \<Longrightarrow> a_channels a q = Some d \<Longrightarrow> chan_wf d"
  by (auto simp: core_wf_def) (cases q; auto)

lemma core_wf_step: "core_step commits x a b \<Longrightarrow> core_wf a \<Longrightarrow> core_wf b"
proof (induction rule: core_step.induct)
  case (timeout_ordered m p must_be_open a c k)
  then have "core_wf (put_channel (chan_end_path_on_a p) (c\<lparr>ch_state := Closed\<rparr>) a)"
    by (auto intro!: core_wf_put_channel chan_wf_changes intro: core_wfD
        simp: packet_counterparty_on_b_def)
  then show ?case by (simp add: core_wf_def)
qed (auto intro!: core_wf_put_connection core_wf_put_channel chan_wf_changes conn_wf_changes
       intro: core_wfD,
     auto simp: core_wf_def conn_wf_def chan_wf_def)

lemma delivered_once_init: "delivered_once core_init"
  by (simp add: delivered_once_def core_init_def)

lemma delivered_once_step:
  "core_step commits x a b \<Longrightarrow> delivered_once a \<Longrightarrow> delivered_once b"
  by (cases rule: core_step.cases, assumption) (auto simp: delivered_once_def)

subsection \<open>Fresh identifiers\<close>

lemma u64_next:
  fixes k j :: u64
  assumes "unat k \<le> n" "Suc n < u64_range"
  shows "unat (k + 1) = Suc (unat k)" "k < k + 1" "j < k \<Longrightarrow> j < k + 1"
proof -
  show 1: "unat (k + 1) = Suc (unat k)" using assms by (simp add: unat_word_ariths u64_range_def)
  show "k < k + 1" "j < k \<Longrightarrow> j < k + 1" using 1 by (simp_all add: word_less_nat_alt)
qed

lemma ids_below_next:
  "ids_below mk k S \<Longrightarrow> T \<subseteq> insert (mk k) S \<Longrightarrow> unat k \<le> n \<Longrightarrow> Suc n < u64_range
     \<Longrightarrow> ids_below mk (k + 1) T"
  unfolding ids_below_def using u64_next [of k n] by blast

lemma ids_below_fresh: "ids_below mk k S \<Longrightarrow> inj mk \<Longrightarrow> mk k \<notin> S"
  by (auto simp: ids_below_def dest: injD)

lemma inj_ids: "inj connection_id_new" "inj channel_id_new"
  by (auto intro: injI)

lemma fresh_init: "fresh 0 core_init"
  by (simp add: fresh_def core_init_def ids_below_def used_connections_def used_channels_def)

lemma fresh_Suc: "fresh n a \<Longrightarrow> fresh (Suc n) a"
  unfolding fresh_def by (metis le_SucI)

lemma fresh_connection:
  "fresh n a \<Longrightarrow> a_next_connection a = Some k
     \<Longrightarrow> a_connections a (ConnectionPath (connection_id_new k)) = None"
  using ids_below_fresh [OF _ inj_ids(1)] by (fastforce simp: fresh_def used_connections_def)

lemma fresh_channel:
  "fresh n a \<Longrightarrow> a_next_channel a = Some k
     \<Longrightarrow> a_channels a (ChannelEndPath port (channel_id_new k)) = None"
  using ids_below_fresh [OF _ inj_ids(2)] by (fastforce simp: fresh_def used_channels_def)

lemma used_simps [simp]:
  "used_connections (add_connection n c a) = insert (connection_id_new n) (used_connections a)"
  "used_channels (add_connection n c a) = used_channels a"
  "used_connections (add_channel port k d a) = used_connections a"
  "used_channels (add_channel port k d a) = insert (channel_id_new k) (used_channels a)"
  by (auto simp: used_connections_def used_channels_def)

lemma fresh_add_connection:
  assumes "fresh n a" "a_next_connection a = Some k" "Suc n < u64_range"
  shows "fresh (Suc n) (add_connection k c a)"
  using assms u64_next(1) [of k n] unfolding fresh_def
  by (auto simp: le_SucI intro: ids_below_next)

lemma fresh_add_channel:
  assumes "fresh n a" "a_next_channel a = Some k" "Suc n < u64_range"
  shows "fresh (Suc n) (add_channel port k c a)"
  using assms u64_next(1) [of k n] unfolding fresh_def
  by (auto simp: le_SucI intro: ids_below_next)

lemma fresh_cong:
  "fresh n a \<Longrightarrow> a_next_connection b = a_next_connection a \<Longrightarrow> a_next_channel b = a_next_channel a
     \<Longrightarrow> dom (a_connections b) = dom (a_connections a) \<Longrightarrow> dom (a_channels b) = dom (a_channels a)
     \<Longrightarrow> fresh n b"
  by (simp add: fresh_def dom_def set_eq_iff used_connections_def used_channels_def)

lemma fresh_step:
  assumes "core_step commits x a b" "fresh n a" "Suc n < u64_range"
  shows "fresh (Suc n) b"
  using assms(1,2)
proof (cases rule: core_step.cases)
  case (conn_init k c m)
  then show ?thesis using assms fresh_add_connection by blast
next
  case (conn_try k c v m)
  then show ?thesis using assms fresh_add_connection by blast
next
  case (chan_init k m h hs)
  then show ?thesis using assms fresh_add_channel by blast
next
  case (chan_try k m h hs v)
  then show ?thesis using assms fresh_add_channel by blast
qed (use assms(2) in \<open>auto intro!: fresh_cong [OF fresh_Suc] split: if_splits\<close>)


subsection \<open>Anchors\<close>

lemma conn_open_put_connection:
  "conn_open a h \<Longrightarrow> ce_state c = ConnOpen \<Longrightarrow> conn_open (put_connection i c a) h"
  by (auto simp: conn_open_def)

lemma conn_open_add_connection:
  "conn_open a h \<Longrightarrow> a_connections a (ConnectionPath (connection_id_new n)) = None
     \<Longrightarrow> conn_open (add_connection n c a) h"
  by (auto simp: conn_open_def)

lemma conn_open_cong: "a_connections b = a_connections a \<Longrightarrow> conn_open b h = conn_open a h"
  by (simp add: conn_open_def)

lemma conn_open_exists: "conn_open a h \<Longrightarrow> a_connections a (ConnectionPath h) \<noteq> None"
  by (auto simp: conn_open_def)

lemma anchored_init: "anchored core_init"
  by (simp add: anchored_def core_init_def)

lemma anchored_add_connection:
  "anchored a \<Longrightarrow> a_connections a (ConnectionPath (connection_id_new n)) = None
     \<Longrightarrow> anchored (add_connection n c a)"
  unfolding anchored_def by (auto intro: conn_open_add_connection)

lemma anchored_put_connection:
  "anchored a \<Longrightarrow> ce_state c = ConnOpen \<Longrightarrow> anchored (put_connection i c a)"
  unfolding anchored_def by (auto intro: conn_open_put_connection)

lemma anchored_put_channel:
  "anchored a \<Longrightarrow> ch_connection_hops c = h # hs \<Longrightarrow> a_connections a (ConnectionPath h) \<noteq> None
     \<Longrightarrow> (ch_state c = Open \<longrightarrow> conn_open a h) \<Longrightarrow> anchored (put_channel p c a)"
  unfolding anchored_def by (auto simp: conn_open_cong [OF put_channel_simps(1)])

lemma anchored_add_channel:
  "anchored a \<Longrightarrow> ch_connection_hops c = h # hs \<Longrightarrow> a_connections a (ConnectionPath h) \<noteq> None
     \<Longrightarrow> ch_state c \<noteq> Open \<Longrightarrow> anchored (add_channel port n c a)"
  unfolding anchored_def by (auto simp: conn_open_cong [OF add_channel_simps(1)])

lemma anchoredD:
  "anchored a \<Longrightarrow> a_channels a p = Some c \<Longrightarrow> ch_connection_hops c = h # hs
     \<Longrightarrow> a_connections a (ConnectionPath h) \<noteq> None"
  by (auto simp: anchored_def)

lemma anchored_frame:
  assumes "anchored a" "a_connections b = a_connections a" "a_channels b = a_channels a"
    and "\<And>port ident s. a_commitments b (CommitmentPath port ident s) \<noteq> None
       \<Longrightarrow> a_channels a (ChannelEndPath port ident) \<noteq> None"
    and "\<And>p. p \<in> set (a_delivered b) \<Longrightarrow> a_channels a (chan_end_path_on_b p) \<noteq> None"
  shows "anchored b"
  using assms unfolding anchored_def conn_open_def by metis

lemma anchored_commitment:
  "anchored a \<Longrightarrow> a_commitments a (CommitmentPath port ident s) = Some k
     \<Longrightarrow> a_channels a (ChannelEndPath port ident) \<noteq> None"
  unfolding anchored_def by blast

lemma anchored_delivered:
  "anchored a \<Longrightarrow> p \<in> set (a_delivered a) \<Longrightarrow> a_channels a (chan_end_path_on_b p) \<noteq> None"
  by (auto simp: anchored_def)

lemma anchored_step:
  assumes "core_step commits x a b" "fresh n a" "anchored a"
  shows "anchored b"
  using assms(1,3)
proof (cases rule: core_step.cases)
  case (conn_init k c m)
  then show ?thesis using assms anchored_add_connection fresh_connection by blast
next
  case (conn_try k c v m)
  then show ?thesis using assms anchored_add_connection fresh_connection by blast
next
  case (chan_init k m h hs)
  then show ?thesis using assms(3) by (auto intro: anchored_add_channel)
next
  case (chan_try k m h hs v)
  then show ?thesis using assms(3) by (auto intro!: anchored_add_channel dest: conn_open_exists)
next
  case (chan_ack p m c h hs)
  then show ?thesis using assms(3) by (auto intro!: anchored_put_channel dest: conn_open_exists)
next
  case (chan_confirm p m c h hs)
  then show ?thesis using assms(3) by (auto intro!: anchored_put_channel dest: conn_open_exists)
next
  case (chan_close_init p m c h hs)
  then show ?thesis using assms(3) by (auto intro!: anchored_put_channel dest: conn_open_exists)
next
  case (chan_close_confirm p m c h hs)
  then show ?thesis using assms(3) by (auto intro!: anchored_put_channel dest: conn_open_exists)
next
  case (timeout_ordered m p must_be_open c k)
  have "anchored (put_channel (chan_end_path_on_a p) (c\<lparr>ch_state := Closed\<rparr>) a)"
    using assms(3) timeout_ordered unfolding anchored_def
    by (auto simp: conn_open_cong [OF put_channel_simps(1)])
  then show ?thesis unfolding timeout_ordered
    by (rule anchored_frame)
      (auto split: if_splits dest: anchored_commitment [OF assms(3)] anchored_delivered [OF assms(3)])
qed (use assms(3) in \<open>simp_all add: anchored_put_connection\<close>,
     auto intro!: anchored_frame [OF assms(3)]
       simp: commitment_path_on_a_def chan_end_path_on_a_def split: if_splits
       dest: anchored_commitment [OF assms(3)] anchored_delivered [OF assms(3)])


subsection \<open>Ordered delivery\<close>

definition in_order_at :: "core_state \<Rightarrow> channel_end_path \<Rightarrow> seq_recv_path \<Rightarrow> bool" where
  "in_order_at a p q \<longleftrightarrow> (let ds = delivered_on a p in
     map seq_on_a ds = map of_nat [1..<Suc (length ds)] \<and> a_recv a q = Some (of_nat (Suc (length ds))))"

lemma in_order_iff:
  "in_order a \<longleftrightarrow> (\<forall>port ident c. a_channels a (ChannelEndPath port ident) = Some c
     \<longrightarrow> ch_ordering c = Ordered \<longrightarrow> in_order_at a (ChannelEndPath port ident) (SeqRecvPath port ident))"
  by (simp add: in_order_def in_order_at_def Let_def)

lemma in_order_at_frame:
  "in_order_at a p q \<Longrightarrow> delivered_on b p = delivered_on a p \<Longrightarrow> a_recv b q = a_recv a q
     \<Longrightarrow> in_order_at b p q"
  by (simp add: in_order_at_def)

text \<open>Steps that deliver nothing and change no receive counter.\<close>

lemma in_order_frame:
  assumes "in_order a" "a_delivered b = a_delivered a" "a_recv b = a_recv a"
    and "\<And>p d. a_channels b p = Some d
       \<Longrightarrow> \<exists>c. a_channels a p = Some c \<and> ch_ordering c = ch_ordering d"
  shows "in_order b"
  unfolding in_order_iff
proof (intro allI impI)
  fix port ident d
  assume "a_channels b (ChannelEndPath port ident) = Some d" "ch_ordering d = Ordered"
  then have "in_order_at a (ChannelEndPath port ident) (SeqRecvPath port ident)"
    using assms(1,4) unfolding in_order_iff by metis
  then show "in_order_at b (ChannelEndPath port ident) (SeqRecvPath port ident)"
    by (rule in_order_at_frame) (simp_all add: delivered_on_def assms(2,3))
qed

lemma in_order_add_channel:
  assumes "in_order a" "anchored a" "a_channels a (ChannelEndPath port (channel_id_new n)) = None"
  shows "in_order (add_channel port n c a)"
proof -
  have new: "delivered_on a (ChannelEndPath port (channel_id_new n)) = []"
    using anchored_delivered [OF assms(2)] assms(3) by (fastforce simp: delivered_on_def filter_empty_conv)
  show ?thesis unfolding in_order_iff
    using assms(1) new by (auto simp: in_order_iff in_order_at_def delivered_on_def)
qed

lemma in_order_deliver_unordered:
  assumes "in_order a" "a_channels a (chan_end_path_on_b p) = Some c" "ch_ordering c = Unordered"
  shows "in_order (deliver p k (a\<lparr>a_receipts := r\<rparr>))"
proof -
  have "chan_end_path_on_b p \<noteq> q" if "a_channels a q = Some d" "ch_ordering d = Ordered" for q d
    using assms(2,3) that by auto
  then show ?thesis using assms(1) unfolding in_order_iff in_order_at_def delivered_on_def
    by (auto simp: Let_def)
qed

lemma in_order_deliver_ordered:
  assumes "in_order a" "a_channels a (chan_end_path_on_b p) = Some c" "ch_ordering c = Ordered"
    and "a_recv a (seq_recv_path_on_b p) = Some (seq_on_a p)"
  shows "in_order (deliver p k (a\<lparr>a_recv := (a_recv a)(seq_recv_path_on_b p \<mapsto> seq_on_a p + 1)\<rparr>))"
proof -
  let ?ds = "delivered_on a (chan_end_path_on_b p)"
  have "in_order_at a (chan_end_path_on_b p) (seq_recv_path_on_b p)"
    using assms by (auto simp: in_order_iff chan_end_path_on_b_def seq_recv_path_on_b_def)
  then have p: "map seq_on_a ?ds = map of_nat [1..<Suc (length ?ds)]"
    "seq_on_a p = of_nat (Suc (length ?ds))"
    using assms(4) unfolding in_order_at_def Let_def by (simp_all del: upt_Suc of_nat_Suc)
  show ?thesis unfolding in_order_iff
  proof (intro allI impI)
    fix port ident d
    let ?b = "deliver p k (a\<lparr>a_recv := (a_recv a)(seq_recv_path_on_b p \<mapsto> seq_on_a p + 1)\<rparr>)"
    assume d: "a_channels ?b (ChannelEndPath port ident) = Some d" "ch_ordering d = Ordered"
    show "in_order_at ?b (ChannelEndPath port ident) (SeqRecvPath port ident)"
    proof (cases "chan_end_path_on_b p = ChannelEndPath port ident")
      case True
      then show ?thesis using p
        by (simp add: in_order_at_def delivered_on_def Let_def chan_end_path_on_b_def
            seq_recv_path_on_b_def)
    next
      case False
      have "in_order_at a (ChannelEndPath port ident) (SeqRecvPath port ident)"
        using assms(1) d by (simp add: in_order_iff)
      then show ?thesis
        by (rule in_order_at_frame)
          (use False in \<open>auto simp: delivered_on_def chan_end_path_on_b_def seq_recv_path_on_b_def\<close>)
    qed
  qed
qed

lemma in_order_init: "in_order core_init"
  by (simp add: in_order_def core_init_def)

lemma in_order_step:
  assumes "core_step commits x a b" "fresh n a" "anchored a" "in_order a"
  shows "in_order b"
  using assms(1,4)
proof (cases rule: core_step.cases)
  case (chan_init k m h hs)
  then show ?thesis using assms in_order_add_channel fresh_channel by blast
next
  case (chan_try k m h hs v)
  then show ?thesis using assms in_order_add_channel fresh_channel by blast
next
  case (recv_unordered p m c k)
  then show ?thesis using assms in_order_deliver_unordered by blast
next
  case (recv_ordered p m c k)
  then show ?thesis using assms in_order_deliver_ordered by blast
qed (use assms(4) in \<open>auto intro!: in_order_frame [OF assms(4)] split: if_splits\<close>)


subsection \<open>Outstanding commitments\<close>

definition send_ok :: "nat \<Rightarrow> core_state \<Rightarrow> port_id \<Rightarrow> channel_id \<Rightarrow> bool" where
  "send_ok n a port ident \<longleftrightarrow> (\<exists>k. a_send a (SeqSendPath port ident) = Some k
     \<and> 1 \<le> unat k \<and> unat k \<le> Suc n
     \<and> (\<forall>s. a_commitments a (CommitmentPath port ident s) \<noteq> None
          \<longrightarrow> 1 \<le> unat s \<and> unat s < unat k))"

lemma send_window_iff:
  "send_window n a \<longleftrightarrow> (\<forall>port ident. a_channels a (ChannelEndPath port ident) \<noteq> None
     \<longrightarrow> send_ok n a port ident)"
  by (auto simp: send_window_def send_ok_def)

lemma send_ok_frame:
  assumes "send_ok n a port ident" "a_send b (SeqSendPath port ident) = a_send a (SeqSendPath port ident)"
    and "\<And>s. a_commitments b (CommitmentPath port ident s) \<noteq> None
      \<Longrightarrow> a_commitments a (CommitmentPath port ident s) \<noteq> None"
  shows "send_ok (Suc n) b port ident"
  using assms unfolding send_ok_def by (metis le_SucI)

lemma send_window_frame:
  assumes "send_window n a" "a_send b = a_send a"
    and "dom (a_commitments b) \<subseteq> dom (a_commitments a)" "dom (a_channels b) \<subseteq> dom (a_channels a)"
  shows "send_window (Suc n) b"
  using assms unfolding send_window_iff by (auto intro!: send_ok_frame [of n a] simp: subset_iff domIff)

lemma send_window_add_channel:
  assumes "send_window n a" "anchored a" "a_channels a (ChannelEndPath port (channel_id_new k)) = None"
  shows "send_window (Suc n) (add_channel port k c a)"
  unfolding send_window_iff
proof (intro allI impI)
  fix port' ident'
  assume new: "a_channels (add_channel port k c a) (ChannelEndPath port' ident') \<noteq> None"
  show "send_ok (Suc n) (add_channel port k c a) port' ident'"
  proof (cases "port' = port \<and> ident' = channel_id_new k")
    case True
    have "a_commitments a (CommitmentPath port (channel_id_new k) s) = None" for s
      using anchored_commitment [OF assms(2)] assms(3) by (metis not_None_eq)
    then show ?thesis using True by (auto simp: send_ok_def)
  next
    case False
    then have "send_ok n a port' ident'" using assms(1) new by (auto simp: send_window_iff)
    then show ?thesis by (rule send_ok_frame) (use False in auto)
  qed
qed

lemma send_window_send:
  assumes "send_window n a" "a_channels a (chan_end_path_on_a p) \<noteq> None" "Suc (Suc n) < u64_range"
    and q: "q = SeqSendPath (port_id_on_a p) (chan_id_on_a p)" and s: "a_send a q = Some (seq_on_a p)"
  shows "send_window (Suc n) (a\<lparr>a_send := (a_send a)(q \<mapsto> seq_on_a p + 1),
           a_commitments := (a_commitments a)(commitment_path_on_a p \<mapsto> k)\<rparr>)" (is "send_window _ ?b")
  unfolding send_window_iff
proof (intro allI impI)
  fix port ident
  assume ch: "a_channels ?b (ChannelEndPath port ident) \<noteq> None"
  then have ok: "send_ok n a port ident" using assms(1) by (auto simp: send_window_iff)
  show "send_ok (Suc n) ?b port ident"
  proof (cases "port = port_id_on_a p \<and> ident = chan_id_on_a p")
    case True
    then have le: "unat (seq_on_a p) \<le> Suc n" "1 \<le> unat (seq_on_a p)"
      and old: "\<And>t. a_commitments a (CommitmentPath port ident t) \<noteq> None
        \<Longrightarrow> 1 \<le> unat t \<and> unat t < unat (seq_on_a p)"
      using ok s q by (auto simp: send_ok_def)
    show ?thesis unfolding send_ok_def using True old le u64_next(1) [OF le(1) assms(3)]
      by (auto simp: q commitment_path_on_a_def less_Suc_eq)
  next
    case False
    show ?thesis using ok
      by (rule send_ok_frame) (use False q in \<open>auto simp: commitment_path_on_a_def split: if_splits\<close>)
  qed
qed

lemma send_window_init: "send_window 0 core_init"
  by (simp add: send_window_def core_init_def)

lemma send_window_step:
  assumes "core_step commits x a b" "fresh n a" "anchored a" "send_window n a" "Suc (Suc n) < u64_range"
  shows "send_window (Suc n) b"
  using assms(1,4)
proof (cases rule: core_step.cases)
  case (chan_init k m h hs)
  then show ?thesis using assms send_window_add_channel fresh_channel by blast
next
  case (chan_try k m h hs v)
  then show ?thesis using assms send_window_add_channel fresh_channel by blast
next
  case (send p c q k)
  then show ?thesis using assms send_window_send by auto
qed (use assms(4) in \<open>auto intro!: send_window_frame [OF assms(4)] split: if_splits\<close>)


subsection \<open>Progress of the stored ends\<close>

lemma conn_state_le_simps [simp]:
  "conn_state_le s s" "conn_state_le s ConnInit \<longleftrightarrow> s = ConnInit"
  by (auto simp: conn_state_le_def)

lemma chan_state_le_simps [simp]: "chan_state_le s s" "chan_state_le s Init \<longleftrightarrow> s = Init"
  by (auto simp: chan_state_le_def)

lemma conn_state_le_trans: "conn_state_le s t \<Longrightarrow> conn_state_le t u \<Longrightarrow> conn_state_le s u"
  by (auto simp: conn_state_le_def)

lemma chan_state_le_trans: "chan_state_le s t \<Longrightarrow> chan_state_le t u \<Longrightarrow> chan_state_le s u"
  by (auto simp: chan_state_le_def)

lemma conn_le_refl [simp]: "conn_le c c"
  by (simp add: conn_le_def)

lemma chan_le_refl [simp]: "chan_le c c"
  by (simp add: chan_le_def)

lemma conn_le_trans: "conn_le c d \<Longrightarrow> conn_le d e \<Longrightarrow> conn_le c e"
  unfolding conn_le_def using conn_state_le_trans conn_state_le_simps(2) by metis

lemma chan_le_trans: "chan_le c d \<Longrightarrow> chan_le d e \<Longrightarrow> chan_le c e"
  unfolding chan_le_def using chan_state_le_trans chan_state_le_simps(2) by metis

lemma progress_refl: "reflp progress"
  by (auto simp: reflp_def progress_def)

lemma progress_trans: "transp progress"
  unfolding transp_def progress_def using conn_le_trans chan_le_trans by blast

lemma progress_put_channel:
  "a_channels a p = Some c \<Longrightarrow> chan_le c d \<Longrightarrow> progress a (put_channel p d a)"
  by (auto simp: progress_def)

lemma progress_put_connection:
  "a_connections a (ConnectionPath i) = Some c \<Longrightarrow> conn_le c d \<Longrightarrow> progress a (put_connection i d a)"
  by (auto simp: progress_def)

lemma progress_frame:
  "a_connections b = a_connections a \<Longrightarrow> a_channels b = a_channels a \<Longrightarrow> progress a b"
  by (auto simp: progress_def)

lemma chan_le_changes:
  "ch_state c = Init \<Longrightarrow> chan_le c (c\<lparr>ch_state := Open, ch_version := v,
     ch_remote := (ch_remote c)\<lparr>hcp_channel_id := Some i\<rparr>\<rparr>)"
  "ch_state c = TryOpen \<Longrightarrow> chan_le c (c\<lparr>ch_state := Open\<rparr>)"
  "chan_wf c \<Longrightarrow> chan_le c (c\<lparr>ch_state := Closed\<rparr>)"
  by (cases "ch_state c"; simp add: chan_le_def chan_wf_def chan_state_le_def)+

lemma conn_le_changes:
  "ce_state c = ConnInit \<Longrightarrow> conn_le c (c\<lparr>ce_state := ConnOpen, ce_versions := vs,
     ce_counterparty := (ce_counterparty c)\<lparr>ccp_connection_id := Some i\<rparr>\<rparr>)"
  "ce_state c = ConnTryOpen \<Longrightarrow> conn_le c (c\<lparr>ce_state := ConnOpen\<rparr>)"
  by (simp_all add: conn_le_def conn_state_le_def)

lemma progress_step:
  assumes "core_step commits x a b" "fresh n a" "core_wf a"
  shows "progress a b"
  using assms(1)
proof (cases rule: core_step.cases)
  case (conn_init k c m)
  then show ?thesis using fresh_connection [OF assms(2)] by (auto simp: progress_def)
next
  case (conn_try k c v m)
  then show ?thesis using fresh_connection [OF assms(2)] by (auto simp: progress_def)
next
  case (chan_init k m h hs)
  then show ?thesis using fresh_channel [OF assms(2)] by (auto simp: progress_def)
next
  case (chan_try k m h hs v)
  then show ?thesis using fresh_channel [OF assms(2)] by (auto simp: progress_def)
next
  case (timeout_ordered m p must_be_open c k)
  have "chan_le c (c\<lparr>ch_state := Closed\<rparr>)"
    using core_wfD(2) [OF assms(3)] timeout_ordered by (auto intro: chan_le_changes)
  then show ?thesis using timeout_ordered by (auto simp: progress_def)
qed (simp_all add: progress_frame,
     auto intro!: progress_put_channel progress_put_connection chan_le_changes conn_le_changes
       intro: core_wfD(2) [OF assms(3)])


section \<open>All invariants together\<close>

definition core_inv :: "nat \<Rightarrow> core_state \<Rightarrow> bool" where
  "core_inv n a \<longleftrightarrow> core_wf a \<and> delivered_once a \<and> fresh n a \<and> anchored a \<and> in_order a
     \<and> send_window n a"

lemma core_inv_init: "core_inv 0 core_init"
  by (simp add: core_inv_def core_wf_init delivered_once_init fresh_init anchored_init in_order_init
      send_window_init)

lemma core_inv_step:
  assumes "core_step commits x a b" "core_inv n a" "Suc n < u64_range - 1"
  shows "core_inv (Suc n) b"
proof -
  have n: "Suc (Suc n) < u64_range" "Suc n < u64_range" using assms(3) by simp_all
  show ?thesis using assms(1,2) n unfolding core_inv_def
    by (meson core_wf_step delivered_once_step fresh_step anchored_step in_order_step send_window_step)
qed

interpretation core: counted_invariant "core_step commits" core_init core_inv "u64_range - 1"
  by unfold_locales (auto intro: core_inv_init core_inv_step)

lemma progress_run:
  assumes "run (core_step commits) core_init xs a" "run (core_step commits) a ys b"
    and "length xs + length ys < u64_range - 1"
  shows "progress a b"
  by (rule core.relation_kept [OF _ progress_refl progress_trans assms(2,1,3)])
    (auto simp: core_inv_def intro: progress_step)
section \<open>Settled packets\<close>

text \<open>A sequence number that was used on a channel and has no commitment any more belongs
  to a packet that was acknowledged or timed out.  It stays so.\<close>

definition settled_on :: "core_state \<Rightarrow> port_id \<Rightarrow> channel_id \<Rightarrow> sequence \<Rightarrow> bool" where
  "settled_on a port ident s \<longleftrightarrow> a_channels a (ChannelEndPath port ident) \<noteq> None
     \<and> (\<exists>k. a_send a (SeqSendPath port ident) = Some k \<and> unat s < unat k)
     \<and> a_commitments a (CommitmentPath port ident s) = None"

definition settles :: "core_state \<Rightarrow> core_state \<Rightarrow> bool" where
  "settles a b \<longleftrightarrow> (\<forall>port ident s. settled_on a port ident s \<longrightarrow> settled_on b port ident s)"

lemma settles_refl: "reflp settles"
  by (simp add: reflp_def settles_def)

lemma settles_trans: "transp settles"
  by (simp add: transp_def settles_def)

lemma settles_frame:
  assumes "a_send b = a_send a" "dom (a_commitments b) \<subseteq> dom (a_commitments a)"
    and "dom (a_channels a) \<subseteq> dom (a_channels b)"
  shows "settles a b"
  using assms unfolding settles_def settled_on_def by (auto simp: subset_iff domIff)

lemma settles_add_channel:
  assumes "a_channels a (ChannelEndPath port (channel_id_new k)) = None"
  shows "settles a (add_channel port k c a)"
  using assms by (auto simp: settles_def settled_on_def)

lemma settles_send:
  assumes "send_window n a" "Suc (Suc n) < u64_range" "a_channels a (chan_end_path_on_a p) \<noteq> None"
    and q: "q = SeqSendPath (port_id_on_a p) (chan_id_on_a p)" and s: "a_send a q = Some (seq_on_a p)"
  shows "settles a (a\<lparr>a_send := (a_send a)(q \<mapsto> seq_on_a p + 1),
           a_commitments := (a_commitments a)(commitment_path_on_a p \<mapsto> k)\<rparr>)"
proof -
  have "unat (seq_on_a p) \<le> Suc n"
    using assms(1,3) s q by (fastforce simp: send_window_def chan_end_path_on_a_def)
  then have "unat (seq_on_a p + 1) = Suc (unat (seq_on_a p))" using u64_next(1) assms(2) by blast
  then show ?thesis using s q
    by (auto simp: settles_def settled_on_def commitment_path_on_a_def)
qed

lemma settles_step:
  assumes "core_step commits x a b" "fresh n a" "send_window n a" "Suc (Suc n) < u64_range"
  shows "settles a b"
  using assms(1)
proof (cases rule: core_step.cases)
  case (chan_init k m h hs)
  then show ?thesis using fresh_channel [OF assms(2)] by (auto intro!: settles_add_channel)
next
  case (chan_try k m h hs v)
  then show ?thesis using fresh_channel [OF assms(2)] by (auto intro!: settles_add_channel)
next
  case (send p c q k)
  then show ?thesis using settles_send [OF assms(3,4)] by auto
qed (auto intro!: settles_frame split: if_splits)

lemma settles_run:
  assumes "run (core_step commits) core_init xs a" "run (core_step commits) a ys b"
    and "length xs + length ys < u64_range - 1"
  shows "settles a b"
  by (rule core.relation_kept [OF _ settles_refl settles_trans assms(2,1,3)])
    (auto simp: core_inv_def intro: settles_step)

end
