(* ===== verification/Refinement.thy ===== *)
theory Refinement
  imports Entrypoint Light_Client Core_Invariants
begin

text \<open>
  The handlers follow the abstract machine of \<open>Core_Spec\<close>: \<open>core_abs\<close> projects a store
  to an abstract state, and a message that passes its validation and executes without
  an error is a step of \<open>core_step\<close> between the projections.  The application of
  \<open>app_step\<close> handles messages, packets sent by modules, recoveries of clients and new
  blocks, and undoes a message that fails, as a host does.
\<close>

section \<open>Abstraction\<close>

definition received_packet :: "ibc_event \<Rightarrow> packet list" where
  "received_packet ev = (case ev of ReceivePacketEvent p _ _ \<Rightarrow> [p] | _ \<Rightarrow> [])"

text \<open>The packets delivered to modules, in order, from the events.\<close>

definition received_packets :: "ibc_event list \<Rightarrow> packet list" where
  "received_packets evs = concat (map received_packet evs)"

definition core_abs :: "('cs, 'cons) ibc_store \<Rightarrow> core_state" where
  "core_abs s = \<lparr>a_connections = connection_end_store s, a_next_connection = conn_counter_store s,
     a_channels = channel_end_store s, a_next_channel = channel_counter_store s,
     a_send = send_sequence_store s, a_recv = recv_sequence_store s, a_ack = ack_sequence_store s,
     a_commitments = packet_commitment_store s, a_receipts = packet_receipt_store s,
     a_acks = packet_ack_store s, a_delivered = received_packets (events s)\<rparr>"

definition commits_to :: "('cs, 'cons) client_ops \<Rightarrow> packet \<Rightarrow> packet_commitment \<Rightarrow> bool" where
  "commits_to env p k \<longleftrightarrow> packet_commitment_of env p = (Ok k :: (packet_commitment, context_error) result)"

definition same_core :: "('cs, 'cons) ibc_store \<Rightarrow> ('cs, 'cons) ibc_store \<Rightarrow> bool" where
  "same_core s t \<longleftrightarrow> core_abs t = core_abs s"

lemma received_packets_simps [simp]:
  "received_packets [] = []"
  "received_packets (ev # evs) = received_packet ev @ received_packets evs"
  "received_packets (evs @ evs') = received_packets evs @ received_packets evs'"
  "received_packets (map ModuleEvent mes) = []"
  by (simp_all add: received_packets_def received_packet_def)

lemma core_abs_ibc_store_new [simp]: "core_abs (ibc_store_new n h refuses) = core_init"
  by (simp add: core_abs_def ibc_store_new_def core_init_def)

lemma same_core_refl: "reflp same_core"
  by (simp add: reflp_def same_core_def)

lemma same_core_trans: "transp same_core"
  by (simp add: transp_def same_core_def)

lemma client_write_same_core: "client_write s t \<Longrightarrow> same_core s t"
  by (simp add: same_core_def core_abs_def client_write_fields)

lemma keeps_client_write: "keeps client_write m \<Longrightarrow> keeps same_core m"
  by (simp add: keeps_def client_write_same_core)

lemma core_abs_with_new_channel [simp]:
  "core_abs (with_new_channel port n c s) = add_channel port n c (core_abs s)"
  by (simp add: core_abs_def with_new_channel_def add_channel_def put_channel_def Let_def)


section \<open>Clients\<close>

lemma keeps_emit [keeps_intros]:
  "received_packet ev = [] \<Longrightarrow> keeps same_core (emit_ibc_event ev)"
  by (simp add: keeps_def same_core_def emit_ibc_event_eq core_abs_def)

lemma keeps_log [keeps_intros]: "keeps same_core (log_message l)"
  by (simp add: keeps_def same_core_def log_message_eq core_abs_def)

lemma keeps_client_counter [keeps_intros]: "keeps same_core increase_client_counter"
  by (simp add: keeps_def same_core_def increase_client_counter_def exec_eval typed_set_def
      core_abs_def client_counter_def split: option.splits result.splits)

context light_client
begin

lemmas client_frames = initialise_frame update_state_frame misbehaviour_frame upgrade_frame
  recovery_frame

lemmas client_frames_core = client_frames [THEN keeps_client_write]

lemma client_msg_same_core: "keeps same_core (client_msg_execute env msg)"
  by (auto simp: client_msg_execute_def create_client_execute_def update_client_execute_def
      upgrade_client_execute_def Let_def received_packet_def
      intro!: keeps_intros client_frames_core same_core_refl same_core_trans
      split: client_msg.splits)

lemma recover_same_core: "keeps same_core (recover_client_execute env msg)"
  by (auto simp: recover_client_execute_def Let_def
      intro!: keeps_intros client_frames_core same_core_refl same_core_trans)

end
section \<open>Connections\<close>

lemma version_compatibles_ne [simp]: "version_compatibles \<noteq> []"
  by (simp add: version_compatibles_def)

lemma core_abs_sel [simp]:
  "a_connections (core_abs s) = connection_end_store s"
  "a_next_connection (core_abs s) = conn_counter_store s"
  "a_channels (core_abs s) = channel_end_store s"
  "a_next_channel (core_abs s) = channel_counter_store s"
  "a_send (core_abs s) = send_sequence_store s"
  "a_recv (core_abs s) = recv_sequence_store s"
  "a_ack (core_abs s) = ack_sequence_store s"
  "a_commitments (core_abs s) = packet_commitment_store s"
  "a_receipts (core_abs s) = packet_receipt_store s"
  "a_acks (core_abs s) = packet_ack_store s"
  "a_delivered (core_abs s) = received_packets (events s)"
  by (simp_all add: core_abs_def)

lemma core_abs_host [simp]:
  "core_abs (s\<lparr>st_current_height := h\<rparr>) = core_abs s"
  "core_abs (s\<lparr>st_refuses := f\<rparr>) = core_abs s"
  by (simp_all add: core_abs_def)

lemma core_abs_upd:
  "core_abs (s\<lparr>channel_end_store := f\<rparr>) = (core_abs s)\<lparr>a_channels := f\<rparr>"
  "core_abs (s\<lparr>ack_sequence_store := g\<rparr>) = (core_abs s)\<lparr>a_ack := g\<rparr>"
  "core_abs (s\<lparr>packet_commitment_store := k\<rparr>) = (core_abs s)\<lparr>a_commitments := k\<rparr>"
  by (simp_all add: core_abs_def)

lemmas core_abs_updates = core_abs_def add_connection_def put_connection_def put_channel_def
  drop_commitment_def deliver_def received_packet_def

lemma conn_open_init_refines:
  assumes "conn_open_init_execute msg s = (Ok (), s')"
  shows "core_step C (ConnectionAct (ConnOpenInit msg)) (core_abs s) (core_abs s')"
proof -
  from conn_open_init_execute_OkD [OF assms] obtain n vs where
    n: "conn_counter_store s = Some n"
    and vs: "vs = (case coi_version msg of Some v \<Rightarrow> [v] | None \<Rightarrow> version_compatibles)"
    and eq: "core_abs s' = add_connection n
      \<lparr>ce_state = ConnInit, ce_client_id = coi_client_id_on_a msg,
       ce_counterparty = (coi_counterparty msg)\<lparr>ccp_connection_id := None\<rparr>,
       ce_versions = vs, ce_delay_period = coi_delay_period msg\<rparr> (core_abs s)"
    by (auto simp: core_abs_updates)
  show ?thesis unfolding eq using n vs by (intro conn_init) (auto split: option.splits)
qed

lemma conn_open_try_refines:
  assumes "conn_open_try_execute msg s = (Ok (), s')"
  shows "core_step C (ConnectionAct (ConnOpenTry msg)) (core_abs s) (core_abs s')"
proof -
  from conn_open_try_execute_OkD [OF assms] obtain n v where
    n: "conn_counter_store s = Some n" "ccp_connection_id (cot_counterparty msg) \<noteq> None"
    and eq: "core_abs s' = add_connection n
      \<lparr>ce_state = ConnTryOpen, ce_client_id = cot_client_id_on_b msg,
       ce_counterparty = cot_counterparty msg, ce_versions = [v],
       ce_delay_period = cot_delay_period msg\<rparr> (core_abs s)"
    by (auto simp: core_abs_updates)
  show ?thesis unfolding eq using n by (intro conn_try [where v = v]) auto
qed

lemma conn_open_ack_validate_OkD:
  assumes "conn_open_ack_validate env s msg = Ok ()"
  shows "\<exists>c. connection_end_store s (ConnectionPath (coa_conn_id_on_a msg)) = Some c
    \<and> ce_state c = ConnInit \<and> verify_is_supported (coa_version msg) (ce_versions c) = Ok ()"
  using assms by (auto simp: conn_open_ack_validate_def conn_open_ack_validate_impl_def result_simps
      store_reads Let_def ce_verify_state_matches_Ok_iff split: if_splits)

lemma conn_open_ack_refines:
  assumes "conn_open_ack_validate env s msg = Ok ()" "conn_open_ack_execute msg s = (Ok (), s')"
  shows "core_step C (ConnectionAct (ConnOpenAck msg)) (core_abs s) (core_abs s')"
proof -
  obtain c where c: "connection_end_store s (ConnectionPath (coa_conn_id_on_a msg)) = Some c"
      "ce_state c = ConnInit" "verify_is_supported (coa_version msg) (ce_versions c) = Ok ()"
    using conn_open_ack_validate_OkD [OF assms(1)] by blast
  have eq: "core_abs s' = put_connection (coa_conn_id_on_a msg)
      (c\<lparr>ce_state := ConnOpen, ce_versions := [coa_version msg],
         ce_counterparty := (ce_counterparty c)
           \<lparr>ccp_connection_id := Some (coa_conn_id_on_b msg)\<rparr>\<rparr>) (core_abs s)"
    using conn_open_ack_execute_OkD [OF assms(2)] c by (auto simp: core_abs_updates)
  show ?thesis unfolding eq using c by (intro conn_ack) auto
qed

lemma conn_open_confirm_validate_OkD:
  assumes "conn_open_confirm_validate env s msg = Ok ()"
  shows "\<exists>c. connection_end_store s (ConnectionPath (coc_conn_id_on_b msg)) = Some c
    \<and> ce_state c = ConnTryOpen"
  using assms by (auto simp: conn_open_confirm_validate_def conn_open_confirm_validate_impl_def
      result_simps store_reads Let_def ce_verify_state_matches_Ok_iff)

lemma conn_open_confirm_refines:
  assumes "conn_open_confirm_validate env s msg = Ok ()" "conn_open_confirm_execute msg s = (Ok (), s')"
  shows "core_step C (ConnectionAct (ConnOpenConfirm msg)) (core_abs s) (core_abs s')"
proof -
  obtain c where c: "connection_end_store s (ConnectionPath (coc_conn_id_on_b msg)) = Some c"
      "ce_state c = ConnTryOpen"
    using conn_open_confirm_validate_OkD [OF assms(1)] by blast
  have eq: "core_abs s' = put_connection (coc_conn_id_on_b msg) (c\<lparr>ce_state := ConnOpen\<rparr>) (core_abs s)"
    using conn_open_confirm_execute_OkD [OF assms(2)] c by (auto simp: core_abs_updates)
  show ?thesis unfolding eq using c by (intro conn_confirm) auto
qed

lemma connection_msg_refines:
  assumes "connection_msg_validate env s msg = Ok ()" "connection_msg_execute msg s = (Ok (), s')"
  shows "core_step C (ConnectionAct msg) (core_abs s) (core_abs s')"
  using assms by (cases msg) (auto simp: connection_msg_validate_def connection_msg_execute_def
      intro: conn_open_init_refines conn_open_try_refines conn_open_ack_refines
        conn_open_confirm_refines)


section \<open>Channels\<close>

lemmas chan_validate_simps = result_simps channel_end_def connection_end_def Let_def
  ce_verify_state_matches_Ok_iff conn_open_def validate_message_signer_def neq_Nil_conv

lemma chan_open_init_validate_OkD:
  assumes "chan_open_init_validate env mops s m msg = Ok ()"
  shows "\<exists>h hs. hoi_connection_hops_on_a msg = h # hs \<and> connection_end_store s (ConnectionPath h) \<noteq> None"
  using assms
  by (auto simp: chan_open_init_validate_def chan_open_init_validate_core_def chan_validate_simps)

lemma chan_open_try_validate_OkD:
  assumes "chan_open_try_validate env mops s m msg = Ok ()"
  shows "\<exists>h hs. hot_connection_hops_on_b msg = h # hs \<and> conn_open (core_abs s) h"
  using assms
  by (auto simp: chan_open_try_validate_def chan_open_try_validate_core_def chan_validate_simps)

lemma chan_open_ack_validate_OkD:
  assumes "chan_open_ack_validate env mops s m msg = Ok ()"
  shows "\<exists>c h hs. channel_end_store s (ChannelEndPath (hoa_port_id_on_a msg) (hoa_chan_id_on_a msg)) = Some c
    \<and> ch_state c = Init \<and> ch_connection_hops c = h # hs \<and> conn_open (core_abs s) h"
  using assms
  by (auto simp: chan_open_ack_validate_def chan_open_ack_validate_core_def chan_validate_simps)

lemma chan_open_confirm_validate_OkD:
  assumes "chan_open_confirm_validate env mops s m msg = Ok ()"
  shows "\<exists>c h hs. channel_end_store s (ChannelEndPath (hoc_port_id_on_b msg) (hoc_chan_id_on_b msg)) = Some c
    \<and> ch_state c = TryOpen \<and> ch_connection_hops c = h # hs \<and> conn_open (core_abs s) h"
  using assms
  by (auto simp: chan_open_confirm_validate_def chan_open_confirm_validate_core_def
      chan_validate_simps)

lemma chan_close_init_validate_OkD:
  assumes "chan_close_init_validate env mops s m msg = Ok ()"
  shows "\<exists>c h hs. channel_end_store s (ChannelEndPath (hci_port_id_on_a msg) (hci_chan_id_on_a msg)) = Some c
    \<and> ch_state c \<noteq> Closed \<and> ch_connection_hops c = h # hs \<and> conn_open (core_abs s) h"
  using assms
  by (auto simp: chan_close_init_validate_def chan_close_init_validate_core_def
      chan_validate_simps)

lemma chan_close_confirm_validate_OkD:
  assumes "chan_close_confirm_validate env mops s m msg = Ok ()"
  shows "\<exists>c h hs. channel_end_store s (ChannelEndPath (hcc_port_id_on_b msg) (hcc_chan_id_on_b msg)) = Some c
    \<and> ch_state c \<noteq> Closed \<and> ch_connection_hops c = h # hs \<and> conn_open (core_abs s) h"
  using assms
  by (auto simp: chan_close_confirm_validate_def chan_close_confirm_validate_core_def
      chan_validate_simps)

text \<open>A step of the machine whose target is given by an equation.\<close>

lemma core_step_to: "core_step C act a b \<Longrightarrow> b' = b \<Longrightarrow> core_step C act a b'"
  by simp

lemma core_abs_put_channel:
  "core_abs (s\<lparr>channel_end_store := (channel_end_store s)(p \<mapsto> c)\<rparr>) = put_channel p c (core_abs s)"
  by (simp add: core_abs_def put_channel_def)

lemma core_abs_silent [simp]:
  "received_packets evs = [] \<Longrightarrow> core_abs (with_output evs ls extras s) = core_abs s"
  by (simp add: core_abs_def with_output_def)

lemma channel_msg_refines:
  assumes "channel_msg_validate env mops s m msg = Ok ()"
    and "channel_msg_execute mops msg (s, m) = (Ok (), (s', m'))"
  shows "core_step C (ChannelAct msg) (core_abs s) (core_abs s')"
proof (cases msg)
  case (ChanOpenInit x)
  then show ?thesis using assms chan_open_init_validate_OkD [of env mops s m x]
      chan_open_init_execute_OkD [of mops x s m s' m']
    by (auto simp: channel_msg_validate_def channel_msg_execute_def received_packet_def
        intro!: chan_init)
next
  case (ChanOpenTry x)
  then show ?thesis using assms chan_open_try_validate_OkD [of env mops s m x]
      chan_open_try_execute_OkD [of mops x s m s' m']
    by (auto simp: channel_msg_validate_def channel_msg_execute_def received_packet_def
        intro!: chan_try)
next
  case (ChanOpenAck x)
  then show ?thesis using assms chan_open_ack_validate_OkD [of env mops s m x]
      chan_open_ack_execute_OkD [of mops x s m s' m']
    by (auto simp: channel_msg_validate_def channel_msg_execute_def received_packet_def
        core_abs_put_channel intro!: chan_ack)
next
  case (ChanOpenConfirm x)
  then show ?thesis using assms chan_open_confirm_validate_OkD [of env mops s m x]
      chan_open_confirm_execute_OkD [of mops x s m s' m']
    by (auto simp: channel_msg_validate_def channel_msg_execute_def received_packet_def
        core_abs_put_channel intro!: chan_confirm)
next
  case (ChanCloseInit x)
  then show ?thesis using assms chan_close_init_validate_OkD [of env mops s m x]
      chan_close_init_execute_OkD [of mops x s m s' m']
    by (auto simp: channel_msg_validate_def channel_msg_execute_def received_packet_def
        core_abs_put_channel intro!: chan_close_init)
next
  case (ChanCloseConfirm x)
  then show ?thesis using assms chan_close_confirm_validate_OkD [of env mops s m x]
      chan_close_confirm_execute_OkD [of mops x s m s' m']
    by (auto simp: channel_msg_validate_def channel_msg_execute_def received_packet_def
        core_abs_put_channel intro!: chan_close_confirm)
qed
section \<open>Packets\<close>

lemma send_packet_refines:
  assumes "send_packet env p s = (Ok (), s')"
  shows "core_step (commits_to env) (SendAct p) (core_abs s) (core_abs s')"
proof -
  have v: "send_allowed env s p" and x: "send_packet_execute env p s = (Ok (), s')"
    using assms by (auto simp: send_packet_def result_simps send_packet_validate_Ok_iff)
  obtain k where k: "commits_to env p k"
      "core_abs s' = (core_abs s)\<lparr>
         a_send := (send_sequence_store s)
           (SeqSendPath (port_id_on_a p) (chan_id_on_a p) \<mapsto> seq_on_a p + 1),
         a_commitments := (packet_commitment_store s)(commitment_path_on_a p \<mapsto> k)\<rparr>"
    using x v by (auto simp: send_packet_execute_Ok_iff send_allowed_def commits_to_def core_abs_def
        received_packet_def)
  show ?thesis using v
    by (auto simp: send_allowed_def k(2) intro!: core_step_to [OF send] k(1))
qed

lemma core_abs_deliver:
  "received_packets evs = [p] \<Longrightarrow>
     core_abs (with_output evs ls extras
       (s\<lparr>packet_ack_store := (packet_ack_store s)(ack_path_on_b p \<mapsto> k)\<rparr>))
     = deliver p k (core_abs s)"
  by (simp add: core_abs_def with_output_def deliver_def)

lemma recv_packet_refines:
  assumes v: "recv_packet_validate env s msg = Ok ()"
    and x: "recv_packet_execute env mops msg (s, m) = (Ok (), (s', m'))"
  shows "core_step C (PacketAct (PacketRecv msg)) (core_abs s) (core_abs s')"
proof -
  define p where "p = rcv_packet msg"
  obtain c where c: "channel_end_store s (chan_end_path_on_b p) = Some c" "ch_state c = Open"
      "ch_remote c = packet_counterparty_on_a p"
      "recv_packet_validate_order s msg (ch_ordering c) = Ok ()"
    using v unfolding recv_packet_validate_Ok_iff p_def by (auto simp: Let_def)
  consider (again) "packet_already_received s p (ch_ordering c) = Ok True" "s' = s"
    | (new) k rec where "packet_already_received s p (ch_ordering c) = Ok False"
        "recv_packet_record p (ch_ordering c) s = (Ok (), rec)"
        "core_abs s' = deliver p k (core_abs rec)"
    using recv_packet_execute_OkD [OF x p_def] c(1)
    by (fastforce simp: received_packet_def intro: core_abs_deliver)
  then show ?thesis
  proof cases
    case again
    then show ?thesis using c
      by (cases "ch_ordering c")
        (auto simp: packet_already_received_iff p_def recv_packet_validate_order_Ok_iff
          intro!: recv_again)
  next
    case new
    show ?thesis
    proof (cases "ch_ordering c")
      case Unordered
      then have "receipt_path_on_b p \<notin> packet_receipt_store s" "packet_ack_store s (ack_path_on_b p) = None"
          "core_abs rec = (core_abs s)\<lparr>a_receipts := insert (receipt_path_on_b p) (packet_receipt_store s)\<rparr>"
        using new c by (auto simp: packet_already_received_iff recv_packet_validate_order_Ok_iff p_def
            result_simps Let_def core_abs_def)
      then show ?thesis using Unordered new c by (intro core_step_to [OF recv_unordered [of p msg _ c]]) (auto simp: p_def)
    next
      case Ordered
      then have "recv_sequence_store s (seq_recv_path_on_b p) = Some (seq_on_a p)"
          "packet_ack_store s (ack_path_on_b p) = None"
          "core_abs rec = (core_abs s)\<lparr>a_recv :=
             (recv_sequence_store s)(seq_recv_path_on_b p \<mapsto> seq_on_a p + 1)\<rparr>"
        using new c by (auto simp: packet_already_received_iff recv_packet_validate_order_Ok_iff p_def
            result_simps Let_def core_abs_def)
      then show ?thesis using Ordered new c by (intro core_step_to [OF recv_ordered [of p msg _ c]]) (auto simp: p_def)
    qed (use c in \<open>simp add: recv_packet_validate_order_Ok_iff\<close>)
  qed
qed

lemma acknowledgement_packet_refines:
  assumes v: "acknowledgement_packet_validate env mops s m msg = Ok ()"
    and x: "acknowledgement_packet_execute mops msg (s, m) = (Ok (), (s', m'))"
  shows "core_step (commits_to env) (PacketAct (PacketAck msg)) (core_abs s) (core_abs s')"
proof -
  define p where "p = ack_packet msg"
  have "acknowledgement_validate_core env s msg = Ok ()"
    using v by (simp add: acknowledgement_packet_validate_def result_simps)
  note v = this [unfolded acknowledgement_validate_Ok_iff Let_def, folded p_def]
  show ?thesis
  proof (cases "packet_commitment_store s (commitment_path_on_a p)")
    case None
    then have "core_abs s' = core_abs s"
      using acknowledgement_packet_execute_OkD [OF x p_def]
      by (auto simp: core_abs_def received_packet_def)
    then show ?thesis using None by (auto simp: p_def intro!: acknowledge_again)
  next
    case (Some k)
    then obtain c where c: "channel_end_store s (chan_end_path_on_a p) = Some c" "ch_state c = Open"
        "ch_remote c = packet_counterparty_on_b p" "commits_to env p k"
        "ch_ordering c = Ordered \<longrightarrow>
           ack_sequence_store s (SeqAckPath (port_id_on_a p) (chan_id_on_a p)) = Some (seq_on_a p)"
      using v by (auto simp: commits_to_def)
    note eff = acknowledgement_packet_execute_OkD [OF x p_def]
    show ?thesis
    proof (cases "ch_ordering c = Ordered")
      case True
      have "core_abs s' = drop_commitment p ((core_abs s)\<lparr>a_ack := (ack_sequence_store s)
          (SeqAckPath (port_id_on_a p) (chan_id_on_a p) \<mapsto> seq_on_a p + 1)\<rparr>)"
        using eff c Some True by (auto simp: received_packet_def core_abs_upd drop_commitment_def)
      then show ?thesis using c Some True
        by (intro core_step_to [OF acknowledge [of p msg _ c k]]) (auto simp: p_def)
    next
      case False
      have "core_abs s' = drop_commitment p (core_abs s)"
        using eff c Some False by (auto simp: received_packet_def core_abs_upd drop_commitment_def)
      then show ?thesis using c Some False
        by (intro core_step_to [OF acknowledge_unordered [of p msg _ c k]]) (auto simp: p_def)
    qed
  qed
qed

lemma verify_packet_unreceived_order:
  "verify_packet_unreceived env cs cons conn p n proofs chan_order = Ok () \<Longrightarrow> chan_order \<noteq> OrderNone"
  by (auto simp: verify_packet_unreceived_def result_simps)

lemma timeout_packet_validate_OkD:
  assumes "timeout_packet_validate env mops s m t = Ok ()" "timeout_msg_parts t = (p, signer)"
    and "packet_commitment_store s (commitment_path_on_a p) = Some k"
  shows "\<exists>c. channel_end_store s (chan_end_path_on_a p) = Some c
    \<and> ((\<exists>x. t = Timeout x) \<longrightarrow> ch_state c = Open) \<and> ch_remote c = packet_counterparty_on_b p
    \<and> commits_to env p k \<and> ch_ordering c \<noteq> OrderNone"
  using assms
  by (cases t) (auto simp: timeout_packet_validate_def timeout_msg_parts_def result_simps Let_def
      timeout_validate_Ok_iff timeout_on_close_validate_Ok_iff commits_to_def
      dest!: verify_packet_unreceived_order)

lemma timeout_packet_refines:
  assumes v: "timeout_packet_validate env mops s m t = Ok ()"
    and x: "timeout_packet_execute mops t (s, m) = (Ok (), (s', m'))"
    and msg: "msg = (case t of Timeout y \<Rightarrow> PacketTimeout y | TimeoutOnClose y \<Rightarrow> PacketTimeoutOnClose y)"
  shows "core_step (commits_to env) (PacketAct msg) (core_abs s) (core_abs s')"
proof -
  obtain p signer where p: "timeout_msg_parts t = (p, signer)" by fastforce
  obtain must where act: "timeout_act msg = Some (p, must)" "must \<longleftrightarrow> (\<exists>x. t = Timeout x)"
    using p by (cases t) (auto simp: msg timeout_msg_parts_def)
  show ?thesis
  proof (cases "packet_commitment_store s (commitment_path_on_a p)")
    case None
    then have "core_abs s' = core_abs s"
      using timeout_packet_execute_OkD [OF x p] by (auto simp: core_abs_def received_packet_def)
    then show ?thesis using None act(1) by (auto intro: timeout_again)
  next
    case (Some k)
    then obtain c where c: "channel_end_store s (chan_end_path_on_a p) = Some c"
        "must \<longrightarrow> ch_state c = Open" "ch_remote c = packet_counterparty_on_b p"
        "commits_to env p k" "ch_ordering c \<noteq> OrderNone"
      using timeout_packet_validate_OkD [OF v p Some] act by blast
    have "core_abs s' = drop_commitment p (if ch_ordering c = Ordered
        then put_channel (chan_end_path_on_a p) (c\<lparr>ch_state := Closed\<rparr>) (core_abs s) else core_abs s)"
      using timeout_packet_execute_OkD [OF x p] c Some
      by (auto simp: received_packet_def core_abs_upd drop_commitment_def put_channel_def)
    then show ?thesis using c Some act
      by (cases "ch_ordering c") (auto intro: timeout timeout_ordered)
  qed
qed

lemma packet_msg_refines:
  assumes "packet_msg_validate env mops s m msg = Ok ()"
    and "packet_msg_execute env mops msg (s, m) = (Ok (), (s', m'))"
  shows "core_step (commits_to env) (PacketAct msg) (core_abs s) (core_abs s')"
  using assms by (cases msg) (auto simp: packet_msg_validate_def packet_msg_execute_def
      intro: recv_packet_refines acknowledgement_packet_refines timeout_packet_refines)
section \<open>The application\<close>

text \<open>What happens to an application: it handles a message, a module sends a packet, a
  client is recovered, a block begins or the host moves to another height, and the
  state of the modules changes outside the callbacks.\<close>

datatype 'cons app_event =
    Message msg_envelope
  | Send packet
  | Recover msg_recover_client
  | BeginBlock u64 'cons bytes
  | Commit u64
  | ModuleStep

text \<open>The host keeps what a successful transaction wrote and reverts a failed one.\<close>

inductive app_step ::
  "('cs, 'cons) client_ops \<Rightarrow> 'm module_ops \<Rightarrow> 'cons app_event
     \<Rightarrow> ('cs, 'cons, 'm) app \<Rightarrow> ('cs, 'cons, 'm) app \<Rightarrow> bool"
  for env :: "('cs, 'cons) client_ops" and mops :: "'m module_ops"
where
  handled: "dispatch env mops msg st = (Ok (), st') \<Longrightarrow> app_step env mops (Message msg) st st'"
| reverted: "fst (dispatch env mops msg st) \<noteq> Ok () \<Longrightarrow> app_step env mops (Message msg) st st"
| sent: "send_packet env p s = (Ok (), s') \<Longrightarrow> app_step env mops (Send p) (s, r) (s', r)"
| recovered: "recover_client_validate env s msg = Ok () \<Longrightarrow> recover_client_execute env msg s = (Ok (), s')
    \<Longrightarrow> app_step env mops (Recover msg) (s, r) (s', r)"
| block_begun: "begin_block h cons proof s = (Ok (), s')
    \<Longrightarrow> app_step env mops (BeginBlock h cons proof) (s, r) (s', r)"
| committed: "app_step env mops (Commit h) (s, r) (s\<lparr>st_current_height := h, st_refuses := f\<rparr>, r)"
| modules_changed: "app_step env mops ModuleStep (s, r) (s, r')"

lemma with_module_Ok_iff [result_simps]:
  "with_module port handler (s, r) = (Ok a, (s', r')) \<longleftrightarrow> (\<exists>mid m m'.
     module_of_port r port = Ok (mid, m) \<and> handler (s, m) = (Ok a, (s', m'))
     \<and> r' = r\<lparr>router := (router r)(mid \<mapsto> m')\<rparr>)"
  by (auto simp: with_module_def split: result.splits prod.splits)

text \<open>The abstract action a message stands for.\<close>

fun action_of :: "msg_envelope \<Rightarrow> core_action" where
  "action_of (ClientEnvelope _) = Internal"
| "action_of (ConnectionEnvelope msg) = ConnectionAct msg"
| "action_of (ChannelEnvelope msg) = ChannelAct msg"
| "action_of (PacketEnvelope msg) = PacketAct msg"

text \<open>An application whose client meets the contract of a light client.\<close>

locale application = light_client env for env :: "('cs, 'cons) client_ops" +
  fixes mops :: "'m module_ops"
begin

lemma dispatch_refines:
  assumes "dispatch env mops msg (s, r) = (Ok (), (s', r'))"
  shows "core_step (commits_to env) (action_of msg) (core_abs s) (core_abs s')"
proof -
  have v: "validate env mops msg (s, r) = Ok ()" and x: "execute env mops msg (s, r) = (Ok (), (s', r'))"
    using assms by (auto simp: dispatch_def result_simps)
  show ?thesis
  proof (cases msg)
    case (ClientEnvelope c)
    then have "core_abs s' = core_abs s"
      using x keepsD [OF client_msg_same_core] by (auto simp: execute_def result_simps same_core_def)
    then show ?thesis using ClientEnvelope by (simp add: internal)
  next
    case (ConnectionEnvelope c)
    then show ?thesis using v x
      by (auto simp: validate_def execute_def result_simps intro!: connection_msg_refines)
  next
    case (ChannelEnvelope c)
    then show ?thesis using v x
      by (auto simp: validate_def execute_def result_simps intro: channel_msg_refines)
  next
    case (PacketEnvelope c)
    then show ?thesis using v x
      by (auto simp: validate_def execute_def result_simps intro: packet_msg_refines)
  qed
qed

lemma app_step_refines:
  assumes "app_step env mops ev st st'"
  shows "\<exists>act. core_step (commits_to env) act (core_abs (fst st)) (core_abs (fst st'))"
  using assms
proof cases
  case (handled msg)
  then show ?thesis using dispatch_refines by (metis prod.collapse)
next
  case (recovered s msg s' r)
  then have "core_abs s' = core_abs s" using keepsD [OF recover_same_core] by (auto simp: same_core_def)
  then show ?thesis using recovered internal by force
next
  case (block_begun h cons proofs s s' r)
  then have "core_abs s' = core_abs s" by (auto simp: begin_block_def core_abs_def split: if_splits)
  then show ?thesis using block_begun internal by force
next
  case (committed h s r f)
  then show ?thesis using internal by force
next
  case (sent p s s' r)
  then show ?thesis using send_packet_refines by force
qed (use internal in force)+

end

sublocale application \<subseteq> app: simulation "app_step env mops" "core_step (commits_to env)" "core_abs \<circ> fst"
  by unfold_locales (simp add: app_step_refines)

end
