(* ===== verification/Mock_Client.thy ===== *)
theory Mock_Client
  imports Light_Client
begin

text \<open>
  The mock light client of the test kit (\<open>ibc-testkit/src/testapp/ibc/clients/mock\<close>):
  headers, client and consensus states, misbehaviour, and the operations of the client
  traits.  The operations are generic in the context that stores their states, as in the
  source.  The protobuf codec is an argument.
\<close>

section \<open>Headers and states\<close>

record mock_header =
  mh_height :: height
  mh_timestamp :: timestamp

record raw_mock_header =
  rmh_height :: "raw_height option"
  rmh_timestamp :: u64

record mock_client_state =
  mcs_header :: mock_header
  mcs_trusting_period :: duration
  mcs_frozen :: bool

record raw_mock_client_state =
  rmcs_header :: "raw_mock_header option"
  rmcs_trusting_period :: u64
  rmcs_frozen :: bool

record mock_consensus_state =
  mcons_header :: mock_header
  mcons_root :: commitment_root

record raw_mock_consensus_state =
  rmcons_header :: "raw_mock_header option"

record misbehaviour =
  mb_client_id :: client_id
  mb_header1 :: mock_header
  mb_header2 :: mock_header

record raw_misbehaviour =
  rmb_client_id :: string
  rmb_header1 :: "raw_mock_header option"
  rmb_header2 :: "raw_mock_header option"

text \<open>The protobuf codec: \<open>prost\<close> encoding and decoding of the raw messages, and the
  texts of the errors of \<open>Protobuf::decode\<close>, which decodes and then converts.\<close>

record mock_codec =
  mk_encode_header :: "raw_mock_header \<Rightarrow> bytes"
  mk_decode_header :: "bytes \<Rightarrow> raw_mock_header option"
  mk_encode_client_state :: "raw_mock_client_state \<Rightarrow> bytes"
  mk_decode_client_state :: "bytes \<Rightarrow> raw_mock_client_state option"
  mk_encode_consensus_state :: "raw_mock_consensus_state \<Rightarrow> bytes"
  mk_decode_consensus_state :: "bytes \<Rightarrow> raw_mock_consensus_state option"
  mk_encode_misbehaviour :: "raw_misbehaviour \<Rightarrow> bytes"
  mk_decode_misbehaviour :: "bytes \<Rightarrow> raw_misbehaviour option"
  mk_decode_error :: "bytes \<Rightarrow> string"
  mk_convert_error :: "client_error \<Rightarrow> string"

subsection \<open>Header\<close>

definition mock_header_type_url :: string where
  "mock_header_type_url = ''/ibc.mock.Header''"

definition mock_header_default :: mock_header where
  "mock_header_default = \<lparr>mh_height = height_min 0, mh_timestamp = timestamp_none\<rparr>"

definition mock_header_new :: "height \<Rightarrow> mock_header" where
  "mock_header_new h = \<lparr>mh_height = h, mh_timestamp = timestamp_none\<rparr>"

definition with_timestamp :: "timestamp \<Rightarrow> mock_header \<Rightarrow> mock_header" where
  "with_timestamp t self = self\<lparr>mh_timestamp := t\<rparr>"

definition mock_header_try_from_raw :: "raw_mock_header \<Rightarrow> (mock_header, client_error) result" where
  "mock_header_try_from_raw raw =
     and_then (ok_or (rmh_height raw) (OtherClientError ''missing height'')) (\<lambda>rh.
     and_then (height_try_from rh) (\<lambda>h.
     and_then (map_err (\<lambda>_. OtherClientError ''failed to parse timestamp'')
         (timestamp_from_nanoseconds (rmh_timestamp raw))) (\<lambda>t.
     Ok \<lparr>mh_height = h, mh_timestamp = t\<rparr>)))"

text \<open>\<open>nanoseconds\<close> may panic; so does the conversion.\<close>

definition mock_header_to_raw :: "mock_header \<Rightarrow> (raw_mock_header, 'e) result" where
  "mock_header_to_raw self =
     and_then (nanoseconds (mh_timestamp self)) (\<lambda>n.
     Ok \<lparr>rmh_height = Some (height_to_raw (mh_height self)), rmh_timestamp = n\<rparr>)"

definition mock_header_try_from_any ::
  "mock_codec \<Rightarrow> any_msg \<Rightarrow> (mock_header, client_error) result" where
  "mock_header_try_from_any k raw =
     (if any_type_url raw = mock_header_type_url
      then map_err InvalidRawHeader (protobuf_decode (mk_decode_header k) mock_header_try_from_raw
        (mk_decode_error k) (mk_convert_error k) (any_value raw))
      else Err (UnknownHeaderType (any_type_url raw)))"

definition mock_header_to_any :: "mock_codec \<Rightarrow> mock_header \<Rightarrow> (any_msg, 'e) result" where
  "mock_header_to_any k self =
     and_then (mock_header_to_raw self) (\<lambda>raw.
     Ok \<lparr>any_type_url = mock_header_type_url, any_value = mk_encode_header k raw\<rparr>)"
subsection \<open>Client state\<close>

definition mock_client_state_type_url :: string where
  "mock_client_state_type_url = ''/ibc.mock.ClientState''"

definition mock_client_type :: client_type where
  "mock_client_type = ClientType ''9999-mock''"

definition mock_client_state_new :: "mock_header \<Rightarrow> mock_client_state" where
  "mock_client_state_new header =
     \<lparr>mcs_header = header, mcs_trusting_period = 64000 * 10 ^ 9, mcs_frozen = False\<rparr>"

definition mock_latest_height :: "mock_client_state \<Rightarrow> height" where
  "mock_latest_height self = mh_height (mcs_header self)"

definition with_trusting_period :: "duration \<Rightarrow> mock_client_state \<Rightarrow> mock_client_state" where
  "with_trusting_period d self = self\<lparr>mcs_trusting_period := d\<rparr>"

definition mock_frozen :: "mock_client_state \<Rightarrow> mock_client_state" where
  "mock_frozen self = self\<lparr>mcs_frozen := True\<rparr>"

definition mock_unfrozen :: "mock_client_state \<Rightarrow> mock_client_state" where
  "mock_unfrozen self = self\<lparr>mcs_frozen := False\<rparr>"

definition mock_expired :: "mock_client_state \<Rightarrow> duration \<Rightarrow> bool" where
  "mock_expired self elapsed \<longleftrightarrow> elapsed > mcs_trusting_period self"

definition mock_client_state_try_from_raw ::
  "raw_mock_client_state \<Rightarrow> (mock_client_state, client_error) result" where
  "mock_client_state_try_from_raw raw =
     and_then (ok_or (rmcs_header raw) (OtherClientError ''header is not present'')) (\<lambda>rh.
     and_then (mock_header_try_from_raw rh) (\<lambda>header.
     Ok \<lparr>mcs_header = header, mcs_trusting_period = unat (rmcs_trusting_period raw),
         mcs_frozen = rmcs_frozen raw\<rparr>))"

text \<open>The conversion expects the trusting period to fit a \<open>u64\<close>.\<close>

definition mock_client_state_to_raw :: "mock_client_state \<Rightarrow> (raw_mock_client_state, 'e) result" where
  "mock_client_state_to_raw self =
     and_then (mock_header_to_raw (mcs_header self)) (\<lambda>rh.
     if mcs_trusting_period self < u64_range
     then Ok \<lparr>rmcs_header = Some rh, rmcs_trusting_period = of_nat (mcs_trusting_period self),
              rmcs_frozen = mcs_frozen self\<rparr>
     else Panic)"

definition mock_client_state_try_from_any ::
  "mock_codec \<Rightarrow> any_msg \<Rightarrow> (mock_client_state, client_error) result" where
  "mock_client_state_try_from_any k raw =
     (if any_type_url raw = mock_client_state_type_url
      then map_err OtherClientError (protobuf_decode (mk_decode_client_state k)
        mock_client_state_try_from_raw (mk_decode_error k) (mk_convert_error k) (any_value raw))
      else Err (UnknownClientStateType (any_type_url raw)))"

definition mock_client_state_to_any ::
  "mock_codec \<Rightarrow> mock_client_state \<Rightarrow> (any_msg, 'e) result" where
  "mock_client_state_to_any k self =
     and_then (mock_client_state_to_raw self) (\<lambda>raw.
     Ok \<lparr>any_type_url = mock_client_state_type_url, any_value = mk_encode_client_state k raw\<rparr>)"


subsection \<open>Consensus state\<close>

definition mock_consensus_state_type_url :: string where
  "mock_consensus_state_type_url = ''/ibc.mock.ConsensusState''"

definition mock_consensus_state_new :: "mock_header \<Rightarrow> mock_consensus_state" where
  "mock_consensus_state_new header = \<lparr>mcons_header = header, mcons_root = CommitmentRoot [0]\<rparr>"

definition mock_consensus_timestamp :: "mock_consensus_state \<Rightarrow> timestamp" where
  "mock_consensus_timestamp self = mh_timestamp (mcons_header self)"

definition mock_consensus_state_try_from_raw ::
  "raw_mock_consensus_state \<Rightarrow> (mock_consensus_state, client_error) result" where
  "mock_consensus_state_try_from_raw raw =
     and_then (ok_or (rmcons_header raw) MissingRawConsensusState) (\<lambda>raw_header.
     and_then (mock_header_try_from_raw raw_header) (\<lambda>header.
     Ok \<lparr>mcons_header = header, mcons_root = CommitmentRoot [0]\<rparr>))"

definition mock_consensus_state_to_raw ::
  "mock_consensus_state \<Rightarrow> (raw_mock_consensus_state, 'e) result" where
  "mock_consensus_state_to_raw self =
     and_then (mock_header_to_raw (mcons_header self)) (\<lambda>rh. Ok \<lparr>rmcons_header = Some rh\<rparr>)"

definition mock_consensus_state_try_from_any ::
  "mock_codec \<Rightarrow> any_msg \<Rightarrow> (mock_consensus_state, client_error) result" where
  "mock_consensus_state_try_from_any k raw =
     (if any_type_url raw = mock_consensus_state_type_url
      then map_err OtherClientError (protobuf_decode (mk_decode_consensus_state k)
        mock_consensus_state_try_from_raw (mk_decode_error k) (mk_convert_error k) (any_value raw))
      else Err (UnknownConsensusStateType (any_type_url raw)))"

definition mock_consensus_state_to_any ::
  "mock_codec \<Rightarrow> mock_consensus_state \<Rightarrow> (any_msg, 'e) result" where
  "mock_consensus_state_to_any k self =
     and_then (mock_consensus_state_to_raw self) (\<lambda>raw.
     Ok \<lparr>any_type_url = mock_consensus_state_type_url,
         any_value = mk_encode_consensus_state k raw\<rparr>)"


subsection \<open>Misbehaviour\<close>

definition mock_misbehaviour_type_url :: string where
  "mock_misbehaviour_type_url = ''/ibc.mock.Misbehavior''"

text \<open>The client identifier of the raw message is not read.\<close>

definition misbehaviour_try_from_raw :: "raw_misbehaviour \<Rightarrow> (misbehaviour, client_error) result" where
  "misbehaviour_try_from_raw raw =
     and_then (ok_or (rmb_header1 raw) MissingRawMisbehaviour) (\<lambda>rh1.
     and_then (mock_header_try_from_raw rh1) (\<lambda>h1.
     and_then (ok_or (rmb_header2 raw) MissingRawMisbehaviour) (\<lambda>rh2.
     and_then (mock_header_try_from_raw rh2) (\<lambda>h2.
     Ok \<lparr>mb_client_id = client_id_format ''07-tendermint'' 0, mb_header1 = h1,
         mb_header2 = h2\<rparr>))))"

definition misbehaviour_to_raw :: "misbehaviour \<Rightarrow> (raw_misbehaviour, 'e) result" where
  "misbehaviour_to_raw self =
     and_then (mock_header_to_raw (mb_header1 self)) (\<lambda>rh1.
     and_then (mock_header_to_raw (mb_header2 self)) (\<lambda>rh2.
     Ok \<lparr>rmb_client_id = client_id_str (mb_client_id self), rmb_header1 = Some rh1,
         rmb_header2 = Some rh2\<rparr>))"

definition misbehaviour_try_from_any ::
  "mock_codec \<Rightarrow> any_msg \<Rightarrow> (misbehaviour, client_error) result" where
  "misbehaviour_try_from_any k raw =
     (if any_type_url raw = mock_misbehaviour_type_url
      then map_err OtherClientError (protobuf_decode (mk_decode_misbehaviour k)
        misbehaviour_try_from_raw (mk_decode_error k) (mk_convert_error k) (any_value raw))
      else Err (UnknownMisbehaviourType (any_type_url raw)))"

definition misbehaviour_to_any :: "mock_codec \<Rightarrow> misbehaviour \<Rightarrow> (any_msg, 'e) result" where
  "misbehaviour_to_any k self =
     and_then (misbehaviour_to_raw self) (\<lambda>raw.
     Ok \<lparr>any_type_url = mock_misbehaviour_type_url, any_value = mk_encode_misbehaviour k raw\<rparr>)"
section \<open>Operations\<close>

subsection \<open>\<open>ClientStateCommon\<close>\<close>

definition mock_verify_consensus_state ::
  "mock_codec \<Rightarrow> mock_client_state \<Rightarrow> any_msg \<Rightarrow> (unit, client_error) result" where
  "mock_verify_consensus_state k self cons_any =
     and_then (mock_consensus_state_try_from_any k cons_any) (\<lambda>_. Ok ())"

definition mock_validate_proof_height ::
  "mock_client_state \<Rightarrow> height \<Rightarrow> (unit, client_error) result" where
  "mock_validate_proof_height self proof_height =
     (if mock_latest_height self < proof_height
      then Err (InvalidProofHeight (mock_latest_height self) proof_height)
      else Ok ())"

text \<open>The two heights of the error are the other way around, as in the source.\<close>

definition mock_verify_upgrade_client ::
  "mock_codec \<Rightarrow> mock_client_state \<Rightarrow> any_msg \<Rightarrow> any_msg \<Rightarrow> commitment_proof_bytes
     \<Rightarrow> commitment_proof_bytes \<Rightarrow> commitment_root \<Rightarrow> (unit, client_error) result" where
  "mock_verify_upgrade_client k self upgraded_client_state upgraded_consensus_state
       proof_upgrade_client proof_upgrade_consensus_state root =
     and_then (mock_client_state_try_from_any k upgraded_client_state) (\<lambda>upgraded.
     and_then (mock_consensus_state_try_from_any k upgraded_consensus_state) (\<lambda>_.
     if mock_latest_height self \<ge> mock_latest_height upgraded
     then Err (Upgrade (LowUpgradeHeight (mock_latest_height self) (mock_latest_height upgraded)))
     else Ok ()))"

definition mock_verify_membership ::
  "mock_client_state \<Rightarrow> commitment_prefix \<Rightarrow> commitment_proof_bytes \<Rightarrow> commitment_root \<Rightarrow> path
     \<Rightarrow> bytes \<Rightarrow> (unit, client_error) result" where
  "mock_verify_membership self prefix proof root p value = Ok ()"

definition mock_verify_non_membership ::
  "mock_client_state \<Rightarrow> commitment_prefix \<Rightarrow> commitment_proof_bytes \<Rightarrow> commitment_root \<Rightarrow> path
     \<Rightarrow> (unit, client_error) result" where
  "mock_verify_non_membership self prefix proof root p = Ok ()"


subsection \<open>\<open>ClientStateValidation\<close>\<close>

definition mock_verify_client_message ::
  "mock_codec \<Rightarrow> mock_client_state \<Rightarrow> any_msg \<Rightarrow> (unit, client_error) result" where
  "mock_verify_client_message k self client_message =
     (if any_type_url client_message = mock_header_type_url
      then and_then (mock_header_try_from_any k client_message) (\<lambda>_. Ok ())
      else if any_type_url client_message = mock_misbehaviour_type_url
      then and_then (misbehaviour_try_from_any k client_message) (\<lambda>_. Ok ())
      else Ok ())"

definition mock_check_for_misbehaviour ::
  "mock_codec \<Rightarrow> mock_client_state \<Rightarrow> any_msg \<Rightarrow> (bool, client_error) result" where
  "mock_check_for_misbehaviour k self client_message =
     (if any_type_url client_message = mock_header_type_url then Ok False
      else if any_type_url client_message = mock_misbehaviour_type_url
      then and_then (misbehaviour_try_from_any k client_message) (\<lambda>mb.
        let header_heights_equal = (mh_height (mb_header1 mb) = mh_height (mb_header2 mb));
            headers_are_in_future = (mock_latest_height self < mh_height (mb_header1 mb)) in
        Ok (header_heights_equal \<and> headers_are_in_future))
      else Err (UnknownHeaderType (any_type_url client_message)))"

text \<open>The text of the error of \<open>duration_since\<close> shows two instants in a calendar format of
  the \<open>tendermint\<close> crate; only its fixed part is kept.\<close>

definition mock_status ::
  "('cs, 'cons, mock_client_state, mock_consensus_state) client_bounds
     \<Rightarrow> (tm_time \<Rightarrow> tm_time \<Rightarrow> duration option) \<Rightarrow> mock_client_state
     \<Rightarrow> ('cs, 'cons) ibc_store \<Rightarrow> client_id \<Rightarrow> (status, client_error) result" where
  "mock_status cb tm_duration_since self ctx client_id =
     (if mcs_frozen self then Ok Frozen
      else case consensus_state ctx (ClientConsensusStatePath client_id
              (revision_number (mock_latest_height self))
              (revision_height (mock_latest_height self))) of
          Err _ \<Rightarrow> Ok StatusExpired
        | Panic \<Rightarrow> Panic
        | Ok cs \<Rightarrow>
            and_then (cb_from_consensus_state cb cs) (\<lambda>latest_consensus_state.
            and_then (map_err (ctx_err cb) (cb_host_timestamp cb ctx)) (\<lambda>now.
            and_then (ok_or (timestamp_duration_since tm_duration_since now
                (mock_consensus_timestamp latest_consensus_state))
                (OtherClientError ''latest consensus state is in the future'')) (\<lambda>elapsed.
            Ok (if mock_expired self elapsed then StatusExpired else Active)))))"

definition mock_check_substitute :: "mock_client_state \<Rightarrow> any_msg \<Rightarrow> (unit, client_error) result" where
  "mock_check_substitute self substitute_client_state = Ok ()"


subsection \<open>\<open>ClientStateExecution\<close>\<close>

definition mock_initialise ::
  "('cs, 'cons, mock_client_state, mock_consensus_state) client_bounds \<Rightarrow> mock_codec
     \<Rightarrow> mock_client_state \<Rightarrow> client_id \<Rightarrow> any_msg
     \<Rightarrow> (('cs, 'cons) ibc_store, unit, client_error) exec" where
  "mock_initialise cb k self client_id cons_any =
     exec_bind (exec_lift (mock_consensus_state_try_from_any k cons_any)) (\<lambda>cons.
     exec_bind (put_client_state cb client_id self) (\<lambda>_.
     exec_bind (put_consensus_state cb client_id (mock_latest_height self) cons) (\<lambda>_.
     store_update_meta_now cb client_id (mock_latest_height self))))"

definition mock_update_state ::
  "('cs, 'cons, mock_client_state, mock_consensus_state) client_bounds \<Rightarrow> mock_codec
     \<Rightarrow> mock_client_state \<Rightarrow> client_id \<Rightarrow> any_msg
     \<Rightarrow> (('cs, 'cons) ibc_store, height list, client_error) exec" where
  "mock_update_state cb k self client_id header_any =
     exec_bind (exec_lift (mock_header_try_from_any k header_any)) (\<lambda>header.
     let header_height = mh_height header;
         new_client_state = mock_client_state_new header;
         new_consensus_state = mock_consensus_state_new header in
     exec_bind (put_consensus_state cb client_id (mock_latest_height new_client_state)
       new_consensus_state) (\<lambda>_.
     exec_bind (put_client_state cb client_id new_client_state) (\<lambda>_.
     exec_bind (store_update_meta_now cb client_id header_height) (\<lambda>_.
     exec_return [header_height]))))"

definition mock_update_state_on_misbehaviour ::
  "('cs, 'cons, mock_client_state, mock_consensus_state) client_bounds
     \<Rightarrow> mock_client_state \<Rightarrow> client_id \<Rightarrow> any_msg
     \<Rightarrow> (('cs, 'cons) ibc_store, unit, client_error) exec" where
  "mock_update_state_on_misbehaviour cb self client_id client_message =
     put_client_state cb client_id (mock_frozen self)"

definition mock_update_state_on_upgrade ::
  "('cs, 'cons, mock_client_state, mock_consensus_state) client_bounds \<Rightarrow> mock_codec
     \<Rightarrow> mock_client_state \<Rightarrow> client_id \<Rightarrow> any_msg \<Rightarrow> any_msg
     \<Rightarrow> (('cs, 'cons) ibc_store, height, client_error) exec" where
  "mock_update_state_on_upgrade cb k self client_id upgraded_client_state
       upgraded_consensus_state =
     exec_bind (exec_lift (mock_client_state_try_from_any k upgraded_client_state))
       (\<lambda>new_client_state.
     exec_bind (exec_lift (mock_consensus_state_try_from_any k upgraded_consensus_state))
       (\<lambda>new_consensus_state.
     let latest_height = mock_latest_height new_client_state in
     exec_bind (put_consensus_state cb client_id latest_height new_consensus_state) (\<lambda>_.
     exec_bind (put_client_state cb client_id new_client_state) (\<lambda>_.
     exec_bind (store_update_meta_now cb client_id latest_height) (\<lambda>_.
     exec_return latest_height)))))"

text \<open>The time and the height of the host are read before the first write.\<close>

definition mock_update_on_recovery ::
  "('cs, 'cons, mock_client_state, mock_consensus_state) client_bounds \<Rightarrow> mock_codec
     \<Rightarrow> mock_client_state \<Rightarrow> client_id \<Rightarrow> any_msg \<Rightarrow> any_msg
     \<Rightarrow> (('cs, 'cons) ibc_store, unit, client_error) exec" where
  "mock_update_on_recovery cb k self subject_client_id substitute_client_state
       substitute_consensus_state =
     exec_bind (exec_lift (mock_client_state_try_from_any k substitute_client_state))
       (\<lambda>substitute.
     let latest_height = mock_latest_height substitute;
         new_mock_client_state = substitute\<lparr>mcs_frozen := False\<rparr> in
     exec_bind (exec_read (\<lambda>ctx. map_err (ctx_err cb) (cb_host_timestamp cb ctx))) (\<lambda>host_ts.
     exec_bind (exec_read (\<lambda>ctx. map_err (ctx_err cb) (host_height ctx))) (\<lambda>host_h.
     exec_bind (exec_lift (mock_consensus_state_try_from_any k substitute_consensus_state)) (\<lambda>cons.
     exec_bind (put_consensus_state cb subject_client_id
       (mock_latest_height new_mock_client_state) cons) (\<lambda>_.
     exec_bind (put_client_state cb subject_client_id new_mock_client_state) (\<lambda>_.
     exec_map_err (ctx_err cb)
       (store_update_meta subject_client_id latest_height host_ts host_h)))))))"
section \<open>The mock client as the only client of a host\<close>

text \<open>The bounds of a store whose states are those of the mock client.\<close>

definition mock_bounds ::
  "externals \<Rightarrow> (mock_client_state, mock_consensus_state, mock_client_state, mock_consensus_state)
     client_bounds" where
  "mock_bounds ext =
     \<lparr>cb_host_timestamp = (\<lambda>s. and_then (host_height s) (\<lambda>h.
        and_then (host_consensus_state s h) (\<lambda>c. Ok (mock_consensus_timestamp c)))),
      cb_into_client_state = (\<lambda>cs. cs), cb_into_consensus_state = (\<lambda>c. c),
      cb_from_consensus_state = Ok, cb_time_to_rfc3339 = ext_time_to_rfc3339 ext\<rparr>"

definition mock_client_ops ::
  "externals \<Rightarrow> mock_codec \<Rightarrow> (mock_client_state, mock_consensus_state) client_ops" where
  "mock_client_ops ext k = externals.extend ext (client_ops.fields
     (mock_client_state_try_from_any k) (mock_client_state_to_any k) mcs_frozen
     (mock_verify_consensus_state k) (\<lambda>_. mock_client_type) mock_latest_height
     mock_validate_proof_height (mock_verify_upgrade_client k) mock_verify_membership
     mock_verify_non_membership
     (\<lambda>self ctx cid. mock_verify_client_message k self)
     (\<lambda>self ctx cid. mock_check_for_misbehaviour k self)
     (mock_status (mock_bounds ext) (ext_time_duration_since ext))
     (\<lambda>self ctx. mock_check_substitute self)
     (mock_initialise (mock_bounds ext) k) (mock_update_state (mock_bounds ext) k)
     (mock_update_state_on_misbehaviour (mock_bounds ext))
     (mock_update_state_on_upgrade (mock_bounds ext) k)
     (mock_update_on_recovery (mock_bounds ext) k)
     (mock_consensus_state_to_any k) mcons_root mock_consensus_timestamp)"

lemma mock_ops_frame:
  "keeps client_write (mock_initialise cb k self cid a)"
  "keeps client_write (mock_update_state cb k self cid a)"
  "keeps client_write (mock_update_state_on_misbehaviour cb self cid a)"
  "keeps client_write (mock_update_state_on_upgrade cb k self cid a b)"
  "keeps client_write (mock_update_on_recovery cb k self cid a b)"
  by (auto simp: mock_initialise_def mock_update_state_def mock_update_state_on_misbehaviour_def
      mock_update_state_on_upgrade_def mock_update_on_recovery_def Let_def
      intro!: client_frame_rules)

lemma mock_client_ops_simps [simp]:
  "cs_try_from_any (mock_client_ops ext k) = mock_client_state_try_from_any k"
  "cs_to_any (mock_client_ops ext k) = mock_client_state_to_any k"
  "cs_is_frozen (mock_client_ops ext k) = mcs_frozen"
  "cs_verify_consensus_state (mock_client_ops ext k) = mock_verify_consensus_state k"
  "cs_client_type (mock_client_ops ext k) = (\<lambda>_. mock_client_type)"
  "cs_latest_height (mock_client_ops ext k) = mock_latest_height"
  "cs_validate_proof_height (mock_client_ops ext k) = mock_validate_proof_height"
  "cs_verify_upgrade_client (mock_client_ops ext k) = mock_verify_upgrade_client k"
  "cs_verify_membership (mock_client_ops ext k) = mock_verify_membership"
  "cs_verify_non_membership (mock_client_ops ext k) = mock_verify_non_membership"
  "cs_verify_client_message (mock_client_ops ext k) = (\<lambda>self ctx cid. mock_verify_client_message k self)"
  "cs_check_for_misbehaviour (mock_client_ops ext k) = (\<lambda>self ctx cid. mock_check_for_misbehaviour k self)"
  "cs_status (mock_client_ops ext k) = mock_status (mock_bounds ext) (ext_time_duration_since ext)"
  "cs_check_substitute (mock_client_ops ext k) = (\<lambda>self ctx. mock_check_substitute self)"
  "cs_initialise (mock_client_ops ext k) = mock_initialise (mock_bounds ext) k"
  "cs_update_state (mock_client_ops ext k) = mock_update_state (mock_bounds ext) k"
  "cs_update_state_on_misbehaviour (mock_client_ops ext k)
     = mock_update_state_on_misbehaviour (mock_bounds ext)"
  "cs_update_state_on_upgrade (mock_client_ops ext k) = mock_update_state_on_upgrade (mock_bounds ext) k"
  "cs_update_on_recovery (mock_client_ops ext k) = mock_update_on_recovery (mock_bounds ext) k"
  "cons_to_any (mock_client_ops ext k) = mock_consensus_state_to_any k"
  "cons_root (mock_client_ops ext k) = mcons_root"
  "cons_timestamp (mock_client_ops ext k) = mock_consensus_timestamp"
  "ext_hash (mock_client_ops ext k) = ext_hash ext"
  "ext_time_add (mock_client_ops ext k) = ext_time_add ext"
  by (simp_all add: mock_client_ops_def externals.defs client_ops.defs)

interpretation mock: light_client "mock_client_ops ext k"
  by unfold_locales (simp_all add: mock_ops_frame)

end
