(* ===== verification/Protocol.thy ===== *)
theory Protocol
  imports Refinement Mock_Client
begin

text \<open>
  What holds of an application at every moment of its life: the invariants of the
  abstract machine, carried to the store of the handlers by the refinement.  The
  theorems hold for every light client that meets its contract and for every module.
\<close>

section \<open>Reachable applications\<close>

text \<open>An application that started with an empty store and went through the events \<open>es\<close>,
  fewer than the 64-bit counters can count.\<close>

definition reaches ::
  "('cs, 'cons) client_ops \<Rightarrow> 'm module_ops \<Rightarrow> 'cons app_event list
     \<Rightarrow> ('cs, 'cons, 'm) app \<Rightarrow> bool" where
  "reaches env mops es st \<longleftrightarrow> length es < u64_range - 1
     \<and> (\<exists>n h refuses r. run (app_step env mops) (ibc_store_new n h refuses, r) es st)"

context application
begin

lemma reaches_core_run:
  assumes "reaches env mops es (s, r)"
  shows "\<exists>acts. length acts = length es \<and> run (core_step (commits_to env)) core_init acts (core_abs s)"
  using assms app.runs unfolding reaches_def by fastforce

lemma reaches_inv:
  assumes "reaches env mops es (s, r)"
  shows "core_inv (length es) (core_abs s)"
proof -
  obtain acts where "length acts = length es" "run (core_step (commits_to env)) core_init acts (core_abs s)"
    using reaches_core_run [OF assms] by blast
  then show ?thesis using core.holds [of "commits_to env" acts "core_abs s"] assms
    by (simp add: reaches_def)
qed

text \<open>Two moments of the same life.\<close>

lemma reaches_core_runs:
  assumes "reaches env mops es (s, r)" "run (app_step env mops) (s, r) fs (s', r')"
  shows "\<exists>acts acts'. length acts = length es \<and> length acts' = length fs
    \<and> run (core_step (commits_to env)) core_init acts (core_abs s)
    \<and> run (core_step (commits_to env)) (core_abs s) acts' (core_abs s')"
  using reaches_core_run [OF assms(1)] app.runs [OF assms(2)] by auto

lemma reaches_progress:
  assumes "reaches env mops es (s, r)" "run (app_step env mops) (s, r) fs (s', r')"
    and "length es + length fs < u64_range - 1"
  shows "progress (core_abs s) (core_abs s')"
  using reaches_core_runs [OF assms(1,2)] progress_run assms(3) by metis

lemma reaches_settles:
  assumes "reaches env mops es (s, r)" "run (app_step env mops) (s, r) fs (s', r')"
    and "length es + length fs < u64_range - 1"
  shows "settles (core_abs s) (core_abs s')"
  using reaches_core_runs [OF assms(1,2)] settles_run assms(3) by metis

end

text \<open>Every client that meets the contract gives an application.\<close>

lemma application_of: "light_client env \<Longrightarrow> application env"
  by (simp add: application_def)

lemmas reachable_inv = application.reaches_inv [OF application_of]
lemmas reachable_progress = application.reaches_progress [OF application_of]
lemmas reachable_settles = application.reaches_settles [OF application_of]
lemmas dispatch_core_step = application.dispatch_refines [OF application_of]

interpretation mock_app: application "mock_client_ops ext k" mops for ext k mops
  by unfold_locales

end
