(* ===== verification/Test_App.thy ===== *)
theory Test_App
  imports Protocol
begin

text \<open>
  The application of the test kit: the dummy transfer module
  (\<open>ibc-testkit/src/testapp/ibc/applications/transfer\<close>), a router that binds it to its
  port, and a small chain with the mock client.  The chain goes through both handshakes
  and receives a packet; it is the instance at which the theorems about reachable
  applications are exercised.
\<close>

section \<open>The dummy transfer module\<close>

datatype dummy_module = DummyTransferModule

text \<open>The callbacks the trait provides itself (\<open>ibc-core/ics26-routing/src/module.rs\<close>).\<close>

definition default_validate :: "'m \<Rightarrow> (unit, channel_error) result" where
  "default_validate self = Ok ()"

definition default_execute :: "('m, module_extras, channel_error) exec" where
  "default_execute = exec_return module_extras_empty"

definition dummy_recv_packet ::
  "packet \<Rightarrow> signer \<Rightarrow> dummy_module \<Rightarrow> (module_extras \<times> acknowledgement) \<times> dummy_module" where
  "dummy_recv_packet packet relayer self = ((module_extras_empty, Acknowledgement [1]), self)"

definition dummy_transfer_ops :: "dummy_module module_ops" where
  "dummy_transfer_ops =
     \<lparr>on_chan_open_init_validate = (\<lambda>_ _ _ _ _ version _. Ok version),
      on_chan_open_init_execute =
        (\<lambda>_ _ _ _ _ version. exec_return (module_extras_empty, version)),
      on_chan_open_try_validate = (\<lambda>_ _ _ _ _ counterparty_version _. Ok counterparty_version),
      on_chan_open_try_execute =
        (\<lambda>_ _ _ _ _ counterparty_version. exec_return (module_extras_empty, counterparty_version)),
      on_chan_open_ack_validate = (\<lambda>_ _ _. default_validate),
      on_chan_open_ack_execute = (\<lambda>_ _ _. default_execute),
      on_chan_open_confirm_validate = (\<lambda>_ _. default_validate),
      on_chan_open_confirm_execute = (\<lambda>_ _. default_execute),
      on_chan_close_init_validate = (\<lambda>_ _. default_validate),
      on_chan_close_init_execute = (\<lambda>_ _. default_execute),
      on_chan_close_confirm_validate = (\<lambda>_ _. default_validate),
      on_chan_close_confirm_execute = (\<lambda>_ _. default_execute),
      on_recv_packet_execute = dummy_recv_packet,
      on_acknowledgement_packet_validate = (\<lambda>_ _ _ _. Ok ()),
      on_acknowledgement_packet_execute = (\<lambda>_ _ _ self. ((module_extras_empty, Ok ()), self)),
      on_timeout_packet_validate = (\<lambda>_ _ _. Ok ()),
      on_timeout_packet_execute = (\<lambda>_ _ self. ((module_extras_empty, Ok ()), self))\<rparr>"

text \<open>\<open>MockRouter::new_with_transfer\<close>.\<close>

definition new_with_transfer :: "dummy_module mock_router" where
  "new_with_transfer = snd (add_route (ModuleId ''transfer'') DummyTransferModule
     (scope_port_to_module port_id_transfer (ModuleId ''transfer'') router_empty))"


section \<open>A chain with the mock client\<close>

text \<open>Concrete choices for the code outside the repository: a codec of 8-byte fields, a
  hash that keeps its input, exact arithmetic on instants.\<close>

definition sample_ext :: externals where
  "sample_ext = \<lparr>ext_hash = (\<lambda>b. b), ext_encode_connection_end = (\<lambda>_. []),
     ext_encode_channel_end = (\<lambda>_. []), ext_encode_any = any_value,
     ext_time_add = (\<lambda>t d. Some (t + int d)),
     ext_time_duration_since = (\<lambda>t u. if u \<le> t then Some (nat (t - u)) else None),
     ext_time_to_rfc3339 = (\<lambda>_. [])\<rparr>"

definition sample_header :: "u64 \<Rightarrow> raw_mock_header" where
  "sample_header h = \<lparr>rmh_height = Some \<lparr>rh_revision_number = 0, rh_revision_height = h\<rparr>,
     rmh_timestamp = 1\<rparr>"

definition sample_height :: "bytes \<Rightarrow> u64" where
  "sample_height b = (case b of [x] \<Rightarrow> ucast x | _ \<Rightarrow> 0)"

definition sample_byte :: "raw_mock_header option \<Rightarrow> bytes" where
  "sample_byte h = (case h of None \<Rightarrow> [] | Some r \<Rightarrow> (case rmh_height r of None \<Rightarrow> []
     | Some rh \<Rightarrow> [ucast (rh_revision_height rh)]))"

definition sample_codec :: mock_codec where
  "sample_codec =
     \<lparr>mk_encode_header = (\<lambda>h. sample_byte (Some h)),
      mk_decode_header = (\<lambda>b. Some (sample_header (sample_height b))),
      mk_encode_client_state = (\<lambda>c. sample_byte (rmcs_header c)),
      mk_decode_client_state = (\<lambda>b. Some \<lparr>rmcs_header = Some (sample_header (sample_height b)),
         rmcs_trusting_period = 1000, rmcs_frozen = False\<rparr>),
      mk_encode_consensus_state = (\<lambda>c. sample_byte (rmcons_header c)),
      mk_decode_consensus_state = (\<lambda>b. Some \<lparr>rmcons_header = Some (sample_header (sample_height b))\<rparr>),
      mk_encode_misbehaviour = (\<lambda>m. sample_byte (rmb_header1 m)),
      mk_decode_misbehaviour = (\<lambda>b. Some \<lparr>rmb_client_id = [],
         rmb_header1 = Some (sample_header (sample_height b)),
         rmb_header2 = Some (sample_header (sample_height b))\<rparr>),
      mk_decode_error = (\<lambda>_. []), mk_convert_error = (\<lambda>_. [])\<rparr>"

definition sample_env :: "(mock_client_state, mock_consensus_state) client_ops" where
  "sample_env = mock_client_ops sample_ext sample_codec"

type_synonym sample_app = "(mock_client_state, mock_consensus_state, dummy_module) app"

definition sample_start :: sample_app where
  "sample_start = (ibc_store_new 0 10 (\<lambda>_. False), new_with_transfer)"

definition sample_signer :: signer where
  "sample_signer = Signer ''relayer''"

definition sample_proof :: commitment_proof_bytes where
  "sample_proof = CommitmentProofBytes [1]"

definition sample_any :: "string \<Rightarrow> any_msg" where
  "sample_any url = \<lparr>any_type_url = url, any_value = [5]\<rparr>"

definition sample_client :: client_id where
  "sample_client = client_id_format ''9999-mock'' 0"

definition sample_create :: msg_envelope where
  "sample_create = ClientEnvelope (CreateClientMsg
     \<lparr>cc_client_state = sample_any mock_client_state_type_url,
      cc_consensus_state = sample_any mock_consensus_state_type_url, cc_signer = sample_signer\<rparr>)"

definition sample_conn_try :: msg_envelope where
  "sample_conn_try = ConnectionEnvelope (ConnOpenTry
     \<lparr>cot_client_id_on_b = sample_client,
      cot_client_state_of_b_on_a = sample_any mock_client_state_type_url,
      cot_counterparty = \<lparr>ccp_client_id = sample_client, ccp_connection_id = Some (connection_id_new 7),
        ccp_prefix = CommitmentPrefix [1]\<rparr>,
      cot_versions_on_a = version_compatibles, cot_proof_conn_end_on_a = sample_proof,
      cot_proof_client_state_of_b_on_a = sample_proof,
      cot_proof_consensus_state_of_b_on_a = sample_proof, cot_proofs_height_on_a = Height 0 5,
      cot_consensus_height_of_b_on_a = Height 0 10, cot_delay_period = 0,
      cot_signer = sample_signer, cot_proof_consensus_state_of_b = None,
      cot_previous_connection_id = []\<rparr>)"

definition sample_conn_confirm :: msg_envelope where
  "sample_conn_confirm = ConnectionEnvelope (ConnOpenConfirm
     \<lparr>coc_conn_id_on_b = connection_id_new 0, coc_proof_conn_end_on_a = sample_proof,
      coc_proof_height_on_a = Height 0 5, coc_signer = sample_signer\<rparr>)"

definition sample_chan_try :: "order \<Rightarrow> msg_envelope" where
  "sample_chan_try chan_order = ChannelEnvelope (ChanOpenTry
     \<lparr>hot_port_id_on_b = port_id_transfer, hot_connection_hops_on_b = [connection_id_new 0],
      hot_port_id_on_a = port_id_transfer, hot_chan_id_on_a = channel_id_new 3,
      hot_version_supported_on_a = ChanVersion ''ics20-1'', hot_proof_chan_end_on_a = sample_proof,
      hot_proof_height_on_a = Height 0 5, hot_ordering = chan_order, hot_signer = sample_signer,
      hot_version_proposal = ChanVersion []\<rparr>)"

definition sample_chan_confirm :: msg_envelope where
  "sample_chan_confirm = ChannelEnvelope (ChanOpenConfirm
     \<lparr>hoc_port_id_on_b = port_id_transfer, hoc_chan_id_on_b = channel_id_new 0,
      hoc_proof_chan_end_on_a = sample_proof, hoc_proof_height_on_a = Height 0 5,
      hoc_signer = sample_signer\<rparr>)"

definition sample_packet :: "u64 \<Rightarrow> packet" where
  "sample_packet n = \<lparr>seq_on_a = n, port_id_on_a = port_id_transfer, chan_id_on_a = channel_id_new 3,
     port_id_on_b = port_id_transfer, chan_id_on_b = channel_id_new 0, packet_data = [42],
     timeout_height_on_b = At (Height 0 100), timeout_timestamp_on_b = timestamp_none\<rparr>"

definition sample_recv :: "u64 \<Rightarrow> msg_envelope" where
  "sample_recv n = PacketEnvelope (PacketRecv \<lparr>rcv_packet = sample_packet n,
     rcv_proof_commitment_on_a = sample_proof, rcv_proof_height_on_a = Height 0 5,
     rcv_signer = sample_signer\<rparr>)"

definition sample_chan_init :: msg_channel_open_init where
  "sample_chan_init = \<lparr>hoi_port_id_on_a = port_id_transfer,
     hoi_connection_hops_on_a = [connection_id_new 0], hoi_port_id_on_b = port_id_transfer,
     hoi_ordering = Unordered, hoi_signer = sample_signer,
     hoi_version_proposal = ChanVersion ''ics20-1''\<rparr>"

text \<open>A packet sent from the chain, and its acknowledgement.\<close>

definition sample_out :: "u64 \<Rightarrow> packet" where
  "sample_out n = \<lparr>seq_on_a = n, port_id_on_a = port_id_transfer, chan_id_on_a = channel_id_new 0,
     port_id_on_b = port_id_transfer, chan_id_on_b = channel_id_new 3, packet_data = [42],
     timeout_height_on_b = At (Height 0 100), timeout_timestamp_on_b = timestamp_none\<rparr>"

definition sample_ack :: "u64 \<Rightarrow> msg_envelope" where
  "sample_ack n = PacketEnvelope (PacketAck \<lparr>ack_packet = sample_out n,
     ack_acknowledgement = Acknowledgement [1], ack_proof_acked_on_b = sample_proof,
     ack_proof_height_on_b = Height 0 5, ack_signer = sample_signer\<rparr>)"

text \<open>A host that plays events one after the other, as long as they succeed.\<close>

definition kept :: "('a, 'e) result \<times> 's \<Rightarrow> 's option" where
  "kept x = (case x of (Ok _, s) \<Rightarrow> Some s | _ \<Rightarrow> None)"

fun play_event ::
  "('cs, 'cons) client_ops \<Rightarrow> 'm module_ops \<Rightarrow> 'cons app_event \<Rightarrow> ('cs, 'cons, 'm) app
     \<Rightarrow> ('cs, 'cons, 'm) app option" where
  "play_event env mops (Message msg) st = kept (dispatch env mops msg st)"
| "play_event env mops (Send p) (s, r) = map_option (\<lambda>s'. (s', r)) (kept (send_packet env p s))"
| "play_event env mops (Recover msg) (s, r) =
     (if recover_client_validate env s msg = Ok ()
      then map_option (\<lambda>s'. (s', r)) (kept (recover_client_execute env msg s)) else None)"
| "play_event env mops (BeginBlock h cons proof) (s, r) =
     map_option (\<lambda>s'. (s', r)) (kept (begin_block h cons proof s))"
| "play_event env mops (Commit h) (s, r) = Some (s\<lparr>st_current_height := h\<rparr>, r)"
| "play_event env mops ModuleStep (s, r) = Some (s, r)"

fun play ::
  "('cs, 'cons) client_ops \<Rightarrow> 'm module_ops \<Rightarrow> 'cons app_event list \<Rightarrow> ('cs, 'cons, 'm) app
     \<Rightarrow> ('cs, 'cons, 'm) app option" where
  "play env mops [] st = Some st"
| "play env mops (ev # evs) st = (case play_event env mops ev st of
     Some st' \<Rightarrow> play env mops evs st'
   | None \<Rightarrow> None)"

definition sample_script :: "order \<Rightarrow> mock_consensus_state app_event list" where
  "sample_script chan_order = [BeginBlock 10 (mock_consensus_state_new
       \<lparr>mh_height = Height 0 10, mh_timestamp = Timestamp (Some 100)\<rparr>) [],
     Message sample_create, Message sample_conn_try, Message sample_conn_confirm,
     Message (sample_chan_try chan_order), Message sample_chan_confirm]"


section \<open>Evaluation\<close>

text \<open>The definitions a run of the sample chain unfolds.\<close>

named_theorems sample_eval \<open>equations that evaluate the sample chain\<close>

lemma sample_pick_version [sample_eval]:
  "pick_version version_compatibles version_compatibles = Ok (hd version_compatibles)"
  by code_simp

lemma sample_features [sample_eval]:
  "verify_feature_supported (hd version_compatibles) (order_as_str Unordered) = Ok ()"
  "verify_feature_supported (hd version_compatibles) (order_as_str Ordered) = Ok ()"
  by code_simp+

lemma sample_codec_sel [simp]:
  "mk_decode_header sample_codec = (\<lambda>b. Some (sample_header (sample_height b)))"
  "mk_decode_client_state sample_codec = (\<lambda>b. Some \<lparr>rmcs_header = Some (sample_header (sample_height b)),
     rmcs_trusting_period = 1000, rmcs_frozen = False\<rparr>)"
  "mk_decode_consensus_state sample_codec =
     (\<lambda>b. Some \<lparr>rmcons_header = Some (sample_header (sample_height b))\<rparr>)"
  "ext_hash sample_ext = (\<lambda>b. b)"
  "ext_time_add sample_ext = (\<lambda>t d. Some (t + int d))"
  "ext_time_duration_since sample_ext = (\<lambda>t u. if u \<le> t then Some (nat (t - u)) else None)"
  by (simp_all add: sample_codec_def sample_ext_def)

lemmas [sample_eval] = sample_env_def sample_create_def sample_start_def
  sample_any_def sample_signer_def sample_header_def sample_height_def sample_script_def
  sample_conn_try_def sample_conn_confirm_def sample_chan_try_def sample_chan_confirm_def
  sample_packet_def sample_recv_def sample_out_def sample_ack_def kept_def
  sample_chan_init_def sample_client_def new_with_transfer_def router_empty_def
  add_route_def scope_port_to_module_def dummy_transfer_ops_def default_validate_def
  default_execute_def dummy_recv_packet_def module_extras_empty_def received_packet_def

lemmas [sample_eval] = dispatch_def validate_def execute_def client_msg_validate_def
  client_msg_execute_def create_client_validate_def create_client_execute_def exec_eval Let_def
  validate_message_signer_def client_counter_def ibc_store_new_def begin_block_def is_ok_def
  client_state_def consensus_state_def status_is_frozen_def height_try_from_def height_new_def
  timestamp_from_nanoseconds_def host_height_def host_consensus_state_def host_timestamp_def
  put_client_state_def put_consensus_state_def store_update_meta_now_def exec_map_err_def
  store_writes typed_set_def emit_ibc_event_eq log_message_eq build_client_id_def
  protobuf_decode_def index_res_def height_cmp_def less_height_def less_eq_height_def
  less_eq_timestamp_def less_timestamp_def height_increment_def height_add_def

lemmas [sample_eval] = mock_client_state_try_from_any_def mock_client_state_try_from_raw_def
  mock_header_try_from_raw_def mock_status_def mock_verify_consensus_state_def
  mock_consensus_state_try_from_any_def mock_consensus_state_try_from_raw_def
  mock_initialise_def mock_latest_height_def mock_bounds_def mock_consensus_state_new_def
  mock_client_type_def mock_validate_proof_height_def mock_verify_membership_def
  mock_consensus_timestamp_def mock_expired_def timestamp_duration_since_def
  mock_consensus_state_to_any_def mock_consensus_state_to_raw_def mock_header_to_raw_def
  nanoseconds_def timestamp_none_def

lemmas [sample_eval] = connection_msg_validate_def connection_msg_execute_def
  conn_open_try_validate_def conn_open_try_vars_new_def conn_open_try_validate_impl_def
  conn_open_try_execute_def conn_open_try_execute_impl_def conn_open_confirm_validate_def
  conn_open_confirm_validate_impl_def conn_open_confirm_execute_def ctx_pick_version_def
  get_compatible_versions_def connection_end_new_def connection_counter_def active_client_at_def
  verify_is_active_def status_is_active_def connection_end_def consensus_state_at_def
  validate_self_client_def coc_conn_id_on_a_def ce_verify_state_matches_def ce_set_state_def

lemmas [sample_eval] = channel_msg_validate_def channel_msg_execute_def
  chan_open_try_validate_core_def chan_open_try_validate_def chan_open_try_execute_def
  chan_open_init_validate_core_def chan_open_init_validate_def chan_open_init_execute_def
  chan_open_confirm_validate_core_def chan_open_confirm_validate_def chan_open_confirm_execute_def
  verify_channel_end_def emit_module_extras_eq store_initial_sequences_def with_module_def
  module_of_port_def lookup_module_def get_route_def channel_msg_to_port_id_def channel_end_def
  channel_counter_def channel_end_new_def validate_basic_def ch_verify_state_matches_def
  ch_verify_connection_hops_length_def verify_connection_hops_length_def ch_set_state_def

lemmas [sample_eval] = packet_msg_validate_def packet_msg_execute_def recv_packet_validate_def
  recv_packet_validate_order_def recv_packet_execute_def packet_already_received_def
  recv_packet_record_def validate_write_acknowledgement_def module_call_def packet_commitment_of_def
  packet_msg_to_port_id_def verify_counterparty_matches_def verify_conn_delay_passed_def
  client_update_meta_def timestamp_add_def block_delay_def calculate_block_delay_def
  max_expected_time_per_block_def as_secs_def compute_packet_commitment_def
  commitment_hash_input_def timeout_height_is_set_def has_expired_def check_expiry_def
  get_next_sequence_recv_def get_packet_receipt_def get_packet_acknowledgement_def
  compute_ack_commitment_def sequence_increment_def packet_counterparty_on_a_def
  chan_end_path_on_b_def commitment_path_on_a_def ack_path_on_b_def receipt_path_on_b_def
  seq_recv_path_on_b_def receipt_path_sequence_def

lemmas [sample_eval] = send_packet_def send_packet_validate_def send_packet_execute_def
  acknowledgement_validate_core_def acknowledgement_packet_validate_def
  acknowledgement_packet_execute_def client_is_active_def timestamp_is_set_def verify_not_closed_def
  get_next_sequence_send_def get_next_sequence_ack_def get_packet_commitment_def
  packet_counterparty_on_b_def chan_end_path_on_a_def

text \<open>A packet is received on an ordered channel, and two out of order on an unordered
  one.\<close>

definition sample_channel :: channel_end_path where
  "sample_channel = ChannelEndPath port_id_transfer (channel_id_new 0)"

text \<open>What an observer sees of the sample chain.\<close>

definition sample_observed :: "order \<Rightarrow> u64 list \<Rightarrow> sample_app \<Rightarrow> bool" where
  "sample_observed chan_order ns st \<longleftrightarrow>
     received_packets (events (fst st)) = map sample_packet ns
     \<and> (case channel_end_store (fst st) sample_channel of
          Some c \<Rightarrow> ch_state c = Open \<and> ch_ordering c = chan_order
            \<and> ch_connection_hops c = [connection_id_new 0]
        | None \<Rightarrow> False)
     \<and> connection_end_store (fst st) (ConnectionPath (connection_id_new 0)) \<noteq> None"

lemma sample_ordered:
  "\<exists>st. play sample_env dummy_transfer_ops (sample_script Ordered @ [Message (sample_recv 1)])
      sample_start = Some st \<and> sample_observed Ordered [1] st"
  by (simp add: sample_eval sample_observed_def sample_channel_def)

lemma sample_unordered:
  "\<exists>st. play sample_env dummy_transfer_ops
      (sample_script Unordered @ [Message (sample_recv 2), Message (sample_recv 1)])
      sample_start = Some st \<and> sample_observed Unordered [2, 1] st"
  by (simp add: sample_eval sample_observed_def sample_channel_def)

text \<open>Two packets sent on an ordered channel, the first one acknowledged.\<close>

definition sample_outgoing :: "sample_app \<Rightarrow> bool" where
  "sample_outgoing st \<longleftrightarrow> (let s = fst st in
     send_sequence_store s (SeqSendPath port_id_transfer (channel_id_new 0)) = Some 3
     \<and> packet_commitment_store s (CommitmentPath port_id_transfer (channel_id_new 0) 1) = None
     \<and> packet_commitment_store s (CommitmentPath port_id_transfer (channel_id_new 0) 2) \<noteq> None)"

lemma sample_sender:
  "\<exists>st. play sample_env dummy_transfer_ops
      (sample_script Ordered @ [Send (sample_out 1), Send (sample_out 2), Message (sample_ack 1)])
      sample_start = Some st \<and> sample_observed Ordered [] st \<and> sample_outgoing st"
  by (simp add: sample_eval sample_observed_def sample_channel_def sample_outgoing_def)

lemma commit_step: "app_step env mops (Commit h) (s, r) (s\<lparr>st_current_height := h\<rparr>, r)"
  using committed [where s = s and h = h and f = "st_refuses s"] by (cases s) simp

lemma play_event_step:
  "play_event env mops ev st = Some st' \<Longrightarrow> app_step env mops ev st st'"
  by (induction env mops ev st rule: play_event.induct)
    (auto simp: kept_def split: if_splits prod.splits result.splits
      intro: app_step.intros commit_step)

lemma play_run: "play env mops evs st = Some st' \<Longrightarrow> run (app_step env mops) st evs st'"
proof (induction evs arbitrary: st)
  case Nil
  then show ?case by (simp add: run_nil)
next
  case (Cons ev evs)
  then obtain st1 where "play_event env mops ev st = Some st1" "play env mops evs st1 = Some st'"
    by (auto split: option.splits)
  then have "app_step env mops ev st st1" "run (app_step env mops) st1 evs st'"
    using Cons.IH by (auto simp del: split_paired_All intro: play_event_step)
  then show ?case by (rule run_cons)
qed

lemma sample_reaches:
  assumes "play sample_env dummy_transfer_ops evs sample_start = Some st" "length evs < 200"
  shows "reaches sample_env dummy_transfer_ops evs st"
proof -
  have "length evs < u64_range - 1" using assms(2) by (simp add: u64_range_def)
  then show ?thesis using play_run [OF assms(1)] unfolding reaches_def sample_start_def by blast
qed

lemma sample_light_client: "light_client sample_env"
  unfolding sample_env_def by (rule mock.light_client_axioms)

text \<open>The three runs as reachable applications.\<close>

lemma sample_ordered_facts:
  obtains es s r c where "reaches sample_env dummy_transfer_ops es (s, r)" "length es < 200"
    "received_packets (events s) = [sample_packet 1]"
    "channel_end_store s (ChannelEndPath port_id_transfer (channel_id_new 0)) = Some c"
    "ch_state c = Open" "ch_ordering c = Ordered" "ch_connection_hops c = [connection_id_new 0]"
proof -
  obtain st where st: "play sample_env dummy_transfer_ops
      (sample_script Ordered @ [Message (sample_recv 1)]) sample_start = Some st"
      "sample_observed Ordered [1] st" using sample_ordered by blast
  have "length (sample_script Ordered @ [Message (sample_recv 1)]) < 200"
    by (simp add: sample_script_def)
  then show ?thesis using that st sample_reaches [OF st(1)]
    by (cases st) (auto simp: sample_observed_def sample_channel_def split: option.splits)
qed

lemma sample_unordered_facts:
  obtains es s r c where "reaches sample_env dummy_transfer_ops es (s, r)" "length es < 200"
    "received_packets (events s) = [sample_packet 2, sample_packet 1]"
    "channel_end_store s (ChannelEndPath port_id_transfer (channel_id_new 0)) = Some c"
    "ch_state c = Open" "ch_ordering c = Unordered"
proof -
  obtain st where st: "play sample_env dummy_transfer_ops
      (sample_script Unordered @ [Message (sample_recv 2), Message (sample_recv 1)]) sample_start = Some st"
      "sample_observed Unordered [2, 1] st" using sample_unordered by blast
  have "length (sample_script Unordered @ [Message (sample_recv 2), Message (sample_recv 1)]) < 200"
    by (simp add: sample_script_def)
  then show ?thesis using that st sample_reaches [OF st(1)]
    by (cases st) (auto simp: sample_observed_def sample_channel_def split: option.splits)
qed

lemma sample_sender_facts:
  obtains es s r c where "reaches sample_env dummy_transfer_ops es (s, r)" "length es < 200"
    "channel_end_store s (ChannelEndPath port_id_transfer (channel_id_new 0)) = Some c"
    "ch_state c = Open"
    "send_sequence_store s (SeqSendPath port_id_transfer (channel_id_new 0)) = Some 3"
    "packet_commitment_store s (CommitmentPath port_id_transfer (channel_id_new 0) 1) = None"
    "packet_commitment_store s (CommitmentPath port_id_transfer (channel_id_new 0) 2) \<noteq> None"
proof -
  let ?evs = "sample_script Ordered @ [Send (sample_out 1), Send (sample_out 2), Message (sample_ack 1)]"
  obtain st where st: "play sample_env dummy_transfer_ops ?evs sample_start = Some st"
      "sample_observed Ordered [] st" "sample_outgoing st" using sample_sender by blast
  have "length ?evs < 200" by (simp add: sample_script_def)
  then show ?thesis using that st sample_reaches [OF st(1)]
    by (cases st) (auto simp: sample_observed_def sample_channel_def sample_outgoing_def Let_def
      split: option.splits)
qed

text \<open>The last message of a run and the state before it.\<close>

lemma play_append:
  "play env mops (xs @ ys) st = (case play env mops xs st of
     Some st' \<Rightarrow> play env mops ys st' | None \<Rightarrow> None)"
  by (induction xs arbitrary: st) (auto split: option.splits)

lemma play_last_message:
  assumes "play sample_env dummy_transfer_ops (evs @ [Message msg]) sample_start = Some st"
    and "length evs < 200"
  obtains s r where "reaches sample_env dummy_transfer_ops evs (s, r)"
    "dispatch sample_env dummy_transfer_ops msg (s, r) = (Ok (), st)"
proof -
  obtain st0 where 0: "play sample_env dummy_transfer_ops evs sample_start = Some st0"
      "kept (dispatch sample_env dummy_transfer_ops msg st0) = Some st"
    using assms(1) by (auto simp: play_append split: option.splits)
  then have "dispatch sample_env dummy_transfer_ops msg st0 = (Ok (), st)"
    by (auto simp: kept_def split: prod.splits result.splits)
  moreover have "reaches sample_env dummy_transfer_ops evs st0" using 0(1) assms(2) by (rule sample_reaches)
  ultimately show ?thesis using that by (cases st0) auto
qed

lemma sample_script_length: "length (sample_script chan_order) < 200"
  by (simp add: sample_script_def)

lemma sample_recv_facts:
  obtains es s r s' r' where "reaches sample_env dummy_transfer_ops es (s, r)"
    "dispatch sample_env dummy_transfer_ops (sample_recv 1) (s, r) = (Ok (), (s', r'))"
    "received_packets (events s') = [sample_packet 1]"
proof -
  obtain st where st: "play sample_env dummy_transfer_ops
      (sample_script Ordered @ [Message (sample_recv 1)]) sample_start = Some st"
      "sample_observed Ordered [1] st" using sample_ordered by blast
  obtain s r where "reaches sample_env dummy_transfer_ops (sample_script Ordered) (s, r)"
      "dispatch sample_env dummy_transfer_ops (sample_recv 1) (s, r) = (Ok (), st)"
    by (rule play_last_message [OF st(1) sample_script_length])
  then show ?thesis using that [of _ s r "fst st" "snd st"] st(2) by (simp add: sample_observed_def)
qed

lemma sample_init:
  "\<exists>st. play sample_env dummy_transfer_ops
      (sample_script Ordered @ [Message (ChannelEnvelope (ChanOpenInit sample_chan_init))])
      sample_start = Some st"
  by (simp add: sample_eval)

lemma sample_init_facts:
  obtains es s r s' r' where "reaches sample_env dummy_transfer_ops es (s, r)"
    "dispatch sample_env dummy_transfer_ops (ChannelEnvelope (ChanOpenInit sample_chan_init)) (s, r)
       = (Ok (), (s', r'))"
proof -
  obtain st where st: "play sample_env dummy_transfer_ops
      (sample_script Ordered @ [Message (ChannelEnvelope (ChanOpenInit sample_chan_init))])
      sample_start = Some st" using sample_init by blast
  obtain s r where "reaches sample_env dummy_transfer_ops (sample_script Ordered) (s, r)"
      "dispatch sample_env dummy_transfer_ops (ChannelEnvelope (ChanOpenInit sample_chan_init)) (s, r)
         = (Ok (), st)"
    by (rule play_last_message [OF st sample_script_length])
  then show ?thesis using that [of _ s r "fst st" "snd st"] by simp
qed

lemma sample_ack_facts:
  obtains es s r s' r' where "reaches sample_env dummy_transfer_ops es (s, r)"
    "dispatch sample_env dummy_transfer_ops (sample_ack 1) (s, r) = (Ok (), (s', r'))"
    "packet_commitment_store s' (CommitmentPath port_id_transfer (channel_id_new 0) 1) = None"
proof -
  obtain st where st: "play sample_env dummy_transfer_ops
      ((sample_script Ordered @ [Send (sample_out 1), Send (sample_out 2)]) @ [Message (sample_ack 1)])
      sample_start = Some st" "sample_outgoing st" using sample_sender by auto
  have len: "length (sample_script Ordered @ [Send (sample_out 1), Send (sample_out 2)]) < 200"
    by (simp add: sample_script_def)
  obtain s r where "reaches sample_env dummy_transfer_ops
        (sample_script Ordered @ [Send (sample_out 1), Send (sample_out 2)]) (s, r)"
      "dispatch sample_env dummy_transfer_ops (sample_ack 1) (s, r) = (Ok (), st)"
    by (rule play_last_message [OF st(1) len])
  then show ?thesis using that [of _ s r "fst st" "snd st"] st(2)
    by (simp add: sample_outgoing_def Let_def)
qed

end
