(* ===== verification/Transfer_Types.thy ===== *)
theory Transfer_Types
  imports Error_Texts
begin

text \<open>
  The data of the fungible token transfer application (ICS-20), crate
  \<open>ibc-app-transfer-types\<close>: denominations with their trace of hops, amounts,
  coins, packet data, the transfer message, errors and events.

  Amounts are \<open>U256\<close> of the crate \<open>primitive-types\<close>, 256 bit words; their decimal
  text, the JSON of packet data and acknowledgements and the protobuf decoding come
  from other crates and are the fields of \<open>transfer_ext\<close>.

  The lemmas at the end show that parsing a denomination is inverse to printing it.
\<close>

section \<open>Errors\<close>

datatype token_transfer_error =
    TransferContextError context_error
  | TransferInvalidIdentifier identifier_error
  | InsufficientFunds string string
  | DestinationChannelNotFound port_id channel_id
  | EmptyBaseDenom
  | InvalidTracePortId u64 identifier_error
  | InvalidTraceChannelId u64 identifier_error
  | MalformedTrace string
  | InvalidTraceLength u64
  | InvalidAmount string
  | InvalidToken
  | ChannelNotUnordered order order
  | CantCloseChannel
  | PacketDataDeserialization
  | AckDeserialization
  | ReceiveDisabled string
  | SendDisabled string
  | ParseAccountFailure
  | InvalidPort port_id port_id
  | DecodeRawMsg string
  | UnknownMsgType string
  | InvalidCoin string
  | Utf8Decode string
  | TransferOther string


section \<open>Denominations\<close>

datatype base_denom = BaseDenom (base_denom_str: string)

record trace_prefix =
  tp_port_id :: port_id
  tp_channel_id :: channel_id

text \<open>The hops of a token, the last one first: the vector is the trace read from the
  base denomination outwards.\<close>

datatype trace_path = TracePath (trace_prefixes: "trace_prefix list")

record prefixed_denom =
  trace_path :: trace_path
  base_denom :: base_denom

definition base_denom_from_str :: "string \<Rightarrow> (base_denom, token_transfer_error) result" where
  "base_denom_from_str s = (if str_trim s = [] then Err EmptyBaseDenom else Ok (BaseDenom s))"

definition trace_prefix_new :: "port_id \<Rightarrow> channel_id \<Rightarrow> trace_prefix" where
  "trace_prefix_new p c = \<lparr>tp_port_id = p, tp_channel_id = c\<rparr>"

definition trace_prefix_strip :: "string \<Rightarrow> (trace_prefix \<times> string option) option" where
  "trace_prefix_strip s =
     Option.bind (split_once CHR ''/'' s) (\<lambda>(port_id_s, remaining).
     let (channel_id_s, remaining') = (case split_once CHR ''/'' remaining of
           Some (a, b) \<Rightarrow> (a, Some b)
         | None \<Rightarrow> (remaining, None)) in
     Option.bind (ok_opt (port_id_from_str port_id_s)) (\<lambda>p.
     Option.bind (ok_opt (channel_id_from_str channel_id_s)) (\<lambda>c.
     Some (trace_prefix_new p c, remaining'))))"

definition trace_prefix_to_string :: "trace_prefix \<Rightarrow> string" where
  "trace_prefix_to_string self =
     port_id_str (tp_port_id self) @ ''/'' @ channel_id_str (tp_channel_id self)"

definition trace_path_starts_with :: "trace_path \<Rightarrow> trace_prefix \<Rightarrow> bool" where
  "trace_path_starts_with self prefix \<longleftrightarrow>
     trace_prefixes self \<noteq> [] \<and> last (trace_prefixes self) = prefix"

definition trace_path_remove_prefix :: "trace_path \<Rightarrow> trace_prefix \<Rightarrow> trace_path" where
  "trace_path_remove_prefix self prefix =
     (if trace_path_starts_with self prefix then TracePath (butlast (trace_prefixes self))
      else self)"

definition trace_path_add_prefix :: "trace_path \<Rightarrow> trace_prefix \<Rightarrow> trace_path" where
  "trace_path_add_prefix self prefix = TracePath (trace_prefixes self @ [prefix])"

definition trace_path_is_empty :: "trace_path \<Rightarrow> bool" where
  "trace_path_is_empty self \<longleftrightarrow> trace_prefixes self = []"

definition trace_path_empty :: trace_path where
  "trace_path_empty = TracePath []"

lemma trace_prefix_strip_shorter:
  assumes "trace_prefix_strip s = Some (p, Some rest)"
  shows "length rest < length s"
proof -
  obtain a b c where "split_once CHR ''/'' s = Some (a, b)"
    and "split_once CHR ''/'' b = Some (c, rest)"
    using assms by (auto simp: trace_prefix_strip_def bind_eq_Some_conv split: option.splits)
  then show ?thesis
    by (auto dest!: split_once_SomeD)
qed

text \<open>The loop of \<open>TracePath::trim\<close>, with the prefixes found so far and what remains of
  the text.\<close>

function trace_trim_loop ::
  "trace_prefix list \<Rightarrow> string option \<Rightarrow> trace_prefix list \<times> string option" where
  "trace_trim_loop acc None = (acc, None)"
| "trace_trim_loop acc (Some s) = (case trace_prefix_strip s of
      None \<Rightarrow> (acc, Some s)
    | Some (prefix, next_remaining) \<Rightarrow> trace_trim_loop (acc @ [prefix]) next_remaining)"
  by pat_completeness auto
termination
  by (relation "measure (\<lambda>(_, r). case r of None \<Rightarrow> 0 | Some s \<Rightarrow> Suc (length s))")
    (auto split: option.splits dest: trace_prefix_strip_shorter)

definition trace_path_trim :: "string \<Rightarrow> trace_path \<times> string option" where
  "trace_path_trim s = (case trace_trim_loop [] (Some s) of
     (prefixes, remaining) \<Rightarrow> (TracePath (rev prefixes), remaining))"

definition trace_path_from_str :: "string \<Rightarrow> (trace_path, token_transfer_error) result" where
  "trace_path_from_str s =
     (if s = [] then Ok trace_path_empty
      else case trace_path_trim s of
        (path, None) \<Rightarrow> Ok path
      | (path, Some _) \<Rightarrow> Err (MalformedTrace s))"

definition trace_path_to_string :: "trace_path \<Rightarrow> string" where
  "trace_path_to_string self =
     join ''/'' (map trace_prefix_to_string (rev (trace_prefixes self)))"

definition remove_trace_prefix :: "trace_prefix \<Rightarrow> prefixed_denom \<Rightarrow> prefixed_denom" where
  "remove_trace_prefix prefix self =
     self\<lparr>trace_path := trace_path_remove_prefix (trace_path self) prefix\<rparr>"

definition add_trace_prefix :: "trace_prefix \<Rightarrow> prefixed_denom \<Rightarrow> prefixed_denom" where
  "add_trace_prefix prefix self =
     self\<lparr>trace_path := trace_path_add_prefix (trace_path self) prefix\<rparr>"

definition is_receiver_chain_source :: "port_id \<Rightarrow> channel_id \<Rightarrow> prefixed_denom \<Rightarrow> bool" where
  "is_receiver_chain_source source_port source_channel denom =
     trace_path_starts_with (trace_path denom) (trace_prefix_new source_port source_channel)"

definition is_sender_chain_source :: "port_id \<Rightarrow> channel_id \<Rightarrow> prefixed_denom \<Rightarrow> bool" where
  "is_sender_chain_source source_port source_channel denom \<longleftrightarrow>
     \<not> is_receiver_chain_source source_port source_channel denom"

definition prefixed_denom_from_str ::
  "string \<Rightarrow> (prefixed_denom, token_transfer_error) result" where
  "prefixed_denom_from_str s = (case trace_path_trim s of
       (path, Some remaining_parts) \<Rightarrow>
         and_then (base_denom_from_str remaining_parts) (\<lambda>base.
         Ok \<lparr>trace_path = path, base_denom = base\<rparr>)
     | (_, None) \<Rightarrow>
         and_then (base_denom_from_str s) (\<lambda>base.
         Ok \<lparr>trace_path = trace_path_empty, base_denom = base\<rparr>))"

definition prefixed_denom_to_string :: "prefixed_denom \<Rightarrow> string" where
  "prefixed_denom_to_string self =
     (if trace_prefixes (trace_path self) = [] then base_denom_str (base_denom self)
      else trace_path_to_string (trace_path self) @ ''/'' @ base_denom_str (base_denom self))"

definition prefixed_denom_from_base :: "base_denom \<Rightarrow> prefixed_denom" where
  "prefixed_denom_from_base denom = \<lparr>trace_path = trace_path_empty, base_denom = denom\<rparr>"

record raw_denom_trace =
  rdt_path :: string
  rdt_base_denom :: string

definition prefixed_denom_try_from ::
  "raw_denom_trace \<Rightarrow> (prefixed_denom, token_transfer_error) result" where
  "prefixed_denom_try_from v =
     and_then (base_denom_from_str (rdt_base_denom v)) (\<lambda>base.
     and_then (trace_path_from_str (rdt_path v)) (\<lambda>path.
     Ok \<lparr>trace_path = path, base_denom = base\<rparr>))"

definition prefixed_denom_to_raw :: "prefixed_denom \<Rightarrow> raw_denom_trace" where
  "prefixed_denom_to_raw v =
     \<lparr>rdt_path = trace_path_to_string (trace_path v),
      rdt_base_denom = base_denom_str (base_denom v)\<rparr>"

section \<open>Amounts and coins\<close>

type_synonym u256 = "256 word"
type_synonym amount = u256

text \<open>A coin over a type of denominations, and the form of the protobuf messages.\<close>

record 'd coin =
  coin_denom :: 'd
  coin_amount :: amount

record proto_coin =
  pc_denom :: string
  pc_amount :: string

record raw_packet_data =
  rpd_denom :: string
  rpd_amount :: string
  rpd_sender :: string
  rpd_receiver :: string
  rpd_memo :: string

type_synonym memo = string

record transfer_packet_data =
  td_token :: "prefixed_denom coin"
  td_sender :: signer
  td_receiver :: signer
  td_memo :: memo

record raw_msg_transfer =
  rmt_source_port :: string
  rmt_source_channel :: string
  rmt_token :: "proto_coin option"
  rmt_sender :: string
  rmt_receiver :: string
  rmt_timeout_height :: "raw_height option"
  rmt_timeout_timestamp :: u64
  rmt_memo :: string

record msg_transfer =
  mt_port_id_on_a :: port_id
  mt_chan_id_on_a :: channel_id
  mt_packet_data :: transfer_packet_data
  mt_timeout_height_on_b :: timeout_height
  mt_timeout_timestamp_on_b :: timestamp

text \<open>What the crate takes from other crates: the decimal text of a \<open>U256\<close>
  (\<open>from_dec_str\<close> and \<open>Display\<close>), the JSON of packet data and of acknowledgements
  (\<open>serde_json\<close>), the protobuf decoding of a message with the text of its errors, and the
  calendar text of an instant.\<close>

record transfer_ext =
  te_from_dec_str :: "string \<Rightarrow> (u256, string) result"
  te_u256_to_string :: "u256 \<Rightarrow> string"
  te_json_to_vec :: "raw_packet_data \<Rightarrow> bytes"
  te_json_packet_data :: "bytes \<Rightarrow> raw_packet_data option"
  te_json_ack_status :: "bytes \<Rightarrow> acknowledgement_status option"
  te_decode_msg :: "bytes \<Rightarrow> raw_msg_transfer option"
  te_decode_error :: "bytes \<Rightarrow> string"
  te_time_to_rfc3339 :: "tm_time \<Rightarrow> string"

definition amount_checked_add :: "amount \<Rightarrow> amount \<Rightarrow> amount option" where
  "amount_checked_add self rhs = (if unat self + unat rhs < 2 ^ 256 then Some (self + rhs) else None)"

definition amount_checked_sub :: "amount \<Rightarrow> amount \<Rightarrow> amount option" where
  "amount_checked_sub self rhs = (if unat rhs \<le> unat self then Some (self - rhs) else None)"

definition amount_from_str :: "transfer_ext \<Rightarrow> string \<Rightarrow> (amount, token_transfer_error) result" where
  "amount_from_str te s = map_err InvalidAmount (te_from_dec_str te s)"

definition amount_from_u64 :: "u64 \<Rightarrow> amount" where
  "amount_from_u64 v = ucast v"

definition coin_try_from ::
  "transfer_ext \<Rightarrow> (string \<Rightarrow> ('d, token_transfer_error) result) \<Rightarrow> proto_coin
     \<Rightarrow> ('d coin, token_transfer_error) result" where
  "coin_try_from te parse_denom proto =
     and_then (parse_denom (pc_denom proto)) (\<lambda>denom.
     and_then (amount_from_str te (pc_amount proto)) (\<lambda>amount.
     Ok \<lparr>coin_denom = denom, coin_amount = amount\<rparr>))"

definition coin_to_proto :: "transfer_ext \<Rightarrow> ('d \<Rightarrow> string) \<Rightarrow> 'd coin \<Rightarrow> proto_coin" where
  "coin_to_proto te show_denom coin =
     \<lparr>pc_denom = show_denom (coin_denom coin),
      pc_amount = te_u256_to_string te (coin_amount coin)\<rparr>"

definition coin_from_base :: "base_denom coin \<Rightarrow> prefixed_denom coin" where
  "coin_from_base coin =
     \<lparr>coin_denom = prefixed_denom_from_base (coin_denom coin), coin_amount = coin_amount coin\<rparr>"

definition coin_to_string :: "transfer_ext \<Rightarrow> ('d \<Rightarrow> string) \<Rightarrow> 'd coin \<Rightarrow> string" where
  "coin_to_string te show_denom self =
     te_u256_to_string te (coin_amount self) @ show_denom (coin_denom self)"


section \<open>Packet data and the transfer message\<close>

definition packet_data_try_from ::
  "transfer_ext \<Rightarrow> raw_packet_data \<Rightarrow> (transfer_packet_data, token_transfer_error) result" where
  "packet_data_try_from te raw =
     and_then (prefixed_denom_from_str (rpd_denom raw)) (\<lambda>denom.
     and_then (amount_from_str te (rpd_amount raw)) (\<lambda>amount.
     Ok \<lparr>td_token = \<lparr>coin_denom = denom, coin_amount = amount\<rparr>,
         td_sender = Signer (rpd_sender raw), td_receiver = Signer (rpd_receiver raw),
         td_memo = rpd_memo raw\<rparr>))"

definition packet_data_to_raw :: "transfer_ext \<Rightarrow> transfer_packet_data \<Rightarrow> raw_packet_data" where
  "packet_data_to_raw te d =
     \<lparr>rpd_denom = prefixed_denom_to_string (coin_denom (td_token d)),
      rpd_amount = te_u256_to_string te (coin_amount (td_token d)),
      rpd_sender = signer_to_string (td_sender d), rpd_receiver = signer_to_string (td_receiver d),
      rpd_memo = td_memo d\<rparr>"

text \<open>\<open>serde_json\<close> reads and writes packet data through its raw form.\<close>

definition json_to_packet_data :: "transfer_ext \<Rightarrow> bytes \<Rightarrow> transfer_packet_data option" where
  "json_to_packet_data te b =
     Option.bind (te_json_packet_data te b) (\<lambda>raw. ok_opt (packet_data_try_from te raw))"

definition packet_data_to_json :: "transfer_ext \<Rightarrow> transfer_packet_data \<Rightarrow> bytes" where
  "packet_data_to_json te d = te_json_to_vec te (packet_data_to_raw te d)"

definition msg_transfer_try_from ::
  "transfer_ext \<Rightarrow> raw_msg_transfer \<Rightarrow> (msg_transfer, token_transfer_error) result" where
  "msg_transfer_try_from te raw_msg =
     and_then (map_err (TransferContextError \<circ> PacketError \<circ> PacketInvalidPacketTimestamp)
        (timestamp_from_nanoseconds (rmt_timeout_timestamp raw_msg))) (\<lambda>timeout_timestamp.
     and_then (map_err (TransferContextError \<circ> ClientError)
        (timeout_height_try_from (rmt_timeout_height raw_msg))) (\<lambda>timeout_height.
     if \<not> timeout_height_is_set timeout_height \<and> \<not> timestamp_is_set timeout_timestamp
     then Err (TransferContextError (PacketError MissingTimeout))
     else
     and_then (map_err TransferInvalidIdentifier (port_id_from_str (rmt_source_port raw_msg))) (\<lambda>p.
     and_then (map_err TransferInvalidIdentifier
        (channel_id_from_str (rmt_source_channel raw_msg))) (\<lambda>c.
     and_then (ok_or (rmt_token raw_msg) InvalidToken) (\<lambda>proto.
     and_then (map_err (\<lambda>_. InvalidToken)
        (coin_try_from te prefixed_denom_from_str proto)) (\<lambda>token.
     Ok \<lparr>mt_port_id_on_a = p, mt_chan_id_on_a = c,
         mt_packet_data = \<lparr>td_token = token, td_sender = Signer (rmt_sender raw_msg),
           td_receiver = Signer (rmt_receiver raw_msg), td_memo = rmt_memo raw_msg\<rparr>,
         mt_timeout_height_on_b = timeout_height,
         mt_timeout_timestamp_on_b = timeout_timestamp\<rparr>))))))"

definition msg_transfer_to_raw ::
  "transfer_ext \<Rightarrow> msg_transfer \<Rightarrow> (raw_msg_transfer, 'e) result" where
  "msg_transfer_to_raw te msg =
     and_then (nanoseconds (mt_timeout_timestamp_on_b msg)) (\<lambda>nanos.
     Ok \<lparr>rmt_source_port = port_id_str (mt_port_id_on_a msg),
         rmt_source_channel = channel_id_str (mt_chan_id_on_a msg),
         rmt_token = Some (coin_to_proto te prefixed_denom_to_string (td_token (mt_packet_data msg))),
         rmt_sender = signer_to_string (td_sender (mt_packet_data msg)),
         rmt_receiver = signer_to_string (td_receiver (mt_packet_data msg)),
         rmt_timeout_height = timeout_height_to_raw (mt_timeout_height_on_b msg),
         rmt_timeout_timestamp = nanos,
         rmt_memo = td_memo (mt_packet_data msg)\<rparr>)"


section \<open>Text of errors\<close>

fun token_transfer_error_to_string :: "transfer_ext \<Rightarrow> token_transfer_error \<Rightarrow> string" where
  "token_transfer_error_to_string te (TransferContextError e) =
     ''context error: '' @ quoted (context_error_to_string (te_time_to_rfc3339 te) e)"
| "token_transfer_error_to_string te (TransferInvalidIdentifier e) =
     ''invalid identifier: '' @ quoted (identifier_error_to_string e)"
| "token_transfer_error_to_string te (InsufficientFunds send_attempt available_funds) =
     ''insufficient funds: tried to send '' @ quoted send_attempt @ '', sender only has ''
       @ quoted available_funds"
| "token_transfer_error_to_string te (DestinationChannelNotFound p c) =
     ''destination channel not found in the counterparty of port_id '' @ quoted (port_id_str p)
       @ '' and channel_id '' @ quoted (channel_id_str c)"
| "token_transfer_error_to_string te EmptyBaseDenom = ''base denomination is empty''"
| "token_transfer_error_to_string te (InvalidTracePortId pos e) =
     ''invalid prot id n trace at position: '' @ quoted (show_u64 pos)
       @ '', validation error: '' @ quoted (identifier_error_to_string e)"
| "token_transfer_error_to_string te (InvalidTraceChannelId pos e) =
     ''invalid channel id in trace at position: '' @ quoted (show_u64 pos)
       @ '', validation error: '' @ quoted (identifier_error_to_string e)"
| "token_transfer_error_to_string te (MalformedTrace s) = ''malformed trace: '' @ quoted s"
| "token_transfer_error_to_string te (InvalidTraceLength len) =
     ''trace length must be even but got: '' @ quoted (show_u64 len)"
| "token_transfer_error_to_string te (InvalidAmount e) = ''invalid amount error: '' @ quoted e"
| "token_transfer_error_to_string te InvalidToken = ''invalid token''"
| "token_transfer_error_to_string te (ChannelNotUnordered expect_order got_order) =
     ''expected '' @ quoted (order_as_str expect_order) @ '' channel, got ''
       @ quoted (order_as_str got_order)"
| "token_transfer_error_to_string te CantCloseChannel = ''channel cannot be closed''"
| "token_transfer_error_to_string te PacketDataDeserialization = ''failed to deserialize packet data''"
| "token_transfer_error_to_string te AckDeserialization = ''failed to deserialize acknowledgement''"
| "token_transfer_error_to_string te (ReceiveDisabled reason) = ''receive is not enabled''"
| "token_transfer_error_to_string te (SendDisabled reason) = ''send is not enabled''"
| "token_transfer_error_to_string te ParseAccountFailure = ''failed to parse as AccountId''"
| "token_transfer_error_to_string te (InvalidPort p expected) =
     ''invalid port: '' @ quoted (port_id_str p) @ '', expected '' @ quoted (port_id_str expected)"
| "token_transfer_error_to_string te (DecodeRawMsg reason) = ''decoding raw msg error: '' @ quoted reason"
| "token_transfer_error_to_string te (UnknownMsgType msg_type) = ''unknown msg type: '' @ quoted msg_type"
| "token_transfer_error_to_string te (InvalidCoin coin) = ''invalid coin string: '' @ quoted coin"
| "token_transfer_error_to_string te (Utf8Decode e) =
     ''decoding raw bytes as UTF8 string error: '' @ quoted e"
| "token_transfer_error_to_string te (TransferOther s) = ''other error: '' @ quoted s"

text \<open>The conversion of an error into the value of an acknowledgement expects its text not
  to be empty.\<close>

definition status_value_from_error ::
  "transfer_ext \<Rightarrow> token_transfer_error \<Rightarrow> (status_value, 'e) result" where
  "status_value_from_error te err =
     (case status_value_new (token_transfer_error_to_string te err) of
        Ok v \<Rightarrow> Ok v
      | _ \<Rightarrow> Panic)"

definition module_id_str :: string where
  "module_id_str = ''transfer''"

definition transfer_version :: string where
  "transfer_version = ''ics20-1''"

definition ack_success_b64 :: "(status_value, 'e) result" where
  "ack_success_b64 = (case status_value_new ''AQ=='' of Ok v \<Rightarrow> Ok v | _ \<Rightarrow> Panic)"

definition msg_transfer_type_url :: string where
  "msg_transfer_type_url = ''/ibc.applications.transfer.v1.MsgTransfer''"

definition msg_transfer_from_any ::
  "transfer_ext \<Rightarrow> any_msg \<Rightarrow> (msg_transfer, token_transfer_error) result" where
  "msg_transfer_from_any te raw =
     (if any_type_url raw = msg_transfer_type_url
      then map_err DecodeRawMsg (protobuf_decode (te_decode_msg te) (msg_transfer_try_from te)
             (te_decode_error te) (token_transfer_error_to_string te) (any_value raw))
      else Err (UnknownMsgType (any_type_url raw)))"


section \<open>Events\<close>

definition show_bool :: "bool \<Rightarrow> string" where
  "show_bool b = (if b then ''true'' else ''false'')"

definition event_attr :: "string \<Rightarrow> string \<Rightarrow> module_event_attribute" where
  "event_attr k v = \<lparr>mea_key = k, mea_value = v\<rparr>"

datatype transfer_event =
    RecvEvent signer signer prefixed_denom amount memo bool
  | AckEvent signer signer prefixed_denom amount memo acknowledgement_status
  | AckStatusEvent acknowledgement_status
  | TimeoutEvent signer prefixed_denom amount memo
  | DenomTraceEvent "string option" prefixed_denom
  | TransferEvent signer signer amount prefixed_denom memo

fun transfer_event_to_module :: "transfer_ext \<Rightarrow> transfer_event \<Rightarrow> module_event" where
  "transfer_event_to_module te (RecvEvent sender receiver denom amount memo success) =
     \<lparr>me_kind = ''fungible_token_packet'',
      me_attributes = [event_attr ''module'' module_id_str,
        event_attr ''sender'' (signer_to_string sender),
        event_attr ''receiver'' (signer_to_string receiver),
        event_attr ''denom'' (prefixed_denom_to_string denom),
        event_attr ''amount'' (te_u256_to_string te amount),
        event_attr ''memo'' memo,
        event_attr ''success'' (show_bool success)]\<rparr>"
| "transfer_event_to_module te (AckEvent sender receiver denom amount memo acknowledgement) =
     \<lparr>me_kind = ''fungible_token_packet'',
      me_attributes = [event_attr ''module'' module_id_str,
        event_attr ''sender'' (signer_to_string sender),
        event_attr ''receiver'' (signer_to_string receiver),
        event_attr ''denom'' (prefixed_denom_to_string denom),
        event_attr ''amount'' (te_u256_to_string te amount),
        event_attr ''memo'' memo,
        event_attr ''acknowledgement'' (ack_status_to_string acknowledgement)]\<rparr>"
| "transfer_event_to_module te (AckStatusEvent acknowledgement) =
     \<lparr>me_kind = ''fungible_token_packet'',
      me_attributes = [event_attr
        (case acknowledgement of AckSuccess _ \<Rightarrow> ''success'' | AckError _ \<Rightarrow> ''error'')
        (ack_status_to_string acknowledgement)]\<rparr>"
| "transfer_event_to_module te (TimeoutEvent refund_receiver refund_denom refund_amount memo) =
     \<lparr>me_kind = ''timeout'',
      me_attributes = [event_attr ''module'' module_id_str,
        event_attr ''refund_receiver'' (signer_to_string refund_receiver),
        event_attr ''refund_denom'' (prefixed_denom_to_string refund_denom),
        event_attr ''refund_amount'' (te_u256_to_string te refund_amount),
        event_attr ''memo'' memo]\<rparr>"
| "transfer_event_to_module te (DenomTraceEvent trace_hash denom) =
     \<lparr>me_kind = ''denomination_trace'',
      me_attributes = [event_attr ''denom'' (prefixed_denom_to_string denom)]
        @ (case trace_hash of Some hash \<Rightarrow> [event_attr ''trace_hash'' hash] | None \<Rightarrow> [])\<rparr>"
| "transfer_event_to_module te (TransferEvent sender receiver amount denom memo) =
     \<lparr>me_kind = ''ibc_transfer'',
      me_attributes = [event_attr ''sender'' (signer_to_string sender),
        event_attr ''receiver'' (signer_to_string receiver),
        event_attr ''amount'' (te_u256_to_string te amount),
        event_attr ''denom'' (prefixed_denom_to_string denom),
        event_attr ''memo'' memo]\<rparr>"


section \<open>Denominations: printing and parsing\<close>

definition valid_trace_prefix :: "trace_prefix \<Rightarrow> bool" where
  "valid_trace_prefix p \<longleftrightarrow> valid_port_id (tp_port_id p) \<and> valid_channel_id (tp_channel_id p)"

definition valid_trace_path :: "trace_path \<Rightarrow> bool" where
  "valid_trace_path t \<longleftrightarrow> list_all valid_trace_prefix (trace_prefixes t)"

text \<open>Some hops followed by what is left of the text.\<close>

definition hops_then :: "trace_prefix list \<Rightarrow> string \<Rightarrow> string" where
  "hops_then ps rest = concat (map (\<lambda>p. trace_prefix_to_string p @ ''/'') ps) @ rest"

lemma hops_then_simps [simp]:
  "hops_then [] rest = rest"
  "hops_then (p # ps) rest = trace_prefix_to_string p @ ''/'' @ hops_then ps rest"
  by (simp_all add: hops_then_def)

lemma hops_then_append [simp]: "hops_then (ps @ qs) rest = hops_then ps (hops_then qs rest)"
  by (simp add: hops_then_def)

lemma hops_then_tail: "hops_then ps r @ t = hops_then ps (r @ t)"
  by (simp add: hops_then_def)

lemma join_hops: "join ''/'' (map trace_prefix_to_string (ps @ [p])) = hops_then ps (trace_prefix_to_string p)"
  by (induction ps) (auto simp: join_Cons)

lemma prefixed_denom_to_string_hops:
  "prefixed_denom_to_string d =
     hops_then (rev (trace_prefixes (trace_path d))) (base_denom_str (base_denom d))"
proof (cases "trace_prefixes (trace_path d)")
  case (Cons p ps)
  then show ?thesis
    by (simp add: prefixed_denom_to_string_def trace_path_to_string_def join_hops hops_then_tail
        del: map_append)
qed (simp add: prefixed_denom_to_string_def)

lemma trace_prefix_strip_print [simp]:
  assumes "valid_trace_prefix p"
  shows "trace_prefix_strip (trace_prefix_to_string p) = Some (p, None)"
    and "trace_prefix_strip (trace_prefix_to_string p @ CHR ''/'' # rest) = Some (p, Some rest)"
  using assms by (simp_all add: trace_prefix_strip_def trace_prefix_to_string_def
      valid_trace_prefix_def split_once_append split_once_None valid_port_id_no_slash
      valid_channel_id_no_slash parse_valid_ids trace_prefix_new_def)

lemma ok_opt_id_iff:
  "ok_opt (port_id_from_str a) = Some p \<longleftrightarrow> p = PortId a \<and> valid_port_id p"
  "ok_opt (channel_id_from_str a) = Some c \<longleftrightarrow> c = ChannelId a \<and> valid_channel_id c"
   apply (cases "validate_port_identifier a"; cases p;
      auto simp: ok_opt_def port_id_from_str_def valid_port_id_def is_ok_def)
  apply (cases "validate_channel_identifier a"; cases c;
      auto simp: ok_opt_def channel_id_from_str_def valid_channel_id_def is_ok_def)
  done

lemma trace_prefix_strip_SomeD:
  assumes "trace_prefix_strip s = Some (p, r)"
  shows "valid_trace_prefix p
    \<and> s = (case r of None \<Rightarrow> trace_prefix_to_string p | Some rest \<Rightarrow> hops_then [p] rest)"
proof -
  obtain a b where ab: "split_once CHR ''/'' s = Some (a, b)"
    using assms by (auto simp: trace_prefix_strip_def bind_eq_Some_conv)
  show ?thesis
  proof (cases "split_once CHR ''/'' b")
    case None
    with assms ab show ?thesis
      by (auto simp: trace_prefix_strip_def bind_eq_Some_conv ok_opt_id_iff trace_prefix_new_def
          valid_trace_prefix_def trace_prefix_to_string_def dest!: split_once_SomeD)
  next
    case (Some cd)
    with assms ab show ?thesis
      by (cases cd) (auto simp: trace_prefix_strip_def bind_eq_Some_conv ok_opt_id_iff
          trace_prefix_new_def valid_trace_prefix_def trace_prefix_to_string_def
          dest!: split_once_SomeD)
  qed
qed

declare trace_trim_loop.simps(2) [simp del]

lemma trace_trim_loop_strip:
  "trace_prefix_strip s = Some (p, r) \<Longrightarrow>
     trace_trim_loop acc (Some s) = trace_trim_loop (acc @ [p]) r"
  by (simp add: trace_trim_loop.simps(2))

lemma trace_trim_loop_stop [simp]:
  "trace_prefix_strip s = None \<Longrightarrow> trace_trim_loop acc (Some s) = (acc, Some s)"
  by (simp add: trace_trim_loop.simps(2))

lemma trace_trim_loop_hops:
  "list_all valid_trace_prefix ps \<Longrightarrow>
     trace_trim_loop acc (Some (hops_then ps rest)) = trace_trim_loop (acc @ ps) (Some rest)"
  by (induction ps arbitrary: acc) (simp_all add: trace_trim_loop_strip)

lemma trace_trim_loop_SomeD:
  "trace_trim_loop acc r = (acc', r') \<Longrightarrow> \<exists>ps. acc' = acc @ ps \<and> list_all valid_trace_prefix ps
     \<and> (case r of
          None \<Rightarrow> ps = [] \<and> r' = None
        | Some s \<Rightarrow> (case r' of
              Some rest \<Rightarrow> s = hops_then ps rest \<and> trace_prefix_strip rest = None
            | None \<Rightarrow> ps \<noteq> [] \<and> s = hops_then (butlast ps) (trace_prefix_to_string (last ps))))"
proof (induction acc r rule: trace_trim_loop.induct)
  case (2 acc s)
  show ?case
  proof (cases "trace_prefix_strip s")
    case None
    then show ?thesis using "2.prems" by auto
  next
    case (Some a)
    then obtain p nxt where s: "trace_prefix_strip s = Some (p, nxt)" by (cases a) auto
    note shape = trace_prefix_strip_SomeD [OF s]
    from "2.IH" [OF s refl] "2.prems" trace_trim_loop_strip [OF s] obtain ps where ps: "acc' = (acc @ [p]) @ ps"
        "list_all valid_trace_prefix ps"
        "case nxt of None \<Rightarrow> ps = [] \<and> r' = None
         | Some s' \<Rightarrow> (case r' of
              Some rest \<Rightarrow> s' = hops_then ps rest \<and> trace_prefix_strip rest = None
            | None \<Rightarrow> ps \<noteq> [] \<and> s' = hops_then (butlast ps) (trace_prefix_to_string (last ps)))"
      by auto
    show ?thesis
      by (rule exI [of _ "p # ps"]) (use ps shape in \<open>auto split: option.splits\<close>)
  qed
qed simp

lemma base_denom_from_str_Ok_iff [result_simps]:
  "base_denom_from_str s = Ok b \<longleftrightarrow> str_trim s \<noteq> [] \<and> b = BaseDenom s"
  by (auto simp: base_denom_from_str_def)

lemma trace_path_trim_print:
  assumes "valid_trace_path t"
  shows "trace_prefix_strip rest = None \<Longrightarrow>
      trace_path_trim (hops_then (rev (trace_prefixes t)) rest) = (t, Some rest)"
    and "trace_prefixes t \<noteq> [] \<Longrightarrow> trace_path_trim (trace_path_to_string t) = (t, None)"
proof -
  have v: "list_all valid_trace_prefix (rev (trace_prefixes t))"
    using assms by (simp add: valid_trace_path_def)
  show "trace_path_trim (hops_then (rev (trace_prefixes t)) rest) = (t, Some rest)"
    if "trace_prefix_strip rest = None"
    using that by (simp add: trace_path_trim_def trace_trim_loop_hops [OF v])
  show "trace_path_trim (trace_path_to_string t) = (t, None)" if ne: "trace_prefixes t \<noteq> []"
  proof -
    obtain p ps where "trace_prefixes t = p # ps" using ne by (meson neq_Nil_conv)
    with v show ?thesis
      by (cases t) (simp add: trace_path_to_string_def join_hops trace_path_trim_def
          trace_trim_loop_hops trace_trim_loop_strip del: map_append)
  qed
qed

lemma trace_path_to_string_empty_iff: "trace_path_to_string t = [] \<longleftrightarrow> trace_prefixes t = []"
  by (cases "trace_prefixes t")
    (auto simp: trace_path_to_string_def join_hops hops_then_def trace_prefix_to_string_def
      simp del: map_append)

lemma trace_path_round_trip:
  "valid_trace_path t \<Longrightarrow> trace_path_from_str (trace_path_to_string t) = Ok t"
  by (cases "trace_prefixes t = []"; cases t)
    (simp_all add: trace_path_from_str_def trace_path_to_string_empty_iff trace_path_trim_print
      trace_path_empty_def)

lemma trace_path_trimD:
  assumes "trace_path_trim s = (t, r)"
  shows "valid_trace_path t \<and> (case r of
      Some rest \<Rightarrow> s = hops_then (rev (trace_prefixes t)) rest \<and> trace_prefix_strip rest = None
    | None \<Rightarrow> trace_prefixes t \<noteq> [] \<and> s = trace_path_to_string t)"
proof -
  obtain ps where loop: "trace_trim_loop [] (Some s) = (ps, r)" and t: "t = TracePath (rev ps)"
    using assms by (auto simp: trace_path_trim_def split: prod.splits)
  from trace_trim_loop_SomeD [OF loop] have ps: "list_all valid_trace_prefix ps"
    "case r of Some rest \<Rightarrow> s = hops_then ps rest \<and> trace_prefix_strip rest = None
     | None \<Rightarrow> ps \<noteq> [] \<and> s = hops_then (butlast ps) (trace_prefix_to_string (last ps))" by auto
  show ?thesis
    using ps join_hops [of "butlast ps" "last ps"]
    by (auto simp: t valid_trace_path_def trace_path_to_string_def split: option.splits
        simp del: map_append)
qed

text \<open>Printing a parsed denomination gives the text back; what the parser leaves as the
  base does not begin with another hop, unless the whole text is hops.\<close>

lemma prefixed_denom_print_parse:
  assumes "prefixed_denom_from_str s = Ok d"
  shows "prefixed_denom_to_string d = s" "valid_trace_path (trace_path d)"
    "str_trim (base_denom_str (base_denom d)) \<noteq> []"
  using assms trace_path_trimD [of s]
  by (auto simp: prefixed_denom_from_str_def result_simps prefixed_denom_to_string_hops
      trace_path_empty_def valid_trace_path_def split: prod.splits option.splits)

lemma prefixed_denom_parse_print:
  assumes "valid_trace_path (trace_path d)" "str_trim (base_denom_str (base_denom d)) \<noteq> []"
  shows "prefixed_denom_from_str (prefixed_denom_to_string d) = Ok d \<longleftrightarrow>
    trace_prefix_strip (base_denom_str (base_denom d)) = None
    \<or> trace_prefixes (trace_path d) = [] \<and> snd (trace_path_trim (base_denom_str (base_denom d))) = None"
    (is "?parse \<longleftrightarrow> ?rhs")
proof
  assume ?parse
  then show ?rhs
    using trace_path_trimD [of "prefixed_denom_to_string d"]
    by (auto simp: prefixed_denom_from_str_def result_simps prefixed_denom_to_string_hops
        trace_path_empty_def split: prod.splits option.splits)
next
  assume rhs: ?rhs
  obtain t b where d: "d = \<lparr>trace_path = t, base_denom = BaseDenom b\<rparr>"
    by (metis base_denom.exhaust prefixed_denom.cases)
  show ?parse
  proof (cases "trace_prefix_strip b")
    case None
    with assms show ?thesis
      by (simp add: d prefixed_denom_from_str_def prefixed_denom_to_string_hops
          trace_path_trim_print base_denom_from_str_def)
  next
    case Some
    with rhs assms show ?thesis
      by (cases "trace_path_trim b"; cases t)
        (simp add: d prefixed_denom_from_str_def prefixed_denom_to_string_hops
          base_denom_from_str_def trace_path_empty_def)
  qed
qed

lemma prefixed_denom_raw_round_trip:
  assumes "valid_trace_path (trace_path d)" "str_trim (base_denom_str (base_denom d)) \<noteq> []"
  shows "prefixed_denom_try_from (prefixed_denom_to_raw d) = Ok d"
  using assms by (simp add: prefixed_denom_try_from_def prefixed_denom_to_raw_def
      trace_path_round_trip base_denom_from_str_def)

lemma trace_prefix_new_eta [simp]: "trace_prefix_new (tp_port_id p) (tp_channel_id p) = p"
  by (simp add: trace_prefix_new_def)

lemma add_remove_trace_prefix [simp]:
  "remove_trace_prefix p (add_trace_prefix p d) = d"
  "is_receiver_chain_source (tp_port_id p) (tp_channel_id p) (add_trace_prefix p d)"
  by (cases d rule: prefixed_denom.cases, cases p rule: trace_prefix.cases,
      simp add: remove_trace_prefix_def add_trace_prefix_def trace_path_remove_prefix_def
      trace_path_add_prefix_def trace_path_starts_with_def is_receiver_chain_source_def
      trace_prefix_new_def)+

lemma trace_path_starts_with_iff: "trace_path_starts_with t p \<longleftrightarrow> (\<exists>ps. t = TracePath (ps @ [p]))"
  by (cases t) (auto simp: trace_path_starts_with_def intro: append_butlast_last_id [symmetric])

lemma remove_add_trace_prefix:
  assumes "is_receiver_chain_source (tp_port_id p) (tp_channel_id p) d"
  shows "add_trace_prefix p (remove_trace_prefix p d) = d"
proof -
  have "trace_path_starts_with (trace_path d) p"
    using assms by (simp add: is_receiver_chain_source_def)
  then obtain ps where "trace_path d = TracePath (ps @ [p])"
    by (auto simp: trace_path_starts_with_iff)
  then show ?thesis
    by (simp add: remove_trace_prefix_def add_trace_prefix_def trace_path_remove_prefix_def
        trace_path_add_prefix_def trace_path_starts_with_def)
qed


section \<open>Wire form of packet data and messages\<close>

text \<open>What the round trips rely on of the decimal text of a \<open>U256\<close> and of the JSON form: that
  reading is inverse to writing.\<close>

definition amount_text_inverse :: "transfer_ext \<Rightarrow> bool" where
  "amount_text_inverse te \<longleftrightarrow> (\<forall>a. te_from_dec_str te (te_u256_to_string te a) = Ok a)"

definition json_inverse :: "transfer_ext \<Rightarrow> bool" where
  "json_inverse te \<longleftrightarrow> (\<forall>raw. te_json_packet_data te (te_json_to_vec te raw) = Some raw)"

text \<open>Denominations that survive being printed and parsed again.\<close>

definition printable_denom :: "prefixed_denom \<Rightarrow> bool" where
  "printable_denom d \<longleftrightarrow> prefixed_denom_from_str (prefixed_denom_to_string d) = Ok d"

lemma parsed_denom_printable: "prefixed_denom_from_str s = Ok d \<Longrightarrow> printable_denom d"
  by (simp add: printable_denom_def prefixed_denom_print_parse(1))

lemma packet_data_raw_round_trip:
  assumes "amount_text_inverse te" "printable_denom (coin_denom (td_token d))"
  shows "packet_data_try_from te (packet_data_to_raw te d) = Ok d"
  using assms by (cases "td_sender d"; cases "td_receiver d")
    (simp add: packet_data_try_from_def packet_data_to_raw_def printable_denom_def
      amount_text_inverse_def amount_from_str_def signer_to_string_def)

lemma json_packet_data_round_trip:
  assumes "amount_text_inverse te" "json_inverse te" "printable_denom (coin_denom (td_token d))"
  shows "json_to_packet_data te (packet_data_to_json te d) = Some d"
  using assms by (simp add: json_to_packet_data_def packet_data_to_json_def json_inverse_def
      packet_data_raw_round_trip ok_opt_def)

lemma json_packet_data_printable:
  "json_to_packet_data te b = Some d \<Longrightarrow> printable_denom (coin_denom (td_token d))"
  by (auto simp: json_to_packet_data_def bind_eq_Some_conv packet_data_try_from_def
      result_simps parsed_denom_printable)

lemma token_transfer_error_to_string_not_empty [simp]:
  "token_transfer_error_to_string te e \<noteq> []"
  by (cases e) simp_all

lemma status_value_from_error_total [simp]:
  "status_value_from_error te e = Ok (StatusValue (token_transfer_error_to_string te e))"
  by (simp add: status_value_from_error_def status_value_new_def)

lemma ack_success_b64_total [simp]: "ack_success_b64 = Ok (StatusValue ''AQ=='')"
  by (simp add: ack_success_b64_def status_value_new_def)

end
