(* ===== verification/Transfer_Handlers.thy ===== *)
theory Transfer_Handlers
  imports Transfer_Types Packet_Handlers
begin

text \<open>
  The fungible token transfer application (ICS-20), crate \<open>ibc-app-transfer\<close>: sending a
  transfer and the callbacks of the module.

  The host's bank is behind the traits \<open>TokenTransferValidationContext\<close> and
  \<open>TokenTransferExecutionContext\<close>; its operations are the fields of \<open>transfer_ops\<close> and
  its state has the type \<open>'t\<close>.  Sending works on the state of the core and on that of
  the bank, a pair.
\<close>

section \<open>The host's bank\<close>

type_synonym prefixed_coin = "prefixed_denom coin"

record ('acc, 't) transfer_ops =
  to_account :: "signer \<Rightarrow> 'acc option"
  get_port :: "'t \<Rightarrow> (port_id, token_transfer_error) result"
  can_send_coins :: "'t \<Rightarrow> (unit, token_transfer_error) result"
  can_receive_coins :: "'t \<Rightarrow> (unit, token_transfer_error) result"
  escrow_coins_validate :: "'acc \<Rightarrow> port_id \<Rightarrow> channel_id \<Rightarrow> prefixed_coin \<Rightarrow> memo
    \<Rightarrow> 't \<Rightarrow> (unit, token_transfer_error) result"
  unescrow_coins_validate :: "'acc \<Rightarrow> port_id \<Rightarrow> channel_id \<Rightarrow> prefixed_coin
    \<Rightarrow> 't \<Rightarrow> (unit, token_transfer_error) result"
  mint_coins_validate :: "'acc \<Rightarrow> prefixed_coin \<Rightarrow> 't \<Rightarrow> (unit, token_transfer_error) result"
  burn_coins_validate ::
    "'acc \<Rightarrow> prefixed_coin \<Rightarrow> memo \<Rightarrow> 't \<Rightarrow> (unit, token_transfer_error) result"
  denom_hash_string :: "prefixed_denom \<Rightarrow> 't \<Rightarrow> string option"
  escrow_coins_execute :: "'acc \<Rightarrow> port_id \<Rightarrow> channel_id \<Rightarrow> prefixed_coin \<Rightarrow> memo
    \<Rightarrow> ('t, unit, token_transfer_error) exec"
  unescrow_coins_execute :: "'acc \<Rightarrow> port_id \<Rightarrow> channel_id \<Rightarrow> prefixed_coin
    \<Rightarrow> ('t, unit, token_transfer_error) exec"
  mint_coins_execute :: "'acc \<Rightarrow> prefixed_coin \<Rightarrow> ('t, unit, token_transfer_error) exec"
  burn_coins_execute :: "'acc \<Rightarrow> prefixed_coin \<Rightarrow> memo \<Rightarrow> ('t, unit, token_transfer_error) exec"


section \<open>Sending\<close>

definition transfer_packet ::
  "transfer_ext \<Rightarrow> msg_transfer \<Rightarrow> sequence \<Rightarrow> port_id \<Rightarrow> channel_id \<Rightarrow> packet" where
  "transfer_packet te msg sequence p_b c_b =
     \<lparr>seq_on_a = sequence, port_id_on_a = mt_port_id_on_a msg, chan_id_on_a = mt_chan_id_on_a msg,
      port_id_on_b = p_b, chan_id_on_b = c_b,
      packet_data = packet_data_to_json te (mt_packet_data msg),
      timeout_height_on_b = mt_timeout_height_on_b msg,
      timeout_timestamp_on_b = mt_timeout_timestamp_on_b msg\<rparr>"

definition send_transfer_validate ::
  "('cs, 'cons) client_ops \<Rightarrow> transfer_ext \<Rightarrow> ('acc, 't) transfer_ops \<Rightarrow> msg_transfer
     \<Rightarrow> ('cs, 'cons) ibc_store \<times> 't \<Rightarrow> (unit, token_transfer_error) result" where
  "send_transfer_validate env te ops msg = (\<lambda>(ctx_a, token_ctx_a).
     and_then (can_send_coins ops token_ctx_a) (\<lambda>_.
     and_then (map_err TransferContextError (channel_end ctx_a
         (ChannelEndPath (mt_port_id_on_a msg) (mt_chan_id_on_a msg)))) (\<lambda>chan_end_on_a.
     let p_b = hcp_port_id (ch_remote chan_end_on_a) in
     and_then (ok_or (hcp_channel_id (ch_remote chan_end_on_a))
         (DestinationChannelNotFound (mt_port_id_on_a msg) (mt_chan_id_on_a msg))) (\<lambda>c_b.
     and_then (map_err TransferContextError (get_next_sequence_send ctx_a
         (SeqSendPath (mt_port_id_on_a msg) (mt_chan_id_on_a msg)))) (\<lambda>sequence.
     let token = td_token (mt_packet_data msg) in
     and_then (ok_or (to_account ops (td_sender (mt_packet_data msg))) ParseAccountFailure) (\<lambda>sender.
     and_then (if is_sender_chain_source (mt_port_id_on_a msg) (mt_chan_id_on_a msg) (coin_denom token)
         then escrow_coins_validate ops sender (mt_port_id_on_a msg) (mt_chan_id_on_a msg) token
                (td_memo (mt_packet_data msg)) token_ctx_a
         else burn_coins_validate ops sender token (td_memo (mt_packet_data msg)) token_ctx_a) (\<lambda>_.
     map_err TransferContextError
       (send_packet_validate env (transfer_packet te msg sequence p_b c_b) ctx_a))))))))"

definition send_transfer_execute ::
  "('cs, 'cons) client_ops \<Rightarrow> transfer_ext \<Rightarrow> ('acc, 't) transfer_ops \<Rightarrow> msg_transfer
     \<Rightarrow> (('cs, 'cons) ibc_store \<times> 't, unit, token_transfer_error) exec" where
  "send_transfer_execute env te ops msg = (
     let data = mt_packet_data msg; token = td_token data in
     exec_bind (exec_fst (exec_map_err TransferContextError (exec_read (\<lambda>ctx_a. channel_end ctx_a
         (ChannelEndPath (mt_port_id_on_a msg) (mt_chan_id_on_a msg)))))) (\<lambda>chan_end_on_a.
     let port_on_b = hcp_port_id (ch_remote chan_end_on_a) in
     exec_bind (exec_lift (ok_or (hcp_channel_id (ch_remote chan_end_on_a))
         (DestinationChannelNotFound (mt_port_id_on_a msg) (mt_chan_id_on_a msg)))) (\<lambda>chan_on_b.
     exec_bind (exec_fst (exec_map_err TransferContextError (exec_read (\<lambda>ctx_a.
         get_next_sequence_send ctx_a
           (SeqSendPath (mt_port_id_on_a msg) (mt_chan_id_on_a msg)))))) (\<lambda>sequence.
     exec_bind (exec_lift (ok_or (to_account ops (td_sender data)) ParseAccountFailure)) (\<lambda>sender.
     exec_bind (exec_snd
        (if is_sender_chain_source (mt_port_id_on_a msg) (mt_chan_id_on_a msg) (coin_denom token)
         then escrow_coins_execute ops sender (mt_port_id_on_a msg) (mt_chan_id_on_a msg) token
                (td_memo data)
         else burn_coins_execute ops sender token (td_memo data))) (\<lambda>_.
     exec_fst (exec_map_err TransferContextError (
       exec_bind (send_packet_execute env (transfer_packet te msg sequence port_on_b chan_on_b)) (\<lambda>_.
       exec_bind (log_message (''IBC fungible token transfer: '' @ signer_to_string (td_sender data)
           @ '' --('' @ coin_to_string te prefixed_denom_to_string token @ '')--> ''
           @ signer_to_string (td_receiver data))) (\<lambda>_.
       exec_bind (emit_ibc_event (ModuleEvent (transfer_event_to_module te
           (TransferEvent (td_sender data) (td_receiver data) (coin_amount token)
              (coin_denom token) (td_memo data))))) (\<lambda>_.
       emit_ibc_event (MessageEvent (MsgModule module_id_str)))))))))))))"

definition send_transfer ::
  "('cs, 'cons) client_ops \<Rightarrow> transfer_ext \<Rightarrow> ('acc, 't) transfer_ops \<Rightarrow> msg_transfer
     \<Rightarrow> (('cs, 'cons) ibc_store \<times> 't, unit, token_transfer_error) exec" where
  "send_transfer env te ops msg =
     exec_bind (exec_read (send_transfer_validate env te ops msg)) (\<lambda>_.
     send_transfer_execute env te ops msg)"


section \<open>Refunds\<close>

definition refund_packet_token_execute ::
  "('acc, 't) transfer_ops \<Rightarrow> packet \<Rightarrow> transfer_packet_data
     \<Rightarrow> ('t, unit, token_transfer_error) exec" where
  "refund_packet_token_execute ops packet data =
     exec_bind (exec_lift (ok_or (to_account ops (td_sender data)) ParseAccountFailure)) (\<lambda>sender.
     if is_sender_chain_source (port_id_on_a packet) (chan_id_on_a packet) (coin_denom (td_token data))
     then unescrow_coins_execute ops sender (port_id_on_a packet) (chan_id_on_a packet) (td_token data)
     else mint_coins_execute ops sender (td_token data))"

definition refund_packet_token_validate ::
  "('acc, 't) transfer_ops \<Rightarrow> packet \<Rightarrow> transfer_packet_data \<Rightarrow> 't
     \<Rightarrow> (unit, token_transfer_error) result" where
  "refund_packet_token_validate ops packet data ctx_a =
     and_then (ok_or (to_account ops (td_sender data)) ParseAccountFailure) (\<lambda>sender.
     if is_sender_chain_source (port_id_on_a packet) (chan_id_on_a packet) (coin_denom (td_token data))
     then unescrow_coins_validate ops sender (port_id_on_a packet) (chan_id_on_a packet)
            (td_token data) ctx_a
     else mint_coins_validate ops sender (td_token data) ctx_a)"

section \<open>Callbacks of the channel handshake\<close>

text \<open>The functions keep the names of the source behind the prefix \<open>transfer_\<close>; the
  parameters the source ignores are left out.\<close>

definition transfer_on_chan_open_init_validate ::
  "('acc, 't) transfer_ops \<Rightarrow> order \<Rightarrow> port_id \<Rightarrow> chan_version \<Rightarrow> 't
     \<Rightarrow> (unit, token_transfer_error) result" where
  "transfer_on_chan_open_init_validate ops order' p version ctx =
     (if order' \<noteq> Unordered then Err (ChannelNotUnordered Unordered order')
      else and_then (get_port ops ctx) (\<lambda>bound_port.
        if p \<noteq> bound_port then Err (InvalidPort p bound_port)
        else if \<not> chan_version_is_empty version
        then map_err (TransferContextError \<circ> ChannelError)
               (verify_is_expected version (ChanVersion transfer_version))
        else Ok ()))"

definition transfer_on_chan_open_init_execute ::
  "('t, module_extras \<times> chan_version, token_transfer_error) exec" where
  "transfer_on_chan_open_init_execute =
     exec_return (module_extras_empty, ChanVersion transfer_version)"

definition transfer_on_chan_open_try_validate ::
  "order \<Rightarrow> chan_version \<Rightarrow> (unit, token_transfer_error) result" where
  "transfer_on_chan_open_try_validate order' counterparty_version =
     (if order' \<noteq> Unordered then Err (ChannelNotUnordered Unordered order')
      else map_err (TransferContextError \<circ> ChannelError)
             (verify_is_expected counterparty_version (ChanVersion transfer_version)))"

definition transfer_on_chan_open_try_execute ::
  "('t, module_extras \<times> chan_version, token_transfer_error) exec" where
  "transfer_on_chan_open_try_execute =
     exec_return (module_extras_empty, ChanVersion transfer_version)"

definition transfer_on_chan_open_ack_validate ::
  "chan_version \<Rightarrow> (unit, token_transfer_error) result" where
  "transfer_on_chan_open_ack_validate counterparty_version =
     map_err (TransferContextError \<circ> ChannelError)
       (verify_is_expected counterparty_version (ChanVersion transfer_version))"

definition transfer_on_chan_open_ack_execute ::
  "('t, module_extras, token_transfer_error) exec" where
  "transfer_on_chan_open_ack_execute = exec_return module_extras_empty"

definition transfer_on_chan_open_confirm_validate :: "(unit, token_transfer_error) result" where
  "transfer_on_chan_open_confirm_validate = Ok ()"

definition transfer_on_chan_open_confirm_execute ::
  "('t, module_extras, token_transfer_error) exec" where
  "transfer_on_chan_open_confirm_execute = exec_return module_extras_empty"

definition transfer_on_chan_close_init_validate :: "(unit, token_transfer_error) result" where
  "transfer_on_chan_close_init_validate = Err CantCloseChannel"

definition transfer_on_chan_close_init_execute ::
  "('t, module_extras, token_transfer_error) exec" where
  "transfer_on_chan_close_init_execute = exec_lift (Err CantCloseChannel)"

definition transfer_on_chan_close_confirm_validate :: "(unit, token_transfer_error) result" where
  "transfer_on_chan_close_confirm_validate = Ok ()"

definition transfer_on_chan_close_confirm_execute ::
  "('t, module_extras, token_transfer_error) exec" where
  "transfer_on_chan_close_confirm_execute = exec_return module_extras_empty"


section \<open>Receiving\<close>

text \<open>An error comes with the events that are emitted all the same.\<close>

definition with_extras ::
  "module_extras \<Rightarrow> ('a, token_transfer_error) result
     \<Rightarrow> ('a, module_extras \<times> token_transfer_error) result" where
  "with_extras extras r = map_err (\<lambda>e. (extras, e)) r"

definition process_recv_packet_execute ::
  "transfer_ext \<Rightarrow> ('acc, 't) transfer_ops \<Rightarrow> packet \<Rightarrow> transfer_packet_data
     \<Rightarrow> ('t, module_extras, module_extras \<times> token_transfer_error) exec" where
  "process_recv_packet_execute te ops packet data =
     exec_bind (exec_read (\<lambda>ctx_b. with_extras module_extras_empty (can_receive_coins ops ctx_b))) (\<lambda>_.
     exec_bind (exec_lift (with_extras module_extras_empty
         (ok_or (to_account ops (td_receiver data)) ParseAccountFailure))) (\<lambda>receiver_account.
     if is_receiver_chain_source (port_id_on_a packet) (chan_id_on_a packet)
          (coin_denom (td_token data))
     then
       let prefix = trace_prefix_new (port_id_on_a packet) (chan_id_on_a packet);
           coin = (td_token data)\<lparr>coin_denom := remove_trace_prefix prefix (coin_denom (td_token data))\<rparr>
       in
       exec_bind (exec_read (\<lambda>ctx_b. with_extras module_extras_empty
           (unescrow_coins_validate ops receiver_account (port_id_on_b packet) (chan_id_on_b packet)
              coin ctx_b))) (\<lambda>_.
       exec_bind (exec_map_err (\<lambda>e. (module_extras_empty, e))
           (unescrow_coins_execute ops receiver_account (port_id_on_b packet) (chan_id_on_b packet)
              coin)) (\<lambda>_.
       exec_return module_extras_empty))
     else
       let prefix = trace_prefix_new (port_id_on_b packet) (chan_id_on_b packet);
           coin = (td_token data)\<lparr>coin_denom := add_trace_prefix prefix (coin_denom (td_token data))\<rparr>
       in
       exec_bind (exec_read (\<lambda>ctx_b. Ok (denom_hash_string ops (coin_denom coin) ctx_b))) (\<lambda>trace_hash.
       let extras = \<lparr>extras_events =
             [transfer_event_to_module te (DenomTraceEvent trace_hash (coin_denom coin))],
             extras_log = []\<rparr>
       in
       exec_bind (exec_read (\<lambda>ctx_b. with_extras extras
           (mint_coins_validate ops receiver_account coin ctx_b))) (\<lambda>_.
       exec_bind (exec_map_err (\<lambda>e. (extras, e))
           (mint_coins_execute ops receiver_account coin)) (\<lambda>_.
       exec_return extras)))))"

text \<open>The callback always answers: a failure becomes an error acknowledgement.  Its
  \<open>Err\<close> case does not occur; a panic could only come from one of the two \<open>expect\<close>s on
  the way to the acknowledgement, or from the host.\<close>

definition transfer_on_recv_packet_execute ::
  "transfer_ext \<Rightarrow> ('acc, 't) transfer_ops \<Rightarrow> packet
     \<Rightarrow> ('t, module_extras \<times> acknowledgement, 'e) exec" where
  "transfer_on_recv_packet_execute te ops packet = (\<lambda>ctx_b.
     case json_to_packet_data te (packet_data packet) of
       None \<Rightarrow>
         (and_then (status_value_from_error te PacketDataDeserialization) (\<lambda>v.
          and_then (acknowledgement_from_status (AckError v)) (\<lambda>ack.
          Ok (module_extras_empty, ack))), ctx_b)
     | Some data \<Rightarrow> (
         case process_recv_packet_execute te ops packet data ctx_b of
           (r, ctx_b') \<Rightarrow>
             (and_then (case r of
                 Ok extras \<Rightarrow> map_ok (\<lambda>v. (extras, AckSuccess v)) ack_success_b64
               | Err (extras, error) \<Rightarrow>
                   map_ok (\<lambda>v. (extras, AckError v)) (status_value_from_error te error)
               | Panic \<Rightarrow> Panic) (\<lambda>(extras, ack_status).
              and_then (acknowledgement_from_status ack_status) (\<lambda>ack.
              Ok (extras\<lparr>extras_events := extras_events extras @ [transfer_event_to_module te
                    (RecvEvent (td_sender data) (td_receiver data) (coin_denom (td_token data))
                       (coin_amount (td_token data)) (td_memo data)
                       (ack_status_is_successful ack_status))]\<rparr>,
                  ack))), ctx_b')))"


section \<open>Acknowledgements and timeouts\<close>

definition transfer_on_acknowledgement_packet_validate ::
  "transfer_ext \<Rightarrow> ('acc, 't) transfer_ops \<Rightarrow> packet \<Rightarrow> acknowledgement \<Rightarrow> 't
     \<Rightarrow> (unit, token_transfer_error) result" where
  "transfer_on_acknowledgement_packet_validate te ops packet ack ctx =
     and_then (ok_or (json_to_packet_data te (packet_data packet)) PacketDataDeserialization) (\<lambda>data.
     and_then (ok_or (te_json_ack_status te (acknowledgement_bytes ack)) AckDeserialization) (\<lambda>ack_status.
     if \<not> ack_status_is_successful ack_status then refund_packet_token_validate ops packet data ctx
     else Ok ()))"

definition transfer_on_acknowledgement_packet_execute ::
  "transfer_ext \<Rightarrow> ('acc, 't) transfer_ops \<Rightarrow> packet \<Rightarrow> acknowledgement
     \<Rightarrow> 't \<Rightarrow> (module_extras \<times> (unit, token_transfer_error) result) \<times> 't" where
  "transfer_on_acknowledgement_packet_execute te ops packet ack ctx =
     (case json_to_packet_data te (packet_data packet) of
        None \<Rightarrow> ((module_extras_empty, Err PacketDataDeserialization), ctx)
      | Some data \<Rightarrow> (
          case te_json_ack_status te (acknowledgement_bytes ack) of
            None \<Rightarrow> ((module_extras_empty, Err AckDeserialization), ctx)
          | Some ack_status \<Rightarrow> (
              case (if \<not> ack_status_is_successful ack_status
                    then refund_packet_token_execute ops packet data ctx else (Ok (), ctx)) of
                (Ok _, ctx') \<Rightarrow>
                  ((\<lparr>extras_events =
                      [transfer_event_to_module te
                         (AckEvent (td_sender data) (td_receiver data) (coin_denom (td_token data))
                            (coin_amount (td_token data)) (td_memo data) ack_status),
                       transfer_event_to_module te (AckStatusEvent ack_status)],
                     extras_log = []\<rparr>, Ok ()), ctx')
              | (Err err, ctx') \<Rightarrow> ((module_extras_empty, Err err), ctx')
              | (Panic, ctx') \<Rightarrow> ((module_extras_empty, Panic), ctx'))))"

definition transfer_on_timeout_packet_validate ::
  "transfer_ext \<Rightarrow> ('acc, 't) transfer_ops \<Rightarrow> packet \<Rightarrow> 't \<Rightarrow> (unit, token_transfer_error) result" where
  "transfer_on_timeout_packet_validate te ops packet ctx =
     and_then (ok_or (json_to_packet_data te (packet_data packet)) PacketDataDeserialization) (\<lambda>data.
     refund_packet_token_validate ops packet data ctx)"

definition transfer_on_timeout_packet_execute ::
  "transfer_ext \<Rightarrow> ('acc, 't) transfer_ops \<Rightarrow> packet
     \<Rightarrow> 't \<Rightarrow> (module_extras \<times> (unit, token_transfer_error) result) \<times> 't" where
  "transfer_on_timeout_packet_execute te ops packet ctx =
     (case json_to_packet_data te (packet_data packet) of
        None \<Rightarrow> ((module_extras_empty, Err PacketDataDeserialization), ctx)
      | Some data \<Rightarrow> (
          case refund_packet_token_execute ops packet data ctx of
            (Ok _, ctx') \<Rightarrow>
              ((\<lparr>extras_events = [transfer_event_to_module te
                   (TimeoutEvent (td_sender data) (coin_denom (td_token data))
                      (coin_amount (td_token data)) (td_memo data))],
                 extras_log = []\<rparr>, Ok ()), ctx')
          | (Err err, ctx') \<Rightarrow> ((module_extras_empty, Err err), ctx')
          | (Panic, ctx') \<Rightarrow> ((module_extras_empty, Panic), ctx')))"

end
