(* ===== verification/Transfer_Ledger.thy ===== *)
theory Transfer_Ledger
  imports Transfer_Handlers
begin

text \<open>
  What the transfer application promises when the host's bank keeps its books: an abstract
  ledger, the correspondence of a bank with it, and two chains that exchange transfers over
  one channel.

  The main lemma (\<open>vouchers_backed_reachable\<close>) is the conservation of tokens: whatever is
  sent, received, refunded or moved otherwise, the tokens a chain holds in escrow for the
  channel are the vouchers of the other chain plus what is on its way.
\<close>

section \<open>An abstract ledger\<close>

record 'acc ledger =
  total_supply :: "prefixed_denom \<Rightarrow> nat"
  escrowed :: "port_id \<Rightarrow> channel_id \<Rightarrow> prefixed_denom \<Rightarrow> nat"
  balance :: "'acc \<Rightarrow> prefixed_denom \<Rightarrow> nat"

text \<open>Adding to, and taking from, one of many accounts.\<close>

definition credit :: "('k \<Rightarrow> prefixed_denom \<Rightarrow> nat) \<Rightarrow> 'k \<Rightarrow> prefixed_coin \<Rightarrow> 'k \<Rightarrow> prefixed_denom \<Rightarrow> nat"
where
  "credit f k coin = f(k := (f k)(coin_denom coin := f k (coin_denom coin) + unat (coin_amount coin)))"

definition debit ::
  "('k \<Rightarrow> prefixed_denom \<Rightarrow> nat) \<Rightarrow> 'k \<Rightarrow> prefixed_coin \<Rightarrow> ('k \<Rightarrow> prefixed_denom \<Rightarrow> nat) option" where
  "debit f k coin =
     (if unat (coin_amount coin) \<le> f k (coin_denom coin)
      then Some (f(k := (f k)(coin_denom coin := f k (coin_denom coin) - unat (coin_amount coin))))
      else None)"

definition ledger_escrow ::
  "'acc \<Rightarrow> port_id \<Rightarrow> channel_id \<Rightarrow> prefixed_coin \<Rightarrow> 'acc ledger \<Rightarrow> 'acc ledger option" where
  "ledger_escrow a p c coin l = map_option (\<lambda>b.
     l\<lparr>balance := b, escrowed := (escrowed l)(p := credit (escrowed l p) c coin)\<rparr>)
     (debit (balance l) a coin)"

definition ledger_unescrow ::
  "'acc \<Rightarrow> port_id \<Rightarrow> channel_id \<Rightarrow> prefixed_coin \<Rightarrow> 'acc ledger \<Rightarrow> 'acc ledger option" where
  "ledger_unescrow a p c coin l = map_option (\<lambda>e.
     l\<lparr>balance := credit (balance l) a coin, escrowed := (escrowed l)(p := e)\<rparr>)
     (debit (escrowed l p) c coin)"

definition ledger_mint :: "'acc \<Rightarrow> prefixed_coin \<Rightarrow> 'acc ledger \<Rightarrow> 'acc ledger option" where
  "ledger_mint a coin l = Some (l\<lparr>balance := credit (balance l) a coin,
     total_supply := credit (\<lambda>_. total_supply l) () coin ()\<rparr>)"

definition ledger_burn :: "'acc \<Rightarrow> prefixed_coin \<Rightarrow> 'acc ledger \<Rightarrow> 'acc ledger option" where
  "ledger_burn a coin l = Option.bind (debit (balance l) a coin) (\<lambda>b.
     map_option (\<lambda>s. l\<lparr>balance := b, total_supply := s ()\<rparr>) (debit (\<lambda>_. total_supply l) () coin))"

text \<open>One operation of a bank does to the view of its state what the operation of the ledger
  does, or fails and moves nothing.\<close>

definition follows ::
  "('t \<Rightarrow> 'l) \<Rightarrow> ('t, unit, 'e) exec \<Rightarrow> ('l \<Rightarrow> 'l option) \<Rightarrow> bool" where
  "follows view m f \<longleftrightarrow> (\<forall>t r t'. m t = (r, t') \<longrightarrow>
     (if r = Ok () then f (view t) = Some (view t') else view t' = view t))"

text \<open>A bank that keeps its books, as the documentation of the context traits describes its
  operations.\<close>

definition keeps_books :: "('acc, 't) transfer_ops \<Rightarrow> ('t \<Rightarrow> 'acc ledger) \<Rightarrow> bool" where
  "keeps_books ops view \<longleftrightarrow>
     (\<forall>a p c coin memo. follows view (escrow_coins_execute ops a p c coin memo) (ledger_escrow a p c coin))
   \<and> (\<forall>a p c coin. follows view (unescrow_coins_execute ops a p c coin) (ledger_unescrow a p c coin))
   \<and> (\<forall>a coin. follows view (mint_coins_execute ops a coin) (ledger_mint a coin))
   \<and> (\<forall>a coin memo. follows view (burn_coins_execute ops a coin memo) (ledger_burn a coin))"

text \<open>A bank that releases what it holds in escrow.\<close>

definition releases_escrow :: "('acc, 't) transfer_ops \<Rightarrow> ('t \<Rightarrow> 'acc ledger) \<Rightarrow> bool" where
  "releases_escrow ops view \<longleftrightarrow> (\<forall>a p c coin t.
     unat (coin_amount coin) \<le> escrowed (view t) p c (coin_denom coin) \<longrightarrow>
     fst (unescrow_coins_execute ops a p c coin t) = Ok ())"

lemma followsD:
  assumes "follows view m f" "m t = (r, t')"
  shows "r = Ok () \<Longrightarrow> f (view t) = Some (view t')" "r \<noteq> Ok () \<Longrightarrow> view t' = view t"
  using assms by (auto simp: follows_def)

lemma ledger_unescrow_escrow:
  "ledger_escrow a p c coin l = Some l' \<Longrightarrow> ledger_unescrow a p c coin l' = Some l"
  by (cases l) (auto simp: ledger_escrow_def ledger_unescrow_def credit_def debit_def fun_upd_idem_iff
      split: if_splits)

lemma ledger_mint_burn: "ledger_burn a coin l = Some l' \<Longrightarrow> ledger_mint a coin l' = Some l"
  by (cases l) (auto simp: ledger_burn_def ledger_mint_def credit_def debit_def fun_upd_idem_iff
      bind_eq_Some_conv split: if_splits)

text \<open>The effect of the operations on the two figures the conservation law is about.\<close>

lemma ledger_escrowD:
  assumes "ledger_escrow a p c coin l = Some l'"
  shows "total_supply l' = total_supply l"
    "escrowed l' p' c' d = escrowed l p' c' d
       + (if p' = p \<and> c' = c \<and> d = coin_denom coin then unat (coin_amount coin) else 0)"
  using assms by (auto simp: ledger_escrow_def credit_def)

lemma ledger_unescrowD:
  assumes "ledger_unescrow a p c coin l = Some l'"
  shows "total_supply l' = total_supply l"
    "escrowed l p' c' d = escrowed l' p' c' d
       + (if p' = p \<and> c' = c \<and> d = coin_denom coin then unat (coin_amount coin) else 0)"
  using assms by (auto simp: ledger_unescrow_def debit_def split: if_splits)

lemma ledger_mintD:
  assumes "ledger_mint a coin l = Some l'"
  shows "escrowed l' = escrowed l"
    "total_supply l' d = total_supply l d + (if d = coin_denom coin then unat (coin_amount coin) else 0)"
  using assms by (auto simp: ledger_mint_def credit_def)

lemma ledger_burnD:
  assumes "ledger_burn a coin l = Some l'"
  shows "escrowed l' = escrowed l"
    "total_supply l d = total_supply l' d + (if d = coin_denom coin then unat (coin_amount coin) else 0)"
  using assms by (auto simp: ledger_burn_def debit_def bind_eq_Some_conv split: if_splits)

section \<open>The application on a bank that keeps its books\<close>

definition success_ack :: acknowledgement where
  "success_ack = Acknowledgement (ack_status_to_bytes (AckSuccess (StatusValue ''AQ=='')))"

definition error_ack :: "acknowledgement \<Rightarrow> bool" where
  "error_ack ack \<longleftrightarrow> (\<exists>v. ack = Acknowledgement (ack_status_to_bytes (AckError v)))"

lemma error_ackI [intro, simp]: "error_ack (Acknowledgement (ack_status_to_bytes (AckError v)))"
  by (auto simp: error_ack_def)

lemma error_ack_not_success:
  assumes "error_ack ack"
  shows "ack \<noteq> success_ack"
proof -
  obtain w where "ack = Acknowledgement (ack_status_to_bytes (AckError (StatusValue w)))"
    using assms by (metis error_ack_def status_value.exhaust)
  then show ?thesis by (simp add: success_ack_def string_bytes_def)
qed

text \<open>The coin the receiver gets, and what its bank does to hand it out.\<close>

definition received_coin :: "packet \<Rightarrow> prefixed_coin \<Rightarrow> prefixed_coin" where
  "received_coin p coin =
     coin\<lparr>coin_denom :=
       if is_receiver_chain_source (port_id_on_a p) (chan_id_on_a p) (coin_denom coin)
       then remove_trace_prefix (trace_prefix_new (port_id_on_a p) (chan_id_on_a p)) (coin_denom coin)
       else add_trace_prefix (trace_prefix_new (port_id_on_b p) (chan_id_on_b p)) (coin_denom coin)\<rparr>"

definition ledger_receive ::
  "'acc \<Rightarrow> packet \<Rightarrow> prefixed_coin \<Rightarrow> 'acc ledger \<Rightarrow> 'acc ledger option" where
  "ledger_receive a p coin =
     (if is_receiver_chain_source (port_id_on_a p) (chan_id_on_a p) (coin_denom coin)
      then ledger_unescrow a (port_id_on_b p) (chan_id_on_b p) (received_coin p coin)
      else ledger_mint a (received_coin p coin))"

definition ledger_send ::
  "'acc \<Rightarrow> port_id \<Rightarrow> channel_id \<Rightarrow> prefixed_coin \<Rightarrow> 'acc ledger \<Rightarrow> 'acc ledger option" where
  "ledger_send a p c coin =
     (if is_sender_chain_source p c (coin_denom coin) then ledger_escrow a p c coin
      else ledger_burn a coin)"

definition ledger_refund ::
  "'acc \<Rightarrow> port_id \<Rightarrow> channel_id \<Rightarrow> prefixed_coin \<Rightarrow> 'acc ledger \<Rightarrow> 'acc ledger option" where
  "ledger_refund a p c coin =
     (if is_sender_chain_source p c (coin_denom coin) then ledger_unescrow a p c coin
      else ledger_mint a coin)"

lemma ledger_refund_send: "ledger_send a p c coin l = Some l' \<Longrightarrow> ledger_refund a p c coin l' = Some l"
  by (auto simp: ledger_send_def ledger_refund_def ledger_unescrow_escrow ledger_mint_burn
      split: if_splits)

lemma send_transfer_OkD:
  assumes "send_transfer env te ops msg (s, t) = (Ok (), (s', t'))"
  obtains c c_b seq a s1 where
    "channel_end_store s (ChannelEndPath (mt_port_id_on_a msg) (mt_chan_id_on_a msg)) = Some c"
    "hcp_channel_id (ch_remote c) = Some c_b"
    "send_sequence_store s (SeqSendPath (mt_port_id_on_a msg) (mt_chan_id_on_a msg)) = Some seq"
    "to_account ops (td_sender (mt_packet_data msg)) = Some a"
    "(if is_sender_chain_source (mt_port_id_on_a msg) (mt_chan_id_on_a msg)
          (coin_denom (td_token (mt_packet_data msg)))
      then escrow_coins_execute ops a (mt_port_id_on_a msg) (mt_chan_id_on_a msg)
             (td_token (mt_packet_data msg)) (td_memo (mt_packet_data msg))
      else burn_coins_execute ops a (td_token (mt_packet_data msg))
             (td_memo (mt_packet_data msg))) t = (Ok (), t')"
    "send_packet_execute env (transfer_packet te msg seq (hcp_port_id (ch_remote c)) c_b) s = (Ok (), s1)"
  using assms
  by (clarsimp simp: send_transfer_def send_transfer_execute_def Let_def result_simps store_reads
      simp del: split_paired_Ex)

lemma send_transfer_ledger:
  assumes "keeps_books ops view" "send_transfer env te ops msg (s, t) = (Ok (), (s', t'))"
  obtains a where "to_account ops (td_sender (mt_packet_data msg)) = Some a"
    "ledger_send a (mt_port_id_on_a msg) (mt_chan_id_on_a msg) (td_token (mt_packet_data msg)) (view t)
       = Some (view t')"
proof -
  let ?src = "is_sender_chain_source (mt_port_id_on_a msg) (mt_chan_id_on_a msg)
    (coin_denom (td_token (mt_packet_data msg)))"
  from assms(2) obtain a where a: "to_account ops (td_sender (mt_packet_data msg)) = Some a"
    and "(if ?src then escrow_coins_execute ops a (mt_port_id_on_a msg) (mt_chan_id_on_a msg)
             (td_token (mt_packet_data msg)) (td_memo (mt_packet_data msg))
      else burn_coins_execute ops a (td_token (mt_packet_data msg))
             (td_memo (mt_packet_data msg))) t = (Ok (), t')"
    by (rule send_transfer_OkD)
  then have "ledger_send a (mt_port_id_on_a msg) (mt_chan_id_on_a msg) (td_token (mt_packet_data msg))
      (view t) = Some (view t')"
    using assms(1) by (cases ?src) (simp_all add: keeps_books_def ledger_send_def follows_def)
  with a show ?thesis by (rule that)
qed

lemma refund_ledger:
  assumes "keeps_books ops view" "refund_packet_token_execute ops p data t = (Ok (), t')"
  obtains a where "to_account ops (td_sender data) = Some a"
    "ledger_refund a (port_id_on_a p) (chan_id_on_a p) (td_token data) (view t) = Some (view t')"
proof -
  obtain a where a: "to_account ops (td_sender data) = Some a" and
    "(if is_sender_chain_source (port_id_on_a p) (chan_id_on_a p) (coin_denom (td_token data))
      then unescrow_coins_execute ops a (port_id_on_a p) (chan_id_on_a p) (td_token data)
      else mint_coins_execute ops a (td_token data)) t = (Ok (), t')"
    using assms(2) by (auto simp: refund_packet_token_execute_def result_simps)
  then have "ledger_refund a (port_id_on_a p) (chan_id_on_a p) (td_token data) (view t) = Some (view t')"
    using assms(1)
    by (cases "is_sender_chain_source (port_id_on_a p) (chan_id_on_a p) (coin_denom (td_token data))")
      (simp_all add: keeps_books_def ledger_refund_def follows_def)
  with a show ?thesis by (rule that)
qed

lemma timeout_callback_OkD:
  assumes "transfer_on_timeout_packet_execute te ops p t = ((ex, Ok ()), t')"
  obtains data where "json_to_packet_data te (packet_data p) = Some data"
    "refund_packet_token_execute ops p data t = (Ok (), t')"
proof (cases "json_to_packet_data te (packet_data p)")
  case None
  with assms show ?thesis by (simp add: transfer_on_timeout_packet_execute_def)
next
  case (Some data)
  moreover obtain r t1 where "refund_packet_token_execute ops p data t = (r, t1)" by fastforce
  ultimately show ?thesis using assms that
    by (cases r) (simp_all add: transfer_on_timeout_packet_execute_def)
qed

lemma ack_callback_OkD:
  assumes "transfer_on_acknowledgement_packet_execute te ops p ack t = ((ex, Ok ()), t')"
  obtains data st where "json_to_packet_data te (packet_data p) = Some data"
    "te_json_ack_status te (acknowledgement_bytes ack) = Some st"
    "if ack_status_is_successful st then t' = t else refund_packet_token_execute ops p data t = (Ok (), t')"
proof (cases "json_to_packet_data te (packet_data p)")
  case None
  with assms show ?thesis by (simp add: transfer_on_acknowledgement_packet_execute_def)
next
  case data: (Some data)
  show ?thesis
  proof (cases "te_json_ack_status te (acknowledgement_bytes ack)")
    case None
    with assms data show ?thesis by (simp add: transfer_on_acknowledgement_packet_execute_def)
  next
    case (Some st)
    moreover obtain r t1 where "refund_packet_token_execute ops p data t = (r, t1)" by fastforce
    ultimately show ?thesis using assms that data
      by (cases r; cases "ack_status_is_successful st")
        (simp_all add: transfer_on_acknowledgement_packet_execute_def)
  qed
qed

lemma exec_bind_read_Ok: "g t = Ok a \<Longrightarrow> exec_bind (exec_read g) f t = f a t"
  by (simp add: exec_bind_def exec_read_def)

lemma exec_bind_lift_Ok: "exec_bind (exec_lift (Ok a)) f = f a"
  by (simp add: exec_bind_def exec_lift_def fun_eq_iff)

text \<open>Running one operation of the bank behind a check that only reads.\<close>

lemma guarded_op:
  assumes "follows view m f"
    and "exec_bind (exec_read (\<lambda>t. with_extras ex (g t))) (\<lambda>_.
      exec_bind (exec_map_err (\<lambda>e. (ex, e)) m) (\<lambda>_. exec_return ex')) t = (r, t')"
  shows "case r of Ok ex'' \<Rightarrow> ex'' = ex' \<and> f (view t) = Some (view t') | _ \<Rightarrow> view t' = view t"
proof (cases "g t")
  case (Ok u)
  obtain r1 t1 where m: "m t = (r1, t1)" by fastforce
  with Ok assms(2) followsD [OF assms(1) m] show ?thesis
    by (cases r1) (auto simp: exec_bind_def exec_read_def with_extras_def exec_map_err_def
        exec_return_def)
qed (use assms(2) in \<open>auto simp: exec_bind_def exec_read_def with_extras_def\<close>)

lemma process_recv_ledger:
  assumes books: "keeps_books ops view" and "process_recv_packet_execute te ops p data t = (r, t')"
  shows "case r of
      Ok _ \<Rightarrow> \<exists>a. to_account ops (td_receiver data) = Some a
        \<and> ledger_receive a p (td_token data) (view t) = Some (view t')
    | _ \<Rightarrow> view t' = view t"
proof (cases "can_receive_coins ops t")
  case can: (Ok u)
  show ?thesis
  proof (cases "to_account ops (td_receiver data)")
    case None
    with can assms(2) show ?thesis
      by (auto simp: process_recv_packet_execute_def exec_bind_def exec_read_def exec_lift_def
          with_extras_def)
  next
    case (Some a)
    let ?src = "is_receiver_chain_source (port_id_on_a p) (chan_id_on_a p) (coin_denom (td_token data))"
    have "follows view (unescrow_coins_execute ops a p' c coin) (ledger_unescrow a p' c coin)"
      "follows view (mint_coins_execute ops a coin) (ledger_mint a coin)" for p' c coin
      using books by (auto simp: keeps_books_def)
    note op = guarded_op [OF this(1)] guarded_op [OF this(2)]
    show ?thesis
    proof (cases ?src)
      case True
      with can Some assms(2) show ?thesis
        using op(1) [of module_extras_empty "unescrow_coins_validate ops a (port_id_on_b p)
            (chan_id_on_b p) (received_coin p (td_token data))" "port_id_on_b p" "chan_id_on_b p"
            "received_coin p (td_token data)" module_extras_empty t r t']
        by (cases r) (simp_all add: process_recv_packet_execute_def exec_bind_read_Ok exec_bind_lift_Ok
            with_extras_def Let_def ledger_receive_def received_coin_def)
    next
      case False
      define coin where "coin = received_coin p (td_token data)"
      define ex where "ex = \<lparr>extras_events = [transfer_event_to_module te
        (DenomTraceEvent (denom_hash_string ops (coin_denom coin) t) (coin_denom coin))], extras_log = []\<rparr>"
      from False can Some assms(2) show ?thesis
        using op(2) [of ex "mint_coins_validate ops a coin" coin ex t r t']
        by (cases r) (simp_all add: process_recv_packet_execute_def exec_bind_read_Ok exec_bind_lift_Ok
            with_extras_def Let_def ledger_receive_def received_coin_def coin_def ex_def)
    qed
  qed
qed (use assms(2) in \<open>auto simp: process_recv_packet_execute_def exec_bind_def exec_read_def with_extras_def\<close>)

lemma recv_callback_ledger:
  assumes "keeps_books ops view" "transfer_on_recv_packet_execute te ops p t = (Ok (ex, ack), t')"
  shows "error_ack ack \<and> view t' = view t
    \<or> ack = success_ack \<and> (\<exists>data a. json_to_packet_data te (packet_data p) = Some data
        \<and> to_account ops (td_receiver data) = Some a
        \<and> ledger_receive a p (td_token data) (view t) = Some (view t'))"
proof (cases "json_to_packet_data te (packet_data p)")
  case None
  with assms(2) show ?thesis
    by (auto simp: transfer_on_recv_packet_execute_def
        simp del: ack_status_to_bytes.simps token_transfer_error_to_string.simps)
next
  case (Some data)
  obtain r t1 where run: "process_recv_packet_execute te ops p data t = (r, t1)" by fastforce
  note ledger = process_recv_ledger [OF assms(1) run]
  show ?thesis
  proof (cases r)
    case (Ok ex1)
    with Some run assms(2) ledger show ?thesis
      by (auto simp: transfer_on_recv_packet_execute_def success_ack_def
          simp del: ack_status_to_bytes.simps transfer_event_to_module.simps)
  next
    case (Err e)
    with Some run assms(2) ledger show ?thesis
      by (cases e) (auto simp: transfer_on_recv_packet_execute_def
          simp del: ack_status_to_bytes.simps transfer_event_to_module.simps)
  next
    case Panic
    with Some run assms(2) show ?thesis by (simp add: transfer_on_recv_packet_execute_def)
  qed
qed

lemma recv_callback_answers:
  assumes "fst (process_recv_packet_execute te ops p data t) \<noteq> Panic"
    "json_to_packet_data te (packet_data p) = Some data"
  shows "\<exists>ex ack t'. transfer_on_recv_packet_execute te ops p t = (Ok (ex, ack), t')"
proof -
  obtain r t1 where "process_recv_packet_execute te ops p data t = (r, t1)" by fastforce
  with assms show ?thesis
    by (cases r) (auto simp: transfer_on_recv_packet_execute_def split: prod.splits)
qed


section \<open>Two chains\<close>

datatype side = ChainA | ChainB

primrec other :: "side \<Rightarrow> side" where
  "other ChainA = ChainB"
| "other ChainB = ChainA"

lemma other_simps [simp]: "other (other X) = X" "other X \<noteq> X" "X \<noteq> other X" "X \<noteq> Y \<longleftrightarrow> X = other Y"
  by (cases X; cases Y; simp)+

text \<open>The two ends of a channel with the banks of their chains.\<close>

record ('acc, 't) transfer_link =
  link_ops :: "side \<Rightarrow> ('acc, 't) transfer_ops"
  link_port :: "side \<Rightarrow> port_id"
  link_chan :: "side \<Rightarrow> channel_id"

definition link_prefix :: "('acc, 't) transfer_link \<Rightarrow> side \<Rightarrow> trace_prefix" where
  "link_prefix L X = trace_prefix_new (link_port L X) (link_chan L X)"

text \<open>Packets a side has sent and that were neither received nor timed out, and packets it
  has sent with the acknowledgement the other side wrote, not yet relayed back.\<close>

record 't transfer_net =
  net_bank :: "side \<Rightarrow> 't"
  in_flight :: "side \<Rightarrow> packet list"
  answered :: "side \<Rightarrow> (packet \<times> acknowledgement) list"

text \<open>What may happen: a side sends a transfer that came to it over the wire, with its core in
  any state that names the other end; the other side receives a packet; the sender gets the
  acknowledgement or the timeout; and anything else that leaves alone the escrow account of
  this channel and the supply of the vouchers of this channel.\<close>

inductive transfer_step ::
  "('cs, 'cons) client_ops \<Rightarrow> transfer_ext \<Rightarrow> ('acc, 't) transfer_link \<Rightarrow> ('t \<Rightarrow> 'acc ledger)
     \<Rightarrow> 't transfer_net \<Rightarrow> 't transfer_net \<Rightarrow> bool"
  for env te L view where
  step_send:
    "\<lbrakk>msg_transfer_try_from te raw = Ok msg;
      mt_port_id_on_a msg = link_port L X; mt_chan_id_on_a msg = link_chan L X;
      channel_end_store s (ChannelEndPath (link_port L X) (link_chan L X)) = Some c;
      ch_remote c = \<lparr>hcp_port_id = link_port L (other X), hcp_channel_id = Some (link_chan L (other X))\<rparr>;
      send_sequence_store s (SeqSendPath (link_port L X) (link_chan L X)) = Some seq;
      send_transfer env te (link_ops L X) msg (s, net_bank n X) = (Ok (), (s', t'))\<rbrakk>
     \<Longrightarrow> transfer_step env te L view n
          (n\<lparr>net_bank := (net_bank n)(X := t'),
             in_flight := (in_flight n)(X := transfer_packet te msg seq (link_port L (other X))
               (link_chan L (other X)) # in_flight n X)\<rparr>)"
| step_recv:
    "\<lbrakk>in_flight n X = ps @ p # qs;
      transfer_on_recv_packet_execute te (link_ops L (other X)) p (net_bank n (other X))
        = ((Ok (ex, ack) :: (_, unit) result), t')\<rbrakk>
     \<Longrightarrow> transfer_step env te L view n
          (n\<lparr>net_bank := (net_bank n)(other X := t'), in_flight := (in_flight n)(X := ps @ qs),
             answered := (answered n)(X := (p, ack) # answered n X)\<rparr>)"
| step_ack:
    "\<lbrakk>answered n X = ps @ (p, ack) # qs;
      transfer_on_acknowledgement_packet_execute te (link_ops L X) p ack (net_bank n X)
        = ((ex, Ok ()), t')\<rbrakk>
     \<Longrightarrow> transfer_step env te L view n
          (n\<lparr>net_bank := (net_bank n)(X := t'), answered := (answered n)(X := ps @ qs)\<rparr>)"
| step_timeout:
    "\<lbrakk>in_flight n X = ps @ p # qs;
      transfer_on_timeout_packet_execute te (link_ops L X) p (net_bank n X) = ((ex, Ok ()), t')\<rbrakk>
     \<Longrightarrow> transfer_step env te L view n
          (n\<lparr>net_bank := (net_bank n)(X := t'), in_flight := (in_flight n)(X := ps @ qs)\<rparr>)"
| step_local:
    "\<lbrakk>\<And>d. escrowed (view t') (link_port L X) (link_chan L X) d
        = escrowed (view (net_bank n X)) (link_port L X) (link_chan L X) d;
      \<And>d. is_receiver_chain_source (link_port L X) (link_chan L X) d \<Longrightarrow>
        total_supply (view t') d = total_supply (view (net_bank n X)) d\<rbrakk>
     \<Longrightarrow> transfer_step env te L view n (n\<lparr>net_bank := (net_bank n)(X := t')\<rparr>)"

definition new_link :: "('acc, 't) transfer_link \<Rightarrow> ('t \<Rightarrow> 'acc ledger) \<Rightarrow> 't transfer_net \<Rightarrow> bool" where
  "new_link L view n \<longleftrightarrow> (\<forall>X. in_flight n X = [] \<and> answered n X = []
     \<and> (\<forall>d. escrowed (view (net_bank n X)) (link_port L X) (link_chan L X) d = 0)
     \<and> (\<forall>d. is_receiver_chain_source (link_port L X) (link_chan L X) d \<longrightarrow>
           total_supply (view (net_bank n X)) d = 0))"

definition transfer_reaches ::
  "('cs, 'cons) client_ops \<Rightarrow> transfer_ext \<Rightarrow> ('acc, 't) transfer_link \<Rightarrow> ('t \<Rightarrow> 'acc ledger)
     \<Rightarrow> 't transfer_net \<Rightarrow> bool" where
  "transfer_reaches env te L view n \<longleftrightarrow>
     (\<exists>n0. new_link L view n0 \<and> (transfer_step env te L view)\<^sup>*\<^sup>* n0 n)"


section \<open>Conservation\<close>

definition flow :: "transfer_ext \<Rightarrow> prefixed_denom \<Rightarrow> packet \<Rightarrow> nat" where
  "flow te d p = (case json_to_packet_data te (packet_data p) of
     Some data \<Rightarrow> if coin_denom (td_token data) = d then unat (coin_amount (td_token data)) else 0
   | None \<Rightarrow> 0)"

definition flows :: "transfer_ext \<Rightarrow> prefixed_denom \<Rightarrow> packet list \<Rightarrow> nat" where
  "flows te d ps = sum_list (map (flow te d) ps)"

text \<open>The packets of a side whose tokens are neither delivered nor refunded yet.\<close>

definition unsettled :: "'t transfer_net \<Rightarrow> side \<Rightarrow> packet list" where
  "unsettled n X = in_flight n X @ map fst (filter (\<lambda>(p, ack). ack \<noteq> success_ack) (answered n X))"

definition voucher :: "('acc, 't) transfer_link \<Rightarrow> side \<Rightarrow> prefixed_denom \<Rightarrow> prefixed_denom" where
  "voucher L X d = add_trace_prefix (link_prefix L X) d"

text \<open>The tokens of a denomination in escrow are the vouchers on the other chain and the
  transfers on their way, in both directions.\<close>

definition vouchers_backed ::
  "transfer_ext \<Rightarrow> ('acc, 't) transfer_link \<Rightarrow> ('t \<Rightarrow> 'acc ledger) \<Rightarrow> 't transfer_net
     \<Rightarrow> side \<Rightarrow> prefixed_denom \<Rightarrow> bool" where
  "vouchers_backed te L view n X d \<longleftrightarrow>
     escrowed (view (net_bank n X)) (link_port L X) (link_chan L X) d
     = total_supply (view (net_bank n (other X))) (voucher L (other X) d)
       + flows te d (unsettled n X) + flows te (voucher L (other X) d) (unsettled n (other X))"

definition on_link ::
  "transfer_ext \<Rightarrow> ('acc, 't) transfer_link \<Rightarrow> side \<Rightarrow> packet \<Rightarrow> bool" where
  "on_link te L X p \<longleftrightarrow>
     port_id_on_a p = link_port L X \<and> chan_id_on_a p = link_chan L X
     \<and> port_id_on_b p = link_port L (other X) \<and> chan_id_on_b p = link_chan L (other X)
     \<and> (\<exists>data a. json_to_packet_data te (packet_data p) = Some data
          \<and> to_account (link_ops L X) (td_sender data) = Some a)"

definition traffic_ok ::
  "transfer_ext \<Rightarrow> ('acc, 't) transfer_link \<Rightarrow> 't transfer_net \<Rightarrow> side \<Rightarrow> bool" where
  "traffic_ok te L n X \<longleftrightarrow> list_all (on_link te L X) (in_flight n X)
     \<and> list_all (\<lambda>(p, ack). on_link te L X p \<and> (error_ack ack \<or> ack = success_ack)) (answered n X)"

definition net_inv ::
  "transfer_ext \<Rightarrow> ('acc, 't) transfer_link \<Rightarrow> ('t \<Rightarrow> 'acc ledger) \<Rightarrow> 't transfer_net \<Rightarrow> bool" where
  "net_inv te L view n \<longleftrightarrow> (\<forall>X. traffic_ok te L n X)
     \<and> (\<forall>X d. is_sender_chain_source (link_port L X) (link_chan L X) d \<longrightarrow>
           vouchers_backed te L view n X d)"

text \<open>What is relied on of the JSON of acknowledgements: the two forms are told apart.  The
  text of an error need not come back, and need not even be readable.\<close>

definition ack_json_sound :: "transfer_ext \<Rightarrow> bool" where
  "ack_json_sound te \<longleftrightarrow>
     (\<forall>st. te_json_ack_status te (acknowledgement_bytes success_ack) = Some st \<longrightarrow> ack_status_is_successful st)
     \<and> (\<forall>v st. te_json_ack_status te (ack_status_to_bytes (AckError v)) = Some st \<longrightarrow>
          \<not> ack_status_is_successful st)"

lemma flows_simps [simp]:
  "flows te d [] = 0" "flows te d (p # ps) = flow te d p + flows te d ps"
  "flows te d (ps @ qs) = flows te d ps + flows te d qs"
  by (simp_all add: flows_def)

lemma flow_data:
  "json_to_packet_data te (packet_data p) = Some data \<Longrightarrow>
     flow te d p = (if coin_denom (td_token data) = d then unat (coin_amount (td_token data)) else 0)"
  by (simp add: flow_def)

lemma voucher_is_voucher [simp]:
  "is_receiver_chain_source (link_port L X) (link_chan L X) (voucher L X d)"
  using add_remove_trace_prefix(2) [of "link_prefix L X" d]
  by (simp add: voucher_def link_prefix_def trace_prefix_new_def)

lemma add_trace_prefix_inject [simp]: "add_trace_prefix p d = add_trace_prefix p e \<longleftrightarrow> d = e"
  by (metis add_remove_trace_prefix(1))

lemma ledger_sendD:
  assumes "ledger_send a p c coin l = Some l'"
  shows "escrowed l' p c d = escrowed l p c d
      + (if is_sender_chain_source p c (coin_denom coin) \<and> d = coin_denom coin
         then unat (coin_amount coin) else 0)"
    "total_supply l d = total_supply l' d
      + (if is_receiver_chain_source p c (coin_denom coin) \<and> d = coin_denom coin
         then unat (coin_amount coin) else 0)"
  using assms by (auto simp: ledger_send_def is_sender_chain_source_def ledger_escrowD ledger_burnD
      split: if_splits)

lemma ledger_refundD:
  assumes "ledger_refund a p c coin l = Some l'"
  shows "escrowed l p c d = escrowed l' p c d
      + (if is_sender_chain_source p c (coin_denom coin) \<and> d = coin_denom coin
         then unat (coin_amount coin) else 0)"
    "total_supply l' d = total_supply l d
      + (if is_receiver_chain_source p c (coin_denom coin) \<and> d = coin_denom coin
         then unat (coin_amount coin) else 0)"
  using assms by (auto simp: ledger_refund_def is_sender_chain_source_def ledger_unescrowD ledger_mintD
      split: if_splits)

lemma ledger_receiveD:
  assumes "ledger_receive a p coin l = Some l'" "on_link te L X p"
  shows "escrowed l (link_port L (other X)) (link_chan L (other X)) d
      = escrowed l' (link_port L (other X)) (link_chan L (other X)) d
        + (if coin_denom coin = voucher L X d then unat (coin_amount coin) else 0)"
    "total_supply l' (voucher L (other X) d) = total_supply l (voucher L (other X) d)
      + (if is_sender_chain_source (link_port L X) (link_chan L X) (coin_denom coin) \<and> coin_denom coin = d
         then unat (coin_amount coin) else 0)"
proof -
  have link: "port_id_on_a p = link_port L X" "chan_id_on_a p = link_chan L X"
    "port_id_on_b p = link_port L (other X)" "chan_id_on_b p = link_chan L (other X)"
    using assms(2) by (auto simp: on_link_def)
  let ?src = "is_receiver_chain_source (link_port L X) (link_chan L X) (coin_denom coin)"
  have removed: "remove_trace_prefix (link_prefix L X) (coin_denom coin) = d \<longleftrightarrow>
      coin_denom coin = voucher L X d" if ?src
    using that remove_add_trace_prefix [of "link_prefix L X" "coin_denom coin"]
    by (auto simp: voucher_def link_prefix_def trace_prefix_new_def)
  show "escrowed l (link_port L (other X)) (link_chan L (other X)) d
      = escrowed l' (link_port L (other X)) (link_chan L (other X)) d
        + (if coin_denom coin = voucher L X d then unat (coin_amount coin) else 0)"
  proof (cases ?src)
    case True
    then have "ledger_unescrow a (link_port L (other X)) (link_chan L (other X))
        (coin\<lparr>coin_denom := remove_trace_prefix (link_prefix L X) (coin_denom coin)\<rparr>) l = Some l'"
      using assms(1) by (simp add: ledger_receive_def received_coin_def link link_prefix_def)
    from ledger_unescrowD(2) [OF this] removed [OF True] show ?thesis by (auto)
  next
    case False
    then have "coin_denom coin \<noteq> voucher L X d" by auto
    with False assms(1) show ?thesis
      by (auto simp: ledger_receive_def link dest: ledger_mintD(1))
  qed
  show "total_supply l' (voucher L (other X) d) = total_supply l (voucher L (other X) d)
      + (if is_sender_chain_source (link_port L X) (link_chan L X) (coin_denom coin) \<and> coin_denom coin = d
         then unat (coin_amount coin) else 0)"
  proof (cases ?src)
    case True
    with assms(1) show ?thesis
      by (auto simp: ledger_receive_def link is_sender_chain_source_def dest: ledger_unescrowD(1))
  next
    case False
    then have "ledger_mint a
        (coin\<lparr>coin_denom := voucher L (other X) (coin_denom coin)\<rparr>) l = Some l'"
      using assms(1) by (simp add: ledger_receive_def received_coin_def link link_prefix_def voucher_def)
    from ledger_mintD(2) [OF this] False show ?thesis
      by (auto simp: is_sender_chain_source_def voucher_def)
  qed
qed

text \<open>Each kind of step keeps the balance: tokens that leave a bank enter the traffic, and
  tokens that leave the traffic enter a bank.\<close>

lemma backed_send:
  assumes "ledger_send a (link_port L Z) (link_chan L Z) coin (view (net_bank n Z)) = Some (view t')"
    and p: "json_to_packet_data te (packet_data p) = Some data" "td_token data = coin"
    and n': "net_bank n' = (net_bank n)(Z := t')" "unsettled n' Z = p # unsettled n Z"
      "unsettled n' (other Z) = unsettled n (other Z)"
    and src: "is_sender_chain_source (link_port L X) (link_chan L X) d" "vouchers_backed te L view n X d"
  shows "vouchers_backed te L view n' X d"
proof (cases "X = Z")
  case True
  with src n' p ledger_sendD(1) [OF assms(1), of d] show ?thesis
    by (auto simp: vouchers_backed_def flow_data is_sender_chain_source_def)
next
  case False
  then have X: "X = other Z" by simp
  with src n' p ledger_sendD(2) [OF assms(1), of "voucher L Z d"] show ?thesis
    by (auto simp: vouchers_backed_def flow_data)
qed

lemma backed_refund:
  assumes "ledger_refund a (link_port L Z) (link_chan L Z) coin (view (net_bank n Z)) = Some (view t')"
    and p: "json_to_packet_data te (packet_data p) = Some data" "td_token data = coin"
    and n': "net_bank n' = (net_bank n)(Z := t')" "\<And>d. flows te d (unsettled n Z) = flow te d p + flows te d (unsettled n' Z)"
      "unsettled n' (other Z) = unsettled n (other Z)"
    and src: "is_sender_chain_source (link_port L X) (link_chan L X) d" "vouchers_backed te L view n X d"
  shows "vouchers_backed te L view n' X d"
proof (cases "X = Z")
  case True
  with src n' p ledger_refundD(1) [OF assms(1), of d] show ?thesis
    by (auto simp: vouchers_backed_def flow_data is_sender_chain_source_def split: if_splits)
next
  case False
  then have X: "X = other Z" by simp
  with src n' p ledger_refundD(2) [OF assms(1), of "voucher L Z d"] show ?thesis
    by (auto simp: vouchers_backed_def flow_data)
qed

lemma backed_receive:
  assumes "ledger_receive a p coin (view (net_bank n (other Z))) = Some (view t')" "on_link te L Z p"
    and p: "json_to_packet_data te (packet_data p) = Some data" "td_token data = coin"
    and n': "net_bank n' = (net_bank n)(other Z := t')" "\<And>d. flows te d (unsettled n Z) = flow te d p + flows te d (unsettled n' Z)"
      "unsettled n' (other Z) = unsettled n (other Z)"
    and src: "is_sender_chain_source (link_port L X) (link_chan L X) d" "vouchers_backed te L view n X d"
  shows "vouchers_backed te L view n' X d"
proof (cases "X = Z")
  case True
  with src n' p ledger_receiveD(2) [OF assms(1,2), of d] show ?thesis
    by (auto simp: vouchers_backed_def flow_data is_sender_chain_source_def)
next
  case False
  then have X: "X = other Z" by simp
  with src n' p ledger_receiveD(1) [OF assms(1,2), of d] show ?thesis
    by (auto simp: vouchers_backed_def flow_data)
qed

lemma msg_transfer_printable:
  "msg_transfer_try_from te raw = Ok msg \<Longrightarrow> printable_denom (coin_denom (td_token (mt_packet_data msg)))"
  by (auto simp: msg_transfer_try_from_def coin_try_from_def result_simps parsed_denom_printable
      split: if_splits)

lemma unsettled_bank [simp]: "unsettled (n\<lparr>net_bank := b\<rparr>) X = unsettled n X"
  by (simp add: unsettled_def)

definition faithful_texts :: "transfer_ext \<Rightarrow> bool" where
  "faithful_texts te \<longleftrightarrow> amount_text_inverse te \<and> json_inverse te \<and> ack_json_sound te"

lemma net_invI:
  assumes "\<And>X d. is_sender_chain_source (link_port L X) (link_chan L X) d \<Longrightarrow> vouchers_backed te L view n X d"
    and "\<And>X. traffic_ok te L n X"
  shows "net_inv te L view n"
  using assms by (simp add: net_inv_def)

lemma net_invD:
  assumes "net_inv te L view n"
  shows "traffic_ok te L n X"
    "is_sender_chain_source (link_port L X) (link_chan L X) d \<Longrightarrow> vouchers_backed te L view n X d"
  using assms by (simp_all add: net_inv_def)

lemma net_inv_send:
  assumes books: "\<And>X. keeps_books (link_ops L X) view" and texts: "faithful_texts te"
    and msg: "msg_transfer_try_from te raw = Ok msg"
      "mt_port_id_on_a msg = link_port L X" "mt_chan_id_on_a msg = link_chan L X"
    and run: "send_transfer env te (link_ops L X) msg (s, net_bank n X) = (Ok (), (s', t'))"
    and inv: "net_inv te L view n"
  shows "net_inv te L view (n\<lparr>net_bank := (net_bank n)(X := t'),
    in_flight := (in_flight n)(X := transfer_packet te msg seq (link_port L (other X))
      (link_chan L (other X)) # in_flight n X)\<rparr>)"
    (is "net_inv te L view ?n'")
proof -
  let ?p = "transfer_packet te msg seq (link_port L (other X)) (link_chan L (other X))"
  have data: "json_to_packet_data te (packet_data ?p) = Some (mt_packet_data msg)"
    using json_packet_data_round_trip [of te "mt_packet_data msg"] texts msg_transfer_printable [OF msg(1)]
    by (simp add: transfer_packet_def faithful_texts_def)
  obtain a where a: "to_account (link_ops L X) (td_sender (mt_packet_data msg)) = Some a"
    and send: "ledger_send a (link_port L X) (link_chan L X) (td_token (mt_packet_data msg))
      (view (net_bank n X)) = Some (view t')"
    using send_transfer_ledger [OF books run] by (auto simp: msg)
  have link: "on_link te L X ?p"
    using data a by (simp add: on_link_def) (simp add: transfer_packet_def msg)
  have "vouchers_backed te L view ?n' Y d"
    if "is_sender_chain_source (link_port L Y) (link_chan L Y) d" for Y d
    by (rule backed_send [OF send data refl _ _ _ that net_invD(2) [OF inv that]])
      (simp_all add: unsettled_def)
  moreover have "traffic_ok te L ?n' Y" for Y
    using net_invD(1) [OF inv, of Y] link by (cases "Y = X") (auto simp: traffic_ok_def)
  ultimately show ?thesis by (rule net_invI)
qed

lemma net_inv_recv:
  assumes books: "\<And>X. keeps_books (link_ops L X) view"
    and p: "in_flight n X = ps @ p # qs"
    and run: "transfer_on_recv_packet_execute te (link_ops L (other X)) p (net_bank n (other X))
      = (Ok (ex, ack), t')"
    and inv: "net_inv te L view n"
  shows "net_inv te L view (n\<lparr>net_bank := (net_bank n)(other X := t'),
    in_flight := (in_flight n)(X := ps @ qs), answered := (answered n)(X := (p, ack) # answered n X)\<rparr>)"
    (is "net_inv te L view ?n'")
proof -
  note ledger = recv_callback_ledger [OF books run]
  have link: "on_link te L X p" using net_invD(1) [OF inv, of X] p by (simp add: traffic_ok_def)
  have "vouchers_backed te L view ?n' Y d"
    if src: "is_sender_chain_source (link_port L Y) (link_chan L Y) d" for Y d
    using ledger
  proof (elim disjE conjE exE)
    assume "error_ack ack" "view t' = view (net_bank n (other X))"
    then show ?thesis using net_invD(2) [OF inv src]
      by (cases "Y = X") (auto simp: vouchers_backed_def unsettled_def p error_ack_not_success)
  next
    fix data a
    assume ack: "ack = success_ack" and data: "json_to_packet_data te (packet_data p) = Some data"
      and ledger: "ledger_receive a p (td_token data) (view (net_bank n (other X))) = Some (view t')"
    show ?thesis
      by (rule backed_receive [OF ledger link data refl _ _ _ src net_invD(2) [OF inv src]])
        (simp_all add: unsettled_def p ack)
  qed
  moreover have "traffic_ok te L ?n' Y" for Y
    using net_invD(1) [OF inv, of Y] link ledger p by (cases "Y = X") (auto simp: traffic_ok_def)
  ultimately show ?thesis by (rule net_invI)
qed

lemma net_inv_refund:
  assumes books: "\<And>X. keeps_books (link_ops L X) view" and inv: "net_inv te L view n"
    and link: "on_link te L X p" and data: "json_to_packet_data te (packet_data p) = Some data"
    and run: "refund_packet_token_execute (link_ops L X) p data (net_bank n X) = (Ok (), t')"
    and n': "net_bank n' = (net_bank n)(X := t')" "\<And>Y. traffic_ok te L n' Y"
      "\<And>d. flows te d (unsettled n X) = flow te d p + flows te d (unsettled n' X)"
      "unsettled n' (other X) = unsettled n (other X)"
  shows "net_inv te L view n'"
proof (rule net_invI)
  obtain a where ledger: "ledger_refund a (link_port L X) (link_chan L X) (td_token data)
      (view (net_bank n X)) = Some (view t')"
    using refund_ledger [OF books run] link by (auto simp: on_link_def)
  show "vouchers_backed te L view n' Y d"
    if "is_sender_chain_source (link_port L Y) (link_chan L Y) d" for Y d
    by (rule backed_refund [OF ledger data refl n'(1,3,4) that net_invD(2) [OF inv that]])
qed (rule n'(2))

lemma net_inv_ack:
  assumes books: "\<And>X. keeps_books (link_ops L X) view" and texts: "faithful_texts te"
    and p: "answered n X = ps @ (p, ack) # qs"
    and run: "transfer_on_acknowledgement_packet_execute te (link_ops L X) p ack (net_bank n X)
      = ((ex, Ok ()), t')"
    and inv: "net_inv te L view n"
  shows "net_inv te L view (n\<lparr>net_bank := (net_bank n)(X := t'), answered := (answered n)(X := ps @ qs)\<rparr>)"
    (is "net_inv te L view ?n'")
proof -
  have link: "on_link te L X p" "error_ack ack \<or> ack = success_ack"
    using net_invD(1) [OF inv, of X] p by (auto simp: traffic_ok_def)
  have ok: "traffic_ok te L ?n' Y" for Y
    using net_invD(1) [OF inv, of Y] p by (cases "Y = X") (auto simp: traffic_ok_def)
  obtain data st where data: "json_to_packet_data te (packet_data p) = Some data"
    and st: "te_json_ack_status te (acknowledgement_bytes ack) = Some st"
    and refund: "if ack_status_is_successful st then t' = net_bank n X
      else refund_packet_token_execute (link_ops L X) p data (net_bank n X) = (Ok (), t')"
    using run by (rule ack_callback_OkD)
  show ?thesis
  proof (cases "ack = success_ack")
    case True
    then have "ack_status_is_successful st" using st texts
      by (auto simp: faithful_texts_def ack_json_sound_def)
    then have "vouchers_backed te L view ?n' Y d" if "vouchers_backed te L view n Y d" for Y d
      using that refund True p by (cases "Y = X") (auto simp: vouchers_backed_def unsettled_def)
    with ok net_invD(2) [OF inv] show ?thesis by (intro net_invI) blast+
  next
    case False
    then have "\<not> ack_status_is_successful st" using st texts link(2)
      by (auto simp: faithful_texts_def ack_json_sound_def error_ack_def)
    then have "refund_packet_token_execute (link_ops L X) p data (net_bank n X) = (Ok (), t')"
      using refund by simp
    then show ?thesis
      by (rule net_inv_refund [OF books inv link(1) data _ _ ok])
        (simp_all add: unsettled_def p False)
  qed
qed

lemma net_inv_timeout:
  assumes books: "\<And>X. keeps_books (link_ops L X) view"
    and p: "in_flight n X = ps @ p # qs"
    and run: "transfer_on_timeout_packet_execute te (link_ops L X) p (net_bank n X) = ((ex, Ok ()), t')"
    and inv: "net_inv te L view n"
  shows "net_inv te L view (n\<lparr>net_bank := (net_bank n)(X := t'), in_flight := (in_flight n)(X := ps @ qs)\<rparr>)"
    (is "net_inv te L view ?n'")
proof -
  have link: "on_link te L X p" using net_invD(1) [OF inv, of X] p by (auto simp: traffic_ok_def)
  have ok: "traffic_ok te L ?n' Y" for Y
    using net_invD(1) [OF inv, of Y] p by (cases "Y = X") (auto simp: traffic_ok_def)
  obtain data where data: "json_to_packet_data te (packet_data p) = Some data"
    and refund: "refund_packet_token_execute (link_ops L X) p data (net_bank n X) = (Ok (), t')"
    using run by (rule timeout_callback_OkD)
  show ?thesis
    by (rule net_inv_refund [OF books inv link data refund _ ok]) (simp_all add: unsettled_def p)
qed

lemma net_inv_local:
  assumes "\<And>d. escrowed (view t') (link_port L X) (link_chan L X) d
        = escrowed (view (net_bank n X)) (link_port L X) (link_chan L X) d"
    and "\<And>d. is_receiver_chain_source (link_port L X) (link_chan L X) d \<Longrightarrow>
        total_supply (view t') d = total_supply (view (net_bank n X)) d"
    and inv: "net_inv te L view n"
  shows "net_inv te L view (n\<lparr>net_bank := (net_bank n)(X := t')\<rparr>)"
proof (rule net_invI)
  show "vouchers_backed te L view (n\<lparr>net_bank := (net_bank n)(X := t')\<rparr>) Y d"
    if "is_sender_chain_source (link_port L Y) (link_chan L Y) d" for Y d
    using net_invD(2) [OF inv that] assms(1,2) by (cases "Y = X") (auto simp: vouchers_backed_def)
  show "traffic_ok te L (n\<lparr>net_bank := (net_bank n)(X := t')\<rparr>) Y" for Y
    using net_invD(1) [OF inv, of Y] by (simp add: traffic_ok_def)
qed

lemma net_inv_step:
  assumes "\<And>X. keeps_books (link_ops L X) view" "faithful_texts te" "transfer_step env te L view n n'"
    "net_inv te L view n"
  shows "net_inv te L view n'"
  using assms(3)
proof cases
  case step_send
  then show ?thesis using net_inv_send [OF assms(1,2)] assms(4) by simp
next
  case step_recv
  then show ?thesis using net_inv_recv [OF assms(1)] assms(4) by simp
next
  case step_ack
  then show ?thesis using net_inv_ack [OF assms(1,2)] assms(4) by simp
next
  case step_timeout
  then show ?thesis using net_inv_timeout [OF assms(1)] assms(4) by simp
next
  case step_local
  show ?thesis unfolding step_local(1) by (rule net_inv_local [OF step_local(2,3) assms(4)])
qed

lemma net_inv_new: "new_link L view n \<Longrightarrow> net_inv te L view n"
  by (auto simp: new_link_def traffic_ok_def vouchers_backed_def unsettled_def intro!: net_invI)

lemma net_inv_reachable:
  assumes "\<And>X. keeps_books (link_ops L X) view" "faithful_texts te" "transfer_reaches env te L view n"
  shows "net_inv te L view n"
proof -
  obtain n0 where "new_link L view n0" "(transfer_step env te L view)\<^sup>*\<^sup>* n0 n"
    using assms(3) by (auto simp: transfer_reaches_def)
  from this(2,1) show ?thesis
    by (induction rule: rtranclp_induct) (auto intro: net_inv_new net_inv_step [OF assms(1,2)])
qed

text \<open>What is on its way is in escrow.\<close>

lemma in_flight_escrowed:
  assumes inv: "net_inv te L view n" and p: "p \<in> set (in_flight n X)"
    and data: "json_to_packet_data te (packet_data p) = Some data"
    and src: "is_sender_chain_source (link_port L X) (link_chan L X) (coin_denom (td_token data))"
  shows "unat (coin_amount (td_token data))
    \<le> escrowed (view (net_bank n X)) (link_port L X) (link_chan L X) (coin_denom (td_token data))"
proof -
  obtain ps qs where "in_flight n X = ps @ p # qs" using p by (meson split_list)
  then show ?thesis using net_invD(2) [OF inv src]
    by (simp add: vouchers_backed_def unsettled_def flow_data [OF data])
qed

lemma timeout_callback_succeeds:
  assumes "releases_escrow (link_ops L X) view" "net_inv te L view n" "p \<in> set (in_flight n X)"
    and data: "json_to_packet_data te (packet_data p) = Some data"
    and src: "is_sender_chain_source (link_port L X) (link_chan L X) (coin_denom (td_token data))"
  shows "\<exists>ex t'. transfer_on_timeout_packet_execute te (link_ops L X) p (net_bank n X) = ((ex, Ok ()), t')"
proof -
  have link: "on_link te L X p"
    using net_invD(1) [OF assms(2), of X] assms(3) by (auto simp: traffic_ok_def list_all_iff)
  then obtain a where a: "to_account (link_ops L X) (td_sender data) = Some a"
    using data by (auto simp: on_link_def)
  obtain r t' where run: "unescrow_coins_execute (link_ops L X) a (link_port L X) (link_chan L X)
      (td_token data) (net_bank n X) = (r, t')" by fastforce
  have "fst (unescrow_coins_execute (link_ops L X) a (link_port L X) (link_chan L X) (td_token data)
      (net_bank n X)) = Ok ()"
    using assms(1) in_flight_escrowed [OF assms(2,3) data src] by (simp add: releases_escrow_def)
  then have "refund_packet_token_execute (link_ops L X) p data (net_bank n X) = (Ok (), t')"
    using link a src run
    by (simp add: refund_packet_token_execute_def exec_bind_lift_Ok on_link_def)
  with data show ?thesis by (simp add: transfer_on_timeout_packet_execute_def)
qed

text \<open>A host whose operations for receiving do not panic.\<close>

definition receives_without_panic :: "('acc, 't) transfer_ops \<Rightarrow> bool" where
  "receives_without_panic ops \<longleftrightarrow> (\<forall>a p c coin t. can_receive_coins ops t \<noteq> Panic
     \<and> unescrow_coins_validate ops a p c coin t \<noteq> Panic \<and> mint_coins_validate ops a coin t \<noteq> Panic
     \<and> fst (unescrow_coins_execute ops a p c coin t) \<noteq> Panic \<and> fst (mint_coins_execute ops a coin t) \<noteq> Panic)"

lemma process_recv_not_Panic:
  assumes "receives_without_panic ops"
  shows "fst (process_recv_packet_execute te ops p data t) \<noteq> Panic"
proof -
  have "never_panics (process_recv_packet_execute te ops p data)"
    unfolding process_recv_packet_execute_def Let_def
    using assms by (intro panic_free)
      (auto simp: receives_without_panic_def with_extras_def result_simps never_panics_def)
  then show ?thesis by (simp add: never_panics_def)
qed

lemma recv_callback_total:
  assumes "receives_without_panic ops"
  shows "\<exists>ex ack t'. transfer_on_recv_packet_execute te ops p t = (Ok (ex, ack), t')"
proof (cases "json_to_packet_data te (packet_data p)")
  case None
  then show ?thesis by (simp add: transfer_on_recv_packet_execute_def)
next
  case (Some data)
  then show ?thesis using recv_callback_answers process_recv_not_Panic [OF assms] by metis
qed

end
