(* ===== verification/Transfer_Sample.thy ===== *)
theory Transfer_Sample
  imports Transfer_Ledger Test_App
begin

text \<open>
  A bank and codecs for the transfer application, and a transfer between two chains: the
  concrete input at which the properties of the application are evaluated.  The bank is the
  abstract ledger itself, with accounts named by strings.
\<close>

section \<open>Codecs\<close>

fun dec_value :: "nat \<Rightarrow> string \<Rightarrow> nat option" where
  "dec_value acc [] = Some acc"
| "dec_value acc (c # cs) = Option.bind (digit_val c) (\<lambda>d. dec_value (acc * 10 + d) cs)"

definition sample_from_dec_str :: "string \<Rightarrow> (u256, string) result" where
  "sample_from_dec_str s = (case dec_value 0 s of
     Some n \<Rightarrow> if n < 2 ^ 256 then Ok (of_nat n) else Err ''overflow''
   | None \<Rightarrow> Err ''invalid character'')"

text \<open>A list of texts as bytes: every character behind a 1, every text closed by a 0.\<close>

fun put_text :: "string \<Rightarrow> bytes" where
  "put_text [] = [0]"
| "put_text (c # cs) = 1 # of_char c # put_text cs"

fun take_text :: "bytes \<Rightarrow> (string \<times> bytes) option" where
  "take_text (b # bs) =
     (if b = 0 then Some ([], bs)
      else case bs of
        [] \<Rightarrow> None
      | c # cs \<Rightarrow> map_option (\<lambda>(s, rest). (char_of (unat c) # s, rest)) (take_text cs))"
| "take_text [] = None"

definition sample_json_to_vec :: "raw_packet_data \<Rightarrow> bytes" where
  "sample_json_to_vec r = put_text (rpd_denom r) @ put_text (rpd_amount r) @ put_text (rpd_sender r)
     @ put_text (rpd_receiver r) @ put_text (rpd_memo r)"

definition sample_json_packet_data :: "bytes \<Rightarrow> raw_packet_data option" where
  "sample_json_packet_data b =
     Option.bind (take_text b) (\<lambda>(denom, b1).
     Option.bind (take_text b1) (\<lambda>(amount, b2).
     Option.bind (take_text b2) (\<lambda>(sender, b3).
     Option.bind (take_text b3) (\<lambda>(receiver, b4).
     Option.bind (take_text b4) (\<lambda>(memo, b5).
     if b5 = [] then Some \<lparr>rpd_denom = denom, rpd_amount = amount, rpd_sender = sender,
       rpd_receiver = receiver, rpd_memo = memo\<rparr> else None)))))"

definition sample_json_ack_status :: "bytes \<Rightarrow> acknowledgement_status option" where
  "sample_json_ack_status b =
     (if b = acknowledgement_bytes success_ack then Some (AckSuccess (StatusValue ''AQ==''))
      else if take 2 (drop 2 b) = string_bytes ''er''
      then Some (AckError (StatusValue (map (char_of \<circ> unat) (butlast (butlast (drop 10 b))))))
      else None)"

definition sample_te :: transfer_ext where
  "sample_te = \<lparr>te_from_dec_str = sample_from_dec_str, te_u256_to_string = (\<lambda>a. show_nat (unat a)),
     te_json_to_vec = sample_json_to_vec, te_json_packet_data = sample_json_packet_data,
     te_json_ack_status = sample_json_ack_status, te_decode_msg = (\<lambda>_. None),
     te_decode_error = (\<lambda>_. []), te_time_to_rfc3339 = (\<lambda>_. [])\<rparr>"


section \<open>The bank\<close>

definition ledger_exec ::
  "('acc ledger \<Rightarrow> 'acc ledger option) \<Rightarrow> ('acc ledger, unit, token_transfer_error) exec" where
  "ledger_exec f = (\<lambda>l. case f l of
     Some l' \<Rightarrow> (Ok (), l')
   | None \<Rightarrow> (Err (InsufficientFunds [] []), l))"

definition sample_bank_ops :: "(string, string ledger) transfer_ops" where
  "sample_bank_ops =
     \<lparr>to_account = (\<lambda>s. case s of Signer a \<Rightarrow> if a = [] then None else Some a),
      get_port = (\<lambda>_. Ok port_id_transfer), can_send_coins = (\<lambda>_. Ok ()),
      can_receive_coins = (\<lambda>_. Ok ()), escrow_coins_validate = (\<lambda>_ _ _ _ _ _. Ok ()),
      unescrow_coins_validate = (\<lambda>_ _ _ _ _. Ok ()), mint_coins_validate = (\<lambda>_ _ _. Ok ()),
      burn_coins_validate = (\<lambda>_ _ _ _. Ok ()), denom_hash_string = (\<lambda>_ _. None),
      escrow_coins_execute = (\<lambda>a p c coin _. ledger_exec (ledger_escrow a p c coin)),
      unescrow_coins_execute = (\<lambda>a p c coin. ledger_exec (ledger_unescrow a p c coin)),
      mint_coins_execute = (\<lambda>a coin. ledger_exec (ledger_mint a coin)),
      burn_coins_execute = (\<lambda>a coin _. ledger_exec (ledger_burn a coin))\<rparr>"

definition sample_denom :: prefixed_denom where
  "sample_denom = prefixed_denom_from_base (BaseDenom ''uatom'')"

definition sample_bank :: "nat \<Rightarrow> string ledger" where
  "sample_bank n = \<lparr>total_supply = (\<lambda>d. if d = sample_denom then n else 0),
     escrowed = (\<lambda>_ _ _. 0), balance = (\<lambda>a d. if a = ''alice'' \<and> d = sample_denom then n else 0)\<rparr>"

definition sample_link :: "(string, string ledger) transfer_link" where
  "sample_link = \<lparr>link_ops = (\<lambda>_. sample_bank_ops), link_port = (\<lambda>_. port_id_transfer),
     link_chan = (\<lambda>X. case X of ChainA \<Rightarrow> channel_id_new 0 | ChainB \<Rightarrow> channel_id_new 3)\<rparr>"

definition sample_net :: "string ledger transfer_net" where
  "sample_net = \<lparr>net_bank = (\<lambda>X. case X of ChainA \<Rightarrow> sample_bank 100 | ChainB \<Rightarrow> sample_bank 0),
     in_flight = (\<lambda>_. []), answered = (\<lambda>_. [])\<rparr>"

definition sample_raw_transfer :: raw_msg_transfer where
  "sample_raw_transfer = \<lparr>rmt_source_port = ''transfer'', rmt_source_channel = ''channel-0'',
     rmt_token = Some \<lparr>pc_denom = ''uatom'', pc_amount = ''10''\<rparr>, rmt_sender = ''alice'',
     rmt_receiver = ''bob'',
     rmt_timeout_height = Some \<lparr>rh_revision_number = 0, rh_revision_height = 100\<rparr>,
     rmt_timeout_timestamp = 0, rmt_memo = []\<rparr>"

definition sample_transfer :: msg_transfer where
  "sample_transfer = \<lparr>mt_port_id_on_a = port_id_transfer, mt_chan_id_on_a = channel_id_new 0,
     mt_packet_data = \<lparr>td_token = \<lparr>coin_denom = sample_denom, coin_amount = 10\<rparr>,
       td_sender = Signer ''alice'', td_receiver = Signer ''bob'', td_memo = []\<rparr>,
     mt_timeout_height_on_b = At (Height 0 100), mt_timeout_timestamp_on_b = timestamp_none\<rparr>"


section \<open>Lemmas\<close>

lemma dec_value_append: "dec_value acc (xs @ ys) = Option.bind (dec_value acc xs) (\<lambda>a. dec_value a ys)"
  by (induction xs arbitrary: acc) (auto simp: bind_eq_Some_conv split: bind_splits)

lemma dec_value_show_nat: "dec_value 0 (show_nat n) = Some n"
proof (induction n rule: show_nat.induct)
  case (1 n)
  show ?case
  proof (cases "n < 10")
    case True
    then show ?thesis by (subst show_nat.simps) simp
  next
    case False
    then show ?thesis using "1.IH" by (subst show_nat.simps) (simp add: dec_value_append)
  qed
qed

lemma unat_of_char [simp]: "unat (of_char c :: byte) = of_char c"
proof -
  have "(of_char c :: nat) < 256" by simp
  then have "unat (of_nat (of_char c) :: byte) = of_char c" by (simp add: unat_of_nat)
  then show ?thesis by (simp add: of_nat_of_char)
qed

lemma take_text_put [simp]:
  "take_text (put_text s @ rest) = Some (s, rest)" "take_text (put_text s) = Some (s, [])"
  by (induction s) simp_all

lemma sample_te_faithful: "faithful_texts sample_te"
proof -
  have "amount_text_inverse sample_te"
  proof (unfold amount_text_inverse_def, intro allI)
    fix a :: u256
    have "unat a < 2 ^ 256" using unsigned_less [of a] by simp
    then show "te_from_dec_str sample_te (te_u256_to_string sample_te a) = Ok a"
      by (simp add: sample_te_def sample_from_dec_str_def dec_value_show_nat)
  qed
  moreover have "json_inverse sample_te"
    by (simp add: json_inverse_def sample_te_def sample_json_to_vec_def sample_json_packet_data_def)
  moreover have "ack_status_to_bytes (AckError v) \<noteq> acknowledgement_bytes success_ack" for v
    using error_ack_not_success [OF error_ackI, of v] by (cases success_ack) auto
  then have "ack_json_sound sample_te"
    by (auto simp: ack_json_sound_def sample_te_def sample_json_ack_status_def
        ack_status_is_successful_def split: if_splits)
  ultimately show ?thesis by (simp add: faithful_texts_def)
qed

lemma ledger_exec_follows: "follows (\<lambda>l. l) (ledger_exec f) f"
  by (auto simp: follows_def ledger_exec_def split: option.splits)

lemma sample_keeps_books: "keeps_books sample_bank_ops (\<lambda>l. l)"
  by (simp add: keeps_books_def sample_bank_ops_def ledger_exec_follows)

section \<open>A transfer\<close>

lemmas transfer_eval = send_transfer_def send_transfer_validate_def send_transfer_execute_def
  exec_fst_def exec_snd_def transfer_packet_def sample_bank_ops_def ledger_exec_def sample_transfer_def

lemma channel_0_str: "channel_id_str (channel_id_new 0) = ''channel-0''"
  by (simp add: channel_id_new_def channel_id_prefix_def show_u64_def show_nat.simps digit_char_def
      char_of_def bit_Suc_0_iff)

lemma sample_ids:
  "port_id_from_str ''transfer'' = Ok port_id_transfer"
  "channel_id_from_str ''channel-0'' = Ok (channel_id_new 0)"
  using parse_valid_ids(3) [OF valid_port_id_transfer] parse_valid_ids(4) [OF valid_channel_id_new, of 0]
  by (simp_all add: channel_0_str ok_opt_Some_iff port_id_transfer_def)

lemma sample_denom_parses: "prefixed_denom_from_str ''uatom'' = Ok sample_denom"
  by code_simp

lemma sample_amount_parses: "sample_from_dec_str ''10'' = Ok 10"
  by (simp add: sample_from_dec_str_def digit_val_def)

lemma sample_transfer_parses: "msg_transfer_try_from sample_te sample_raw_transfer = Ok sample_transfer"
  by (simp add: msg_transfer_try_from_def sample_raw_transfer_def sample_transfer_def sample_te_def
      timestamp_from_nanoseconds_def timeout_height_try_from_def height_try_from_def height_new_def
      timeout_height_is_set_def sample_ids coin_try_from_def sample_denom_parses amount_from_str_def
      sample_amount_parses timestamp_none_def)

lemma sample_send_run:
  "\<exists>st. play sample_env dummy_transfer_ops (sample_script Unordered) sample_start = Some st
     \<and> (case st of (s, r) \<Rightarrow>
       channel_end_store s (ChannelEndPath port_id_transfer (channel_id_new 0)) = Some
         \<lparr>ch_state = Open, ch_ordering = Unordered,
          ch_remote = \<lparr>hcp_port_id = port_id_transfer, hcp_channel_id = Some (channel_id_new 3)\<rparr>,
          ch_connection_hops = [connection_id_new 0], ch_version = ChanVersion ''ics20-1''\<rparr>
       \<and> send_sequence_store s (SeqSendPath port_id_transfer (channel_id_new 0)) = Some 1
       \<and> kept (send_packet sample_env (transfer_packet sample_te sample_transfer 1 port_id_transfer
            (channel_id_new 3)) s) \<noteq> None)"
  by (simp add: sample_eval transfer_packet_def sample_transfer_def)


definition sample_transfer_packet :: packet where
  "sample_transfer_packet =
     transfer_packet sample_te sample_transfer 1 port_id_transfer (channel_id_new 3)"

text \<open>The two banks after the transfer is sent, and after it is received.\<close>

definition sample_sent_bank :: "string ledger" where
  "sample_sent_bank = the (ledger_escrow ''alice'' port_id_transfer (channel_id_new 0)
     (td_token (mt_packet_data sample_transfer)) (sample_bank 100))"

definition sample_received_bank :: "string ledger" where
  "sample_received_bank = the (ledger_mint ''bob''
     \<lparr>coin_denom = voucher sample_link ChainB sample_denom, coin_amount = 10\<rparr> (sample_bank 0))"

lemma sample_escrow:
  "ledger_escrow ''alice'' port_id_transfer (channel_id_new 0)
     (td_token (mt_packet_data sample_transfer)) (sample_bank 100) = Some sample_sent_bank"
  by (simp add: sample_sent_bank_def ledger_escrow_def debit_def sample_transfer_def sample_bank_def)

lemma sample_denom_native: "\<not> is_receiver_chain_source p c sample_denom"
  by (simp add: is_receiver_chain_source_def sample_denom_def prefixed_denom_from_base_def
      trace_path_empty_def trace_path_starts_with_def)

lemma sample_send_facts:
  obtains s c s' where
    "channel_end_store s (ChannelEndPath port_id_transfer (channel_id_new 0)) = Some c"
    "ch_remote c = \<lparr>hcp_port_id = port_id_transfer, hcp_channel_id = Some (channel_id_new 3)\<rparr>"
    "send_sequence_store s (SeqSendPath port_id_transfer (channel_id_new 0)) = Some 1"
    "send_transfer sample_env sample_te sample_bank_ops sample_transfer (s, sample_bank 100)
       = (Ok (), (s', sample_sent_bank))"
proof -
  obtain s r where s: "channel_end_store s (ChannelEndPath port_id_transfer (channel_id_new 0)) = Some
         \<lparr>ch_state = Open, ch_ordering = Unordered,
          ch_remote = \<lparr>hcp_port_id = port_id_transfer, hcp_channel_id = Some (channel_id_new 3)\<rparr>,
          ch_connection_hops = [connection_id_new 0], ch_version = ChanVersion ''ics20-1''\<rparr>"
      "send_sequence_store s (SeqSendPath port_id_transfer (channel_id_new 0)) = Some 1"
      "kept (send_packet sample_env sample_transfer_packet s) \<noteq> None"
    using sample_send_run by (auto simp: sample_transfer_packet_def split: prod.splits)
  from s(3) obtain s1 where sent: "send_packet_validate sample_env sample_transfer_packet s = Ok ()"
      "send_packet_execute sample_env sample_transfer_packet s = (Ok (), s1)"
    by (auto simp: kept_def send_packet_def result_simps split: prod.splits result.splits)
  have "\<exists>s'. send_transfer sample_env sample_te sample_bank_ops sample_transfer (s, sample_bank 100)
       = (Ok (), (s', sample_sent_bank))"
    using s(1,2) sent sample_escrow
    by (simp add: transfer_eval Let_def store_reads sample_transfer_packet_def sample_denom_native
        is_sender_chain_source_def exec_bind_def exec_read_def exec_lift_def exec_map_err_def
        log_message_def emit_ibc_event_def exec_write_def)
  with s that show ?thesis by fastforce
qed

definition sample_net_sent :: "string ledger transfer_net" where
  "sample_net_sent = sample_net\<lparr>net_bank := (net_bank sample_net)(ChainA := sample_sent_bank),
     in_flight := (in_flight sample_net)(ChainA := [sample_transfer_packet])\<rparr>"

definition sample_net_received :: "string ledger transfer_net" where
  "sample_net_received = sample_net_sent\<lparr>
     net_bank := (net_bank sample_net_sent)(ChainB := sample_received_bank),
     in_flight := (in_flight sample_net_sent)(ChainA := []),
     answered := (answered sample_net_sent)(ChainA := [(sample_transfer_packet, success_ack)])\<rparr>"

lemma sample_link_simps [simp]:
  "link_ops sample_link X = sample_bank_ops" "link_port sample_link X = port_id_transfer"
  "link_chan sample_link ChainA = channel_id_new 0" "link_chan sample_link ChainB = channel_id_new 3"
  by (simp_all add: sample_link_def)

lemma sample_new_link: "new_link sample_link (\<lambda>l. l) sample_net"
  by (auto simp: new_link_def sample_net_def sample_bank_def sample_denom_native split: side.splits)

lemma sample_packet_data:
  "json_to_packet_data sample_te (packet_data sample_transfer_packet) = Some (mt_packet_data sample_transfer)"
  using json_packet_data_round_trip [of sample_te "mt_packet_data sample_transfer"] sample_te_faithful
    msg_transfer_printable [OF sample_transfer_parses]
  by (simp add: sample_transfer_packet_def transfer_packet_def faithful_texts_def)

lemma sample_step_send:
  "transfer_step sample_env sample_te sample_link (\<lambda>l. l) sample_net sample_net_sent"
proof -
  obtain s c s' where s: "channel_end_store s (ChannelEndPath port_id_transfer (channel_id_new 0)) = Some c"
    "ch_remote c = \<lparr>hcp_port_id = port_id_transfer, hcp_channel_id = Some (channel_id_new 3)\<rparr>"
    "send_sequence_store s (SeqSendPath port_id_transfer (channel_id_new 0)) = Some 1"
    "send_transfer sample_env sample_te sample_bank_ops sample_transfer (s, sample_bank 100)
       = (Ok (), (s', sample_sent_bank))" by (rule sample_send_facts)
  have ids: "mt_port_id_on_a sample_transfer = port_id_transfer"
    "mt_chan_id_on_a sample_transfer = channel_id_new 0" by (simp_all add: sample_transfer_def)
  show ?thesis
    using step_send [where X = ChainA and L = sample_link and n = sample_net and view = "\<lambda>l. l",
        OF sample_transfer_parses, of s c 1 sample_env s' sample_sent_bank] s ids
    by (simp add: sample_net_sent_def sample_net_def sample_transfer_packet_def)
qed

lemma sample_recv_run:
  obtains ex where "transfer_on_recv_packet_execute sample_te sample_bank_ops sample_transfer_packet (sample_bank 0)
    = ((Ok (ex, success_ack) :: (_, unit) result), sample_received_bank)"
proof -
  have "\<exists>ex. transfer_on_recv_packet_execute sample_te sample_bank_ops sample_transfer_packet (sample_bank 0)
      = ((Ok (ex, success_ack) :: (_, unit) result), sample_received_bank)"
    using sample_packet_data
    by (simp add: transfer_on_recv_packet_execute_def process_recv_packet_execute_def exec_bind_def
        sample_bank_ops_def exec_read_def exec_lift_def with_extras_def sample_transfer_packet_def
        transfer_packet_def sample_transfer_def sample_denom_native Let_def ledger_exec_def
        exec_map_err_def exec_return_def sample_received_bank_def voucher_def link_prefix_def
        ledger_mint_def success_ack_def del: ack_status_to_bytes.simps)
  then show thesis using that by blast
qed

lemma sample_step_recv:
  "transfer_step sample_env sample_te sample_link (\<lambda>l. l) sample_net_sent sample_net_received"
proof -
  obtain ex where "transfer_on_recv_packet_execute sample_te sample_bank_ops sample_transfer_packet
      (sample_bank 0) = ((Ok (ex, success_ack) :: (_, unit) result), sample_received_bank)"
    by (rule sample_recv_run)
  then show ?thesis
    using step_recv [of sample_net_sent ChainA "[]" sample_transfer_packet "[]" sample_te sample_link
        ex success_ack sample_received_bank sample_env "\<lambda>l. l"]
    by (simp add: sample_net_received_def sample_net_sent_def sample_net_def)
qed

lemma sample_reachable_nets:
  "transfer_reaches sample_env sample_te sample_link (\<lambda>l. l) sample_net_sent"
  "transfer_reaches sample_env sample_te sample_link (\<lambda>l. l) sample_net_received"
  using sample_new_link sample_step_send sample_step_recv unfolding transfer_reaches_def
  by (meson rtranclp.rtrancl_refl rtranclp.rtrancl_into_rtrancl)+

end
