(* ===== verification/Commitments.thy ===== *)
theory Commitments
  imports Error_Texts
begin

text \<open>
  Vector commitments of ICS-23 (\<open>ibc-core/ics23-commitment/types\<close>): roots, proof bytes
  and prefixes, the specifications of proofs with their validation, and the verification
  of chained Merkle proofs of \<open>merkle.rs\<close>, from the innermost tree to the outermost.

  One tree is verified by the crate \<open>ics23\<close>; its functions, its enumerations and the
  protobuf codec of a proof are the record \<open>ics23_ops\<close>.  An existence proof is of an
  arbitrary type \<open>'ep\<close>, as this code only hands it on.
\<close>

section \<open>Roots, proof bytes and prefixes\<close>

definition commitment_root_bytes :: "commitment_root \<Rightarrow> bytes" where
  "commitment_root_bytes r = (case r of CommitmentRoot b \<Rightarrow> b)"

definition commitment_root_is_empty :: "commitment_root \<Rightarrow> bool" where
  "commitment_root_is_empty r \<longleftrightarrow> commitment_root_bytes r = []"

definition commitment_proof_bytes_of :: "commitment_proof_bytes \<Rightarrow> bytes" where
  "commitment_proof_bytes_of p = (case p of CommitmentProofBytes b \<Rightarrow> b)"

definition commitment_proof_try_from ::
  "bytes \<Rightarrow> (commitment_proof_bytes, commitment_error) result" where
  "commitment_proof_try_from b =
     (if b = [] then Err EmptyMerkleProof else Ok (CommitmentProofBytes b))"

definition commitment_prefix_empty :: commitment_prefix where
  "commitment_prefix_empty = CommitmentPrefix []"

text \<open>\<open>core::str::from_utf8\<close>: the well-formed byte sequences of UTF-8.\<close>

definition utf8_cont :: "byte \<Rightarrow> bool" where
  "utf8_cont b \<longleftrightarrow> 0x80 \<le> b \<and> b \<le> 0xBF"

definition utf8_two :: "byte \<Rightarrow> byte \<Rightarrow> bool" where
  "utf8_two b c \<longleftrightarrow> 0xC2 \<le> b \<and> b \<le> 0xDF \<and> utf8_cont c"

definition utf8_three :: "byte \<Rightarrow> byte \<Rightarrow> byte \<Rightarrow> bool" where
  "utf8_three b c d \<longleftrightarrow> utf8_cont c \<and> utf8_cont d \<and>
     (b = 0xE0 \<and> 0xA0 \<le> c \<or> 0xE1 \<le> b \<and> b \<le> 0xEC \<or> b = 0xED \<and> c \<le> 0x9F
      \<or> 0xEE \<le> b \<and> b \<le> 0xEF)"

definition utf8_four :: "byte \<Rightarrow> byte \<Rightarrow> byte \<Rightarrow> byte \<Rightarrow> bool" where
  "utf8_four b c d e \<longleftrightarrow> utf8_cont c \<and> utf8_cont d \<and> utf8_cont e \<and>
     (b = 0xF0 \<and> 0x90 \<le> c \<or> 0xF1 \<le> b \<and> b \<le> 0xF3 \<or> b = 0xF4 \<and> c \<le> 0x8F)"

fun utf8_valid :: "bytes \<Rightarrow> bool" where
  "utf8_valid [] = True"
| "utf8_valid (b # bs) = (if b < 0x80 then utf8_valid bs else (case bs of
     [] \<Rightarrow> False
   | c # cs \<Rightarrow> if utf8_two b c then utf8_valid cs else (case cs of
       [] \<Rightarrow> False
     | d # ds \<Rightarrow> if utf8_three b c d then utf8_valid ds else (case ds of
         [] \<Rightarrow> False
       | e # es \<Rightarrow> utf8_four b c d e \<and> utf8_valid es))))"

definition bytes_string :: "bytes \<Rightarrow> string" where
  "bytes_string b = map (\<lambda>w. char_of (unat w)) b"

text \<open>\<open>Debug\<close> of a prefix: its text, or the list of its bytes.\<close>

definition commitment_prefix_debug :: "commitment_prefix \<Rightarrow> string" where
  "commitment_prefix_debug p = (let b = commitment_prefix_bytes p in
     if utf8_valid b then bytes_string b
     else ''<not valid UTF8: ['' @ join '', '' (map (\<lambda>w. show_nat (unat w)) b) @ '']>'')"


section \<open>Specifications of proofs\<close>

record leaf_op =
  lo_hash :: int
  lo_prehash_key :: int
  lo_prehash_value :: int
  lo_length :: int
  lo_prefix :: bytes

record inner_spec =
  is_child_order :: "int list"
  is_child_size :: int
  is_min_prefix_length :: int
  is_max_prefix_length :: int
  is_empty_child :: bytes
  is_hash :: int

record proof_spec =
  ps_leaf_spec :: "leaf_op option"
  ps_inner_spec :: "inner_spec option"
  ps_max_depth :: int
  ps_min_depth :: int
  ps_prehash_key_before_comparison :: bool

datatype proof_specs = ProofSpecs (proof_specs_list: "proof_spec list")

text \<open>Proofs of one tree.  Batch and compressed proofs are refused unread.\<close>

record 'ep non_existence_proof =
  nep_key :: bytes
  nep_left :: "'ep option"
  nep_right :: "'ep option"

datatype 'ep tree_proof =
    Exist 'ep
  | Nonexist "'ep non_existence_proof"
  | Batch bytes
  | Compressed bytes

type_synonym 'ep commitment_proof = "'ep tree_proof option"

record 'ep ics23_ops =
  ics_is_hash_op :: "int \<Rightarrow> bool"
  ics_is_length_op :: "int \<Rightarrow> bool"
  ics_iavl_spec :: proof_spec
  ics_tendermint_spec :: proof_spec
  ics_existence_root :: "'ep \<Rightarrow> bytes option"
  ics_verify_membership :: "'ep commitment_proof \<Rightarrow> proof_spec \<Rightarrow> bytes \<Rightarrow> bytes \<Rightarrow> bytes \<Rightarrow> bool"
  ics_verify_non_membership :: "'ep commitment_proof \<Rightarrow> proof_spec \<Rightarrow> bytes \<Rightarrow> bytes \<Rightarrow> bool"
  ics_encode_proofs :: "'ep commitment_proof list \<Rightarrow> bytes"
  ics_decode_proofs :: "bytes \<Rightarrow> 'ep commitment_proof list option"
  ics_decode_error :: "bytes \<Rightarrow> string"

definition valid_depth_range :: "proof_spec \<Rightarrow> bool" where
  "valid_depth_range s \<longleftrightarrow> \<not> (ps_max_depth s < 0 \<or> ps_min_depth s < 0
     \<or> 0 < ps_min_depth s \<and> 0 < ps_max_depth s \<and> ps_max_depth s < ps_min_depth s)"

definition leaf_op_try_from ::
  "'ep ics23_ops \<Rightarrow> leaf_op \<Rightarrow> (leaf_op, commitment_error) result" where
  "leaf_op_try_from ics op =
     and_then (ensure (ics_is_hash_op ics (lo_hash op)) (InvalidHashOp (lo_hash op))) (\<lambda>_.
     and_then (ensure (ics_is_hash_op ics (lo_prehash_key op))
       (InvalidHashOp (lo_prehash_key op))) (\<lambda>_.
     and_then (ensure (ics_is_hash_op ics (lo_prehash_value op))
       (InvalidHashOp (lo_prehash_value op))) (\<lambda>_.
     and_then (ensure (ics_is_length_op ics (lo_length op)) (InvalidLengthOp (lo_length op))) (\<lambda>_.
     Ok op))))"

definition inner_spec_try_from :: "inner_spec \<Rightarrow> (inner_spec, commitment_error) result" where
  "inner_spec_try_from s =
     (if is_child_size s \<le> 0 then Err (InvalidChildSize (is_child_size s))
      else if is_min_prefix_length s < 0 \<or> is_max_prefix_length s < 0
        \<or> is_max_prefix_length s < is_min_prefix_length s
      then Err (InvalidPrefixLengthRange (is_min_prefix_length s) (is_max_prefix_length s))
      else Ok \<lparr>is_child_order = is_child_order s, is_child_size = is_child_size s,
               is_min_prefix_length = is_min_prefix_length s,
               is_max_prefix_length = is_max_prefix_length s,
               is_empty_child = is_empty_child s, is_hash = is_hash s\<rparr>)"

text \<open>\<open>Option::map\<close> with a fallible function and \<open>transpose\<close>.\<close>

definition transpose_map :: "('a \<Rightarrow> ('b, 'e) result) \<Rightarrow> 'a option \<Rightarrow> ('b option, 'e) result" where
  "transpose_map f x = (case x of None \<Rightarrow> Ok None | Some a \<Rightarrow> map_ok Some (f a))"

definition proof_spec_try_from ::
  "'ep ics23_ops \<Rightarrow> proof_spec \<Rightarrow> (proof_spec, commitment_error) result" where
  "proof_spec_try_from ics s =
     (if \<not> valid_depth_range s then Err (InvalidDepthRange (ps_min_depth s) (ps_max_depth s))
      else
      and_then (transpose_map (leaf_op_try_from ics) (ps_leaf_spec s)) (\<lambda>leaf.
      and_then (transpose_map inner_spec_try_from (ps_inner_spec s)) (\<lambda>inner.
      Ok \<lparr>ps_leaf_spec = leaf, ps_inner_spec = inner, ps_max_depth = ps_max_depth s,
          ps_min_depth = ps_min_depth s,
          ps_prehash_key_before_comparison = ps_prehash_key_before_comparison s\<rparr>)))"

definition proof_specs_try_from ::
  "'ep ics23_ops \<Rightarrow> proof_spec list \<Rightarrow> (proof_specs, commitment_error) result" where
  "proof_specs_try_from ics specs =
     (if specs = [] then Err EmptyProofSpecs
      else map_ok ProofSpecs (collect_results (map (proof_spec_try_from ics) specs)))"

definition proof_specs_to_raw :: "proof_specs \<Rightarrow> proof_spec list" where
  "proof_specs_to_raw specs = proof_specs_list specs"

definition proof_specs_is_empty :: "proof_specs \<Rightarrow> bool" where
  "proof_specs_is_empty self \<longleftrightarrow> proof_specs_list self = []"

fun validate_depths :: "proof_spec list \<Rightarrow> (unit, commitment_error) result" where
  "validate_depths [] = Ok ()"
| "validate_depths (s # ss) =
     (if \<not> valid_depth_range s then Err (InvalidDepthRange (ps_min_depth s) (ps_max_depth s))
      else validate_depths ss)"

definition proof_specs_validate :: "proof_specs \<Rightarrow> (unit, commitment_error) result" where
  "proof_specs_validate self =
     (if proof_specs_is_empty self then Err EmptyProofSpecs
      else validate_depths (proof_specs_list self))"

text \<open>\<open>ProofSpecs::cosmos\<close> expects the two specifications of the crate to convert.\<close>

definition proof_specs_cosmos :: "'ep ics23_ops \<Rightarrow> (proof_specs, 'e) result" where
  "proof_specs_cosmos ics =
     (case proof_specs_try_from ics [ics_iavl_spec ics, ics_tendermint_spec ics] of
        Ok specs \<Rightarrow> Ok specs
      | _ \<Rightarrow> Panic)"


section \<open>Merkle proofs\<close>

text \<open>A Merkle path and a Merkle root are the list of keys, outermost first, and the hash.\<close>

type_synonym merkle_path = "string list"

record 'ep merkle_proof =
  mp_proofs :: "'ep commitment_proof list"

definition apply_prefix :: "commitment_prefix \<Rightarrow> string list \<Rightarrow> merkle_path" where
  "apply_prefix prefix p = commitment_prefix_debug prefix # p"

definition merkle_proof_try_from ::
  "'ep ics23_ops \<Rightarrow> commitment_proof_bytes \<Rightarrow> ('ep merkle_proof, commitment_error) result" where
  "merkle_proof_try_from ics value = map_err DecodingFailure
     (protobuf_decode (ics_decode_proofs ics) (\<lambda>raw. Ok \<lparr>mp_proofs = raw\<rparr>)
        (ics_decode_error ics) (\<lambda>s :: string. s) (commitment_proof_bytes_of value))"

definition merkle_proof_to_bytes ::
  "'ep ics23_ops \<Rightarrow> 'ep merkle_proof \<Rightarrow> (commitment_proof_bytes, commitment_error) result" where
  "merkle_proof_to_bytes ics p = commitment_proof_try_from (ics_encode_proofs ics (mp_proofs p))"

text \<open>The loop of \<open>verify_membership\<close>: the root of each tree is the value in the next.\<close>

fun membership_loop ::
  "'ep ics23_ops \<Rightarrow> (('ep commitment_proof \<times> proof_spec) \<times> string) list \<Rightarrow> bytes \<Rightarrow> bytes
     \<Rightarrow> (bytes, commitment_error) result" where
  "membership_loop ics [] subroot value = Ok subroot"
| "membership_loop ics (((proof, spec), key) # rest) subroot value = (case proof of
     Some (Exist existence_proof) \<Rightarrow>
       and_then (ok_or (ics_existence_root ics existence_proof) InvalidMerkleProof) (\<lambda>subroot'.
       if \<not> ics_verify_membership ics proof spec subroot' (string_bytes key) value
       then Err VerificationFailure
       else membership_loop ics rest subroot' subroot')
   | _ \<Rightarrow> Err InvalidMerkleProof)"

definition merkle_verify_membership ::
  "'ep ics23_ops \<Rightarrow> 'ep merkle_proof \<Rightarrow> proof_specs \<Rightarrow> bytes \<Rightarrow> merkle_path \<Rightarrow> bytes \<Rightarrow> nat
     \<Rightarrow> (unit, commitment_error) result" where
  "merkle_verify_membership ics self specs root keys value start_index =
     (if mp_proofs self = [] then Err EmptyMerkleProof
      else if root = [] then Err EmptyMerkleRoot
      else let num = length (mp_proofs self); ics23_specs = proof_specs_to_raw specs in
      if length ics23_specs \<noteq> num then Err NumberOfSpecsMismatch
      else if length keys \<noteq> num then Err NumberOfKeysMismatch
      else if value = [] then Err EmptyVerifiedValue
      else
      and_then (membership_loop ics
        (drop start_index (zip (zip (mp_proofs self) ics23_specs) (rev keys))) value value) (\<lambda>subroot.
      if root \<noteq> subroot then Err VerificationFailure else Ok ()))"

definition calculate_non_existence_root ::
  "'ep ics23_ops \<Rightarrow> 'ep non_existence_proof \<Rightarrow> (bytes, commitment_error) result" where
  "calculate_non_existence_root ics proof = (case nep_left proof of
     Some left \<Rightarrow> ok_or (ics_existence_root ics left) InvalidMerkleProof
   | None \<Rightarrow> (case nep_right proof of
       Some right \<Rightarrow> ok_or (ics_existence_root ics right) InvalidMerkleProof
     | None \<Rightarrow> Err InvalidMerkleProof))"

definition list_get :: "'a list \<Rightarrow> nat \<Rightarrow> 'a option" where
  "list_get xs i = (if i < length xs then Some (xs ! i) else None)"

definition merkle_verify_non_membership ::
  "'ep ics23_ops \<Rightarrow> 'ep merkle_proof \<Rightarrow> proof_specs \<Rightarrow> bytes \<Rightarrow> merkle_path
     \<Rightarrow> (unit, commitment_error) result" where
  "merkle_verify_non_membership ics self specs root keys =
     (if mp_proofs self = [] then Err EmptyMerkleProof
      else if root = [] then Err EmptyMerkleRoot
      else let num = length (mp_proofs self); ics23_specs = proof_specs_to_raw specs in
      if length ics23_specs \<noteq> num then Err NumberOfSpecsMismatch
      else if length keys \<noteq> num then Err NumberOfKeysMismatch
      else
      and_then (ok_or (list_get (mp_proofs self) 0) InvalidMerkleProof) (\<lambda>proof.
      and_then (ok_or (list_get ics23_specs 0) InvalidMerkleProof) (\<lambda>spec.
      and_then (ok_or (list_get keys (num - 1)) InvalidMerkleProof) (\<lambda>key.
      case proof of
        Some (Nonexist non_existence_proof) \<Rightarrow>
          and_then (calculate_non_existence_root ics non_existence_proof) (\<lambda>subroot.
          if \<not> ics_verify_non_membership ics proof spec subroot (string_bytes key)
          then Err VerificationFailure
          else merkle_verify_membership ics self specs root keys subroot 1)
      | _ \<Rightarrow> Err InvalidMerkleProof))))"


section \<open>Lemmas\<close>

text \<open>A specification that converts is kept as it is, and is valid.\<close>

lemma leaf_op_try_from_OkD: "leaf_op_try_from ics op = Ok op' \<Longrightarrow> op' = op"
  by (auto simp: leaf_op_try_from_def result_simps)

lemma inner_spec_try_from_OkD: "inner_spec_try_from s = Ok s' \<Longrightarrow> s' = s"
  by (cases s) (auto simp: inner_spec_try_from_def split: if_splits)

lemma transpose_map_id:
  "(\<And>a b. f a = Ok b \<Longrightarrow> b = a) \<Longrightarrow> transpose_map f x = Ok y \<Longrightarrow> y = x"
  by (cases x) (auto simp: transpose_map_def result_simps)

lemma proof_spec_try_from_OkD:
  assumes "proof_spec_try_from ics s = Ok s'"
  shows "s' = s \<and> valid_depth_range s"
proof -
  obtain leaf inner where "valid_depth_range s"
    and lf: "transpose_map (leaf_op_try_from ics) (ps_leaf_spec s) = Ok leaf"
    and inn: "transpose_map inner_spec_try_from (ps_inner_spec s) = Ok inner"
    and s': "s' = \<lparr>ps_leaf_spec = leaf, ps_inner_spec = inner, ps_max_depth = ps_max_depth s,
       ps_min_depth = ps_min_depth s,
       ps_prehash_key_before_comparison = ps_prehash_key_before_comparison s\<rparr>"
    using assms by (auto simp: proof_spec_try_from_def and_then_Ok_iff split: if_splits)
  moreover have "leaf = ps_leaf_spec s" by (rule transpose_map_id [OF _ lf]) (rule leaf_op_try_from_OkD)
  moreover have "inner = ps_inner_spec s"
    by (rule transpose_map_id [OF _ inn]) (rule inner_spec_try_from_OkD)
  ultimately show ?thesis by simp
qed

lemma collect_proof_specs_OkD:
  "collect_results (map (proof_spec_try_from ics) ss) = Ok ts
     \<Longrightarrow> ts = ss \<and> list_all valid_depth_range ss"
  by (induction ss arbitrary: ts) (auto simp: result_simps dest: proof_spec_try_from_OkD)

lemma validate_depths_Ok_iff: "validate_depths ss = Ok () \<longleftrightarrow> list_all valid_depth_range ss"
  by (induction ss) auto

lemma proof_specs_try_from_OkD:
  assumes "proof_specs_try_from ics raw = Ok specs"
  shows "proof_specs_to_raw specs = raw \<and> proof_specs_validate specs = Ok ()"
proof -
  obtain ss where "raw \<noteq> []" and ss: "specs = ProofSpecs ss"
    and c: "collect_results (map (proof_spec_try_from ics) raw) = Ok ss"
    using assms by (auto simp: proof_specs_try_from_def map_ok_Ok_iff split: if_splits)
  then show ?thesis using collect_proof_specs_OkD [OF c]
    by (simp add: proof_specs_to_raw_def proof_specs_validate_def proof_specs_is_empty_def
        validate_depths_Ok_iff)
qed

text \<open>What is relied on of one tree: a root commits to at most one value under a key, and
  never to a value under a key it proves absent.\<close>

definition binding_trees :: "'ep ics23_ops \<Rightarrow> bool" where
  "binding_trees ics \<longleftrightarrow>
     (\<forall>p q spec root key v w. ics_verify_membership ics p spec root key v
        \<longrightarrow> ics_verify_membership ics q spec root key w \<longrightarrow> v = w)
   \<and> (\<forall>p q spec root key v. ics_verify_membership ics p spec root key v
        \<longrightarrow> \<not> ics_verify_non_membership ics q spec root key)"

lemma binding_treesD:
  assumes "binding_trees ics" "ics_verify_membership ics p spec root key v"
  shows "ics_verify_membership ics q spec root key w \<Longrightarrow> v = w"
    and "\<not> ics_verify_non_membership ics q spec root key"
  using assms unfolding binding_trees_def by blast+

lemma membership_loop_Cons_OkD:
  assumes "membership_loop ics (((proof, spec), key) # rest) s v = Ok root"
  obtains r where "ics_verify_membership ics proof spec r (string_bytes key) v"
    "membership_loop ics rest r r = Ok root"
  using assms by (auto simp: result_simps split: option.splits tree_proof.splits if_splits)

text \<open>Chains of trees bind as single trees do: from the common root inwards, the values of
  the two proofs agree.\<close>

lemma membership_loop_binding:
  assumes "binding_trees ics" "length ps = length ks" "length qs = length ks"
    "membership_loop ics (zip (zip ps ss) ks) v v = Ok root"
    "membership_loop ics (zip (zip qs ss) ks) w w = Ok root" "length ss = length ks"
  shows "v = w"
  using assms(2-6)
proof (induction ks arbitrary: ps qs ss v w)
  case Nil
  then show ?case by simp
next
  case (Cons k ks)
  then obtain p ps' q qs' s ss' where l: "ps = p # ps'" "qs = q # qs'" "ss = s # ss'"
    by (cases ps; cases qs; cases ss) simp_all
  have "membership_loop ics (((p, s), k) # zip (zip ps' ss') ks) v v = Ok root"
    using Cons.prems(3) l by (simp only: zip_Cons_Cons)
  then obtain a where a: "ics_verify_membership ics p s a (string_bytes k) v"
      "membership_loop ics (zip (zip ps' ss') ks) a a = Ok root"
    by (rule membership_loop_Cons_OkD)
  have "membership_loop ics (((q, s), k) # zip (zip qs' ss') ks) w w = Ok root"
    using Cons.prems(4) l by (simp only: zip_Cons_Cons)
  then obtain b where b: "ics_verify_membership ics q s b (string_bytes k) w"
      "membership_loop ics (zip (zip qs' ss') ks) b b = Ok root"
    by (rule membership_loop_Cons_OkD)
  have "length ps' = length ks" "length qs' = length ks" "length ss' = length ks"
    using Cons.prems(1,2,5) l by simp_all
  then have "a = b" by (intro Cons.IH [OF _ _ a(2) b(2)])
  then show ?case using binding_treesD(1) [OF assms(1) a(1)] b(1) by simp
qed

lemma merkle_verify_membership_Ok_iff:
  "merkle_verify_membership ics self specs root keys value n = Ok u \<longleftrightarrow>
     mp_proofs self \<noteq> [] \<and> root \<noteq> [] \<and> value \<noteq> []
     \<and> length (proof_specs_to_raw specs) = length (mp_proofs self)
     \<and> length keys = length (mp_proofs self)
     \<and> membership_loop ics (drop n (zip (zip (mp_proofs self) (proof_specs_to_raw specs))
         (rev keys))) value value = Ok root"
  by (auto simp: merkle_verify_membership_def Let_def result_simps split: if_splits)

lemma merkle_membership_unique:
  assumes "binding_trees ics"
    and "merkle_verify_membership ics p specs root keys v 0 = Ok u"
    and "merkle_verify_membership ics q specs root keys w 0 = Ok u'"
  shows "v = w"
proof (rule membership_loop_binding [OF assms(1)])
  show "membership_loop ics (zip (zip (mp_proofs p) (proof_specs_to_raw specs)) (rev keys)) v v = Ok root"
    using assms(2) by (simp add: merkle_verify_membership_Ok_iff)
  show "membership_loop ics (zip (zip (mp_proofs q) (proof_specs_to_raw specs)) (rev keys)) w w = Ok root"
    using assms(3) by (simp add: merkle_verify_membership_Ok_iff)
qed (use assms(2,3) in \<open>simp_all add: merkle_verify_membership_Ok_iff\<close>)

lemma merkle_verify_non_membership_OkD:
  assumes "merkle_verify_non_membership ics self specs root keys = Ok u"
  obtains tp ps spec ss key ks subroot where "mp_proofs self = tp # ps"
    "proof_specs_to_raw specs = spec # ss" "rev keys = key # ks"
    "length ss = length ps" "length ks = length ps"
    "ics_verify_non_membership ics tp spec subroot (string_bytes key)"
    "membership_loop ics (zip (zip ps ss) ks) subroot subroot = Ok root"
proof -
  obtain tp ps where p: "mp_proofs self = tp # ps"
    using assms by (cases "mp_proofs self") (simp_all add: merkle_verify_non_membership_def)
  have len: "length (proof_specs_to_raw specs) = Suc (length ps)" "length keys = Suc (length ps)"
    using assms p by (auto simp: merkle_verify_non_membership_def Let_def split: if_splits)
  then obtain spec ss where s: "proof_specs_to_raw specs = spec # ss" "length ss = length ps"
    by (auto simp: length_Suc_conv)
  obtain key ks where k: "rev keys = key # ks" "length ks = length ps"
    using len(2) by (cases "rev keys") (simp_all flip: length_rev [of keys])
  have last: "keys ! length ps = key"
    using k len(2) rev_nth [of 0 "keys"] by simp
  obtain subroot where "ics_verify_non_membership ics tp spec subroot (string_bytes key)"
      "merkle_verify_membership ics self specs root keys subroot 1 = Ok u"
    using assms p s len last
    by (auto simp: merkle_verify_non_membership_def list_get_def and_then_Ok_iff
        split: if_splits option.splits tree_proof.splits)
  then show thesis using p s k by (intro that) (auto simp: merkle_verify_membership_Ok_iff)
qed

text \<open>No value can be proved under a path that is proved absent.\<close>

lemma merkle_absence_excludes_presence:
  assumes bind: "binding_trees ics"
    and absent: "merkle_verify_non_membership ics q specs root keys = Ok u'"
    and member: "merkle_verify_membership ics p specs root keys v 0 = Ok u"
  shows False
proof -
  obtain pq qs spec ss key ks subroot where q: "mp_proofs q = pq # qs"
      "proof_specs_to_raw specs = spec # ss" "rev keys = key # ks"
      "length ss = length qs" "length ks = length qs"
      "ics_verify_non_membership ics pq spec subroot (string_bytes key)"
      "membership_loop ics (zip (zip qs ss) ks) subroot subroot = Ok root"
    by (rule merkle_verify_non_membership_OkD [OF absent])
  have "length (mp_proofs p) = length keys"
    using member by (simp add: merkle_verify_membership_Ok_iff)
  then have "length (mp_proofs p) = Suc (length ks)" 
    using arg_cong [OF q(3), of length] by simp
  then obtain pp ps where p: "mp_proofs p = pp # ps" "length ps = length ks"
    by (auto simp: length_Suc_conv)
  have "membership_loop ics (((pp, spec), key) # zip (zip ps ss) ks) v v = Ok root"
    using member p q by (simp add: merkle_verify_membership_Ok_iff)
  then obtain r where r: "ics_verify_membership ics pp spec r (string_bytes key) v"
      "membership_loop ics (zip (zip ps ss) ks) r r = Ok root"
    by (rule membership_loop_Cons_OkD)
  have "r = subroot"
    using membership_loop_binding [OF bind p(2) _ r(2) q(7)] q by simp
  then show False using binding_treesD(2) [OF bind r(1)] q(6) by blast
qed

end
