(* ===== verification/Messages.thy ===== *)
theory Messages
  imports Commitments
begin

text \<open>
  The messages of ICS-02, ICS-03 and ICS-04 on the wire (the modules \<open>msgs\<close> of the types
  crates, and \<open>ics25-handler/types/src/msgs.rs\<close>): their protobuf forms, the conversions in
  both directions and the decoding of a message envelope by its type URL.  The protobuf
  codec, generated code of another crate, is the record \<open>msg_codec\<close>.
\<close>

section \<open>Parts of messages\<close>

text \<open>A proof that must be there, with the error the message reports otherwise.\<close>

definition proof_of_bytes :: "'e \<Rightarrow> bytes \<Rightarrow> (commitment_proof_bytes, 'e) result" where
  "proof_of_bytes e b = map_err (\<lambda>_. e) (commitment_proof_try_from b)"

definition height_of_raw :: "'e \<Rightarrow> raw_height option \<Rightarrow> (height, 'e) result" where
  "height_of_raw e r = ok_or (Option.bind r (\<lambda>rh. ok_opt (height_try_from rh))) e"

text \<open>The proof of the host's own consensus state is optional, an empty one is none.\<close>

definition host_proof_of_bytes :: "bytes \<Rightarrow> (commitment_proof_bytes option, connection_error) result" where
  "host_proof_of_bytes b = (if b = [] then Ok None else map_ok Some (proof_of_bytes ConnInvalidProof b))"

definition host_proof_to_bytes :: "commitment_proof_bytes option \<Rightarrow> bytes" where
  "host_proof_to_bytes p = (case p of Some proof \<Rightarrow> commitment_proof_bytes_of proof | None \<Rightarrow> [])"


section \<open>Messages of ICS-02\<close>

record raw_msg_create_client =
  rcc_client_state :: "any_msg option"
  rcc_consensus_state :: "any_msg option"
  rcc_signer :: string

definition msg_create_client_try_from ::
  "raw_msg_create_client \<Rightarrow> (msg_create_client, client_error) result" where
  "msg_create_client_try_from raw =
     and_then (ok_or (rcc_client_state raw) MissingRawClientState) (\<lambda>raw_client_state.
     and_then (ok_or (rcc_consensus_state raw) MissingRawConsensusState) (\<lambda>raw_consensus_state.
     Ok \<lparr>cc_client_state = raw_client_state, cc_consensus_state = raw_consensus_state,
         cc_signer = Signer (rcc_signer raw)\<rparr>))"

definition msg_create_client_to_raw :: "msg_create_client \<Rightarrow> raw_msg_create_client" where
  "msg_create_client_to_raw m =
     \<lparr>rcc_client_state = Some (cc_client_state m), rcc_consensus_state = Some (cc_consensus_state m),
      rcc_signer = signer_to_string (cc_signer m)\<rparr>"

record raw_msg_update_client =
  ruc_client_id :: string
  ruc_client_message :: "any_msg option"
  ruc_signer :: string

definition msg_update_client_try_from ::
  "raw_msg_update_client \<Rightarrow> (msg_update_client, client_error) result" where
  "msg_update_client_try_from raw =
     and_then (map_err InvalidMsgUpdateClientId (client_id_from_str (ruc_client_id raw))) (\<lambda>client_id.
     and_then (ok_or (ruc_client_message raw) MissingClientMessage) (\<lambda>client_message.
     Ok \<lparr>uc_client_id = client_id, uc_client_message = client_message,
         uc_signer = Signer (ruc_signer raw)\<rparr>))"

definition msg_update_client_to_raw :: "msg_update_client \<Rightarrow> raw_msg_update_client" where
  "msg_update_client_to_raw m =
     \<lparr>ruc_client_id = client_id_str (uc_client_id m), ruc_client_message = Some (uc_client_message m),
      ruc_signer = signer_to_string (uc_signer m)\<rparr>"

record raw_msg_submit_misbehaviour =
  rsm_client_id :: string
  rsm_misbehaviour :: "any_msg option"
  rsm_signer :: string

definition msg_submit_misbehaviour_try_from ::
  "raw_msg_submit_misbehaviour \<Rightarrow> (msg_submit_misbehaviour, client_error) result" where
  "msg_submit_misbehaviour_try_from raw =
     and_then (ok_or (rsm_misbehaviour raw) MissingRawMisbehaviour) (\<lambda>raw_misbehaviour.
     and_then (map_err InvalidRawMisbehaviour (client_id_from_str (rsm_client_id raw))) (\<lambda>client_id.
     Ok \<lparr>sm_client_id = client_id, sm_misbehaviour = raw_misbehaviour,
         sm_signer = Signer (rsm_signer raw)\<rparr>))"

definition msg_submit_misbehaviour_to_raw :: "msg_submit_misbehaviour \<Rightarrow> raw_msg_submit_misbehaviour" where
  "msg_submit_misbehaviour_to_raw m =
     \<lparr>rsm_client_id = client_id_str (sm_client_id m), rsm_misbehaviour = Some (sm_misbehaviour m),
      rsm_signer = signer_to_string (sm_signer m)\<rparr>"

record raw_msg_upgrade_client =
  rug_client_id :: string
  rug_client_state :: "any_msg option"
  rug_consensus_state :: "any_msg option"
  rug_proof_upgrade_client :: bytes
  rug_proof_upgrade_consensus_state :: bytes
  rug_signer :: string

definition msg_upgrade_client_try_from ::
  "raw_msg_upgrade_client \<Rightarrow> (msg_upgrade_client, client_error) result" where
  "msg_upgrade_client_try_from raw =
     and_then (ok_or (rug_client_state raw) MissingRawClientState) (\<lambda>raw_client_state.
     and_then (ok_or (rug_consensus_state raw) MissingRawConsensusState) (\<lambda>raw_consensus_state.
     and_then (proof_of_bytes (Upgrade (InvalidUpgradeClientProof EmptyMerkleProof))
       (rug_proof_upgrade_client raw)) (\<lambda>c_bytes.
     and_then (proof_of_bytes (Upgrade (InvalidUpgradeConsensusStateProof EmptyMerkleProof))
       (rug_proof_upgrade_consensus_state raw)) (\<lambda>cs_bytes.
     and_then (map_err InvalidClientIdentifier (client_id_from_str (rug_client_id raw))) (\<lambda>client_id.
     Ok \<lparr>ug_client_id = client_id, ug_upgraded_client_state = raw_client_state,
         ug_upgraded_consensus_state = raw_consensus_state, ug_proof_upgrade_client = c_bytes,
         ug_proof_upgrade_consensus_state = cs_bytes, ug_signer = Signer (rug_signer raw)\<rparr>)))))"

definition msg_upgrade_client_to_raw :: "msg_upgrade_client \<Rightarrow> raw_msg_upgrade_client" where
  "msg_upgrade_client_to_raw m =
     \<lparr>rug_client_id = client_id_str (ug_client_id m),
      rug_client_state = Some (ug_upgraded_client_state m),
      rug_consensus_state = Some (ug_upgraded_consensus_state m),
      rug_proof_upgrade_client = commitment_proof_bytes_of (ug_proof_upgrade_client m),
      rug_proof_upgrade_consensus_state = commitment_proof_bytes_of (ug_proof_upgrade_consensus_state m),
      rug_signer = signer_to_string (ug_signer m)\<rparr>"

record raw_msg_recover_client =
  rrc_subject_client_id :: string
  rrc_substitute_client_id :: string
  rrc_signer :: string

definition msg_recover_client_try_from ::
  "raw_msg_recover_client \<Rightarrow> (msg_recover_client, client_error) result" where
  "msg_recover_client_try_from raw =
     and_then (map_err InvalidMsgRecoverClientId (client_id_from_str (rrc_subject_client_id raw))) (\<lambda>subject.
     and_then (map_err InvalidMsgRecoverClientId (client_id_from_str (rrc_substitute_client_id raw))) (\<lambda>substitute.
     Ok \<lparr>rc_subject_client_id = subject, rc_substitute_client_id = substitute,
         rc_signer = Signer (rrc_signer raw)\<rparr>))"

definition msg_recover_client_to_raw :: "msg_recover_client \<Rightarrow> raw_msg_recover_client" where
  "msg_recover_client_to_raw m =
     \<lparr>rrc_subject_client_id = client_id_str (rc_subject_client_id m),
      rrc_substitute_client_id = client_id_str (rc_substitute_client_id m),
      rrc_signer = signer_to_string (rc_signer m)\<rparr>"


section \<open>Messages of ICS-03\<close>

record raw_msg_connection_open_init =
  rcoi_client_id :: string
  rcoi_counterparty :: "raw_conn_counterparty option"
  rcoi_version :: "raw_version option"
  rcoi_delay_period :: u64
  rcoi_signer :: string

definition msg_connection_open_init_try_from ::
  "raw_msg_connection_open_init \<Rightarrow> (msg_connection_open_init, connection_error) result" where
  "msg_connection_open_init_try_from msg =
     and_then (ok_or (rcoi_counterparty msg) ConnMissingCounterparty) (\<lambda>raw_counterparty.
     and_then (conn_counterparty_try_from raw_counterparty) (\<lambda>counterparty.
     and_then (verify_empty_connection_id counterparty) (\<lambda>_.
     and_then (map_err ConnInvalidIdentifier (client_id_from_str (rcoi_client_id msg))) (\<lambda>client_id.
     and_then (transpose_map version_try_from (rcoi_version msg)) (\<lambda>version.
     Ok \<lparr>coi_client_id_on_a = client_id, coi_counterparty = counterparty, coi_version = version,
         coi_delay_period = unat (rcoi_delay_period msg), coi_signer = Signer (rcoi_signer msg)\<rparr>)))))"

text \<open>\<open>as_nanos() as u64\<close> keeps the low 64 bits of the delay.\<close>

definition msg_connection_open_init_to_raw :: "msg_connection_open_init \<Rightarrow> raw_msg_connection_open_init" where
  "msg_connection_open_init_to_raw m =
     \<lparr>rcoi_client_id = client_id_str (coi_client_id_on_a m),
      rcoi_counterparty = Some (conn_counterparty_to_raw (coi_counterparty m)),
      rcoi_version = map_option version_to_raw (coi_version m),
      rcoi_delay_period = of_nat (coi_delay_period m), rcoi_signer = signer_to_string (coi_signer m)\<rparr>"

record raw_msg_connection_open_try =
  rcot_client_id :: string
  rcot_previous_connection_id :: string
  rcot_client_state :: "any_msg option"
  rcot_counterparty :: "raw_conn_counterparty option"
  rcot_delay_period :: u64
  rcot_counterparty_versions :: "raw_version list"
  rcot_proof_height :: "raw_height option"
  rcot_proof_init :: bytes
  rcot_proof_client :: bytes
  rcot_proof_consensus :: bytes
  rcot_consensus_height :: "raw_height option"
  rcot_signer :: string
  rcot_host_consensus_state_proof :: bytes

definition msg_connection_open_try_try_from ::
  "raw_msg_connection_open_try \<Rightarrow> (msg_connection_open_try, connection_error) result" where
  "msg_connection_open_try_try_from msg =
     and_then (collect_results (map version_try_from (rcot_counterparty_versions msg))) (\<lambda>versions.
     if versions = [] then Err EmptyVersions
     else
     and_then (map_err ConnInvalidIdentifier (client_id_from_str (rcot_client_id msg))) (\<lambda>client_id.
     and_then (ok_or (rcot_client_state msg) MissingClientState) (\<lambda>client_state.
     and_then (ok_or (rcot_counterparty msg) ConnMissingCounterparty) (\<lambda>raw_counterparty.
     and_then (conn_counterparty_try_from raw_counterparty) (\<lambda>counterparty.
     and_then (proof_of_bytes ConnInvalidProof (rcot_proof_init msg)) (\<lambda>proof_init.
     and_then (proof_of_bytes ConnInvalidProof (rcot_proof_client msg)) (\<lambda>proof_client.
     and_then (proof_of_bytes ConnInvalidProof (rcot_proof_consensus msg)) (\<lambda>proof_consensus.
     and_then (height_of_raw ConnMissingProofHeight (rcot_proof_height msg)) (\<lambda>proof_height.
     and_then (height_of_raw MissingConsensusHeight (rcot_consensus_height msg)) (\<lambda>consensus_height.
     and_then (host_proof_of_bytes (rcot_host_consensus_state_proof msg)) (\<lambda>host_proof.
     Ok \<lparr>cot_client_id_on_b = client_id, cot_client_state_of_b_on_a = client_state,
         cot_counterparty = counterparty, cot_versions_on_a = versions,
         cot_proof_conn_end_on_a = proof_init, cot_proof_client_state_of_b_on_a = proof_client,
         cot_proof_consensus_state_of_b_on_a = proof_consensus, cot_proofs_height_on_a = proof_height,
         cot_consensus_height_of_b_on_a = consensus_height,
         cot_delay_period = unat (rcot_delay_period msg), cot_signer = Signer (rcot_signer msg),
         cot_proof_consensus_state_of_b = host_proof,
         cot_previous_connection_id = rcot_previous_connection_id msg\<rparr>)))))))))))"

definition msg_connection_open_try_to_raw :: "msg_connection_open_try \<Rightarrow> raw_msg_connection_open_try" where
  "msg_connection_open_try_to_raw m =
     \<lparr>rcot_client_id = client_id_str (cot_client_id_on_b m),
      rcot_previous_connection_id = cot_previous_connection_id m,
      rcot_client_state = Some (cot_client_state_of_b_on_a m),
      rcot_counterparty = Some (conn_counterparty_to_raw (cot_counterparty m)),
      rcot_delay_period = of_nat (cot_delay_period m),
      rcot_counterparty_versions = map version_to_raw (cot_versions_on_a m),
      rcot_proof_height = Some (height_to_raw (cot_proofs_height_on_a m)),
      rcot_proof_init = commitment_proof_bytes_of (cot_proof_conn_end_on_a m),
      rcot_proof_client = commitment_proof_bytes_of (cot_proof_client_state_of_b_on_a m),
      rcot_proof_consensus = commitment_proof_bytes_of (cot_proof_consensus_state_of_b_on_a m),
      rcot_consensus_height = Some (height_to_raw (cot_consensus_height_of_b_on_a m)),
      rcot_signer = signer_to_string (cot_signer m),
      rcot_host_consensus_state_proof = host_proof_to_bytes (cot_proof_consensus_state_of_b m)\<rparr>"

record raw_msg_connection_open_ack =
  rcoa_connection_id :: string
  rcoa_counterparty_connection_id :: string
  rcoa_version :: "raw_version option"
  rcoa_client_state :: "any_msg option"
  rcoa_proof_height :: "raw_height option"
  rcoa_proof_try :: bytes
  rcoa_proof_client :: bytes
  rcoa_proof_consensus :: bytes
  rcoa_consensus_height :: "raw_height option"
  rcoa_signer :: string
  rcoa_host_consensus_state_proof :: bytes

definition msg_connection_open_ack_try_from ::
  "raw_msg_connection_open_ack \<Rightarrow> (msg_connection_open_ack, connection_error) result" where
  "msg_connection_open_ack_try_from msg =
     and_then (map_err ConnInvalidIdentifier (connection_id_from_str (rcoa_connection_id msg))) (\<lambda>conn_id_on_a.
     and_then (map_err ConnInvalidIdentifier
       (connection_id_from_str (rcoa_counterparty_connection_id msg))) (\<lambda>conn_id_on_b.
     and_then (ok_or (rcoa_client_state msg) MissingClientState) (\<lambda>client_state.
     and_then (ok_or (rcoa_version msg) EmptyVersions) (\<lambda>raw_version.
     and_then (version_try_from raw_version) (\<lambda>version.
     and_then (proof_of_bytes ConnInvalidProof (rcoa_proof_try msg)) (\<lambda>proof_try.
     and_then (proof_of_bytes ConnInvalidProof (rcoa_proof_client msg)) (\<lambda>proof_client.
     and_then (proof_of_bytes ConnInvalidProof (rcoa_proof_consensus msg)) (\<lambda>proof_consensus.
     and_then (height_of_raw ConnMissingProofHeight (rcoa_proof_height msg)) (\<lambda>proof_height.
     and_then (height_of_raw MissingConsensusHeight (rcoa_consensus_height msg)) (\<lambda>consensus_height.
     and_then (host_proof_of_bytes (rcoa_host_consensus_state_proof msg)) (\<lambda>host_proof.
     Ok \<lparr>coa_conn_id_on_a = conn_id_on_a, coa_conn_id_on_b = conn_id_on_b,
         coa_client_state_of_a_on_b = client_state, coa_proof_conn_end_on_b = proof_try,
         coa_proof_client_state_of_a_on_b = proof_client,
         coa_proof_consensus_state_of_a_on_b = proof_consensus, coa_proofs_height_on_b = proof_height,
         coa_consensus_height_of_a_on_b = consensus_height, coa_version = version,
         coa_signer = Signer (rcoa_signer msg), coa_proof_consensus_state_of_a = host_proof\<rparr>)))))))))))"

definition msg_connection_open_ack_to_raw :: "msg_connection_open_ack \<Rightarrow> raw_msg_connection_open_ack" where
  "msg_connection_open_ack_to_raw m =
     \<lparr>rcoa_connection_id = connection_id_str (coa_conn_id_on_a m),
      rcoa_counterparty_connection_id = connection_id_str (coa_conn_id_on_b m),
      rcoa_version = Some (version_to_raw (coa_version m)),
      rcoa_client_state = Some (coa_client_state_of_a_on_b m),
      rcoa_proof_height = Some (height_to_raw (coa_proofs_height_on_b m)),
      rcoa_proof_try = commitment_proof_bytes_of (coa_proof_conn_end_on_b m),
      rcoa_proof_client = commitment_proof_bytes_of (coa_proof_client_state_of_a_on_b m),
      rcoa_proof_consensus = commitment_proof_bytes_of (coa_proof_consensus_state_of_a_on_b m),
      rcoa_consensus_height = Some (height_to_raw (coa_consensus_height_of_a_on_b m)),
      rcoa_signer = signer_to_string (coa_signer m),
      rcoa_host_consensus_state_proof = host_proof_to_bytes (coa_proof_consensus_state_of_a m)\<rparr>"

record raw_msg_connection_open_confirm =
  rcoc_connection_id :: string
  rcoc_proof_ack :: bytes
  rcoc_proof_height :: "raw_height option"
  rcoc_signer :: string

definition msg_connection_open_confirm_try_from ::
  "raw_msg_connection_open_confirm \<Rightarrow> (msg_connection_open_confirm, connection_error) result" where
  "msg_connection_open_confirm_try_from msg =
     and_then (map_err ConnInvalidIdentifier (connection_id_from_str (rcoc_connection_id msg))) (\<lambda>conn_id.
     and_then (proof_of_bytes ConnInvalidProof (rcoc_proof_ack msg)) (\<lambda>proof_ack.
     and_then (height_of_raw ConnMissingProofHeight (rcoc_proof_height msg)) (\<lambda>proof_height.
     Ok \<lparr>coc_conn_id_on_b = conn_id, coc_proof_conn_end_on_a = proof_ack,
         coc_proof_height_on_a = proof_height, coc_signer = Signer (rcoc_signer msg)\<rparr>)))"

definition msg_connection_open_confirm_to_raw ::
  "msg_connection_open_confirm \<Rightarrow> raw_msg_connection_open_confirm" where
  "msg_connection_open_confirm_to_raw m =
     \<lparr>rcoc_connection_id = connection_id_str (coc_conn_id_on_b m),
      rcoc_proof_ack = commitment_proof_bytes_of (coc_proof_conn_end_on_a m),
      rcoc_proof_height = Some (height_to_raw (coc_proof_height_on_a m)),
      rcoc_signer = signer_to_string (coc_signer m)\<rparr>"


section \<open>Channel messages of ICS-04\<close>

record raw_msg_channel_open_init =
  rhoi_port_id :: string
  rhoi_channel :: "raw_channel option"
  rhoi_signer :: string

definition msg_channel_open_init_try_from ::
  "raw_msg_channel_open_init \<Rightarrow> (msg_channel_open_init, channel_error) result" where
  "msg_channel_open_init_try_from raw_msg =
     and_then (ok_or (rhoi_channel raw_msg) MissingChannel) (\<lambda>raw_channel.
     and_then (channel_end_try_from raw_channel) (\<lambda>chan_end_on_a.
     and_then (ch_verify_state_matches chan_end_on_a Init) (\<lambda>_.
     and_then (verify_empty_channel_id (ch_remote chan_end_on_a)) (\<lambda>_.
     and_then (map_err ChanInvalidIdentifier (port_id_from_str (rhoi_port_id raw_msg))) (\<lambda>port_id.
     Ok \<lparr>hoi_port_id_on_a = port_id, hoi_connection_hops_on_a = ch_connection_hops chan_end_on_a,
         hoi_port_id_on_b = hcp_port_id (ch_remote chan_end_on_a),
         hoi_ordering = ch_ordering chan_end_on_a, hoi_signer = Signer (rhoi_signer raw_msg),
         hoi_version_proposal = ch_version chan_end_on_a\<rparr>)))))"

definition msg_channel_open_init_to_raw :: "msg_channel_open_init \<Rightarrow> raw_msg_channel_open_init" where
  "msg_channel_open_init_to_raw m = (
     let chan_end_on_a = \<lparr>ch_state = Init, ch_ordering = hoi_ordering m,
           ch_remote = \<lparr>hcp_port_id = hoi_port_id_on_b m, hcp_channel_id = None\<rparr>,
           ch_connection_hops = hoi_connection_hops_on_a m, ch_version = hoi_version_proposal m\<rparr> in
     \<lparr>rhoi_port_id = port_id_str (hoi_port_id_on_a m),
      rhoi_channel = Some (channel_end_to_raw chan_end_on_a),
      rhoi_signer = signer_to_string (hoi_signer m)\<rparr>)"

record raw_msg_channel_open_try =
  rhot_port_id :: string
  rhot_previous_channel_id :: string
  rhot_channel :: "raw_channel option"
  rhot_counterparty_version :: string
  rhot_proof_init :: bytes
  rhot_proof_height :: "raw_height option"
  rhot_signer :: string

definition msg_channel_open_try_try_from ::
  "raw_msg_channel_open_try \<Rightarrow> (msg_channel_open_try, channel_error) result" where
  "msg_channel_open_try_try_from raw_msg =
     and_then (ok_or (rhot_channel raw_msg) MissingChannel) (\<lambda>raw_channel.
     and_then (channel_end_try_from raw_channel) (\<lambda>chan_end_on_b.
     and_then (ch_verify_state_matches chan_end_on_b TryOpen) (\<lambda>_.
     if rhot_previous_channel_id raw_msg \<noteq> []
     then Err (InvalidChannelId (''previous channel id must be empty. It has been deprecated as ''
            @ ''crossing hellos are no longer supported'') (rhot_previous_channel_id raw_msg))
     else
     and_then (map_err ChanInvalidIdentifier (port_id_from_str (rhot_port_id raw_msg))) (\<lambda>port_id.
     and_then (ok_or (hcp_channel_id (ch_remote chan_end_on_b)) ChanMissingCounterparty) (\<lambda>chan_id_on_a.
     and_then (proof_of_bytes ChanInvalidProof (rhot_proof_init raw_msg)) (\<lambda>proof_init.
     and_then (height_of_raw ChanMissingHeight (rhot_proof_height raw_msg)) (\<lambda>proof_height.
     Ok \<lparr>hot_port_id_on_b = port_id, hot_connection_hops_on_b = ch_connection_hops chan_end_on_b,
         hot_port_id_on_a = hcp_port_id (ch_remote chan_end_on_b), hot_chan_id_on_a = chan_id_on_a,
         hot_version_supported_on_a = ChanVersion (rhot_counterparty_version raw_msg),
         hot_proof_chan_end_on_a = proof_init, hot_proof_height_on_a = proof_height,
         hot_ordering = ch_ordering chan_end_on_b, hot_signer = Signer (rhot_signer raw_msg),
         hot_version_proposal = ch_version chan_end_on_b\<rparr>)))))))"

definition msg_channel_open_try_to_raw :: "msg_channel_open_try \<Rightarrow> raw_msg_channel_open_try" where
  "msg_channel_open_try_to_raw m = (
     let chan_end_on_b = \<lparr>ch_state = TryOpen, ch_ordering = hot_ordering m,
           ch_remote = \<lparr>hcp_port_id = hot_port_id_on_a m, hcp_channel_id = Some (hot_chan_id_on_a m)\<rparr>,
           ch_connection_hops = hot_connection_hops_on_b m, ch_version = chan_version_empty\<rparr> in
     \<lparr>rhot_port_id = port_id_str (hot_port_id_on_b m), rhot_previous_channel_id = '''',
      rhot_channel = Some (channel_end_to_raw chan_end_on_b),
      rhot_counterparty_version = chan_version_str (hot_version_supported_on_a m),
      rhot_proof_init = commitment_proof_bytes_of (hot_proof_chan_end_on_a m),
      rhot_proof_height = Some (height_to_raw (hot_proof_height_on_a m)),
      rhot_signer = signer_to_string (hot_signer m)\<rparr>)"

record raw_msg_channel_open_ack =
  rhoa_port_id :: string
  rhoa_channel_id :: string
  rhoa_counterparty_channel_id :: string
  rhoa_counterparty_version :: string
  rhoa_proof_try :: bytes
  rhoa_proof_height :: "raw_height option"
  rhoa_signer :: string

definition msg_channel_open_ack_try_from ::
  "raw_msg_channel_open_ack \<Rightarrow> (msg_channel_open_ack, channel_error) result" where
  "msg_channel_open_ack_try_from raw_msg =
     and_then (map_err ChanInvalidIdentifier (port_id_from_str (rhoa_port_id raw_msg))) (\<lambda>port_id.
     and_then (map_err ChanInvalidIdentifier (channel_id_from_str (rhoa_channel_id raw_msg))) (\<lambda>chan_id_on_a.
     and_then (map_err ChanInvalidIdentifier
       (channel_id_from_str (rhoa_counterparty_channel_id raw_msg))) (\<lambda>chan_id_on_b.
     and_then (proof_of_bytes ChanInvalidProof (rhoa_proof_try raw_msg)) (\<lambda>proof_try.
     and_then (height_of_raw ChanMissingHeight (rhoa_proof_height raw_msg)) (\<lambda>proof_height.
     Ok \<lparr>hoa_port_id_on_a = port_id, hoa_chan_id_on_a = chan_id_on_a, hoa_chan_id_on_b = chan_id_on_b,
         hoa_version_on_b = ChanVersion (rhoa_counterparty_version raw_msg),
         hoa_proof_chan_end_on_b = proof_try, hoa_proof_height_on_b = proof_height,
         hoa_signer = Signer (rhoa_signer raw_msg)\<rparr>)))))"

definition msg_channel_open_ack_to_raw :: "msg_channel_open_ack \<Rightarrow> raw_msg_channel_open_ack" where
  "msg_channel_open_ack_to_raw m =
     \<lparr>rhoa_port_id = port_id_str (hoa_port_id_on_a m), rhoa_channel_id = channel_id_str (hoa_chan_id_on_a m),
      rhoa_counterparty_channel_id = channel_id_str (hoa_chan_id_on_b m),
      rhoa_counterparty_version = chan_version_str (hoa_version_on_b m),
      rhoa_proof_try = commitment_proof_bytes_of (hoa_proof_chan_end_on_b m),
      rhoa_proof_height = Some (height_to_raw (hoa_proof_height_on_b m)),
      rhoa_signer = signer_to_string (hoa_signer m)\<rparr>"

record raw_msg_channel_open_confirm =
  rhoc_port_id :: string
  rhoc_channel_id :: string
  rhoc_proof_ack :: bytes
  rhoc_proof_height :: "raw_height option"
  rhoc_signer :: string

definition msg_channel_open_confirm_try_from ::
  "raw_msg_channel_open_confirm \<Rightarrow> (msg_channel_open_confirm, channel_error) result" where
  "msg_channel_open_confirm_try_from raw_msg =
     and_then (map_err ChanInvalidIdentifier (port_id_from_str (rhoc_port_id raw_msg))) (\<lambda>port_id.
     and_then (map_err ChanInvalidIdentifier (channel_id_from_str (rhoc_channel_id raw_msg))) (\<lambda>chan_id.
     and_then (proof_of_bytes ChanInvalidProof (rhoc_proof_ack raw_msg)) (\<lambda>proof_ack.
     and_then (height_of_raw ChanMissingHeight (rhoc_proof_height raw_msg)) (\<lambda>proof_height.
     Ok \<lparr>hoc_port_id_on_b = port_id, hoc_chan_id_on_b = chan_id, hoc_proof_chan_end_on_a = proof_ack,
         hoc_proof_height_on_a = proof_height, hoc_signer = Signer (rhoc_signer raw_msg)\<rparr>))))"

definition msg_channel_open_confirm_to_raw :: "msg_channel_open_confirm \<Rightarrow> raw_msg_channel_open_confirm" where
  "msg_channel_open_confirm_to_raw m =
     \<lparr>rhoc_port_id = port_id_str (hoc_port_id_on_b m), rhoc_channel_id = channel_id_str (hoc_chan_id_on_b m),
      rhoc_proof_ack = commitment_proof_bytes_of (hoc_proof_chan_end_on_a m),
      rhoc_proof_height = Some (height_to_raw (hoc_proof_height_on_a m)),
      rhoc_signer = signer_to_string (hoc_signer m)\<rparr>"

record raw_msg_channel_close_init =
  rhci_port_id :: string
  rhci_channel_id :: string
  rhci_signer :: string

definition msg_channel_close_init_try_from ::
  "raw_msg_channel_close_init \<Rightarrow> (msg_channel_close_init, channel_error) result" where
  "msg_channel_close_init_try_from raw_msg =
     and_then (map_err ChanInvalidIdentifier (port_id_from_str (rhci_port_id raw_msg))) (\<lambda>port_id.
     and_then (map_err ChanInvalidIdentifier (channel_id_from_str (rhci_channel_id raw_msg))) (\<lambda>chan_id.
     Ok \<lparr>hci_port_id_on_a = port_id, hci_chan_id_on_a = chan_id, hci_signer = Signer (rhci_signer raw_msg)\<rparr>))"

definition msg_channel_close_init_to_raw :: "msg_channel_close_init \<Rightarrow> raw_msg_channel_close_init" where
  "msg_channel_close_init_to_raw m =
     \<lparr>rhci_port_id = port_id_str (hci_port_id_on_a m), rhci_channel_id = channel_id_str (hci_chan_id_on_a m),
      rhci_signer = signer_to_string (hci_signer m)\<rparr>"

record raw_msg_channel_close_confirm =
  rhcc_port_id :: string
  rhcc_channel_id :: string
  rhcc_proof_init :: bytes
  rhcc_proof_height :: "raw_height option"
  rhcc_signer :: string
  rhcc_counterparty_upgrade_sequence :: u64

definition msg_channel_close_confirm_try_from ::
  "raw_msg_channel_close_confirm \<Rightarrow> (msg_channel_close_confirm, channel_error) result" where
  "msg_channel_close_confirm_try_from raw_msg =
     (if rhcc_counterparty_upgrade_sequence raw_msg \<noteq> 0 then Err UnsupportedChannelUpgradeSequence
      else
      and_then (map_err ChanInvalidIdentifier (port_id_from_str (rhcc_port_id raw_msg))) (\<lambda>port_id.
      and_then (map_err ChanInvalidIdentifier (channel_id_from_str (rhcc_channel_id raw_msg))) (\<lambda>chan_id.
      and_then (proof_of_bytes ChanInvalidProof (rhcc_proof_init raw_msg)) (\<lambda>proof_init.
      and_then (height_of_raw ChanMissingHeight (rhcc_proof_height raw_msg)) (\<lambda>proof_height.
      Ok \<lparr>hcc_port_id_on_b = port_id, hcc_chan_id_on_b = chan_id, hcc_proof_chan_end_on_a = proof_init,
          hcc_proof_height_on_a = proof_height, hcc_signer = Signer (rhcc_signer raw_msg)\<rparr>)))))"

definition msg_channel_close_confirm_to_raw :: "msg_channel_close_confirm \<Rightarrow> raw_msg_channel_close_confirm" where
  "msg_channel_close_confirm_to_raw m =
     \<lparr>rhcc_port_id = port_id_str (hcc_port_id_on_b m), rhcc_channel_id = channel_id_str (hcc_chan_id_on_b m),
      rhcc_proof_init = commitment_proof_bytes_of (hcc_proof_chan_end_on_a m),
      rhcc_proof_height = Some (height_to_raw (hcc_proof_height_on_a m)),
      rhcc_signer = signer_to_string (hcc_signer m), rhcc_counterparty_upgrade_sequence = 0\<rparr>"


section \<open>Packet messages of ICS-04\<close>

text \<open>
  Writing a packet computes the nanoseconds of its timeout, which can panic; so these
  conversions to the wire return a result.
\<close>

record raw_msg_recv_packet =
  rrp_packet :: "raw_packet option"
  rrp_proof_commitment :: bytes
  rrp_proof_height :: "raw_height option"
  rrp_signer :: string

definition msg_recv_packet_try_from :: "raw_msg_recv_packet \<Rightarrow> (msg_recv_packet, packet_error) result" where
  "msg_recv_packet_try_from raw_msg =
     and_then (ok_or (rrp_packet raw_msg) MissingPacket) (\<lambda>raw_packet.
     and_then (packet_try_from raw_packet) (\<lambda>packet.
     and_then (proof_of_bytes PacketInvalidProof (rrp_proof_commitment raw_msg)) (\<lambda>proof_commitment.
     and_then (height_of_raw PacketMissingHeight (rrp_proof_height raw_msg)) (\<lambda>proof_height.
     Ok \<lparr>rcv_packet = packet, rcv_proof_commitment_on_a = proof_commitment,
         rcv_proof_height_on_a = proof_height, rcv_signer = Signer (rrp_signer raw_msg)\<rparr>))))"

definition msg_recv_packet_to_raw :: "msg_recv_packet \<Rightarrow> (raw_msg_recv_packet, 'e) result" where
  "msg_recv_packet_to_raw m = and_then (packet_to_raw (rcv_packet m)) (\<lambda>packet.
     Ok \<lparr>rrp_packet = Some packet,
         rrp_proof_commitment = commitment_proof_bytes_of (rcv_proof_commitment_on_a m),
         rrp_proof_height = Some (height_to_raw (rcv_proof_height_on_a m)),
         rrp_signer = signer_to_string (rcv_signer m)\<rparr>)"

record raw_msg_acknowledgement =
  rak_packet :: "raw_packet option"
  rak_acknowledgement :: bytes
  rak_proof_acked :: bytes
  rak_proof_height :: "raw_height option"
  rak_signer :: string

definition msg_acknowledgement_try_from ::
  "raw_msg_acknowledgement \<Rightarrow> (msg_acknowledgement, packet_error) result" where
  "msg_acknowledgement_try_from raw_msg =
     and_then (ok_or (rak_packet raw_msg) MissingPacket) (\<lambda>raw_packet.
     and_then (packet_try_from raw_packet) (\<lambda>packet.
     and_then (acknowledgement_try_from (rak_acknowledgement raw_msg)) (\<lambda>acknowledgement.
     and_then (proof_of_bytes PacketInvalidProof (rak_proof_acked raw_msg)) (\<lambda>proof_acked.
     and_then (height_of_raw PacketMissingHeight (rak_proof_height raw_msg)) (\<lambda>proof_height.
     Ok \<lparr>ack_packet = packet, ack_acknowledgement = acknowledgement, ack_proof_acked_on_b = proof_acked,
         ack_proof_height_on_b = proof_height, ack_signer = Signer (rak_signer raw_msg)\<rparr>)))))"

definition msg_acknowledgement_to_raw :: "msg_acknowledgement \<Rightarrow> (raw_msg_acknowledgement, 'e) result" where
  "msg_acknowledgement_to_raw m = and_then (packet_to_raw (ack_packet m)) (\<lambda>packet.
     Ok \<lparr>rak_packet = Some packet, rak_acknowledgement = acknowledgement_bytes (ack_acknowledgement m),
         rak_proof_acked = commitment_proof_bytes_of (ack_proof_acked_on_b m),
         rak_proof_height = Some (height_to_raw (ack_proof_height_on_b m)),
         rak_signer = signer_to_string (ack_signer m)\<rparr>)"

record raw_msg_timeout =
  rto_packet :: "raw_packet option"
  rto_proof_unreceived :: bytes
  rto_proof_height :: "raw_height option"
  rto_next_sequence_recv :: u64
  rto_signer :: string

definition msg_timeout_try_from :: "raw_msg_timeout \<Rightarrow> (msg_timeout, packet_error) result" where
  "msg_timeout_try_from raw_msg =
     (if rto_next_sequence_recv raw_msg = 0 then Err ZeroPacketSequence
      else
      and_then (ok_or (rto_packet raw_msg) MissingPacket) (\<lambda>raw_packet.
      and_then (packet_try_from raw_packet) (\<lambda>packet.
      and_then (proof_of_bytes PacketInvalidProof (rto_proof_unreceived raw_msg)) (\<lambda>proof_unreceived.
      and_then (height_of_raw PacketMissingHeight (rto_proof_height raw_msg)) (\<lambda>proof_height.
      Ok \<lparr>tmo_packet = packet, tmo_next_seq_recv_on_b = rto_next_sequence_recv raw_msg,
          tmo_proof_unreceived_on_b = proof_unreceived, tmo_proof_height_on_b = proof_height,
          tmo_signer = Signer (rto_signer raw_msg)\<rparr>)))))"

definition msg_timeout_to_raw :: "msg_timeout \<Rightarrow> (raw_msg_timeout, 'e) result" where
  "msg_timeout_to_raw m = and_then (packet_to_raw (tmo_packet m)) (\<lambda>packet.
     Ok \<lparr>rto_packet = Some packet,
         rto_proof_unreceived = commitment_proof_bytes_of (tmo_proof_unreceived_on_b m),
         rto_proof_height = Some (height_to_raw (tmo_proof_height_on_b m)),
         rto_next_sequence_recv = tmo_next_seq_recv_on_b m, rto_signer = signer_to_string (tmo_signer m)\<rparr>)"

record raw_msg_timeout_on_close =
  rtc_packet :: "raw_packet option"
  rtc_proof_unreceived :: bytes
  rtc_proof_close :: bytes
  rtc_proof_height :: "raw_height option"
  rtc_next_sequence_recv :: u64
  rtc_signer :: string
  rtc_counterparty_upgrade_sequence :: u64

definition msg_timeout_on_close_try_from ::
  "raw_msg_timeout_on_close \<Rightarrow> (msg_timeout_on_close, packet_error) result" where
  "msg_timeout_on_close_try_from raw_msg =
     (if rtc_next_sequence_recv raw_msg = 0 then Err ZeroPacketSequence
      else if rtc_counterparty_upgrade_sequence raw_msg \<noteq> 0
      then Err (PacketChannel UnsupportedChannelUpgradeSequence)
      else
      and_then (ok_or (rtc_packet raw_msg) MissingPacket) (\<lambda>raw_packet.
      and_then (packet_try_from raw_packet) (\<lambda>packet.
      and_then (proof_of_bytes PacketInvalidProof (rtc_proof_unreceived raw_msg)) (\<lambda>proof_unreceived.
      and_then (proof_of_bytes PacketInvalidProof (rtc_proof_close raw_msg)) (\<lambda>proof_close.
      and_then (height_of_raw PacketMissingHeight (rtc_proof_height raw_msg)) (\<lambda>proof_height.
      Ok \<lparr>toc_packet = packet, toc_next_seq_recv_on_b = rtc_next_sequence_recv raw_msg,
          toc_proof_unreceived_on_b = proof_unreceived, toc_proof_close_on_b = proof_close,
          toc_proof_height_on_b = proof_height, toc_signer = Signer (rtc_signer raw_msg)\<rparr>))))))"

definition msg_timeout_on_close_to_raw :: "msg_timeout_on_close \<Rightarrow> (raw_msg_timeout_on_close, 'e) result" where
  "msg_timeout_on_close_to_raw m = and_then (packet_to_raw (toc_packet m)) (\<lambda>packet.
     Ok \<lparr>rtc_packet = Some packet,
         rtc_proof_unreceived = commitment_proof_bytes_of (toc_proof_unreceived_on_b m),
         rtc_proof_close = commitment_proof_bytes_of (toc_proof_close_on_b m),
         rtc_proof_height = Some (height_to_raw (toc_proof_height_on_b m)),
         rtc_next_sequence_recv = toc_next_seq_recv_on_b m, rtc_signer = signer_to_string (toc_signer m),
         rtc_counterparty_upgrade_sequence = 0\<rparr>)"


section \<open>Message envelopes\<close>

definition CREATE_CLIENT_TYPE_URL :: string where
  "CREATE_CLIENT_TYPE_URL = ''/ibc.core.client.v1.MsgCreateClient''"

definition UPDATE_CLIENT_TYPE_URL :: string where
  "UPDATE_CLIENT_TYPE_URL = ''/ibc.core.client.v1.MsgUpdateClient''"

definition UPGRADE_CLIENT_TYPE_URL :: string where
  "UPGRADE_CLIENT_TYPE_URL = ''/ibc.core.client.v1.MsgUpgradeClient''"

definition SUBMIT_MISBEHAVIOUR_TYPE_URL :: string where
  "SUBMIT_MISBEHAVIOUR_TYPE_URL = ''/ibc.core.client.v1.MsgSubmitMisbehaviour''"

definition CONN_OPEN_INIT_TYPE_URL :: string where
  "CONN_OPEN_INIT_TYPE_URL = ''/ibc.core.connection.v1.MsgConnectionOpenInit''"

definition CONN_OPEN_TRY_TYPE_URL :: string where
  "CONN_OPEN_TRY_TYPE_URL = ''/ibc.core.connection.v1.MsgConnectionOpenTry''"

definition CONN_OPEN_ACK_TYPE_URL :: string where
  "CONN_OPEN_ACK_TYPE_URL = ''/ibc.core.connection.v1.MsgConnectionOpenAck''"

definition CONN_OPEN_CONFIRM_TYPE_URL :: string where
  "CONN_OPEN_CONFIRM_TYPE_URL = ''/ibc.core.connection.v1.MsgConnectionOpenConfirm''"

definition CHAN_OPEN_INIT_TYPE_URL :: string where
  "CHAN_OPEN_INIT_TYPE_URL = ''/ibc.core.channel.v1.MsgChannelOpenInit''"

definition CHAN_OPEN_TRY_TYPE_URL :: string where
  "CHAN_OPEN_TRY_TYPE_URL = ''/ibc.core.channel.v1.MsgChannelOpenTry''"

definition CHAN_OPEN_ACK_TYPE_URL :: string where
  "CHAN_OPEN_ACK_TYPE_URL = ''/ibc.core.channel.v1.MsgChannelOpenAck''"

definition CHAN_OPEN_CONFIRM_TYPE_URL :: string where
  "CHAN_OPEN_CONFIRM_TYPE_URL = ''/ibc.core.channel.v1.MsgChannelOpenConfirm''"

definition CHAN_CLOSE_INIT_TYPE_URL :: string where
  "CHAN_CLOSE_INIT_TYPE_URL = ''/ibc.core.channel.v1.MsgChannelCloseInit''"

definition CHAN_CLOSE_CONFIRM_TYPE_URL :: string where
  "CHAN_CLOSE_CONFIRM_TYPE_URL = ''/ibc.core.channel.v1.MsgChannelCloseConfirm''"

definition RECV_PACKET_TYPE_URL :: string where
  "RECV_PACKET_TYPE_URL = ''/ibc.core.channel.v1.MsgRecvPacket''"

definition ACKNOWLEDGEMENT_TYPE_URL :: string where
  "ACKNOWLEDGEMENT_TYPE_URL = ''/ibc.core.channel.v1.MsgAcknowledgement''"

definition TIMEOUT_TYPE_URL :: string where
  "TIMEOUT_TYPE_URL = ''/ibc.core.channel.v1.MsgTimeout''"

definition TIMEOUT_ON_CLOSE_TYPE_URL :: string where
  "TIMEOUT_ON_CLOSE_TYPE_URL = ''/ibc.core.channel.v1.MsgTimeoutOnClose''"

definition RECOVER_CLIENT_TYPE_URL :: string where
  "RECOVER_CLIENT_TYPE_URL = ''/ibc.core.client.v1.MsgRecoverClient''"

lemmas msg_type_urls =
  CREATE_CLIENT_TYPE_URL_def UPDATE_CLIENT_TYPE_URL_def UPGRADE_CLIENT_TYPE_URL_def
  SUBMIT_MISBEHAVIOUR_TYPE_URL_def CONN_OPEN_INIT_TYPE_URL_def CONN_OPEN_TRY_TYPE_URL_def
  CONN_OPEN_ACK_TYPE_URL_def CONN_OPEN_CONFIRM_TYPE_URL_def CHAN_OPEN_INIT_TYPE_URL_def
  CHAN_OPEN_TRY_TYPE_URL_def CHAN_OPEN_ACK_TYPE_URL_def CHAN_OPEN_CONFIRM_TYPE_URL_def
  CHAN_CLOSE_INIT_TYPE_URL_def CHAN_CLOSE_CONFIRM_TYPE_URL_def RECV_PACKET_TYPE_URL_def
  ACKNOWLEDGEMENT_TYPE_URL_def TIMEOUT_TYPE_URL_def TIMEOUT_ON_CLOSE_TYPE_URL_def

text \<open>
  The generated decoders, the text of a decoding error, the text the protobuf crate makes of
  the text of a conversion's error, and the formatting of times in such texts.
\<close>

record msg_codec =
  mc_create_client :: "bytes \<Rightarrow> raw_msg_create_client option"
  mc_update_client :: "bytes \<Rightarrow> raw_msg_update_client option"
  mc_upgrade_client :: "bytes \<Rightarrow> raw_msg_upgrade_client option"
  mc_submit_misbehaviour :: "bytes \<Rightarrow> raw_msg_submit_misbehaviour option"
  mc_connection_open_init :: "bytes \<Rightarrow> raw_msg_connection_open_init option"
  mc_connection_open_try :: "bytes \<Rightarrow> raw_msg_connection_open_try option"
  mc_connection_open_ack :: "bytes \<Rightarrow> raw_msg_connection_open_ack option"
  mc_connection_open_confirm :: "bytes \<Rightarrow> raw_msg_connection_open_confirm option"
  mc_channel_open_init :: "bytes \<Rightarrow> raw_msg_channel_open_init option"
  mc_channel_open_try :: "bytes \<Rightarrow> raw_msg_channel_open_try option"
  mc_channel_open_ack :: "bytes \<Rightarrow> raw_msg_channel_open_ack option"
  mc_channel_open_confirm :: "bytes \<Rightarrow> raw_msg_channel_open_confirm option"
  mc_channel_close_init :: "bytes \<Rightarrow> raw_msg_channel_close_init option"
  mc_channel_close_confirm :: "bytes \<Rightarrow> raw_msg_channel_close_confirm option"
  mc_recv_packet :: "bytes \<Rightarrow> raw_msg_recv_packet option"
  mc_acknowledgement :: "bytes \<Rightarrow> raw_msg_acknowledgement option"
  mc_timeout :: "bytes \<Rightarrow> raw_msg_timeout option"
  mc_timeout_on_close :: "bytes \<Rightarrow> raw_msg_timeout_on_close option"
  mc_decode_error :: "bytes \<Rightarrow> string"
  mc_convert_error :: "string \<Rightarrow> string"
  mc_format_rfc3339 :: "tm_time \<Rightarrow> string"

definition decode_msg ::
  "msg_codec \<Rightarrow> (bytes \<Rightarrow> 'r option) \<Rightarrow> ('r \<Rightarrow> ('m, 'e) result)
     \<Rightarrow> ((tm_time \<Rightarrow> string) \<Rightarrow> 'e \<Rightarrow> string) \<Rightarrow> ('m \<Rightarrow> msg_envelope) \<Rightarrow> bytes
     \<Rightarrow> (msg_envelope, router_error) result" where
  "decode_msg mc decode convert text wrap v =
     map_ok wrap (map_err MalformedMessageBytes
       (protobuf_decode decode convert (mc_decode_error mc)
         (\<lambda>e. mc_convert_error mc (text (mc_format_rfc3339 mc) e)) v))"

definition msg_envelope_try_from :: "msg_codec \<Rightarrow> any_msg \<Rightarrow> (msg_envelope, router_error) result" where
  "msg_envelope_try_from mc any = (
     let url = any_type_url any; v = any_value any in
     if url = CREATE_CLIENT_TYPE_URL then
       decode_msg mc (mc_create_client mc) msg_create_client_try_from client_error_to_string
         (\<lambda>m. ClientEnvelope (CreateClientMsg m)) v
     else if url = UPDATE_CLIENT_TYPE_URL then
       decode_msg mc (mc_update_client mc) msg_update_client_try_from client_error_to_string
         (\<lambda>m. ClientEnvelope (UpdateClientMsg m)) v
     else if url = UPGRADE_CLIENT_TYPE_URL then
       decode_msg mc (mc_upgrade_client mc) msg_upgrade_client_try_from client_error_to_string
         (\<lambda>m. ClientEnvelope (UpgradeClientMsg m)) v
     else if url = SUBMIT_MISBEHAVIOUR_TYPE_URL then
       decode_msg mc (mc_submit_misbehaviour mc) msg_submit_misbehaviour_try_from client_error_to_string
         (\<lambda>m. ClientEnvelope (MisbehaviourMsg m)) v
     else if url = CONN_OPEN_INIT_TYPE_URL then
       decode_msg mc (mc_connection_open_init mc) msg_connection_open_init_try_from connection_error_to_string
         (\<lambda>m. ConnectionEnvelope (ConnOpenInit m)) v
     else if url = CONN_OPEN_TRY_TYPE_URL then
       decode_msg mc (mc_connection_open_try mc) msg_connection_open_try_try_from connection_error_to_string
         (\<lambda>m. ConnectionEnvelope (ConnOpenTry m)) v
     else if url = CONN_OPEN_ACK_TYPE_URL then
       decode_msg mc (mc_connection_open_ack mc) msg_connection_open_ack_try_from connection_error_to_string
         (\<lambda>m. ConnectionEnvelope (ConnOpenAck m)) v
     else if url = CONN_OPEN_CONFIRM_TYPE_URL then
       decode_msg mc (mc_connection_open_confirm mc) msg_connection_open_confirm_try_from connection_error_to_string
         (\<lambda>m. ConnectionEnvelope (ConnOpenConfirm m)) v
     else if url = CHAN_OPEN_INIT_TYPE_URL then
       decode_msg mc (mc_channel_open_init mc) msg_channel_open_init_try_from channel_error_to_string
         (\<lambda>m. ChannelEnvelope (ChanOpenInit m)) v
     else if url = CHAN_OPEN_TRY_TYPE_URL then
       decode_msg mc (mc_channel_open_try mc) msg_channel_open_try_try_from channel_error_to_string
         (\<lambda>m. ChannelEnvelope (ChanOpenTry m)) v
     else if url = CHAN_OPEN_ACK_TYPE_URL then
       decode_msg mc (mc_channel_open_ack mc) msg_channel_open_ack_try_from channel_error_to_string
         (\<lambda>m. ChannelEnvelope (ChanOpenAck m)) v
     else if url = CHAN_OPEN_CONFIRM_TYPE_URL then
       decode_msg mc (mc_channel_open_confirm mc) msg_channel_open_confirm_try_from channel_error_to_string
         (\<lambda>m. ChannelEnvelope (ChanOpenConfirm m)) v
     else if url = CHAN_CLOSE_INIT_TYPE_URL then
       decode_msg mc (mc_channel_close_init mc) msg_channel_close_init_try_from channel_error_to_string
         (\<lambda>m. ChannelEnvelope (ChanCloseInit m)) v
     else if url = CHAN_CLOSE_CONFIRM_TYPE_URL then
       decode_msg mc (mc_channel_close_confirm mc) msg_channel_close_confirm_try_from channel_error_to_string
         (\<lambda>m. ChannelEnvelope (ChanCloseConfirm m)) v
     else if url = RECV_PACKET_TYPE_URL then
       decode_msg mc (mc_recv_packet mc) msg_recv_packet_try_from packet_error_to_string
         (\<lambda>m. PacketEnvelope (PacketRecv m)) v
     else if url = ACKNOWLEDGEMENT_TYPE_URL then
       decode_msg mc (mc_acknowledgement mc) msg_acknowledgement_try_from packet_error_to_string
         (\<lambda>m. PacketEnvelope (PacketAck m)) v
     else if url = TIMEOUT_TYPE_URL then
       decode_msg mc (mc_timeout mc) msg_timeout_try_from packet_error_to_string
         (\<lambda>m. PacketEnvelope (PacketTimeout m)) v
     else if url = TIMEOUT_ON_CLOSE_TYPE_URL then
       decode_msg mc (mc_timeout_on_close mc) msg_timeout_on_close_try_from packet_error_to_string
         (\<lambda>m. PacketEnvelope (PacketTimeoutOnClose m)) v
     else Err (UnknownMessageTypeUrl url))"

text \<open>The type URL under which a message of an envelope travels.\<close>

fun envelope_type_url :: "msg_envelope \<Rightarrow> string" where
  "envelope_type_url (ClientEnvelope (CreateClientMsg m)) = CREATE_CLIENT_TYPE_URL"
| "envelope_type_url (ClientEnvelope (UpdateClientMsg m)) = UPDATE_CLIENT_TYPE_URL"
| "envelope_type_url (ClientEnvelope (UpgradeClientMsg m)) = UPGRADE_CLIENT_TYPE_URL"
| "envelope_type_url (ClientEnvelope (MisbehaviourMsg m)) = SUBMIT_MISBEHAVIOUR_TYPE_URL"
| "envelope_type_url (ConnectionEnvelope (ConnOpenInit m)) = CONN_OPEN_INIT_TYPE_URL"
| "envelope_type_url (ConnectionEnvelope (ConnOpenTry m)) = CONN_OPEN_TRY_TYPE_URL"
| "envelope_type_url (ConnectionEnvelope (ConnOpenAck m)) = CONN_OPEN_ACK_TYPE_URL"
| "envelope_type_url (ConnectionEnvelope (ConnOpenConfirm m)) = CONN_OPEN_CONFIRM_TYPE_URL"
| "envelope_type_url (ChannelEnvelope (ChanOpenInit m)) = CHAN_OPEN_INIT_TYPE_URL"
| "envelope_type_url (ChannelEnvelope (ChanOpenTry m)) = CHAN_OPEN_TRY_TYPE_URL"
| "envelope_type_url (ChannelEnvelope (ChanOpenAck m)) = CHAN_OPEN_ACK_TYPE_URL"
| "envelope_type_url (ChannelEnvelope (ChanOpenConfirm m)) = CHAN_OPEN_CONFIRM_TYPE_URL"
| "envelope_type_url (ChannelEnvelope (ChanCloseInit m)) = CHAN_CLOSE_INIT_TYPE_URL"
| "envelope_type_url (ChannelEnvelope (ChanCloseConfirm m)) = CHAN_CLOSE_CONFIRM_TYPE_URL"
| "envelope_type_url (PacketEnvelope (PacketRecv m)) = RECV_PACKET_TYPE_URL"
| "envelope_type_url (PacketEnvelope (PacketAck m)) = ACKNOWLEDGEMENT_TYPE_URL"
| "envelope_type_url (PacketEnvelope (PacketTimeout m)) = TIMEOUT_TYPE_URL"
| "envelope_type_url (PacketEnvelope (PacketTimeoutOnClose m)) = TIMEOUT_ON_CLOSE_TYPE_URL"
| "envelope_type_url (ClientEnvelope (RecoverClientMsg m)) = RECOVER_CLIENT_TYPE_URL"


section \<open>Lemmas\<close>

text \<open>
  What a conversion promises to the peers that decode, keep and send a message on: a message
  that was read can be written, and reading what was written gives the same message.
\<close>

locale wire_form =
  fixes try_from :: "'r \<Rightarrow> ('m, 'e) result"
    and to_raw :: "'m \<Rightarrow> ('r, unit) result"
  assumes stable: "try_from r = Ok m \<Longrightarrow> \<exists>r'. to_raw m = Ok r' \<and> try_from r' = Ok m"
begin

lemma writes_do_not_panic: "try_from r = Ok m \<Longrightarrow> to_raw m \<noteq> Panic"
  using stable by force

lemma written_forms_differ:
  "try_from r = Ok m \<Longrightarrow> try_from s = Ok n \<Longrightarrow> to_raw m = to_raw n \<Longrightarrow> m = n"
  using stable by (metis result.inject(1))

lemma decoded_again:
  assumes "\<And>raw. decode (encode raw) = Some raw"
    and "decode_msg mc decode try_from text wrap v = Ok env"
  shows "\<exists>m r. env = wrap m \<and> to_raw m = Ok r \<and> decode_msg mc decode try_from text wrap (encode r) = Ok env"
  using assms(2) stable
  by (fastforce simp: decode_msg_def protobuf_decode_def result_simps assms(1))

end

lemma proof_of_bytes_stable:
  "proof_of_bytes e b = Ok p \<Longrightarrow> proof_of_bytes e (commitment_proof_bytes_of p) = Ok p"
  by (auto simp: proof_of_bytes_def commitment_proof_try_from_def commitment_proof_bytes_of_def
      split: if_splits)

lemma height_of_raw_stable:
  "height_of_raw e r = Ok h \<Longrightarrow> height_of_raw e (Some (height_to_raw h)) = Ok h"
  by (cases r) (auto simp: height_of_raw_def height_try_from_def height_to_raw_def height_new_def
      ok_opt_def result_simps split: if_splits)

lemma host_proof_stable:
  "host_proof_of_bytes b = Ok p \<Longrightarrow> host_proof_of_bytes (host_proof_to_bytes p) = Ok p"
  by (auto simp: host_proof_of_bytes_def host_proof_to_bytes_def proof_of_bytes_def
      commitment_proof_try_from_def commitment_proof_bytes_of_def split: if_splits)

lemma identifier_stable:
  "client_id_from_str s = Ok i \<Longrightarrow> client_id_from_str (client_id_str i) = Ok i"
  "connection_id_from_str s = Ok j \<Longrightarrow> connection_id_from_str (connection_id_str j) = Ok j"
  "port_id_from_str s = Ok p \<Longrightarrow> port_id_from_str (port_id_str p) = Ok p"
  "channel_id_from_str s = Ok c \<Longrightarrow> channel_id_from_str (channel_id_str c) = Ok c"
  by (auto simp: client_id_from_str_def connection_id_from_str_def port_id_from_str_def
      channel_id_from_str_def result_simps split: result.splits)

lemma version_stable:
  "version_try_from r = Ok v \<Longrightarrow> version_try_from (version_to_raw v) = Ok v"
  by (auto simp: version_try_from_def version_to_raw_def split: if_splits)

lemma collect_results_stable:
  assumes "\<And>r x. f r = Ok x \<Longrightarrow> f (g x) = Ok x" "collect_results (map f rs) = Ok xs"
  shows "collect_results (map f (map g xs)) = Ok xs"
  using assms(2) by (induction rs arbitrary: xs) (auto simp: result_simps dest: assms(1))

lemma transpose_map_stable:
  assumes "\<And>r x. f r = Ok x \<Longrightarrow> f (g x) = Ok x" "transpose_map f r = Ok y"
  shows "transpose_map f (map_option g y) = Ok y"
  using assms by (cases r) (auto simp: transpose_map_def result_simps)

lemma conn_counterparty_stable:
  "conn_counterparty_try_from r = Ok c \<Longrightarrow> conn_counterparty_try_from (conn_counterparty_to_raw c) = Ok c"
  by (auto simp: conn_counterparty_try_from_def conn_counterparty_to_raw_def commitment_prefix_try_from_def
      client_id_from_str_def connection_id_from_str_def result_simps split: if_splits)

lemma chan_counterparty_stable:
  "chan_counterparty_try_from r = Ok c \<Longrightarrow> chan_counterparty_try_from (chan_counterparty_to_raw c) = Ok c"
  by (auto simp: chan_counterparty_try_from_def chan_counterparty_to_raw_def port_id_from_str_def
      channel_id_from_str_def result_simps split: if_splits)

lemma i32_stable [simp]:
  "chan_state_from_i32 (chan_state_to_i32 s) = Ok s" "order_from_i32 (order_to_i32 k) = Ok k"
  by (cases s; simp add: chan_state_from_i32_def chan_state_to_i32_def)
    (cases k; simp add: order_from_i32_def order_to_i32_def)

lemma hops_stable:
  "collect_results (map (\<lambda>s. map_err ChanInvalidIdentifier (connection_id_from_str s)) hs) = Ok ids
     \<Longrightarrow> collect_results (map (\<lambda>s. map_err ChanInvalidIdentifier (connection_id_from_str s))
           (map connection_id_str ids)) = Ok ids"
  by (rule collect_results_stable) (auto simp: result_simps intro: identifier_stable)

lemma channel_end_parts:
  assumes "channel_end_try_from r = Ok c"
  shows "chan_counterparty_try_from (chan_counterparty_to_raw (ch_remote c)) = Ok (ch_remote c)"
    and "collect_results (map (\<lambda>s. map_err ChanInvalidIdentifier (connection_id_from_str s))
           (map connection_id_str (ch_connection_hops c))) = Ok (ch_connection_hops c)"
    and "ch_state c \<noteq> Uninitialized" "ch_ordering c \<noteq> OrderNone"
  using assms unfolding channel_end_try_from_def result_simps
  by (auto intro: chan_counterparty_stable hops_stable simp del: map_map)

lemma channel_end_stable:
  assumes "channel_end_try_from r = Ok c"
  shows "channel_end_try_from (channel_end_to_raw (c\<lparr>ch_version := v\<rparr>)) = Ok (c\<lparr>ch_version := v\<rparr>)"
  using channel_end_parts [OF assms]
  by (cases c) (simp add: channel_end_try_from_def channel_end_to_raw_def result_simps del: map_map)

lemma timeout_height_stable:
  "timeout_height_try_from r = Ok t \<Longrightarrow> timeout_height_try_from (timeout_height_to_raw t) = Ok t"
  by (cases r) (auto simp: timeout_height_try_from_def timeout_height_to_raw_def height_try_from_def
      height_to_raw_def height_new_def result_simps split: if_splits)

lemma packet_stable:
  assumes "packet_try_from r = Ok p"
  shows "\<exists>r'. packet_to_raw p = Ok r' \<and> packet_try_from r' = Ok p"
proof -
  obtain th ts pa ca pb cb where
    parts: "\<not> sequence_is_zero (rp_sequence r)" "rp_data r \<noteq> []"
      "timeout_height_try_from (rp_timeout_height r) = Ok th"
      "timestamp_from_nanoseconds (rp_timeout_timestamp r) = Ok ts"
      "timeout_height_is_set th \<or> timestamp_is_set ts"
      "port_id_from_str (rp_source_port r) = Ok pa" "channel_id_from_str (rp_source_channel r) = Ok ca"
      "port_id_from_str (rp_destination_port r) = Ok pb"
      "channel_id_from_str (rp_destination_channel r) = Ok cb"
    and p: "p = \<lparr>seq_on_a = rp_sequence r, port_id_on_a = pa, chan_id_on_a = ca, port_id_on_b = pb,
        chan_id_on_b = cb, packet_data = rp_data r, timeout_height_on_b = th, timeout_timestamp_on_b = ts\<rparr>"
    using assms by (auto simp: packet_try_from_def result_simps split: if_splits)
  note n = nanoseconds_from_nanoseconds [OF parts(4), THEN conjunct1]
  show ?thesis
    using parts timeout_height_stable [OF parts(3)] identifier_stable(3) [OF parts(6)]
      identifier_stable(4) [OF parts(7)] identifier_stable(3) [OF parts(8)] identifier_stable(4) [OF parts(9)]
    by (auto simp: p n packet_to_raw_def packet_try_from_def)
qed

lemma if_Err_Ok_iff: "(if b then Err e else r) = Ok x \<longleftrightarrow> \<not> b \<and> r = Ok x"
  by simp

lemma versions_stable:
  "collect_results (map version_try_from rs) = Ok vs
     \<Longrightarrow> collect_results (map version_try_from (map version_to_raw vs)) = Ok vs"
  "transpose_map version_try_from r = Ok v
     \<Longrightarrow> transpose_map version_try_from (map_option version_to_raw v) = Ok v"
  by (erule collect_results_stable [rotated] transpose_map_stable [rotated], erule version_stable)+

lemmas wire_stable = proof_of_bytes_stable height_of_raw_stable host_proof_stable identifier_stable
  version_stable versions_stable conn_counterparty_stable

interpretation create_client_wire: wire_form msg_create_client_try_from "\<lambda>m. Ok (msg_create_client_to_raw m)"
  by unfold_locales (auto simp: msg_create_client_try_from_def msg_create_client_to_raw_def result_simps
      intro: wire_stable simp del: map_map split: if_splits)

interpretation update_client_wire: wire_form msg_update_client_try_from "\<lambda>m. Ok (msg_update_client_to_raw m)"
  by unfold_locales (auto simp: msg_update_client_try_from_def msg_update_client_to_raw_def result_simps
      intro: wire_stable simp del: map_map split: if_splits)

interpretation submit_misbehaviour_wire: wire_form msg_submit_misbehaviour_try_from "\<lambda>m. Ok (msg_submit_misbehaviour_to_raw m)"
  by unfold_locales (auto simp: msg_submit_misbehaviour_try_from_def msg_submit_misbehaviour_to_raw_def result_simps
      intro: wire_stable simp del: map_map split: if_splits)

interpretation upgrade_client_wire: wire_form msg_upgrade_client_try_from "\<lambda>m. Ok (msg_upgrade_client_to_raw m)"
  by unfold_locales (auto simp: msg_upgrade_client_try_from_def msg_upgrade_client_to_raw_def result_simps
      intro: wire_stable simp del: map_map split: if_splits)

interpretation recover_client_wire: wire_form msg_recover_client_try_from "\<lambda>m. Ok (msg_recover_client_to_raw m)"
  by unfold_locales (auto simp: msg_recover_client_try_from_def msg_recover_client_to_raw_def result_simps
      intro: wire_stable simp del: map_map split: if_splits)

interpretation connection_open_init_wire: wire_form msg_connection_open_init_try_from "\<lambda>m. Ok (msg_connection_open_init_to_raw m)"
  by unfold_locales (auto simp: msg_connection_open_init_try_from_def msg_connection_open_init_to_raw_def result_simps
      intro: wire_stable simp del: map_map split: if_splits)

interpretation connection_open_try_wire: wire_form msg_connection_open_try_try_from "\<lambda>m. Ok (msg_connection_open_try_to_raw m)"
  by unfold_locales (clarsimp simp: msg_connection_open_try_try_from_def msg_connection_open_try_to_raw_def
      result_simps if_Err_Ok_iff simp del: map_map, (intro conjI; erule wire_stable))

interpretation connection_open_ack_wire: wire_form msg_connection_open_ack_try_from "\<lambda>m. Ok (msg_connection_open_ack_to_raw m)"
  by unfold_locales (clarsimp simp: msg_connection_open_ack_try_from_def msg_connection_open_ack_to_raw_def
      result_simps if_Err_Ok_iff simp del: map_map, (intro conjI; erule wire_stable))

interpretation connection_open_confirm_wire: wire_form msg_connection_open_confirm_try_from "\<lambda>m. Ok (msg_connection_open_confirm_to_raw m)"
  by unfold_locales (auto simp: msg_connection_open_confirm_try_from_def msg_connection_open_confirm_to_raw_def result_simps
      intro: wire_stable simp del: map_map split: if_splits)

interpretation channel_open_ack_wire: wire_form msg_channel_open_ack_try_from "\<lambda>m. Ok (msg_channel_open_ack_to_raw m)"
  by unfold_locales (auto simp: msg_channel_open_ack_try_from_def msg_channel_open_ack_to_raw_def result_simps
      intro: wire_stable simp del: map_map split: if_splits)

interpretation channel_open_confirm_wire: wire_form msg_channel_open_confirm_try_from "\<lambda>m. Ok (msg_channel_open_confirm_to_raw m)"
  by unfold_locales (auto simp: msg_channel_open_confirm_try_from_def msg_channel_open_confirm_to_raw_def result_simps
      intro: wire_stable simp del: map_map split: if_splits)

interpretation channel_close_init_wire: wire_form msg_channel_close_init_try_from "\<lambda>m. Ok (msg_channel_close_init_to_raw m)"
  by unfold_locales (auto simp: msg_channel_close_init_try_from_def msg_channel_close_init_to_raw_def result_simps
      intro: wire_stable simp del: map_map split: if_splits)

interpretation channel_close_confirm_wire: wire_form msg_channel_close_confirm_try_from "\<lambda>m. Ok (msg_channel_close_confirm_to_raw m)"
  by unfold_locales (auto simp: msg_channel_close_confirm_try_from_def msg_channel_close_confirm_to_raw_def result_simps
      intro: wire_stable simp del: map_map split: if_splits)

text \<open>A channel end that is only opened is written without a channel of the counterparty.\<close>

lemma verify_empty_channel_id_Ok_iff [result_simps]:
  "verify_empty_channel_id c = Ok u \<longleftrightarrow> hcp_channel_id c = None"
  by (auto simp: verify_empty_channel_id_def split: option.splits)

lemma channel_end_as_opened:
  assumes "channel_end_try_from r = Ok c"
  shows "channel_end_try_from (channel_end_to_raw \<lparr>ch_state = ch_state c, ch_ordering = ch_ordering c,
      ch_remote = \<lparr>hcp_port_id = hcp_port_id (ch_remote c), hcp_channel_id = hcp_channel_id (ch_remote c)\<rparr>,
      ch_connection_hops = ch_connection_hops c, ch_version = v\<rparr>)
    = Ok (c\<lparr>ch_version := v\<rparr>)"
proof -
  have "\<lparr>ch_state = ch_state c, ch_ordering = ch_ordering c,
      ch_remote = \<lparr>hcp_port_id = hcp_port_id (ch_remote c), hcp_channel_id = hcp_channel_id (ch_remote c)\<rparr>,
      ch_connection_hops = ch_connection_hops c, ch_version = v\<rparr> = c\<lparr>ch_version := v\<rparr>"
    by (cases c) simp
  then show ?thesis using channel_end_stable [OF assms, of v] by (simp only:)
qed

interpretation channel_open_init_wire: wire_form msg_channel_open_init_try_from
  "\<lambda>m. Ok (msg_channel_open_init_to_raw m)"
proof
  fix r m assume "msg_channel_open_init_try_from r = Ok m"
  then obtain rc c p where
    c: "channel_end_try_from rc = Ok c" "ch_state c = Init" "hcp_channel_id (ch_remote c) = None"
    and p: "port_id_from_str (rhoi_port_id r) = Ok p"
    and m: "m = \<lparr>hoi_port_id_on_a = p, hoi_connection_hops_on_a = ch_connection_hops c,
        hoi_port_id_on_b = hcp_port_id (ch_remote c), hoi_ordering = ch_ordering c,
        hoi_signer = Signer (rhoi_signer r), hoi_version_proposal = ch_version c\<rparr>"
    by (auto simp: msg_channel_open_init_try_from_def result_simps)
  show "\<exists>r'. Ok (msg_channel_open_init_to_raw m) = Ok r' \<and> msg_channel_open_init_try_from r' = Ok m"
    using channel_end_as_opened [OF c(1), of "ch_version c"] c(2,3) identifier_stable(3) [OF p]
    by (simp add: msg_channel_open_init_try_from_def msg_channel_open_init_to_raw_def m result_simps Let_def)
qed

text \<open>
  \<open>MsgChannelOpenTry\<close> keeps the deprecated version proposal it reads, but writes an empty one:
  what is read back is the message without it.
\<close>

lemma channel_open_try_reread:
  assumes "msg_channel_open_try_try_from r = Ok m"
  shows "msg_channel_open_try_try_from (msg_channel_open_try_to_raw m)
    = Ok (m\<lparr>hot_version_proposal := chan_version_empty\<rparr>)"
proof -
  obtain rc c p i pr h where
    c: "channel_end_try_from rc = Ok c" "ch_state c = TryOpen" "hcp_channel_id (ch_remote c) = Some i"
    and p: "port_id_from_str (rhot_port_id r) = Ok p"
    and pr: "proof_of_bytes ChanInvalidProof (rhot_proof_init r) = Ok pr"
    and h: "height_of_raw ChanMissingHeight (rhot_proof_height r) = Ok h"
    and m: "m = \<lparr>hot_port_id_on_b = p, hot_connection_hops_on_b = ch_connection_hops c,
        hot_port_id_on_a = hcp_port_id (ch_remote c), hot_chan_id_on_a = i,
        hot_version_supported_on_a = ChanVersion (rhot_counterparty_version r),
        hot_proof_chan_end_on_a = pr, hot_proof_height_on_a = h, hot_ordering = ch_ordering c,
        hot_signer = Signer (rhot_signer r), hot_version_proposal = ch_version c\<rparr>"
    using assms by (auto simp: msg_channel_open_try_try_from_def result_simps split: if_splits)
  show ?thesis
    using channel_end_as_opened [OF c(1), of chan_version_empty] c(2,3) identifier_stable(3) [OF p]
      proof_of_bytes_stable [OF pr] height_of_raw_stable [OF h]
    by (simp add: msg_channel_open_try_try_from_def msg_channel_open_try_to_raw_def m result_simps Let_def)
qed

lemma acknowledgement_stable:
  "acknowledgement_try_from b = Ok a \<Longrightarrow> acknowledgement_try_from (acknowledgement_bytes a) = Ok a"
  by (auto simp: acknowledgement_try_from_def split: if_splits)

lemma packet_msg_wire:
  fixes to_raw :: "'m \<Rightarrow> ('r, unit) result"
  assumes "\<And>r m. try_from r = Ok m \<Longrightarrow> \<exists>raw. packet_try_from raw = Ok (packet_of m)"
    and "\<And>r m raw. try_from r = Ok m \<Longrightarrow> packet_to_raw (packet_of m) = (Ok raw :: (_, unit) result)
      \<Longrightarrow> packet_try_from raw = Ok (packet_of m) \<Longrightarrow> \<exists>r'. to_raw m = Ok r' \<and> try_from r' = Ok m"
  shows "wire_form try_from to_raw"
  by unfold_locales (metis assms packet_stable)

interpretation recv_packet_wire: wire_form msg_recv_packet_try_from msg_recv_packet_to_raw
  by (rule packet_msg_wire [where packet_of = rcv_packet]) (auto simp: msg_recv_packet_try_from_def
      msg_recv_packet_to_raw_def result_simps intro: wire_stable acknowledgement_stable split: if_splits)

interpretation acknowledgement_wire: wire_form msg_acknowledgement_try_from msg_acknowledgement_to_raw
  by (rule packet_msg_wire [where packet_of = ack_packet]) (auto simp: msg_acknowledgement_try_from_def
      msg_acknowledgement_to_raw_def result_simps intro: wire_stable acknowledgement_stable split: if_splits)

interpretation timeout_wire: wire_form msg_timeout_try_from msg_timeout_to_raw
  by (rule packet_msg_wire [where packet_of = tmo_packet]) (auto simp: msg_timeout_try_from_def
      msg_timeout_to_raw_def result_simps intro: wire_stable acknowledgement_stable split: if_splits)

interpretation timeout_on_close_wire: wire_form msg_timeout_on_close_try_from msg_timeout_on_close_to_raw
  by (rule packet_msg_wire [where packet_of = toc_packet]) (auto simp: msg_timeout_on_close_try_from_def
      msg_timeout_on_close_to_raw_def result_simps intro: wire_stable acknowledgement_stable split: if_splits)


subsection \<open>Reading never panics\<close>

named_theorems total_intros \<open>rules for conversions that never panic\<close>

lemma total_combinators [total_intros]:
  "m \<noteq> Panic \<Longrightarrow> (\<And>a. f a \<noteq> Panic) \<Longrightarrow> and_then m f \<noteq> Panic"
  "r \<noteq> Panic \<Longrightarrow> map_err g r \<noteq> Panic"
  "r \<noteq> Panic \<Longrightarrow> map_ok h r \<noteq> Panic"
  "ok_or x e \<noteq> Panic" "Ok a \<noteq> Panic" "Err e \<noteq> Panic"
  by (auto simp: and_then_Panic_iff map_err_Panic_iff) (cases r; simp)

lemma total_if [total_intros]:
  "(b \<Longrightarrow> r \<noteq> Panic) \<Longrightarrow> (\<not> b \<Longrightarrow> s \<noteq> Panic) \<Longrightarrow> (if b then r else s) \<noteq> Panic"
  by simp

lemma total_lists [total_intros]:
  "(\<And>x. f x \<noteq> Panic) \<Longrightarrow> collect_results (map f xs) \<noteq> Panic"
  "(\<And>x. f x \<noteq> Panic) \<Longrightarrow> transpose_map f y \<noteq> Panic"
  by (induction xs) (auto simp: and_then_Panic_iff transpose_map_def total_combinators split: option.splits)

lemma total_identifiers [total_intros]:
  "client_id_from_str s \<noteq> Panic" "connection_id_from_str s \<noteq> Panic"
  "port_id_from_str s \<noteq> Panic" "channel_id_from_str s \<noteq> Panic"
  unfolding client_id_from_str_def connection_id_from_str_def port_id_from_str_def channel_id_from_str_def
    validate_client_identifier_def validate_connection_identifier_def validate_port_identifier_def
    validate_channel_identifier_def validate_identifier_chars_def validate_identifier_length_def
    validate_named_u64_index_def Let_def
  by (intro total_intros)+

lemma total_parts [total_intros]:
  "proof_of_bytes e b \<noteq> Panic" "height_of_raw e' r \<noteq> Panic" "host_proof_of_bytes b \<noteq> Panic"
  "version_try_from v \<noteq> Panic" "conn_counterparty_try_from cc \<noteq> Panic"
  "chan_counterparty_try_from hc \<noteq> Panic" "acknowledgement_try_from b \<noteq> Panic"
  "verify_empty_connection_id c \<noteq> Panic" "channel_end_new st k rem hs ver \<noteq> Panic"
  "chan_state_from_i32 i \<noteq> Panic" "order_from_i32 i \<noteq> Panic" "ch_verify_state_matches ch st \<noteq> Panic"
  "height_try_from rh \<noteq> Panic" "timestamp_from_nanoseconds n \<noteq> Panic"
  unfolding proof_of_bytes_def height_of_raw_def host_proof_of_bytes_def version_try_from_def
    conn_counterparty_try_from_def chan_counterparty_try_from_def acknowledgement_try_from_def
    verify_empty_connection_id_def chan_state_from_i32_def order_from_i32_def height_try_from_def
    height_new_def timestamp_from_nanoseconds_def commitment_proof_try_from_def commitment_prefix_try_from_def
  by (intro total_intros channel_end_new_not_Panic ch_verify_not_Panic)+

lemma total_timeout_height [total_intros]:
  "timeout_height_try_from t \<noteq> Panic" "verify_empty_channel_id c \<noteq> Panic"
  by (simp_all add: timeout_height_try_from_def verify_empty_channel_id_def total_intros split: option.splits)

lemma total_records [total_intros]: "channel_end_try_from c \<noteq> Panic" "packet_try_from p \<noteq> Panic"
  unfolding channel_end_try_from_def packet_try_from_def by (intro total_intros)+

lemma total_messages:
  "msg_create_client_try_from r0 \<noteq> Panic"
  "msg_update_client_try_from r1 \<noteq> Panic"
  "msg_submit_misbehaviour_try_from r2 \<noteq> Panic"
  "msg_upgrade_client_try_from r3 \<noteq> Panic"
  "msg_connection_open_init_try_from r4 \<noteq> Panic"
  "msg_connection_open_try_try_from r5 \<noteq> Panic"
  "msg_connection_open_ack_try_from r6 \<noteq> Panic"
  "msg_connection_open_confirm_try_from r7 \<noteq> Panic"
  "msg_channel_open_init_try_from r8 \<noteq> Panic"
  "msg_channel_open_try_try_from r9 \<noteq> Panic"
  "msg_channel_open_ack_try_from r10 \<noteq> Panic"
  "msg_channel_open_confirm_try_from r11 \<noteq> Panic"
  "msg_channel_close_init_try_from r12 \<noteq> Panic"
  "msg_channel_close_confirm_try_from r13 \<noteq> Panic"
  "msg_recv_packet_try_from r14 \<noteq> Panic"
  "msg_acknowledgement_try_from r15 \<noteq> Panic"
  "msg_timeout_try_from r16 \<noteq> Panic"
  "msg_timeout_on_close_try_from r17 \<noteq> Panic"
  unfolding msg_create_client_try_from_def msg_update_client_try_from_def msg_submit_misbehaviour_try_from_def
    msg_upgrade_client_try_from_def msg_connection_open_init_try_from_def msg_connection_open_try_try_from_def
    msg_connection_open_ack_try_from_def msg_connection_open_confirm_try_from_def msg_channel_open_init_try_from_def
    msg_channel_open_try_try_from_def msg_channel_open_ack_try_from_def msg_channel_open_confirm_try_from_def
    msg_channel_close_init_try_from_def msg_channel_close_confirm_try_from_def msg_recv_packet_try_from_def
    msg_acknowledgement_try_from_def msg_timeout_try_from_def msg_timeout_on_close_try_from_def
  by (intro total_intros)+

lemma decode_msg_total:
  "(\<And>r. convert r \<noteq> Panic) \<Longrightarrow> decode_msg mc decode convert text wrap v \<noteq> Panic"
  unfolding decode_msg_def protobuf_decode_def by (intro total_intros)

lemma decode_msg_OkD: "decode_msg mc decode convert text wrap v = Ok env \<Longrightarrow> \<exists>m. env = wrap m"
  by (auto simp: decode_msg_def result_simps)


section \<open>Properties of the wire\<close>

definition routed_type_urls :: "string list" where
  "routed_type_urls = [
     CREATE_CLIENT_TYPE_URL, UPDATE_CLIENT_TYPE_URL, UPGRADE_CLIENT_TYPE_URL,
     SUBMIT_MISBEHAVIOUR_TYPE_URL, CONN_OPEN_INIT_TYPE_URL, CONN_OPEN_TRY_TYPE_URL,
     CONN_OPEN_ACK_TYPE_URL, CONN_OPEN_CONFIRM_TYPE_URL, CHAN_OPEN_INIT_TYPE_URL,
     CHAN_OPEN_TRY_TYPE_URL, CHAN_OPEN_ACK_TYPE_URL, CHAN_OPEN_CONFIRM_TYPE_URL,
     CHAN_CLOSE_INIT_TYPE_URL, CHAN_CLOSE_CONFIRM_TYPE_URL, RECV_PACKET_TYPE_URL,
     ACKNOWLEDGEMENT_TYPE_URL, TIMEOUT_TYPE_URL, TIMEOUT_ON_CLOSE_TYPE_URL]"

lemma decode_msg_known: "decode_msg mc decode convert text wrap v \<noteq> Err (UnknownMessageTypeUrl u)"
  by (cases "protobuf_decode decode convert (mc_decode_error mc)
      (\<lambda>e. mc_convert_error mc (text (mc_format_rfc3339 mc) e)) v") (simp_all add: decode_msg_def)

lemma decode_msg_Ok_cases:
  "decode_msg mc decode convert text wrap v = Ok env \<Longrightarrow> (\<And>m. env = wrap m \<Longrightarrow> thesis) \<Longrightarrow> thesis"
  using decode_msg_OkD by blast

text \<open>C28: Decoding a message envelope out of bytes from a peer never panics, whatever the bytes
  and the decoders give, and it reports an unknown type URL exactly for the URLs that
  \<open>MsgEnvelope::try_from\<close> does not route.\<close>

theorem message_decoding_total:
  "msg_envelope_try_from mc any \<noteq> Panic
   \<and> (msg_envelope_try_from mc any = Err (UnknownMessageTypeUrl u)
        \<longleftrightarrow> any_type_url any \<notin> set routed_type_urls \<and> u = any_type_url any)"
proof
  show "msg_envelope_try_from mc any \<noteq> Panic"
    unfolding msg_envelope_try_from_def Let_def
    by (intro total_intros decode_msg_total total_messages)
  show "msg_envelope_try_from mc any = Err (UnknownMessageTypeUrl u)
      \<longleftrightarrow> any_type_url any \<notin> set routed_type_urls \<and> u = any_type_url any"
    by (auto simp: msg_envelope_try_from_def Let_def routed_type_urls_def decode_msg_known)
qed

text \<open>C29: A decoded envelope holds the kind of message its type URL names, so a peer cannot have
  one message handled as another; \<open>MsgRecoverClient\<close>, which only governance may send, is
  never decoded from a peer.\<close>

theorem envelope_follows_type_url:
  assumes "msg_envelope_try_from mc any = Ok env"
  shows "envelope_type_url env = any_type_url any \<and> (\<forall>m. env \<noteq> ClientEnvelope (RecoverClientMsg m))"
  using assms unfolding msg_envelope_try_from_def Let_def
  by (auto elim!: decode_msg_Ok_cases split: if_splits)

lemma new_ids_read:
  "connection_id_from_str (connection_id_str (connection_id_new n)) = Ok (connection_id_new n)"
  "channel_id_from_str (channel_id_str (channel_id_new n)) = Ok (channel_id_new n)"
  by (simp_all add: connection_id_from_str_def channel_id_from_str_def connection_id_valid channel_id_valid)

lemma port_transfer_read: "port_id_from_str ''transfer'' = Ok (PortId ''transfer'')"
  by (simp add: port_id_from_str_def validate_port_identifier_def validate_identifier_chars_def
      validate_identifier_length_def valid_id_char_def is_alphanumeric_def valid_special_chars_def max_def
      word_le_nat_alt)

definition sample_close_init :: raw_msg_channel_close_init where
  "sample_close_init = \<lparr>rhci_port_id = ''transfer'', rhci_channel_id = channel_id_str (channel_id_new 0), rhci_signer = ''alice''\<rparr>"

definition sample_msg_codec :: msg_codec where
  "sample_msg_codec = \<lparr>
     mc_create_client = \<lambda>_. None, mc_update_client = \<lambda>_. None,
     mc_upgrade_client = \<lambda>_. None, mc_submit_misbehaviour = \<lambda>_. None,
     mc_connection_open_init = \<lambda>_. None, mc_connection_open_try = \<lambda>_. None,
     mc_connection_open_ack = \<lambda>_. None, mc_connection_open_confirm = \<lambda>_. None,
     mc_channel_open_init = \<lambda>_. None, mc_channel_open_try = \<lambda>_. None,
     mc_channel_open_ack = \<lambda>_. None, mc_channel_open_confirm = \<lambda>_. None,
     mc_channel_close_init = \<lambda>_. Some sample_close_init, mc_channel_close_confirm = \<lambda>_. None,
     mc_recv_packet = \<lambda>_. None, mc_acknowledgement = \<lambda>_. None,
     mc_timeout = \<lambda>_. None, mc_timeout_on_close = \<lambda>_. None,
     mc_decode_error = \<lambda>_. ''malformed'', mc_convert_error = \<lambda>s. s, mc_format_rfc3339 = \<lambda>_. ''''\<rparr>"

definition sample_close_any :: any_msg where
  "sample_close_any = \<lparr>any_type_url = CHAN_CLOSE_INIT_TYPE_URL, any_value = [1]\<rparr>"

lemma sample_close_decoded:
  "msg_envelope_try_from sample_msg_codec sample_close_any = Ok (ChannelEnvelope (ChanCloseInit
     \<lparr>hci_port_id_on_a = PortId ''transfer'', hci_chan_id_on_a = channel_id_new 0,
      hci_signer = Signer ''alice''\<rparr>))"
  by (simp add: msg_envelope_try_from_def sample_close_any_def sample_msg_codec_def Let_def msg_type_urls
      decode_msg_def protobuf_decode_def msg_channel_close_init_try_from_def sample_close_init_def
      new_ids_read port_transfer_read)

theorem envelope_follows_type_url_witness:
  "envelope_type_url (ChannelEnvelope (ChanCloseInit \<lparr>hci_port_id_on_a = PortId ''transfer'',
     hci_chan_id_on_a = channel_id_new 0, hci_signer = Signer ''alice''\<rparr>)) = CHAN_CLOSE_INIT_TYPE_URL"
  using envelope_follows_type_url [OF sample_close_decoded] by (simp add: sample_close_any_def)

text \<open>C27: The messages of ICS-02, ICS-03 and ICS-04 survive the wire: a message accepted from its
  protobuf form can be written again without a panic, and what is written is read back as the
  same message.  \<open>MsgChannelOpenTry\<close> is the one exception, treated next.\<close>

theorem messages_survive_the_wire:
  "wire_form msg_create_client_try_from (\<lambda>m. Ok (msg_create_client_to_raw m))
   \<and> wire_form msg_update_client_try_from (\<lambda>m. Ok (msg_update_client_to_raw m))
   \<and> wire_form msg_submit_misbehaviour_try_from (\<lambda>m. Ok (msg_submit_misbehaviour_to_raw m))
   \<and> wire_form msg_upgrade_client_try_from (\<lambda>m. Ok (msg_upgrade_client_to_raw m))
   \<and> wire_form msg_recover_client_try_from (\<lambda>m. Ok (msg_recover_client_to_raw m))
   \<and> wire_form msg_connection_open_init_try_from (\<lambda>m. Ok (msg_connection_open_init_to_raw m))
   \<and> wire_form msg_connection_open_try_try_from (\<lambda>m. Ok (msg_connection_open_try_to_raw m))
   \<and> wire_form msg_connection_open_ack_try_from (\<lambda>m. Ok (msg_connection_open_ack_to_raw m))
   \<and> wire_form msg_connection_open_confirm_try_from (\<lambda>m. Ok (msg_connection_open_confirm_to_raw m))
   \<and> wire_form msg_channel_open_init_try_from (\<lambda>m. Ok (msg_channel_open_init_to_raw m))
   \<and> wire_form msg_channel_open_ack_try_from (\<lambda>m. Ok (msg_channel_open_ack_to_raw m))
   \<and> wire_form msg_channel_open_confirm_try_from (\<lambda>m. Ok (msg_channel_open_confirm_to_raw m))
   \<and> wire_form msg_channel_close_init_try_from (\<lambda>m. Ok (msg_channel_close_init_to_raw m))
   \<and> wire_form msg_channel_close_confirm_try_from (\<lambda>m. Ok (msg_channel_close_confirm_to_raw m))
   \<and> wire_form msg_recv_packet_try_from msg_recv_packet_to_raw
   \<and> wire_form msg_acknowledgement_try_from msg_acknowledgement_to_raw
   \<and> wire_form msg_timeout_try_from msg_timeout_to_raw
   \<and> wire_form msg_timeout_on_close_try_from msg_timeout_on_close_to_raw"
  by (intro conjI create_client_wire.wire_form_axioms update_client_wire.wire_form_axioms submit_misbehaviour_wire.wire_form_axioms
      upgrade_client_wire.wire_form_axioms recover_client_wire.wire_form_axioms connection_open_init_wire.wire_form_axioms
      connection_open_try_wire.wire_form_axioms connection_open_ack_wire.wire_form_axioms connection_open_confirm_wire.wire_form_axioms
      channel_open_init_wire.wire_form_axioms channel_open_ack_wire.wire_form_axioms channel_open_confirm_wire.wire_form_axioms
      channel_close_init_wire.wire_form_axioms channel_close_confirm_wire.wire_form_axioms recv_packet_wire.wire_form_axioms
      acknowledgement_wire.wire_form_axioms timeout_wire.wire_form_axioms timeout_on_close_wire.wire_form_axioms)

text \<open>C33: \<open>MsgChannelOpenTry\<close> keeps the deprecated version proposal that it reads, to convert back
  to the raw form, but writes an empty version: all of an accepted message but that proposal is
  read back from what is written, and the proposal is lost.\<close>

theorem channel_open_try_loses_proposal:
  assumes "msg_channel_open_try_try_from r = Ok m"
  shows "msg_channel_open_try_try_from (msg_channel_open_try_to_raw m)
      = Ok (m\<lparr>hot_version_proposal := chan_version_empty\<rparr>)"
  by (rule channel_open_try_reread [OF assms])

definition sample_open_try :: raw_msg_channel_open_try where
  "sample_open_try = \<lparr>rhot_port_id = ''transfer'', rhot_previous_channel_id = '''',
     rhot_channel = Some \<lparr>rch_state = 2, rch_ordering = 1,
       rch_counterparty = Some \<lparr>rhc_port_id = ''transfer'', rhc_channel_id = channel_id_str (channel_id_new 7)\<rparr>,
       rch_connection_hops = [connection_id_str (connection_id_new 0)], rch_version = ''ics20-1'', rch_upgrade_sequence = 0\<rparr>,
     rhot_counterparty_version = ''ics20-1'', rhot_proof_init = [1],
     rhot_proof_height = Some \<lparr>rh_revision_number = 0, rh_revision_height = 5\<rparr>, rhot_signer = ''alice''\<rparr>"

definition sample_try_msg :: msg_channel_open_try where
  "sample_try_msg = \<lparr>hot_port_id_on_b = PortId ''transfer'',
     hot_connection_hops_on_b = [connection_id_new 0], hot_port_id_on_a = PortId ''transfer'',
     hot_chan_id_on_a = channel_id_new 7, hot_version_supported_on_a = ChanVersion ''ics20-1'',
     hot_proof_chan_end_on_a = CommitmentProofBytes [1], hot_proof_height_on_a = Height 0 5,
     hot_ordering = Unordered, hot_signer = Signer ''alice'', hot_version_proposal = ChanVersion ''ics20-1''\<rparr>"

lemma sample_open_try_read: "msg_channel_open_try_try_from sample_open_try = Ok sample_try_msg"
proof -
  have "channel_id_str (channel_id_new 7) \<noteq> []" by (simp add: channel_id_new_def channel_id_prefix_def)
  then have "chan_counterparty_try_from \<lparr>rhc_port_id = ''transfer'', rhc_channel_id = channel_id_str (channel_id_new 7)\<rparr>
      = Ok \<lparr>hcp_port_id = PortId ''transfer'', hcp_channel_id = Some (channel_id_new 7)\<rparr>"
    by (simp add: chan_counterparty_try_from_def new_ids_read port_transfer_read)
  then show ?thesis
    by (simp add: msg_channel_open_try_try_from_def sample_open_try_def sample_try_msg_def
        channel_end_try_from_def chan_state_from_i32_def order_from_i32_def new_ids_read port_transfer_read
        channel_end_new_def validate_basic_def Let_def ch_verify_state_matches_def proof_of_bytes_def
        commitment_proof_try_from_def height_of_raw_def height_try_from_def height_new_def ok_opt_def)
qed

theorem channel_open_try_loses_proposal_witness:
  "msg_channel_open_try_try_from (msg_channel_open_try_to_raw sample_try_msg)
     = Ok (sample_try_msg\<lparr>hot_version_proposal := chan_version_empty\<rparr>)
   \<and> sample_try_msg\<lparr>hot_version_proposal := chan_version_empty\<rparr> \<noteq> sample_try_msg"
  using channel_open_try_loses_proposal [OF sample_open_try_read]
  by (simp add: sample_try_msg_def chan_version_empty_def)

end
