(* ===== verification/Events.thy ===== *)
theory Events
  imports Commitments
begin

text \<open>
  The events that relayers read (the modules \<open>events\<close> of the types crates of ICS-02, ICS-03,
  ICS-04, ICS-25 and ICS-26): the attributes of every event and the conversion of an IBC event
  to an event of ABCI.

  The attribute type of ABCI with its conversions from pairs and triples, and the hexadecimal
  encoder, are of other crates: they are the record \<open>abci_ops\<close>.
\<close>

section \<open>Attributes\<close>

record 'attr abci_ops =
  abci_pair :: "string \<Rightarrow> string \<Rightarrow> 'attr"
  abci_triple :: "string \<Rightarrow> string \<Rightarrow> bool \<Rightarrow> 'attr"
  abci_hex :: "bytes \<Rightarrow> bytes"

record 'attr abci_event =
  ae_kind :: string
  ae_attributes :: "'attr list"

definition client_id_attribute :: "'attr abci_ops \<Rightarrow> client_id \<Rightarrow> 'attr" where
  "client_id_attribute ops i = abci_pair ops ''client_id'' (client_id_str i)"

definition client_type_attribute :: "'attr abci_ops \<Rightarrow> client_type \<Rightarrow> 'attr" where
  "client_type_attribute ops t = abci_pair ops ''client_type'' (client_type_str t)"

definition consensus_height_attribute :: "'attr abci_ops \<Rightarrow> height \<Rightarrow> 'attr" where
  "consensus_height_attribute ops h = abci_pair ops ''consensus_height'' (height_to_string h)"

definition consensus_heights_attribute :: "'attr abci_ops \<Rightarrow> height list \<Rightarrow> 'attr" where
  "consensus_heights_attribute ops hs =
     abci_pair ops ''consensus_heights'' (join '','' (map height_to_string hs))"

text \<open>\<open>str::from_utf8(&hex::encode(..)).expect(..)\<close>.\<close>

definition hex_text :: "'attr abci_ops \<Rightarrow> bytes \<Rightarrow> (string, 'e) result" where
  "hex_text ops b = (let h = abci_hex ops b in if utf8_valid h then Ok (bytes_string h) else Panic)"

definition header_attribute :: "'attr abci_ops \<Rightarrow> bytes \<Rightarrow> ('attr, 'e) result" where
  "header_attribute ops header = map_ok (abci_pair ops ''header'') (hex_text ops header)"

definition conn_attributes ::
  "'attr abci_ops \<Rightarrow> connection_id \<Rightarrow> client_id \<Rightarrow> connection_id option \<Rightarrow> client_id \<Rightarrow> 'attr list" where
  "conn_attributes ops connection_id client_id counterparty_connection_id counterparty_client_id =
     [abci_pair ops ''connection_id'' (connection_id_str connection_id),
      abci_pair ops ''client_id'' (client_id_str client_id),
      abci_pair ops ''counterparty_client_id'' (client_id_str counterparty_client_id),
      abci_pair ops ''counterparty_connection_id''
        (case counterparty_connection_id of Some i \<Rightarrow> connection_id_str i | None \<Rightarrow> '''')]"

definition port_id_attribute :: "'attr abci_ops \<Rightarrow> port_id \<Rightarrow> 'attr" where
  "port_id_attribute ops p = abci_pair ops ''port_id'' (port_id_str p)"

definition channel_id_attribute :: "'attr abci_ops \<Rightarrow> channel_id \<Rightarrow> 'attr" where
  "channel_id_attribute ops c = abci_pair ops ''channel_id'' (channel_id_str c)"

definition counterparty_port_id_attribute :: "'attr abci_ops \<Rightarrow> port_id \<Rightarrow> 'attr" where
  "counterparty_port_id_attribute ops p = abci_pair ops ''counterparty_port_id'' (port_id_str p)"

definition counterparty_channel_id_attribute :: "'attr abci_ops \<Rightarrow> channel_id \<Rightarrow> 'attr" where
  "counterparty_channel_id_attribute ops c = abci_pair ops ''counterparty_channel_id'' (channel_id_str c)"

definition connection_id_attribute :: "'attr abci_ops \<Rightarrow> connection_id \<Rightarrow> 'attr" where
  "connection_id_attribute ops i = abci_pair ops ''connection_id'' (connection_id_str i)"

definition version_attribute :: "'attr abci_ops \<Rightarrow> chan_version \<Rightarrow> 'attr" where
  "version_attribute ops v = abci_pair ops ''version'' (chan_version_str v)"

definition packet_data_attributes :: "'attr abci_ops \<Rightarrow> bytes \<Rightarrow> ('attr list, channel_error) result" where
  "packet_data_attributes ops data =
     (if \<not> utf8_valid data then Err NonUtf8PacketData
      else and_then (hex_text ops data) (\<lambda>hex.
        Ok [abci_pair ops ''packet_data'' (bytes_string data), abci_pair ops ''packet_data_hex'' hex]))"

definition timeout_height_attribute :: "'attr abci_ops \<Rightarrow> timeout_height \<Rightarrow> 'attr" where
  "timeout_height_attribute ops t = (case t of
       Never \<Rightarrow> abci_pair ops ''packet_timeout_height'' ''0-0''
     | At height \<Rightarrow> abci_pair ops ''packet_timeout_height'' (height_to_string height))"

definition timeout_timestamp_attribute :: "'attr abci_ops \<Rightarrow> timestamp \<Rightarrow> ('attr, 'e) result" where
  "timeout_timestamp_attribute ops t =
     map_ok (\<lambda>n. abci_pair ops ''packet_timeout_timestamp'' (show_u64 n)) (nanoseconds t)"

definition sequence_attribute :: "'attr abci_ops \<Rightarrow> sequence \<Rightarrow> 'attr" where
  "sequence_attribute ops s = abci_pair ops ''packet_sequence'' (show_u64 s)"

definition src_port_id_attribute :: "'attr abci_ops \<Rightarrow> port_id \<Rightarrow> 'attr" where
  "src_port_id_attribute ops p = abci_pair ops ''packet_src_port'' (port_id_str p)"

definition src_channel_id_attribute :: "'attr abci_ops \<Rightarrow> channel_id \<Rightarrow> 'attr" where
  "src_channel_id_attribute ops c = abci_pair ops ''packet_src_channel'' (channel_id_str c)"

definition dst_port_id_attribute :: "'attr abci_ops \<Rightarrow> port_id \<Rightarrow> 'attr" where
  "dst_port_id_attribute ops p = abci_pair ops ''packet_dst_port'' (port_id_str p)"

definition dst_channel_id_attribute :: "'attr abci_ops \<Rightarrow> channel_id \<Rightarrow> 'attr" where
  "dst_channel_id_attribute ops c = abci_pair ops ''packet_dst_channel'' (channel_id_str c)"

definition channel_ordering_attribute :: "'attr abci_ops \<Rightarrow> order \<Rightarrow> 'attr" where
  "channel_ordering_attribute ops k = abci_pair ops ''packet_channel_ordering'' (order_as_str k)"

definition packet_connection_id_attribute :: "'attr abci_ops \<Rightarrow> connection_id \<Rightarrow> 'attr" where
  "packet_connection_id_attribute ops i = abci_pair ops ''packet_connection'' (connection_id_str i)"

definition acknowledgement_attributes ::
  "'attr abci_ops \<Rightarrow> acknowledgement \<Rightarrow> ('attr list, channel_error) result" where
  "acknowledgement_attributes ops a = (
     let b = acknowledgement_bytes a in
     if \<not> utf8_valid b then Err NonUtf8PacketData
     else and_then (hex_text ops b) (\<lambda>hex.
       Ok [abci_pair ops ''packet_ack'' (bytes_string b), abci_pair ops ''packet_ack_hex'' hex]))"


section \<open>Events of clients and connections\<close>

definition CREATE_CLIENT_EVENT :: string where "CREATE_CLIENT_EVENT = ''create_client''"
definition UPDATE_CLIENT_EVENT :: string where "UPDATE_CLIENT_EVENT = ''update_client''"
definition CLIENT_MISBEHAVIOUR_EVENT :: string where "CLIENT_MISBEHAVIOUR_EVENT = ''client_misbehaviour''"
definition UPGRADE_CLIENT_EVENT :: string where "UPGRADE_CLIENT_EVENT = ''upgrade_client''"
definition CONNECTION_OPEN_INIT_EVENT :: string where "CONNECTION_OPEN_INIT_EVENT = ''connection_open_init''"
definition CONNECTION_OPEN_TRY_EVENT :: string where "CONNECTION_OPEN_TRY_EVENT = ''connection_open_try''"
definition CONNECTION_OPEN_ACK_EVENT :: string where "CONNECTION_OPEN_ACK_EVENT = ''connection_open_ack''"
definition CONNECTION_OPEN_CONFIRM_EVENT :: string where
  "CONNECTION_OPEN_CONFIRM_EVENT = ''connection_open_confirm''"

definition create_client_event :: "'attr abci_ops \<Rightarrow> client_id \<Rightarrow> client_type \<Rightarrow> height \<Rightarrow> 'attr abci_event" where
  "create_client_event ops i t h = \<lparr>ae_kind = CREATE_CLIENT_EVENT,
     ae_attributes = [client_id_attribute ops i, client_type_attribute ops t, consensus_height_attribute ops h]\<rparr>"

definition update_client_event ::
  "'attr abci_ops \<Rightarrow> client_id \<Rightarrow> client_type \<Rightarrow> height \<Rightarrow> height list \<Rightarrow> bytes \<Rightarrow> ('attr abci_event, 'e) result" where
  "update_client_event ops i t h hs header = and_then (header_attribute ops header) (\<lambda>header_attr.
     Ok \<lparr>ae_kind = UPDATE_CLIENT_EVENT,
         ae_attributes = [client_id_attribute ops i, client_type_attribute ops t,
           consensus_height_attribute ops h, consensus_heights_attribute ops hs, header_attr]\<rparr>)"

definition client_misbehaviour_event :: "'attr abci_ops \<Rightarrow> client_id \<Rightarrow> client_type \<Rightarrow> 'attr abci_event" where
  "client_misbehaviour_event ops i t = \<lparr>ae_kind = CLIENT_MISBEHAVIOUR_EVENT,
     ae_attributes = [client_id_attribute ops i, client_type_attribute ops t]\<rparr>"

definition upgrade_client_event :: "'attr abci_ops \<Rightarrow> client_id \<Rightarrow> client_type \<Rightarrow> height \<Rightarrow> 'attr abci_event" where
  "upgrade_client_event ops i t h = \<lparr>ae_kind = UPGRADE_CLIENT_EVENT,
     ae_attributes = [client_id_attribute ops i, client_type_attribute ops t, consensus_height_attribute ops h]\<rparr>"

definition conn_open_init_event ::
  "'attr abci_ops \<Rightarrow> connection_id \<Rightarrow> client_id \<Rightarrow> client_id \<Rightarrow> 'attr abci_event" where
  "conn_open_init_event ops conn_id_on_a client_id_on_a client_id_on_b =
     \<lparr>ae_kind = CONNECTION_OPEN_INIT_EVENT,
      ae_attributes = conn_attributes ops conn_id_on_a client_id_on_a None client_id_on_b\<rparr>"

definition conn_open_try_event ::
  "'attr abci_ops \<Rightarrow> connection_id \<Rightarrow> client_id \<Rightarrow> connection_id \<Rightarrow> client_id \<Rightarrow> 'attr abci_event" where
  "conn_open_try_event ops conn_id_on_b client_id_on_b conn_id_on_a client_id_on_a =
     \<lparr>ae_kind = CONNECTION_OPEN_TRY_EVENT,
      ae_attributes = conn_attributes ops conn_id_on_b client_id_on_b (Some conn_id_on_a) client_id_on_a\<rparr>"

definition conn_open_ack_event ::
  "'attr abci_ops \<Rightarrow> connection_id \<Rightarrow> client_id \<Rightarrow> connection_id \<Rightarrow> client_id \<Rightarrow> 'attr abci_event" where
  "conn_open_ack_event ops conn_id_on_a client_id_on_a conn_id_on_b client_id_on_b =
     \<lparr>ae_kind = CONNECTION_OPEN_ACK_EVENT,
      ae_attributes = conn_attributes ops conn_id_on_a client_id_on_a (Some conn_id_on_b) client_id_on_b\<rparr>"

definition conn_open_confirm_event ::
  "'attr abci_ops \<Rightarrow> connection_id \<Rightarrow> client_id \<Rightarrow> connection_id \<Rightarrow> client_id \<Rightarrow> 'attr abci_event" where
  "conn_open_confirm_event ops conn_id_on_b client_id_on_b conn_id_on_a client_id_on_a =
     \<lparr>ae_kind = CONNECTION_OPEN_CONFIRM_EVENT,
      ae_attributes = conn_attributes ops conn_id_on_b client_id_on_b (Some conn_id_on_a) client_id_on_a\<rparr>"


section \<open>Events of channels\<close>

definition CHANNEL_OPEN_INIT_EVENT :: string where "CHANNEL_OPEN_INIT_EVENT = ''channel_open_init''"
definition CHANNEL_OPEN_TRY_EVENT :: string where "CHANNEL_OPEN_TRY_EVENT = ''channel_open_try''"
definition CHANNEL_OPEN_ACK_EVENT :: string where "CHANNEL_OPEN_ACK_EVENT = ''channel_open_ack''"
definition CHANNEL_OPEN_CONFIRM_EVENT :: string where "CHANNEL_OPEN_CONFIRM_EVENT = ''channel_open_confirm''"
definition CHANNEL_CLOSE_INIT_EVENT :: string where "CHANNEL_CLOSE_INIT_EVENT = ''channel_close_init''"
definition CHANNEL_CLOSE_CONFIRM_EVENT :: string where "CHANNEL_CLOSE_CONFIRM_EVENT = ''channel_close_confirm''"
definition CHANNEL_CLOSED_EVENT :: string where "CHANNEL_CLOSED_EVENT = ''channel_close''"

definition chan_open_init_event ::
  "'attr abci_ops \<Rightarrow> port_id \<Rightarrow> channel_id \<Rightarrow> port_id \<Rightarrow> connection_id \<Rightarrow> chan_version \<Rightarrow> 'attr abci_event" where
  "chan_open_init_event ops port_a chan_a port_b conn_id_on_a version_on_a =
     \<lparr>ae_kind = CHANNEL_OPEN_INIT_EVENT,
      ae_attributes = [port_id_attribute ops port_a, channel_id_attribute ops chan_a,
        counterparty_port_id_attribute ops port_b, abci_pair ops ''counterparty_channel_id'' '''',
        connection_id_attribute ops conn_id_on_a, version_attribute ops version_on_a]\<rparr>"

definition chan_open_try_event ::
  "'attr abci_ops \<Rightarrow> port_id \<Rightarrow> channel_id \<Rightarrow> port_id \<Rightarrow> channel_id \<Rightarrow> connection_id \<Rightarrow> chan_version
     \<Rightarrow> 'attr abci_event" where
  "chan_open_try_event ops port_b chan_b port_a chan_a conn_id_on_b version_on_b =
     \<lparr>ae_kind = CHANNEL_OPEN_TRY_EVENT,
      ae_attributes = [port_id_attribute ops port_b, channel_id_attribute ops chan_b,
        counterparty_port_id_attribute ops port_a, counterparty_channel_id_attribute ops chan_a,
        connection_id_attribute ops conn_id_on_b, version_attribute ops version_on_b]\<rparr>"

text \<open>The events of the other handshake messages have the same five attributes.\<close>

definition chan_attributes ::
  "'attr abci_ops \<Rightarrow> port_id \<Rightarrow> channel_id \<Rightarrow> port_id \<Rightarrow> channel_id \<Rightarrow> connection_id \<Rightarrow> 'attr list" where
  "chan_attributes ops port_id chan_id counterparty_port_id counterparty_chan_id conn_id =
     [port_id_attribute ops port_id, channel_id_attribute ops chan_id,
      counterparty_port_id_attribute ops counterparty_port_id,
      counterparty_channel_id_attribute ops counterparty_chan_id, connection_id_attribute ops conn_id]"

definition chan_open_ack_event ::
  "'attr abci_ops \<Rightarrow> port_id \<Rightarrow> channel_id \<Rightarrow> port_id \<Rightarrow> channel_id \<Rightarrow> connection_id \<Rightarrow> 'attr abci_event" where
  "chan_open_ack_event ops port_a chan_a port_b chan_b conn_id_on_a =
     \<lparr>ae_kind = CHANNEL_OPEN_ACK_EVENT,
      ae_attributes = chan_attributes ops port_a chan_a port_b chan_b conn_id_on_a\<rparr>"

definition chan_open_confirm_event ::
  "'attr abci_ops \<Rightarrow> port_id \<Rightarrow> channel_id \<Rightarrow> port_id \<Rightarrow> channel_id \<Rightarrow> connection_id \<Rightarrow> 'attr abci_event" where
  "chan_open_confirm_event ops port_b chan_b port_a chan_a conn_id_on_b =
     \<lparr>ae_kind = CHANNEL_OPEN_CONFIRM_EVENT,
      ae_attributes = chan_attributes ops port_b chan_b port_a chan_a conn_id_on_b\<rparr>"

definition chan_close_init_event ::
  "'attr abci_ops \<Rightarrow> port_id \<Rightarrow> channel_id \<Rightarrow> port_id \<Rightarrow> channel_id \<Rightarrow> connection_id \<Rightarrow> 'attr abci_event" where
  "chan_close_init_event ops port_a chan_a port_b chan_b conn_id_on_a =
     \<lparr>ae_kind = CHANNEL_CLOSE_INIT_EVENT,
      ae_attributes = chan_attributes ops port_a chan_a port_b chan_b conn_id_on_a\<rparr>"

definition chan_close_confirm_event ::
  "'attr abci_ops \<Rightarrow> port_id \<Rightarrow> channel_id \<Rightarrow> port_id \<Rightarrow> channel_id \<Rightarrow> connection_id \<Rightarrow> 'attr abci_event" where
  "chan_close_confirm_event ops port_b chan_b port_a chan_a conn_id_on_b =
     \<lparr>ae_kind = CHANNEL_CLOSE_CONFIRM_EVENT,
      ae_attributes = chan_attributes ops port_b chan_b port_a chan_a conn_id_on_b\<rparr>"

definition channel_closed_event ::
  "'attr abci_ops \<Rightarrow> port_id \<Rightarrow> channel_id \<Rightarrow> port_id \<Rightarrow> channel_id option \<Rightarrow> connection_id \<Rightarrow> order
     \<Rightarrow> 'attr abci_event" where
  "channel_closed_event ops port_a chan_a port_b maybe_chan_b conn_id_on_a k =
     \<lparr>ae_kind = CHANNEL_CLOSED_EVENT,
      ae_attributes = [port_id_attribute ops port_a, channel_id_attribute ops chan_a,
        counterparty_port_id_attribute ops port_b,
        (case maybe_chan_b of
           None \<Rightarrow> abci_pair ops ''counterparty_channel_id'' ''''
         | Some c \<Rightarrow> counterparty_channel_id_attribute ops c),
        connection_id_attribute ops conn_id_on_a, channel_ordering_attribute ops k]\<rparr>"


section \<open>Events of packets\<close>

definition SEND_PACKET_EVENT :: string where "SEND_PACKET_EVENT = ''send_packet''"
definition RECEIVE_PACKET_EVENT :: string where "RECEIVE_PACKET_EVENT = ''recv_packet''"
definition WRITE_ACK_EVENT :: string where "WRITE_ACK_EVENT = ''write_acknowledgement''"
definition ACK_PACKET_EVENT :: string where "ACK_PACKET_EVENT = ''acknowledge_packet''"
definition TIMEOUT_EVENT :: string where "TIMEOUT_EVENT = ''timeout_packet''"

text \<open>The timeouts, the sequence number and the ends of a packet, in the order of every packet event.\<close>

definition packet_attributes :: "'attr abci_ops \<Rightarrow> packet \<Rightarrow> ('attr list, 'e) result" where
  "packet_attributes ops p = and_then (timeout_timestamp_attribute ops (timeout_timestamp_on_b p)) (\<lambda>ts_attr.
     Ok [timeout_height_attribute ops (timeout_height_on_b p), ts_attr,
         sequence_attribute ops (seq_on_a p),
         src_port_id_attribute ops (port_id_on_a p), src_channel_id_attribute ops (chan_id_on_a p),
         dst_port_id_attribute ops (port_id_on_b p), dst_channel_id_attribute ops (chan_id_on_b p)])"

definition send_packet_event ::
  "'attr abci_ops \<Rightarrow> packet \<Rightarrow> order \<Rightarrow> connection_id \<Rightarrow> ('attr abci_event, channel_error) result" where
  "send_packet_event ops p k conn_id_on_a =
     and_then (packet_data_attributes ops (packet_data p)) (\<lambda>data_attrs.
     and_then (packet_attributes ops p) (\<lambda>packet_attrs.
     Ok \<lparr>ae_kind = SEND_PACKET_EVENT,
         ae_attributes = data_attrs @ packet_attrs
           @ [channel_ordering_attribute ops k, packet_connection_id_attribute ops conn_id_on_a]\<rparr>))"

definition receive_packet_event ::
  "'attr abci_ops \<Rightarrow> packet \<Rightarrow> order \<Rightarrow> connection_id \<Rightarrow> ('attr abci_event, channel_error) result" where
  "receive_packet_event ops p k conn_id_on_b =
     and_then (packet_data_attributes ops (packet_data p)) (\<lambda>data_attrs.
     and_then (packet_attributes ops p) (\<lambda>packet_attrs.
     Ok \<lparr>ae_kind = RECEIVE_PACKET_EVENT,
         ae_attributes = data_attrs @ packet_attrs
           @ [channel_ordering_attribute ops k, packet_connection_id_attribute ops conn_id_on_b]\<rparr>))"

definition write_acknowledgement_event ::
  "'attr abci_ops \<Rightarrow> packet \<Rightarrow> acknowledgement \<Rightarrow> connection_id \<Rightarrow> ('attr abci_event, channel_error) result" where
  "write_acknowledgement_event ops p acknowledgement conn_id_on_b =
     and_then (packet_data_attributes ops (packet_data p)) (\<lambda>data_attrs.
     and_then (packet_attributes ops p) (\<lambda>packet_attrs.
     and_then (acknowledgement_attributes ops acknowledgement) (\<lambda>ack_attrs.
     Ok \<lparr>ae_kind = WRITE_ACK_EVENT,
         ae_attributes = data_attrs @ packet_attrs @ ack_attrs
           @ [packet_connection_id_attribute ops conn_id_on_b]\<rparr>)))"

definition acknowledge_packet_event ::
  "'attr abci_ops \<Rightarrow> packet \<Rightarrow> order \<Rightarrow> connection_id \<Rightarrow> ('attr abci_event, channel_error) result" where
  "acknowledge_packet_event ops p k conn_id_on_a =
     and_then (packet_attributes ops p) (\<lambda>packet_attrs.
     Ok \<lparr>ae_kind = ACK_PACKET_EVENT,
         ae_attributes = packet_attrs
           @ [channel_ordering_attribute ops k, packet_connection_id_attribute ops conn_id_on_a]\<rparr>)"

definition timeout_packet_event ::
  "'attr abci_ops \<Rightarrow> packet \<Rightarrow> order \<Rightarrow> ('attr abci_event, channel_error) result" where
  "timeout_packet_event ops p k =
     and_then (packet_attributes ops p) (\<lambda>packet_attrs.
     Ok \<lparr>ae_kind = TIMEOUT_EVENT, ae_attributes = packet_attrs @ [channel_ordering_attribute ops k]\<rparr>)"


section \<open>Events of the handler\<close>

datatype event_error =
    EventHeight
  | EventParse identifier_error
  | EventClient client_error
  | EventConnection connection_error
  | EventChannel channel_error
  | EventTimestamp parse_timestamp_error
  | IncorrectEventType string
  | MalformedModuleEvent module_event

definition MESSAGE_EVENT :: string where "MESSAGE_EVENT = ''message''"

definition module_event_to_abci :: "'attr abci_ops \<Rightarrow> module_event \<Rightarrow> 'attr abci_event" where
  "module_event_to_abci ops e =
     \<lparr>ae_kind = me_kind e,
      ae_attributes = map (\<lambda>a. abci_pair ops (mea_key a) (mea_value a)) (me_attributes e)\<rparr>"

fun ibc_event_to_abci :: "'attr abci_ops \<Rightarrow> ibc_event \<Rightarrow> ('attr abci_event, event_error) result" where
  "ibc_event_to_abci ops (CreateClientEvent i t h) = Ok (create_client_event ops i t h)"
| "ibc_event_to_abci ops (UpdateClientEvent i t h hs b) = update_client_event ops i t h hs b"
| "ibc_event_to_abci ops (UpgradeClientEvent i t h) = Ok (upgrade_client_event ops i t h)"
| "ibc_event_to_abci ops (ClientMisbehaviourEvent i t) = Ok (client_misbehaviour_event ops i t)"
| "ibc_event_to_abci ops (OpenInitConnection c i j) = Ok (conn_open_init_event ops c i j)"
| "ibc_event_to_abci ops (OpenTryConnection c i d j) = Ok (conn_open_try_event ops c i d j)"
| "ibc_event_to_abci ops (OpenAckConnection c i d j) = Ok (conn_open_ack_event ops c i d j)"
| "ibc_event_to_abci ops (OpenConfirmConnection c i d j) = Ok (conn_open_confirm_event ops c i d j)"
| "ibc_event_to_abci ops (OpenInitChannel p c q n v) = Ok (chan_open_init_event ops p c q n v)"
| "ibc_event_to_abci ops (OpenTryChannel p c q d n v) = Ok (chan_open_try_event ops p c q d n v)"
| "ibc_event_to_abci ops (OpenAckChannel p c q d n) = Ok (chan_open_ack_event ops p c q d n)"
| "ibc_event_to_abci ops (OpenConfirmChannel p c q d n) = Ok (chan_open_confirm_event ops p c q d n)"
| "ibc_event_to_abci ops (CloseInitChannel p c q d n) = Ok (chan_close_init_event ops p c q d n)"
| "ibc_event_to_abci ops (CloseConfirmChannel p c q d n) = Ok (chan_close_confirm_event ops p c q d n)"
| "ibc_event_to_abci ops (SendPacketEvent p k n) = map_err EventChannel (send_packet_event ops p k n)"
| "ibc_event_to_abci ops (ReceivePacketEvent p k n) = map_err EventChannel (receive_packet_event ops p k n)"
| "ibc_event_to_abci ops (WriteAcknowledgementEvent p a n) =
     map_err EventChannel (write_acknowledgement_event ops p a n)"
| "ibc_event_to_abci ops (AcknowledgePacketEvent p k n) =
     map_err EventChannel (acknowledge_packet_event ops p k n)"
| "ibc_event_to_abci ops (TimeoutPacketEvent p k) = map_err EventChannel (timeout_packet_event ops p k)"
| "ibc_event_to_abci ops (ChannelClosedEvent p c q d n k) = Ok (channel_closed_event ops p c q d n k)"
| "ibc_event_to_abci ops (ModuleEvent e) = Ok (module_event_to_abci ops e)"
| "ibc_event_to_abci ops (MessageEvent e) =
     Ok \<lparr>ae_kind = MESSAGE_EVENT, ae_attributes = [abci_triple ops ''module'' (module_attribute e) True]\<rparr>"

fun event_type :: "ibc_event \<Rightarrow> string" where
  "event_type (CreateClientEvent _ _ _) = CREATE_CLIENT_EVENT"
| "event_type (UpdateClientEvent _ _ _ _ _) = UPDATE_CLIENT_EVENT"
| "event_type (ClientMisbehaviourEvent _ _) = CLIENT_MISBEHAVIOUR_EVENT"
| "event_type (UpgradeClientEvent _ _ _) = UPGRADE_CLIENT_EVENT"
| "event_type (OpenInitConnection _ _ _) = CONNECTION_OPEN_INIT_EVENT"
| "event_type (OpenTryConnection _ _ _ _) = CONNECTION_OPEN_TRY_EVENT"
| "event_type (OpenAckConnection _ _ _ _) = CONNECTION_OPEN_ACK_EVENT"
| "event_type (OpenConfirmConnection _ _ _ _) = CONNECTION_OPEN_CONFIRM_EVENT"
| "event_type (OpenInitChannel _ _ _ _ _) = CHANNEL_OPEN_INIT_EVENT"
| "event_type (OpenTryChannel _ _ _ _ _ _) = CHANNEL_OPEN_TRY_EVENT"
| "event_type (OpenAckChannel _ _ _ _ _) = CHANNEL_OPEN_ACK_EVENT"
| "event_type (OpenConfirmChannel _ _ _ _ _) = CHANNEL_OPEN_CONFIRM_EVENT"
| "event_type (CloseInitChannel _ _ _ _ _) = CHANNEL_CLOSE_INIT_EVENT"
| "event_type (CloseConfirmChannel _ _ _ _ _) = CHANNEL_CLOSE_CONFIRM_EVENT"
| "event_type (SendPacketEvent _ _ _) = SEND_PACKET_EVENT"
| "event_type (ReceivePacketEvent _ _ _) = RECEIVE_PACKET_EVENT"
| "event_type (WriteAcknowledgementEvent _ _ _) = WRITE_ACK_EVENT"
| "event_type (AcknowledgePacketEvent _ _ _) = ACK_PACKET_EVENT"
| "event_type (TimeoutPacketEvent _ _) = TIMEOUT_EVENT"
| "event_type (ChannelClosedEvent _ _ _ _ _ _) = CHANNEL_CLOSED_EVENT"
| "event_type (ModuleEvent e) = me_kind e"
| "event_type (MessageEvent _) = MESSAGE_EVENT"


section \<open>Lemmas\<close>

text \<open>What the attribute type promises: a pair is kept.\<close>

definition keeps_pairs :: "'attr abci_ops \<Rightarrow> bool" where
  "keeps_pairs ops \<longleftrightarrow> (\<forall>k v k' v'. abci_pair ops k v = abci_pair ops k' v' \<longrightarrow> k = k' \<and> v = v')"

text \<open>What the hexadecimal encoder promises: text.\<close>

definition hex_is_text :: "'attr abci_ops \<Rightarrow> bool" where
  "hex_is_text ops \<longleftrightarrow> (\<forall>b. utf8_valid (abci_hex ops b))"

text \<open>A packet as the wire can carry it: what \<open>Height::new\<close> and \<open>Timestamp\<close> build.\<close>

definition wire_packet :: "packet \<Rightarrow> bool" where
  "wire_packet p \<longleftrightarrow> wire_timestamp (timeout_timestamp_on_b p)
     \<and> (case timeout_height_on_b p of Never \<Rightarrow> True | At h \<Rightarrow> revision_height h \<noteq> 0)"

fun event_packet :: "ibc_event \<Rightarrow> packet option" where
  "event_packet (SendPacketEvent p _ _) = Some p"
| "event_packet (ReceivePacketEvent p _ _) = Some p"
| "event_packet (WriteAcknowledgementEvent p _ _) = Some p"
| "event_packet (AcknowledgePacketEvent p _ _) = Some p"
| "event_packet (TimeoutPacketEvent p _) = Some p"
| "event_packet _ = None"

text \<open>The bytes that an event carries as text.\<close>

fun event_texts :: "ibc_event \<Rightarrow> bytes list" where
  "event_texts (SendPacketEvent p _ _) = [packet_data p]"
| "event_texts (ReceivePacketEvent p _ _) = [packet_data p]"
| "event_texts (WriteAcknowledgementEvent p a _) = [packet_data p, acknowledgement_bytes a]"
| "event_texts _ = []"

lemmas event_defs = create_client_event_def update_client_event_def client_misbehaviour_event_def
  upgrade_client_event_def conn_open_init_event_def conn_open_try_event_def conn_open_ack_event_def
  conn_open_confirm_event_def chan_open_init_event_def chan_open_try_event_def chan_open_ack_event_def
  chan_open_confirm_event_def chan_close_init_event_def chan_close_confirm_event_def
  channel_closed_event_def send_packet_event_def receive_packet_event_def write_acknowledgement_event_def
  acknowledge_packet_event_def timeout_packet_event_def module_event_to_abci_def

lemmas attribute_defs = client_id_attribute_def client_type_attribute_def consensus_height_attribute_def
  consensus_heights_attribute_def header_attribute_def conn_attributes_def port_id_attribute_def
  channel_id_attribute_def counterparty_port_id_attribute_def counterparty_channel_id_attribute_def
  connection_id_attribute_def version_attribute_def packet_data_attributes_def timeout_height_attribute_def
  timeout_timestamp_attribute_def sequence_attribute_def src_port_id_attribute_def
  src_channel_id_attribute_def dst_port_id_attribute_def dst_channel_id_attribute_def
  channel_ordering_attribute_def packet_connection_id_attribute_def acknowledgement_attributes_def
  chan_attributes_def packet_attributes_def

lemma bytes_string_inject [simp]: "bytes_string a = bytes_string b \<longleftrightarrow> a = b"
proof -
  have "inj (\<lambda>w :: byte. char_of (unat w) :: char)"
  proof (rule injI)
    fix v w :: byte assume "char_of (unat v) = (char_of (unat w) :: char)"
    then have "unat v mod 256 = unat w mod 256" by (metis of_char_of)
    moreover have "unat v < 256" "unat w < 256" using unsigned_less [of v] unsigned_less [of w] by simp_all
    ultimately show "v = w" by (simp add: word_unat_eq_iff)
  qed
  then show ?thesis by (simp add: bytes_string_def inj_map_eq_map)
qed

lemma height_to_string_inject:
  "revision_height h \<noteq> 0 \<Longrightarrow> revision_height h' \<noteq> 0 \<Longrightarrow> height_to_string h = height_to_string h' \<Longrightarrow> h = h'"
  by (metis height_from_to_string result.inject(1))

lemma height_to_string_not_zero: "revision_height h \<noteq> 0 \<Longrightarrow> height_to_string h \<noteq> ''0-0''"
proof
  have zero: "''0-0'' = height_to_string (Height 0 0)"
    by (simp add: height_to_string_def show_u64_def show_nat.simps digit_char_def char_of_def bit_Suc_0_iff)
  assume "revision_height h \<noteq> 0" "height_to_string h = ''0-0''"
  then have "height_from_str (height_to_string (Height 0 0)) = Ok h" using height_from_to_string zero by metis
  then show False
    by (simp add: height_from_str_def height_to_string_def split_once_append height_new_def)
qed

lemma nanoseconds_inject:
  assumes "wire_timestamp s" "wire_timestamp t" "nanoseconds s = Ok n" "nanoseconds t = Ok n"
  shows "s = t"
  using from_nanoseconds_nanoseconds [OF assms(1)] from_nanoseconds_nanoseconds [OF assms(2)] assms(3,4)
  by (cases s; cases t) (auto simp: nanoseconds_def split: option.splits if_splits)

lemma order_as_str_inject [simp]: "order_as_str a = order_as_str b \<longleftrightarrow> a = b"
  by (cases a; cases b) (simp_all add: order_as_str_def)


lemma keeps_pairsD: "keeps_pairs ops \<Longrightarrow> abci_pair ops k v = abci_pair ops k' v' \<longleftrightarrow> k = k' \<and> v = v'"
  by (auto simp: keeps_pairs_def)

lemma timeout_height_attribute_inject:
  assumes "keeps_pairs ops" "wire_packet p" "wire_packet q"
    and "timeout_height_attribute ops (timeout_height_on_b p) = timeout_height_attribute ops (timeout_height_on_b q)"
  shows "timeout_height_on_b p = timeout_height_on_b q"
  using assms height_to_string_inject height_to_string_not_zero
  by (auto simp: timeout_height_attribute_def keeps_pairsD wire_packet_def split: timeout_height.splits)

text \<open>All that a packet event carries besides the data is read off its attributes.\<close>

lemma packet_attributes_inject:
  assumes "keeps_pairs ops" "wire_packet p" "wire_packet q" "packet_data p = packet_data q"
    and "packet_attributes ops p = (Ok as :: (_, channel_error) result)"
    and "packet_attributes ops q = (Ok as :: (_, channel_error) result)"
  shows "p = q"
proof -
  obtain n m where nm: "nanoseconds (timeout_timestamp_on_b p) = (Ok n :: (_, channel_error) result)"
      "nanoseconds (timeout_timestamp_on_b q) = (Ok m :: (_, channel_error) result)"
    using assms(5,6) by (auto simp: packet_attributes_def timeout_timestamp_attribute_def result_simps)
  have h: "timeout_height_on_b p = timeout_height_on_b q"
    by (rule timeout_height_attribute_inject [OF assms(1-3)])
      (use assms(5,6) in \<open>auto simp: packet_attributes_def result_simps\<close>)
  have rest: "n = m" "seq_on_a p = seq_on_a q" "port_id_on_a p = port_id_on_a q"
      "chan_id_on_a p = chan_id_on_a q" "port_id_on_b p = port_id_on_b q" "chan_id_on_b p = chan_id_on_b q"
    using assms(5,6) nm keeps_pairsD [OF assms(1)]
    by (auto simp: packet_attributes_def attribute_defs result_simps port_id.expand channel_id.expand)
  have "timeout_timestamp_on_b p = timeout_timestamp_on_b q"
    by (rule nanoseconds_inject [where n = n]) (use assms(2,3) nm rest(1) in \<open>auto simp: wire_packet_def\<close>)
  with h rest assms(4) show ?thesis by simp
qed

lemma hex_text_Ok: "hex_is_text ops \<Longrightarrow> hex_text ops b = Ok (bytes_string (abci_hex ops b))"
  by (simp add: hex_text_def hex_is_text_def Let_def)

lemma packet_attributes_Ok:
  "wire_timestamp (timeout_timestamp_on_b p) \<Longrightarrow> \<exists>as. packet_attributes ops p = (Ok as :: (_, channel_error) result)"
  using from_nanoseconds_nanoseconds [of "timeout_timestamp_on_b p", where 'a = channel_error]
  by (auto simp: packet_attributes_def timeout_timestamp_attribute_def)


section \<open>Properties of events\<close>

text \<open>Attributes that are pairs of texts, a hexadecimal encoder, and a packet for the examples.\<close>

definition hex_digit :: "nat \<Rightarrow> byte" where
  "hex_digit n = (if n < 10 then 48 + of_nat n else 87 + of_nat n)"

definition sample_hex :: "bytes \<Rightarrow> bytes" where
  "sample_hex b = concat (map (\<lambda>w. [hex_digit (unat w div 16), hex_digit (unat w mod 16)]) b)"

definition sample_abci :: "(string \<times> string) abci_ops" where
  "sample_abci = \<lparr>abci_pair = Pair, abci_triple = \<lambda>k v _. (k, v), abci_hex = sample_hex\<rparr>"

definition sample_event_packet :: packet where
  "sample_event_packet = \<lparr>seq_on_a = 1, port_id_on_a = PortId ''transfer'', chan_id_on_a = ChannelId ''channel-0'',
     port_id_on_b = PortId ''transfer'', chan_id_on_b = ChannelId ''channel-7'', packet_data = [65],
     timeout_height_on_b = At (Height 0 9), timeout_timestamp_on_b = Timestamp (Some 5)\<rparr>"

lemma utf8_valid_ascii: "(\<And>b. b \<in> set bs \<Longrightarrow> b < 0x80) \<Longrightarrow> utf8_valid bs"
  by (induction bs) auto

lemma hex_digit_ascii: "n < 16 \<Longrightarrow> hex_digit n < 0x80"
proof -
  assume "n < 16"
  then have "n \<in> {0, 1, 2, 3, 4, 5, 6, 7, 8, 9, 10, 11, 12, 13, 14, 15}" by simp presburger
  then show ?thesis by (auto simp: hex_digit_def)
qed

lemma sample_abci_laws: "keeps_pairs sample_abci" "hex_is_text sample_abci"
proof -
  show "keeps_pairs sample_abci" by (simp add: keeps_pairs_def sample_abci_def)
  have "unat w div 16 < 16" for w :: byte
  proof -
    have "unat w < 2 ^ LENGTH(8)" by (rule unsigned_less)
    then show ?thesis by (simp add: less_mult_imp_div_less)
  qed
  then show "hex_is_text sample_abci"
    by (auto simp: hex_is_text_def sample_abci_def sample_hex_def hex_digit_ascii intro!: utf8_valid_ascii)
qed

lemma sample_event_wire: "wire_packet sample_event_packet"
  by (simp add: wire_packet_def sample_event_packet_def wire_timestamp_def)

lemma sample_send_converts: "\<exists>ev. ibc_event_to_abci sample_abci
    (SendPacketEvent sample_event_packet Unordered (ConnectionId ''connection-0'')) = Ok ev"
  by (simp add: send_packet_event_def packet_data_attributes_def packet_attributes_def
      timeout_timestamp_attribute_def nanoseconds_def hex_text_Ok sample_abci_laws sample_event_packet_def)

lemma sample_ack_converts: "\<exists>ev. ibc_event_to_abci sample_abci
    (WriteAcknowledgementEvent sample_event_packet (Acknowledgement [66]) (ConnectionId ''connection-0'')) = Ok ev"
  by (simp add: write_acknowledgement_event_def packet_data_attributes_def packet_attributes_def
      acknowledgement_attributes_def timeout_timestamp_attribute_def nanoseconds_def hex_text_Ok
      sample_abci_laws sample_event_packet_def Let_def)

text \<open>C32: The conversion of an IBC event to an ABCI event never panics for a packet whose timeout
  the wire can carry.  It gives an event of the kind that \<open>event_type\<close> names, unless the data or
  the acknowledgement of the packet is not UTF-8, and exactly then it is refused.\<close>

theorem event_conversion:
  assumes "hex_is_text ops"
    and "\<And>p. event_packet e = Some p \<Longrightarrow> wire_timestamp (timeout_timestamp_on_b p)"
  shows "if list_all utf8_valid (event_texts e)
    then \<exists>ev. ibc_event_to_abci ops e = Ok ev \<and> ae_kind ev = event_type e
    else ibc_event_to_abci ops e = Err (EventChannel NonUtf8PacketData)"
proof (cases "event_packet e")
  case None
  then show ?thesis
    by (cases e) (simp_all add: event_defs header_attribute_def hex_text_Ok [OF assms(1)])
next
  case (Some p)
  then obtain as where "packet_attributes ops p = (Ok as :: (_, channel_error) result)"
    using packet_attributes_Ok assms(2) by blast
  with Some show ?thesis
    by (cases e) (auto simp: event_defs packet_data_attributes_def acknowledgement_attributes_def
        hex_text_Ok [OF assms(1)] Let_def)
qed

theorem event_conversion_witness:
  "(\<exists>ev. ibc_event_to_abci sample_abci
      (SendPacketEvent sample_event_packet Ordered (ConnectionId ''connection-0'')) = Ok ev
      \<and> ae_kind ev = ''send_packet'')
   \<and> ibc_event_to_abci sample_abci (SendPacketEvent (sample_event_packet\<lparr>packet_data := [0xFF]\<rparr>) Ordered
      (ConnectionId ''connection-0'')) = Err (EventChannel NonUtf8PacketData)"
proof
  show "\<exists>ev. ibc_event_to_abci sample_abci
      (SendPacketEvent sample_event_packet Ordered (ConnectionId ''connection-0'')) = Ok ev
      \<and> ae_kind ev = ''send_packet''"
    using event_conversion [OF sample_abci_laws(2),
        of "SendPacketEvent sample_event_packet Ordered (ConnectionId ''connection-0'')"]
    by (simp add: sample_event_packet_def wire_timestamp_def SEND_PACKET_EVENT_def)
  show "ibc_event_to_abci sample_abci (SendPacketEvent (sample_event_packet\<lparr>packet_data := [0xFF]\<rparr>) Ordered
      (ConnectionId ''connection-0'')) = Err (EventChannel NonUtf8PacketData)"
    using event_conversion [OF sample_abci_laws(2), of "SendPacketEvent
        (sample_event_packet\<lparr>packet_data := [0xFF]\<rparr>) Ordered (ConnectionId ''connection-0'')"]
    by (simp add: sample_event_packet_def wire_timestamp_def)
qed

text \<open>C30: The event of a sent packet tells a relayer everything it needs to relay it: two packets
  with the same event are the same packet, on a channel of the same order and over the same
  connection.\<close>

theorem send_event_identifies_packet:
  assumes "keeps_pairs ops" "wire_packet p" "wire_packet q"
    and "ibc_event_to_abci ops (SendPacketEvent p k n) = Ok ev"
    and "ibc_event_to_abci ops (SendPacketEvent q k' n') = Ok ev"
  shows "p = q \<and> k = k' \<and> n = n'"
proof -
  obtain as bs where ab: "packet_attributes ops p = (Ok as :: (_, channel_error) result)"
      "packet_attributes ops q = (Ok bs :: (_, channel_error) result)"
    using assms(4,5) by (auto simp: send_packet_event_def result_simps)
  have "as = bs" "packet_data p = packet_data q" "k = k'" "n = n'"
    using assms(4,5) ab keeps_pairsD [OF assms(1)]
    by (auto simp: send_packet_event_def packet_data_attributes_def channel_ordering_attribute_def
        packet_connection_id_attribute_def result_simps connection_id.expand split: if_splits)
  then show ?thesis using packet_attributes_inject [OF assms(1-3)] ab by simp
qed

theorem send_event_identifies_packet_witness:
  "\<exists>ev. ibc_event_to_abci sample_abci
      (SendPacketEvent sample_event_packet Unordered (ConnectionId ''connection-0'')) = Ok ev
    \<and> (\<forall>q k n. wire_packet q \<and> ibc_event_to_abci sample_abci (SendPacketEvent q k n) = Ok ev
          \<longrightarrow> q = sample_event_packet \<and> k = Unordered \<and> n = ConnectionId ''connection-0'')"
  using sample_send_converts send_event_identifies_packet [OF sample_abci_laws(1) _ sample_event_wire] by blast

text \<open>C31: The event of a written acknowledgement tells a relayer the packet, the acknowledgement and
  the connection.\<close>

theorem acknowledgement_event_identifies_packet:
  assumes "keeps_pairs ops" "wire_packet p" "wire_packet q"
    and "ibc_event_to_abci ops (WriteAcknowledgementEvent p a n) = Ok ev"
    and "ibc_event_to_abci ops (WriteAcknowledgementEvent q b n') = Ok ev"
  shows "p = q \<and> a = b \<and> n = n'"
proof -
  obtain as bs where ab: "packet_attributes ops p = (Ok as :: (_, channel_error) result)"
      "packet_attributes ops q = (Ok bs :: (_, channel_error) result)"
    using assms(4,5) by (auto simp: write_acknowledgement_event_def result_simps)
  have "length as = length bs" using ab by (auto simp: packet_attributes_def result_simps)
  then have "as = bs" "packet_data p = packet_data q" "a = b" "n = n'"
    using assms(4,5) ab keeps_pairsD [OF assms(1)]
    by (auto simp: write_acknowledgement_event_def packet_data_attributes_def acknowledgement_attributes_def
        packet_connection_id_attribute_def result_simps connection_id.expand acknowledgement.expand Let_def
        split: if_splits)
  then show ?thesis using packet_attributes_inject [OF assms(1-3)] ab by simp
qed

theorem acknowledgement_event_identifies_packet_witness:
  "\<exists>ev. ibc_event_to_abci sample_abci (WriteAcknowledgementEvent sample_event_packet (Acknowledgement [66])
      (ConnectionId ''connection-0'')) = Ok ev
    \<and> (\<forall>q a n. wire_packet q \<and> ibc_event_to_abci sample_abci (WriteAcknowledgementEvent q a n) = Ok ev
          \<longrightarrow> q = sample_event_packet \<and> a = Acknowledgement [66] \<and> n = ConnectionId ''connection-0'')"
  using sample_ack_converts acknowledgement_event_identifies_packet [OF sample_abci_laws(1) _ sample_event_wire]
  by blast

end
