(* ===== verification/Tendermint_Types.thy ===== *)
theory Tendermint_Types
  imports Commitments
begin

text \<open>
  The types of the Tendermint light client (\<open>ibc-clients/ics07-tendermint/types\<close>): trust
  thresholds, headers, client states, consensus states and misbehaviour, with their
  validation, their protobuf forms and the error type.

  Signed headers and validator sets are types of the crate \<open>tendermint\<close>, which this code
  only reads through accessors; they are the type parameters \<open>'sh\<close> and \<open>'vs\<close>, their
  protobuf forms \<open>'rsh\<close> and \<open>'rvs\<close>.  The record \<open>tendermint_ops\<close> holds the accessors
  and what else is used of the crates \<open>tendermint\<close> and
  \<open>tendermint-light-client-verifier\<close>, and the protobuf codec.  A hash is represented by
  its bytes, an error of these crates by its text.
\<close>

section \<open>Types\<close>

record trust_threshold =
  tt_numerator :: u64
  tt_denominator :: u64

record allow_update =
  au_after_expiry :: bool
  au_after_misbehaviour :: bool

record tm_client_state =
  tcs_chain_id :: chain_id
  tcs_trust_level :: trust_threshold
  tcs_trusting_period :: duration
  tcs_unbonding_period :: duration
  tcs_max_clock_drift :: duration
  tcs_latest_height :: height
  tcs_proof_specs :: proof_specs
  tcs_upgrade_path :: "string list"
  tcs_allow_update :: allow_update
  tcs_frozen_height :: "height option"

record tm_consensus_state =
  tc_timestamp :: tm_time
  tc_root :: commitment_root
  tc_next_validators_hash :: bytes

record ('sh, 'vs) tm_header =
  th_signed_header :: 'sh
  th_validator_set :: 'vs
  th_trusted_height :: height
  th_trusted_next_validator_set :: 'vs

record ('sh, 'vs) tm_misbehaviour =
  tmb_client_id :: client_id
  tmb_header1 :: "('sh, 'vs) tm_header"
  tmb_header2 :: "('sh, 'vs) tm_header"

datatype (plugins only: code) tm_error =
    TmInvalidIdentifier identifier_error
  | TmInvalidHeader string string
  | TmInvalidTrustThreshold string
  | InvalidTendermintTrustThreshold string
  | InvalidMaxClockDrift string
  | InvalidLatestHeight string
  | MissingSignedHeader
  | TmValidation string
  | InvalidProofSpec commitment_error
  | InvalidRawClientState string
  | MissingValidatorSet
  | MissingTrustedNextValidatorSet
  | MissingTrustedHeight
  | MissingTrustingPeriod
  | MissingUnbondingPeriod
  | NegativeMaxClockDrift
  | MissingLatestHeight
  | TmInvalidRawHeader string
  | TmInvalidRawMisbehaviour string
  | HeaderTimestampTooHigh string string
  | HeaderTimestampTooLow string string
  | InvalidHeaderHeight u64
  | MissingFrozenHeight
  | MismatchHeightRevisions u64 u64
  | MismatchHeaderChainId string string
  | NotEnoughTrustedValsSigned string
  | VerificationError string
  | TmUpdateMetaDataNotFound client_id height
  | MismatchValidatorsHashes bytes bytes
  | ConsensusStateTimestampGteTrustingPeriod duration duration
  | MisbehaviourHeadersBlockHashesEqual
  | MisbehaviourHeadersNotAtSameHeight

text \<open>Protobuf messages.\<close>

record raw_fraction =
  rf_numerator :: u64
  rf_denominator :: u64

record proto_duration =
  pd_seconds :: int
  pd_nanos :: int

record proto_timestamp =
  pt_seconds :: int
  pt_nanos :: int

record raw_tm_client_state =
  rtcs_chain_id :: string
  rtcs_trust_level :: "raw_fraction option"
  rtcs_trusting_period :: "proto_duration option"
  rtcs_unbonding_period :: "proto_duration option"
  rtcs_max_clock_drift :: "proto_duration option"
  rtcs_frozen_height :: "raw_height option"
  rtcs_latest_height :: "raw_height option"
  rtcs_proof_specs :: "proof_spec list"
  rtcs_upgrade_path :: "string list"
  rtcs_allow_update_after_expiry :: bool
  rtcs_allow_update_after_misbehaviour :: bool

record raw_tm_consensus_state =
  rtc_timestamp :: "proto_timestamp option"
  rtc_root :: "bytes option"
  rtc_next_validators_hash :: bytes

record ('rsh, 'rvs) raw_tm_header =
  rth_signed_header :: "'rsh option"
  rth_validator_set :: "'rvs option"
  rth_trusted_height :: "raw_height option"
  rth_trusted_validators :: "'rvs option"

record ('rsh, 'rvs) raw_tm_misbehaviour =
  rtmb_client_id :: string
  rtmb_header_1 :: "('rsh, 'rvs) raw_tm_header option"
  rtmb_header_2 :: "('rsh, 'rvs) raw_tm_header option"

text \<open>What the verifier of the crate \<open>tendermint-light-client-verifier\<close> takes and returns.\<close>

type_synonym tm_fraction = "u64 \<times> u64"

record tm_options =
  opt_trust_threshold :: tm_fraction
  opt_trusting_period :: duration
  opt_clock_drift :: duration

record ('sh, 'vs) untrusted_block_state =
  ub_signed_header :: 'sh
  ub_validators :: 'vs
  ub_next_validators :: "'vs option"

record 'vs trusted_block_state =
  tb_chain_id :: string
  tb_header_time :: tm_time
  tb_height :: u64
  tb_next_validators :: 'vs
  tb_next_validators_hash :: bytes

datatype verdict = VerdictSuccess | NotEnoughTrust string | VerdictInvalid string

record ('sh, 'vs, 'rsh, 'rvs) tendermint_ops =
  tm_sh_chain_id :: "'sh \<Rightarrow> string"
  tm_sh_height :: "'sh \<Rightarrow> u64"
  tm_sh_time :: "'sh \<Rightarrow> tm_time"
  tm_sh_validators_hash :: "'sh \<Rightarrow> bytes"
  tm_sh_next_validators_hash :: "'sh \<Rightarrow> bytes"
  tm_sh_app_hash :: "'sh \<Rightarrow> bytes"
  tm_sh_commit_hash :: "'sh \<Rightarrow> bytes"
  tm_vs_hash :: "'vs \<Rightarrow> bytes"
  tm_max_chain_id_len :: u64
  tm_trust_threshold_new :: "u64 \<Rightarrow> u64 \<Rightarrow> (tm_fraction, string) result"
  tm_chain_id_try_from :: "string \<Rightarrow> (string, string) result"
  tm_height_try_from :: "u64 \<Rightarrow> u64 option"
  tm_hash_from_bytes :: "bytes \<Rightarrow> (bytes, string) result"
  tm_hash_to_string :: "bytes \<Rightarrow> string"
  tm_time_add :: "tm_time \<Rightarrow> duration \<Rightarrow> tm_time option"
  tm_time_duration_since :: "tm_time \<Rightarrow> tm_time \<Rightarrow> duration option"
  tm_verify_update_header :: "('sh, 'vs) untrusted_block_state \<Rightarrow> 'vs trusted_block_state
    \<Rightarrow> tm_options \<Rightarrow> tm_time \<Rightarrow> verdict"
  tm_verify_misbehaviour_header :: "('sh, 'vs) untrusted_block_state \<Rightarrow> 'vs trusted_block_state
    \<Rightarrow> tm_options \<Rightarrow> tm_time \<Rightarrow> verdict"
  tm_duration_from_proto :: "proto_duration \<Rightarrow> duration option"
  tm_duration_to_proto :: "duration \<Rightarrow> proto_duration"
  tm_time_from_proto :: "proto_timestamp \<Rightarrow> (tm_time, string) result"
  tm_time_to_proto :: "tm_time \<Rightarrow> proto_timestamp"
  tm_sh_from_raw :: "'rsh \<Rightarrow> ('sh, string) result"
  tm_sh_to_raw :: "'sh \<Rightarrow> 'rsh"
  tm_vs_from_raw :: "'rvs \<Rightarrow> ('vs, string) result"
  tm_vs_to_raw :: "'vs \<Rightarrow> 'rvs"
  tm_encode_header :: "('rsh, 'rvs) raw_tm_header \<Rightarrow> bytes"
  tm_decode_header :: "bytes \<Rightarrow> ('rsh, 'rvs) raw_tm_header option"
  tm_encode_client_state :: "raw_tm_client_state \<Rightarrow> bytes"
  tm_decode_client_state :: "bytes \<Rightarrow> raw_tm_client_state option"
  tm_encode_consensus_state :: "raw_tm_consensus_state \<Rightarrow> bytes"
  tm_decode_consensus_state :: "bytes \<Rightarrow> raw_tm_consensus_state option"
  tm_encode_misbehaviour :: "('rsh, 'rvs) raw_tm_misbehaviour \<Rightarrow> bytes"
  tm_decode_misbehaviour :: "bytes \<Rightarrow> ('rsh, 'rvs) raw_tm_misbehaviour option"
  tm_decode_error :: "bytes \<Rightarrow> string"
  tm_convert_error :: "tm_error \<Rightarrow> string"

section \<open>Texts\<close>

text \<open>\<open>Debug\<close> of a \<open>Duration\<close>: the largest unit that is not zero, with the fraction it
  needs.  The sign of micro is its UTF-8 encoding.\<close>

definition fraction_digits :: "nat \<Rightarrow> nat \<Rightarrow> string" where
  "fraction_digits w n = (let s = show_nat n in
     rev (dropWhile (\<lambda>c. c = CHR ''0'') (rev (replicate (w - length s) CHR ''0'' @ s))))"

definition fmt_decimal :: "nat \<Rightarrow> nat \<Rightarrow> nat \<Rightarrow> string" where
  "fmt_decimal integer_part frac w =
     show_nat integer_part @ (if frac = 0 then [] else ''.'' @ fraction_digits w frac)"

definition duration_debug :: "duration \<Rightarrow> string" where
  "duration_debug d = (
     let secs = d div 10 ^ 9; nanos = d mod 10 ^ 9 in
     if 0 < secs then fmt_decimal secs nanos 9 @ ''s''
     else if 10 ^ 6 \<le> nanos then fmt_decimal (nanos div 10 ^ 6) (nanos mod 10 ^ 6) 6 @ ''ms''
     else if 10 ^ 3 \<le> nanos
     then fmt_decimal (nanos div 10 ^ 3) (nanos mod 10 ^ 3) 3
       @ [char_of (194 :: nat), char_of (181 :: nat)] @ ''s''
     else fmt_decimal nanos 0 1 @ ''ns'')"

primrec tm_error_to_string :: "('sh, 'vs, 'rsh, 'rvs) tendermint_ops \<Rightarrow> tm_error \<Rightarrow> string" where
  "tm_error_to_string tm (TmInvalidIdentifier e) =
     ''invalid identifier: '' @ quoted (identifier_error_to_string e)"
| "tm_error_to_string tm (TmInvalidHeader r e) =
     ''invalid header, failed basic validation: '' @ quoted r @ '', error: '' @ quoted e"
| "tm_error_to_string tm (TmInvalidTrustThreshold r) =
     ''invalid client state trust threshold: '' @ quoted r"
| "tm_error_to_string tm (InvalidTendermintTrustThreshold e) =
     ''invalid tendermint client state trust threshold error: '' @ quoted e"
| "tm_error_to_string tm (InvalidMaxClockDrift r) =
     ''invalid client state max clock drift: '' @ quoted r"
| "tm_error_to_string tm (InvalidLatestHeight r) =
     ''invalid client state latest height: '' @ quoted r"
| "tm_error_to_string tm MissingSignedHeader = ''missing signed header''"
| "tm_error_to_string tm (TmValidation r) =
     ''invalid header, failed basic validation: '' @ quoted r"
| "tm_error_to_string tm (InvalidProofSpec e) =
     ''invalid client proof specs: '' @ quoted (commitment_error_to_string e)"
| "tm_error_to_string tm (InvalidRawClientState r) = ''invalid raw client state: '' @ quoted r"
| "tm_error_to_string tm MissingValidatorSet = ''missing validator set''"
| "tm_error_to_string tm MissingTrustedNextValidatorSet = ''missing trusted next validator set''"
| "tm_error_to_string tm MissingTrustedHeight = ''missing trusted height''"
| "tm_error_to_string tm MissingTrustingPeriod = ''missing trusting period''"
| "tm_error_to_string tm MissingUnbondingPeriod = ''missing unbonding period''"
| "tm_error_to_string tm NegativeMaxClockDrift = ''negative max clock drift''"
| "tm_error_to_string tm MissingLatestHeight = ''missing latest height''"
| "tm_error_to_string tm (TmInvalidRawHeader e) = ''invalid raw header error: '' @ quoted e"
| "tm_error_to_string tm (TmInvalidRawMisbehaviour r) = ''invalid raw misbehaviour: '' @ quoted r"
| "tm_error_to_string tm (HeaderTimestampTooHigh actual mx) =
     ''given other previous updates, header timestamp should be at most '' @ quoted mx
       @ '', but was '' @ quoted actual"
| "tm_error_to_string tm (HeaderTimestampTooLow actual mn) =
     ''given other previous updates, header timestamp should be at least '' @ quoted mn
       @ '', but was '' @ quoted actual"
| "tm_error_to_string tm (InvalidHeaderHeight h) =
     ''header revision height = '' @ quoted (show_u64 h) @ '' is invalid''"
| "tm_error_to_string tm MissingFrozenHeight = ''frozen height is missing''"
| "tm_error_to_string tm (MismatchHeightRevisions t h) =
     ''the header's trusted revision number ('' @ quoted (show_u64 t)
       @ '') and the update's revision number ('' @ quoted (show_u64 h)
       @ '') should be the same''"
| "tm_error_to_string tm (MismatchHeaderChainId given expected) =
     ''the given chain-id ('' @ quoted given @ '') does not match the chain-id of the client (''
       @ quoted expected @ '')''"
| "tm_error_to_string tm (NotEnoughTrustedValsSigned r) =
     ''not enough trust because insufficient validators overlap: '' @ quoted r"
| "tm_error_to_string tm (VerificationError detail) = ''verification failed: '' @ quoted detail"
| "tm_error_to_string tm (TmUpdateMetaDataNotFound c h) =
     ''Processed time or height for the client '' @ quoted (client_id_str c)
       @ '' at height '' @ quoted (height_to_string h) @ '' not found''"
| "tm_error_to_string tm (MismatchValidatorsHashes vh sh) =
     ''The given hash of the validators does not matches the given hash in the signed header. ''
       @ ''Expected: '' @ quoted (tm_hash_to_string tm sh) @ '', got: ''
       @ quoted (tm_hash_to_string tm vh)"
| "tm_error_to_string tm (ConsensusStateTimestampGteTrustingPeriod since period) =
     ''current timestamp minus the latest consensus state timestamp is greater than or equal ''
       @ ''to the trusting period ('' @ quoted (duration_debug since) @ '' >= ''
       @ quoted (duration_debug period) @ '')''"
| "tm_error_to_string tm MisbehaviourHeadersBlockHashesEqual = ''headers block hashes are equal''"
| "tm_error_to_string tm MisbehaviourHeadersNotAtSameHeight =
     ''headers are not at same height and are monotonically increasing''"

declare tm_error_to_string.simps [simp del]

definition tm_error_into_client ::
  "('sh, 'vs, 'rsh, 'rvs) tendermint_ops \<Rightarrow> tm_error \<Rightarrow> client_error" where
  "tm_error_into_client tm e = ClientSpecific (tm_error_to_string tm e)"

fun verdict_into_result :: "verdict \<Rightarrow> (unit, tm_error) result" where
  "verdict_into_result VerdictSuccess = Ok ()"
| "verdict_into_result (NotEnoughTrust reason) = Err (NotEnoughTrustedValsSigned reason)"
| "verdict_into_result (VerdictInvalid detail) = Err (VerificationError detail)"


section \<open>Trust thresholds\<close>

definition trust_threshold_one_third :: trust_threshold where
  "trust_threshold_one_third = \<lparr>tt_numerator = 1, tt_denominator = 3\<rparr>"

definition trust_threshold_two_thirds :: trust_threshold where
  "trust_threshold_two_thirds = \<lparr>tt_numerator = 2, tt_denominator = 3\<rparr>"

definition trust_threshold_zero :: trust_threshold where
  "trust_threshold_zero = \<lparr>tt_numerator = 0, tt_denominator = 0\<rparr>"

definition trust_threshold_new :: "u64 \<Rightarrow> u64 \<Rightarrow> (trust_threshold, client_error) result" where
  "trust_threshold_new n d =
     (if n > d \<or> (d = 0 \<and> n \<noteq> 0) \<or> (n = d \<and> n \<noteq> 0) then Err (InvalidTrustThreshold n d)
      else Ok \<lparr>tt_numerator = n, tt_denominator = d\<rparr>)"

definition trust_threshold_from_fraction :: "tm_fraction \<Rightarrow> trust_threshold" where
  "trust_threshold_from_fraction t = \<lparr>tt_numerator = fst t, tt_denominator = snd t\<rparr>"

definition trust_threshold_into_fraction ::
  "('sh, 'vs, 'rsh, 'rvs) tendermint_ops \<Rightarrow> trust_threshold \<Rightarrow> (tm_fraction, client_error) result" where
  "trust_threshold_into_fraction tm t =
     map_err (\<lambda>_. FailedTrustThresholdConversion (tt_numerator t) (tt_denominator t))
       (tm_trust_threshold_new tm (tt_numerator t) (tt_denominator t))"

definition trust_threshold_to_raw :: "trust_threshold \<Rightarrow> raw_fraction" where
  "trust_threshold_to_raw t =
     \<lparr>rf_numerator = tt_numerator t, rf_denominator = tt_denominator t\<rparr>"

definition trust_threshold_try_from :: "raw_fraction \<Rightarrow> (trust_threshold, client_error) result" where
  "trust_threshold_try_from r = trust_threshold_new (rf_numerator r) (rf_denominator r)"

definition trust_threshold_to_string :: "trust_threshold \<Rightarrow> string" where
  "trust_threshold_to_string t =
     show_u64 (tt_numerator t) @ ''/'' @ show_u64 (tt_denominator t)"

section \<open>Headers\<close>

definition tendermint_header_type_url :: string where
  "tendermint_header_type_url = ''/ibc.lightclients.tendermint.v1.Header''"

definition tm_header_timestamp ::
  "('sh, 'vs, 'rsh, 'rvs) tendermint_ops \<Rightarrow> ('sh, 'vs) tm_header \<Rightarrow> timestamp" where
  "tm_header_timestamp tm self = timestamp_from_time (tm_sh_time tm (th_signed_header self))"

text \<open>\<open>height\<close> expects the chain identifier to parse and the height not to be zero.\<close>

definition tm_header_height ::
  "('sh, 'vs, 'rsh, 'rvs) tendermint_ops \<Rightarrow> ('sh, 'vs) tm_header \<Rightarrow> (height, 'e) result" where
  "tm_header_height tm self =
     (case chain_id_from_str (tm_sh_chain_id tm (th_signed_header self)) of
        Ok chain_id \<Rightarrow>
          (case height_new (chain_revision_number chain_id) (tm_sh_height tm (th_signed_header self)) of
             Ok h \<Rightarrow> Ok h
           | _ \<Rightarrow> Panic)
      | _ \<Rightarrow> Panic)"

definition as_untrusted_block_state ::
  "('sh, 'vs) tm_header \<Rightarrow> ('sh, 'vs) untrusted_block_state" where
  "as_untrusted_block_state self =
     \<lparr>ub_signed_header = th_signed_header self, ub_validators = th_validator_set self,
      ub_next_validators = None\<rparr>"

definition as_trusted_block_state ::
  "('sh, 'vs, 'rsh, 'rvs) tendermint_ops \<Rightarrow> ('sh, 'vs) tm_header \<Rightarrow> string \<Rightarrow> tm_time \<Rightarrow> bytes
     \<Rightarrow> ('vs trusted_block_state, tm_error) result" where
  "as_trusted_block_state tm self chain_id header_time next_validators_hash =
     and_then (ok_or (tm_height_try_from tm (revision_height (th_trusted_height self)))
       (InvalidHeaderHeight (revision_height (th_trusted_height self)))) (\<lambda>h.
     Ok \<lparr>tb_chain_id = chain_id, tb_header_time = header_time, tb_height = h,
         tb_next_validators = th_trusted_next_validator_set self,
         tb_next_validators_hash = next_validators_hash\<rparr>)"

definition verify_chain_id_version_matches_height ::
  "('sh, 'vs, 'rsh, 'rvs) tendermint_ops \<Rightarrow> ('sh, 'vs) tm_header \<Rightarrow> chain_id
     \<Rightarrow> (unit, tm_error) result" where
  "verify_chain_id_version_matches_height tm self chain_id =
     and_then (tm_header_height tm self) (\<lambda>h.
     if revision_number h \<noteq> chain_revision_number chain_id
     then Err (MismatchHeaderChainId (tm_sh_chain_id tm (th_signed_header self))
            (chain_id_str chain_id))
     else Ok ())"

definition check_trusted_next_validator_set ::
  "('sh, 'vs, 'rsh, 'rvs) tendermint_ops \<Rightarrow> ('sh, 'vs) tm_header \<Rightarrow> bytes
     \<Rightarrow> (unit, client_error) result" where
  "check_trusted_next_validator_set tm self trusted_next_validator_hash =
     (if tm_vs_hash tm (th_trusted_next_validator_set self) = trusted_next_validator_hash then Ok ()
      else Err (HeaderVerificationFailure
        ''header trusted next validator set hash does not match hash stored on chain''))"

definition tm_header_validate_basic ::
  "('sh, 'vs, 'rsh, 'rvs) tendermint_ops \<Rightarrow> ('sh, 'vs) tm_header \<Rightarrow> (unit, tm_error) result" where
  "tm_header_validate_basic tm self =
     and_then (tm_header_height tm self) (\<lambda>h.
     if revision_number h \<noteq> revision_number (th_trusted_height self)
     then Err (MismatchHeightRevisions (revision_number (th_trusted_height self)) (revision_number h))
     else if th_trusted_height self \<ge> h then Err (InvalidHeaderHeight (revision_height h))
     else
     let validators_hash = tm_vs_hash tm (th_validator_set self) in
     if validators_hash \<noteq> tm_sh_validators_hash tm (th_signed_header self)
     then Err (MismatchValidatorsHashes validators_hash
            (tm_sh_validators_hash tm (th_signed_header self)))
     else Ok ())"

definition tm_header_try_from_raw ::
  "('sh, 'vs, 'rsh, 'rvs) tendermint_ops \<Rightarrow> ('rsh, 'rvs) raw_tm_header
     \<Rightarrow> (('sh, 'vs) tm_header, tm_error) result" where
  "tm_header_try_from_raw tm raw =
     and_then (ok_or (rth_signed_header raw) MissingSignedHeader) (\<lambda>rsh.
     and_then (map_err (TmInvalidHeader ''signed header conversion'') (tm_sh_from_raw tm rsh)) (\<lambda>sh.
     and_then (ok_or (rth_validator_set raw) MissingValidatorSet) (\<lambda>rvs.
     and_then (map_err TmInvalidRawHeader (tm_vs_from_raw tm rvs)) (\<lambda>vs.
     and_then (ok_or (Option.bind (rth_trusted_height raw) (\<lambda>rh. ok_opt (height_try_from rh)))
       MissingTrustedHeight) (\<lambda>th.
     and_then (ok_or (rth_trusted_validators raw) MissingTrustedNextValidatorSet) (\<lambda>rtv.
     and_then (map_err TmInvalidRawHeader (tm_vs_from_raw tm rtv)) (\<lambda>tv.
     Ok \<lparr>th_signed_header = sh, th_validator_set = vs, th_trusted_height = th,
         th_trusted_next_validator_set = tv\<rparr>)))))))"

definition tm_header_to_raw ::
  "('sh, 'vs, 'rsh, 'rvs) tendermint_ops \<Rightarrow> ('sh, 'vs) tm_header \<Rightarrow> ('rsh, 'rvs) raw_tm_header" where
  "tm_header_to_raw tm h =
     \<lparr>rth_signed_header = Some (tm_sh_to_raw tm (th_signed_header h)),
      rth_validator_set = Some (tm_vs_to_raw tm (th_validator_set h)),
      rth_trusted_height = Some (height_to_raw (th_trusted_height h)),
      rth_trusted_validators = Some (tm_vs_to_raw tm (th_trusted_next_validator_set h))\<rparr>"

definition tm_header_try_from_any ::
  "('sh, 'vs, 'rsh, 'rvs) tendermint_ops \<Rightarrow> any_msg \<Rightarrow> (('sh, 'vs) tm_header, client_error) result" where
  "tm_header_try_from_any tm raw =
     (if any_type_url raw = tendermint_header_type_url
      then map_err OtherClientError (protobuf_decode (tm_decode_header tm) (tm_header_try_from_raw tm)
        (tm_decode_error tm) (tm_convert_error tm) (any_value raw))
      else Err (UnknownHeaderType (any_type_url raw)))"

definition tm_header_to_any ::
  "('sh, 'vs, 'rsh, 'rvs) tendermint_ops \<Rightarrow> ('sh, 'vs) tm_header \<Rightarrow> any_msg" where
  "tm_header_to_any tm h =
     \<lparr>any_type_url = tendermint_header_type_url,
      any_value = tm_encode_header tm (tm_header_to_raw tm h)\<rparr>"


section \<open>Misbehaviour\<close>

definition tendermint_misbehaviour_type_url :: string where
  "tendermint_misbehaviour_type_url = ''/ibc.lightclients.tendermint.v1.Misbehaviour''"

definition tm_misbehaviour_validate_basic ::
  "('sh, 'vs, 'rsh, 'rvs) tendermint_ops \<Rightarrow> ('sh, 'vs) tm_misbehaviour \<Rightarrow> (unit, tm_error) result" where
  "tm_misbehaviour_validate_basic tm self =
     and_then (tm_header_validate_basic tm (tmb_header1 self)) (\<lambda>_.
     and_then (tm_header_validate_basic tm (tmb_header2 self)) (\<lambda>_.
     if tm_sh_chain_id tm (th_signed_header (tmb_header1 self))
        \<noteq> tm_sh_chain_id tm (th_signed_header (tmb_header2 self))
     then Err (TmInvalidRawMisbehaviour ''headers must have identical chain_ids'')
     else
     and_then (tm_header_height tm (tmb_header1 self)) (\<lambda>h1.
     and_then (tm_header_height tm (tmb_header2 self)) (\<lambda>h2.
     if h1 < h2
     then Err (TmInvalidRawMisbehaviour (''header1 height is less than header2 height (''
            @ height_to_string h1 @ '' < '' @ height_to_string h2 @ '')''))
     else Ok ()))))"

definition tm_misbehaviour_try_from_raw ::
  "('sh, 'vs, 'rsh, 'rvs) tendermint_ops \<Rightarrow> ('rsh, 'rvs) raw_tm_misbehaviour
     \<Rightarrow> (('sh, 'vs) tm_misbehaviour, tm_error) result" where
  "tm_misbehaviour_try_from_raw tm raw =
     and_then (map_err TmInvalidIdentifier (client_id_from_str (rtmb_client_id raw))) (\<lambda>client_id.
     and_then (ok_or (rtmb_header_1 raw) (TmInvalidRawMisbehaviour ''missing header1'')) (\<lambda>rh1.
     and_then (tm_header_try_from_raw tm rh1) (\<lambda>h1.
     and_then (ok_or (rtmb_header_2 raw) (TmInvalidRawMisbehaviour ''missing header2'')) (\<lambda>rh2.
     and_then (tm_header_try_from_raw tm rh2) (\<lambda>h2.
     Ok \<lparr>tmb_client_id = client_id, tmb_header1 = h1, tmb_header2 = h2\<rparr>)))))"

definition tm_misbehaviour_to_raw ::
  "('sh, 'vs, 'rsh, 'rvs) tendermint_ops \<Rightarrow> ('sh, 'vs) tm_misbehaviour
     \<Rightarrow> ('rsh, 'rvs) raw_tm_misbehaviour" where
  "tm_misbehaviour_to_raw tm self =
     \<lparr>rtmb_client_id = client_id_str (tmb_client_id self),
      rtmb_header_1 = Some (tm_header_to_raw tm (tmb_header1 self)),
      rtmb_header_2 = Some (tm_header_to_raw tm (tmb_header2 self))\<rparr>"

definition tm_misbehaviour_try_from_any ::
  "('sh, 'vs, 'rsh, 'rvs) tendermint_ops \<Rightarrow> any_msg
     \<Rightarrow> (('sh, 'vs) tm_misbehaviour, client_error) result" where
  "tm_misbehaviour_try_from_any tm raw =
     (if any_type_url raw = tendermint_misbehaviour_type_url
      then map_err OtherClientError (protobuf_decode (tm_decode_misbehaviour tm)
        (tm_misbehaviour_try_from_raw tm) (tm_decode_error tm) (tm_convert_error tm) (any_value raw))
      else Err (UnknownMisbehaviourType (any_type_url raw)))"

definition tm_misbehaviour_to_any ::
  "('sh, 'vs, 'rsh, 'rvs) tendermint_ops \<Rightarrow> ('sh, 'vs) tm_misbehaviour \<Rightarrow> any_msg" where
  "tm_misbehaviour_to_any tm self =
     \<lparr>any_type_url = tendermint_misbehaviour_type_url,
      any_value = tm_encode_misbehaviour tm (tm_misbehaviour_to_raw tm self)\<rparr>"

section \<open>Client states\<close>

definition tendermint_client_state_type_url :: string where
  "tendermint_client_state_type_url = ''/ibc.lightclients.tendermint.v1.ClientState''"

definition tendermint_client_type :: client_type where
  "tendermint_client_type = ClientType ''07-tendermint''"

definition tm_client_state_with_header ::
  "('sh, 'vs, 'rsh, 'rvs) tendermint_ops \<Rightarrow> tm_client_state \<Rightarrow> ('sh, 'vs) tm_header
     \<Rightarrow> (tm_client_state, tm_error) result" where
  "tm_client_state_with_header tm self header =
     and_then (tm_header_height tm header) (\<lambda>h.
     Ok (self\<lparr>tcs_latest_height := max h (tcs_latest_height self)\<rparr>))"

definition tm_client_state_with_frozen_height ::
  "tm_client_state \<Rightarrow> height \<Rightarrow> tm_client_state" where
  "tm_client_state_with_frozen_height self h = self\<lparr>tcs_frozen_height := Some h\<rparr>"

text \<open>The keys of the upgrade path, with their index.\<close>

fun validate_upgrade_path :: "nat \<Rightarrow> string list \<Rightarrow> (unit, tm_error) result" where
  "validate_upgrade_path idx [] = Ok ()"
| "validate_upgrade_path idx (key # keys) =
     (if str_trim key = []
      then Err (TmValidation (''ClientState upgrade-path key at index '' @ show_nat idx
             @ '' cannot be empty''))
      else validate_upgrade_path (Suc idx) keys)"

definition tm_client_state_validate ::
  "('sh, 'vs, 'rsh, 'rvs) tendermint_ops \<Rightarrow> tm_client_state \<Rightarrow> (unit, tm_error) result" where
  "tm_client_state_validate tm self =
     and_then (map_err TmInvalidIdentifier
       (chain_id_validate_length (tcs_chain_id self) 3 (tm_max_chain_id_len tm))) (\<lambda>_.
     if tcs_trust_level self = trust_threshold_zero
     then Err (TmInvalidTrustThreshold ''ClientState trust-level cannot be zero'')
     else
     and_then (map_err InvalidTendermintTrustThreshold (tm_trust_threshold_new tm
       (tt_numerator (tcs_trust_level self)) (tt_denominator (tcs_trust_level self)))) (\<lambda>_.
     if tcs_trusting_period self \<le> 0
     then Err (TmInvalidTrustThreshold (''ClientState trusting period (''
            @ duration_debug (tcs_trusting_period self) @ '') must be greater than zero''))
     else if tcs_unbonding_period self \<le> 0
     then Err (TmInvalidTrustThreshold (''ClientState unbonding period (''
            @ duration_debug (tcs_unbonding_period self) @ '') must be greater than zero''))
     else if tcs_trusting_period self \<ge> tcs_unbonding_period self
     then Err (TmInvalidTrustThreshold (''ClientState trusting period (''
            @ duration_debug (tcs_trusting_period self)
            @ '') must be smaller than unbonding period (''
            @ duration_debug (tcs_unbonding_period self) @ '')''))
     else if tcs_max_clock_drift self \<le> 0
     then Err (InvalidMaxClockDrift ''ClientState max-clock-drift must be greater than zero'')
     else if revision_number (tcs_latest_height self) \<noteq> chain_revision_number (tcs_chain_id self)
     then Err (InvalidLatestHeight
            ''ClientState latest-height revision number must match chain-id version'')
     else
     and_then (map_err InvalidProofSpec (proof_specs_validate (tcs_proof_specs self))) (\<lambda>_.
     validate_upgrade_path 0 (tcs_upgrade_path self))))"

definition tm_client_state_new ::
  "('sh, 'vs, 'rsh, 'rvs) tendermint_ops \<Rightarrow> chain_id \<Rightarrow> trust_threshold \<Rightarrow> duration \<Rightarrow> duration
     \<Rightarrow> duration \<Rightarrow> height \<Rightarrow> proof_specs \<Rightarrow> string list \<Rightarrow> allow_update
     \<Rightarrow> (tm_client_state, tm_error) result" where
  "tm_client_state_new tm chain_id trust_level trusting_period unbonding_period max_clock_drift
       latest_height proof_specs upgrade_path allow_update = (
     let client_state = \<lparr>tcs_chain_id = chain_id, tcs_trust_level = trust_level,
           tcs_trusting_period = trusting_period, tcs_unbonding_period = unbonding_period,
           tcs_max_clock_drift = max_clock_drift, tcs_latest_height = latest_height,
           tcs_proof_specs = proof_specs, tcs_upgrade_path = upgrade_path,
           tcs_allow_update = allow_update, tcs_frozen_height = None\<rparr> in
     and_then (tm_client_state_validate tm client_state) (\<lambda>_. Ok client_state))"

text \<open>Doubling a \<open>Duration\<close> panics when its seconds no longer fit a \<open>u64\<close>.\<close>

definition tm_refresh_time :: "tm_client_state \<Rightarrow> (duration option, 'e) result" where
  "tm_refresh_time self =
     (if 2 * tcs_trusting_period self < u64_range * 10 ^ 9
      then Ok (Some (2 * tcs_trusting_period self div 3)) else Panic)"

definition as_light_client_options ::
  "('sh, 'vs, 'rsh, 'rvs) tendermint_ops \<Rightarrow> (tm_time \<Rightarrow> string) \<Rightarrow> tm_client_state
     \<Rightarrow> (tm_options, tm_error) result" where
  "as_light_client_options tm rfc self =
     and_then (map_err (\<lambda>e. TmInvalidTrustThreshold (client_error_to_string rfc e))
       (trust_threshold_into_fraction tm (tcs_trust_level self))) (\<lambda>threshold.
     Ok \<lparr>opt_trust_threshold = threshold, opt_trusting_period = tcs_trusting_period self,
         opt_clock_drift = tcs_max_clock_drift self\<rparr>)"

definition tm_is_frozen :: "tm_client_state \<Rightarrow> bool" where
  "tm_is_frozen self \<longleftrightarrow> tcs_frozen_height self \<noteq> None"

definition zero_custom_fields :: "tm_client_state \<Rightarrow> tm_client_state" where
  "zero_custom_fields self = self\<lparr>tcs_trusting_period := zero_duration,
     tcs_trust_level := trust_threshold_zero,
     tcs_allow_update := \<lparr>au_after_expiry = False, au_after_misbehaviour = False\<rparr>,
     tcs_frozen_height := None, tcs_max_clock_drift := zero_duration\<rparr>"

text \<open>A missing trust level is reported as a missing trusting period, as in the source.\<close>

definition tm_client_state_try_from_raw ::
  "('sh, 'vs, 'rsh, 'rvs) tendermint_ops \<Rightarrow> 'ep ics23_ops \<Rightarrow> (tm_time \<Rightarrow> string)
     \<Rightarrow> raw_tm_client_state \<Rightarrow> (tm_client_state, tm_error) result" where
  "tm_client_state_try_from_raw tm ics rfc raw =
     and_then (map_err TmInvalidIdentifier (chain_id_from_str (rtcs_chain_id raw))) (\<lambda>chain_id.
     and_then (ok_or (rtcs_trust_level raw) MissingTrustingPeriod) (\<lambda>rtl.
     and_then (map_err (\<lambda>e. TmInvalidTrustThreshold (client_error_to_string rfc e))
       (trust_threshold_try_from rtl)) (\<lambda>trust_level.
     and_then (ok_or (rtcs_trusting_period raw) MissingTrustingPeriod) (\<lambda>rtp.
     and_then (ok_or (tm_duration_from_proto tm rtp) MissingTrustingPeriod) (\<lambda>trusting_period.
     and_then (ok_or (rtcs_unbonding_period raw) MissingUnbondingPeriod) (\<lambda>rup.
     and_then (ok_or (tm_duration_from_proto tm rup) MissingUnbondingPeriod) (\<lambda>unbonding_period.
     and_then (ok_or (rtcs_max_clock_drift raw) NegativeMaxClockDrift) (\<lambda>rmd.
     and_then (ok_or (tm_duration_from_proto tm rmd) NegativeMaxClockDrift) (\<lambda>max_clock_drift.
     and_then (ok_or (rtcs_latest_height raw) MissingLatestHeight) (\<lambda>rlh.
     and_then (map_err (\<lambda>_. MissingLatestHeight) (height_try_from rlh)) (\<lambda>latest_height.
     and_then (ok_or (rtcs_frozen_height raw) MissingFrozenHeight) (\<lambda>rfh.
     and_then (map_err InvalidProofSpec (proof_specs_try_from ics (rtcs_proof_specs raw)))
       (\<lambda>proof_specs.
     Ok \<lparr>tcs_chain_id = chain_id, tcs_trust_level = trust_level,
         tcs_trusting_period = trusting_period, tcs_unbonding_period = unbonding_period,
         tcs_max_clock_drift = max_clock_drift, tcs_latest_height = latest_height,
         tcs_proof_specs = proof_specs, tcs_upgrade_path = rtcs_upgrade_path raw,
         tcs_allow_update = \<lparr>au_after_expiry = rtcs_allow_update_after_expiry raw,
           au_after_misbehaviour = rtcs_allow_update_after_misbehaviour raw\<rparr>,
         tcs_frozen_height = ok_opt (height_try_from rfh)\<rparr>)))))))))))))"

text \<open>A client that is not frozen is written with the frozen height zero.\<close>

definition tm_client_state_to_raw ::
  "('sh, 'vs, 'rsh, 'rvs) tendermint_ops \<Rightarrow> tm_client_state \<Rightarrow> raw_tm_client_state" where
  "tm_client_state_to_raw tm self =
     \<lparr>rtcs_chain_id = chain_id_str (tcs_chain_id self),
      rtcs_trust_level = Some (trust_threshold_to_raw (tcs_trust_level self)),
      rtcs_trusting_period = Some (tm_duration_to_proto tm (tcs_trusting_period self)),
      rtcs_unbonding_period = Some (tm_duration_to_proto tm (tcs_unbonding_period self)),
      rtcs_max_clock_drift = Some (tm_duration_to_proto tm (tcs_max_clock_drift self)),
      rtcs_frozen_height = Some (case tcs_frozen_height self of
          Some h \<Rightarrow> height_to_raw h
        | None \<Rightarrow> \<lparr>rh_revision_number = 0, rh_revision_height = 0\<rparr>),
      rtcs_latest_height = Some (height_to_raw (tcs_latest_height self)),
      rtcs_proof_specs = proof_specs_to_raw (tcs_proof_specs self),
      rtcs_upgrade_path = tcs_upgrade_path self,
      rtcs_allow_update_after_expiry = au_after_expiry (tcs_allow_update self),
      rtcs_allow_update_after_misbehaviour = au_after_misbehaviour (tcs_allow_update self)\<rparr>"

definition tm_client_state_try_from_any ::
  "('sh, 'vs, 'rsh, 'rvs) tendermint_ops \<Rightarrow> 'ep ics23_ops \<Rightarrow> (tm_time \<Rightarrow> string) \<Rightarrow> any_msg
     \<Rightarrow> (tm_client_state, client_error) result" where
  "tm_client_state_try_from_any tm ics rfc raw =
     (if any_type_url raw = tendermint_client_state_type_url
      then map_err OtherClientError (protobuf_decode (tm_decode_client_state tm)
        (tm_client_state_try_from_raw tm ics rfc) (tm_decode_error tm) (tm_convert_error tm)
        (any_value raw))
      else Err (UnknownClientStateType (any_type_url raw)))"

definition tm_client_state_to_any ::
  "('sh, 'vs, 'rsh, 'rvs) tendermint_ops \<Rightarrow> tm_client_state \<Rightarrow> any_msg" where
  "tm_client_state_to_any tm self =
     \<lparr>any_type_url = tendermint_client_state_type_url,
      any_value = tm_encode_client_state tm (tm_client_state_to_raw tm self)\<rparr>"

section \<open>Consensus states\<close>

definition tendermint_consensus_state_type_url :: string where
  "tendermint_consensus_state_type_url = ''/ibc.lightclients.tendermint.v1.ConsensusState''"

definition tm_consensus_state_new ::
  "commitment_root \<Rightarrow> tm_time \<Rightarrow> bytes \<Rightarrow> tm_consensus_state" where
  "tm_consensus_state_new root time next_validators_hash =
     \<lparr>tc_timestamp = time, tc_root = root, tc_next_validators_hash = next_validators_hash\<rparr>"

definition tm_consensus_state_from_header ::
  "('sh, 'vs, 'rsh, 'rvs) tendermint_ops \<Rightarrow> ('sh, 'vs) tm_header \<Rightarrow> tm_consensus_state" where
  "tm_consensus_state_from_header tm header =
     \<lparr>tc_timestamp = tm_sh_time tm (th_signed_header header),
      tc_root = CommitmentRoot (tm_sh_app_hash tm (th_signed_header header)),
      tc_next_validators_hash = tm_sh_next_validators_hash tm (th_signed_header header)\<rparr>"

definition tm_consensus_state_try_from_raw ::
  "('sh, 'vs, 'rsh, 'rvs) tendermint_ops \<Rightarrow> raw_tm_consensus_state
     \<Rightarrow> (tm_consensus_state, tm_error) result" where
  "tm_consensus_state_try_from_raw tm raw =
     and_then (ok_or (rtc_root raw) (InvalidRawClientState ''missing commitment root'')) (\<lambda>proto_root.
     and_then (ok_or (rtc_timestamp raw) (InvalidRawClientState ''missing timestamp'')) (\<lambda>proto_ts.
     and_then (map_err (\<lambda>e. InvalidRawClientState (''invalid timestamp: '' @ e))
       (tm_time_from_proto tm proto_ts)) (\<lambda>time.
     and_then (map_err InvalidRawClientState
       (tm_hash_from_bytes tm (rtc_next_validators_hash raw))) (\<lambda>next_validators_hash.
     Ok \<lparr>tc_timestamp = time, tc_root = CommitmentRoot proto_root,
         tc_next_validators_hash = next_validators_hash\<rparr>))))"

definition tm_consensus_state_to_raw ::
  "('sh, 'vs, 'rsh, 'rvs) tendermint_ops \<Rightarrow> tm_consensus_state \<Rightarrow> raw_tm_consensus_state" where
  "tm_consensus_state_to_raw tm self =
     \<lparr>rtc_timestamp = Some (tm_time_to_proto tm (tc_timestamp self)),
      rtc_root = Some (commitment_root_bytes (tc_root self)),
      rtc_next_validators_hash = tc_next_validators_hash self\<rparr>"

definition tm_consensus_state_try_from_any ::
  "('sh, 'vs, 'rsh, 'rvs) tendermint_ops \<Rightarrow> any_msg \<Rightarrow> (tm_consensus_state, client_error) result" where
  "tm_consensus_state_try_from_any tm raw =
     (if any_type_url raw = tendermint_consensus_state_type_url
      then map_err OtherClientError (protobuf_decode (tm_decode_consensus_state tm)
        (tm_consensus_state_try_from_raw tm) (tm_decode_error tm) (tm_convert_error tm)
        (any_value raw))
      else Err (UnknownConsensusStateType (any_type_url raw)))"

definition tm_consensus_state_to_any ::
  "('sh, 'vs, 'rsh, 'rvs) tendermint_ops \<Rightarrow> tm_consensus_state \<Rightarrow> any_msg" where
  "tm_consensus_state_to_any tm self =
     \<lparr>any_type_url = tendermint_consensus_state_type_url,
      any_value = tm_encode_consensus_state tm (tm_consensus_state_to_raw tm self)\<rparr>"


section \<open>Lemmas\<close>

lemma trust_threshold_new_Ok_iff:
  "trust_threshold_new n d = Ok t \<longleftrightarrow>
     (n < d \<or> n = 0 \<and> d = 0) \<and> t = \<lparr>tt_numerator = n, tt_denominator = d\<rparr>"
  using word_gt_0 [of d] by (auto simp: trust_threshold_new_def)

lemma trust_threshold_raw_round_trip:
  "trust_threshold_try_from r = Ok t \<Longrightarrow> trust_threshold_try_from (trust_threshold_to_raw t) = Ok t"
  by (auto simp: trust_threshold_try_from_def trust_threshold_to_raw_def trust_threshold_new_Ok_iff)

lemma tm_header_height_Ok_iff:
  "tm_header_height tm self = Ok h \<longleftrightarrow>
     (\<exists>c. chain_id_from_str (tm_sh_chain_id tm (th_signed_header self)) = Ok c
        \<and> height_new (chain_revision_number c) (tm_sh_height tm (th_signed_header self)) = Ok h)"
  by (auto simp: tm_header_height_def split: result.splits)

lemma tm_header_height_not_Err: "tm_header_height tm self \<noteq> Err e"
  by (auto simp: tm_header_height_def split: result.splits)

lemma validate_upgrade_path_Ok_iff:
  "validate_upgrade_path i ks = Ok u \<longleftrightarrow> list_all (\<lambda>k. str_trim k \<noteq> []) ks"
  by (induction ks arbitrary: i) auto

text \<open>What a client state must satisfy.\<close>

lemma tm_client_state_validate_Ok_iff:
  "tm_client_state_validate tm cs = Ok u \<longleftrightarrow>
     chain_id_validate_length (tcs_chain_id cs) 3 (tm_max_chain_id_len tm) = Ok ()
     \<and> tcs_trust_level cs \<noteq> trust_threshold_zero
     \<and> is_ok (tm_trust_threshold_new tm (tt_numerator (tcs_trust_level cs))
         (tt_denominator (tcs_trust_level cs)))
     \<and> 0 < tcs_trusting_period cs \<and> tcs_trusting_period cs < tcs_unbonding_period cs
     \<and> 0 < tcs_max_clock_drift cs
     \<and> revision_number (tcs_latest_height cs) = chain_revision_number (tcs_chain_id cs)
     \<and> proof_specs_validate (tcs_proof_specs cs) = Ok ()
     \<and> list_all (\<lambda>k. str_trim k \<noteq> []) (tcs_upgrade_path cs)"
  by (auto simp: tm_client_state_validate_def and_then_Ok_iff map_err_Ok_iff is_ok_def
      validate_upgrade_path_Ok_iff split: if_splits result.splits)

lemma tm_client_state_new_Ok_iff:
  "tm_client_state_new tm ci lvl tp up cd lh ps pth au = Ok cs \<longleftrightarrow>
     cs = \<lparr>tcs_chain_id = ci, tcs_trust_level = lvl, tcs_trusting_period = tp,
       tcs_unbonding_period = up, tcs_max_clock_drift = cd, tcs_latest_height = lh,
       tcs_proof_specs = ps, tcs_upgrade_path = pth, tcs_allow_update = au,
       tcs_frozen_height = None\<rparr> \<and> tm_client_state_validate tm cs = Ok ()"
  by (auto simp: tm_client_state_new_def Let_def and_then_Ok_iff)

text \<open>What is relied on of the protobuf form of durations and instants: one that was read
  is read again from what is written for it.\<close>

definition faithful_times :: "('sh, 'vs, 'rsh, 'rvs) tendermint_ops \<Rightarrow> bool" where
  "faithful_times tm \<longleftrightarrow>
     (\<forall>r d. tm_duration_from_proto tm r = Some d
        \<longrightarrow> tm_duration_from_proto tm (tm_duration_to_proto tm d) = Some d)
   \<and> (\<forall>r t. tm_time_from_proto tm r = Ok t \<longrightarrow> tm_time_from_proto tm (tm_time_to_proto tm t) = Ok t)"

lemma faithful_durationsD:
  "faithful_times tm \<Longrightarrow> tm_duration_from_proto tm r = Some d
     \<Longrightarrow> tm_duration_from_proto tm (tm_duration_to_proto tm d) = Some d"
  unfolding faithful_times_def by blast

lemma chain_id_from_str_OkD: "chain_id_from_str s = Ok c \<Longrightarrow> chain_id_str c = s"
  by (auto simp: chain_id_from_str_def result_simps split: result.splits)

lemma height_raw_stable: "height_try_from r = Ok h \<Longrightarrow> height_try_from (height_to_raw h) = Ok h"
  by (cases h) (auto simp: height_try_from_def height_to_raw_def height_new_def split: if_splits)

lemma frozen_height_raw_stable:
  "ok_opt (height_try_from (case ok_opt (height_try_from r) of Some h \<Rightarrow> height_to_raw h
     | None \<Rightarrow> \<lparr>rh_revision_number = 0, rh_revision_height = 0\<rparr>)) = ok_opt (height_try_from r)"
proof (cases "height_try_from r")
  case (Ok h)
  then show ?thesis using height_raw_stable [OF Ok] by (simp add: ok_opt_def)
qed (simp_all add: ok_opt_def height_try_from_def height_new_def)

lemma tm_client_state_try_from_raw_OkD:
  assumes "tm_client_state_try_from_raw tm ics rfc raw = Ok cs"
  shows "chain_id_from_str (rtcs_chain_id raw) = Ok (tcs_chain_id cs)"
    and "\<exists>r. trust_threshold_try_from r = Ok (tcs_trust_level cs)"
    and "\<exists>r. tm_duration_from_proto tm r = Some (tcs_trusting_period cs)"
    and "\<exists>r. tm_duration_from_proto tm r = Some (tcs_unbonding_period cs)"
    and "\<exists>r. tm_duration_from_proto tm r = Some (tcs_max_clock_drift cs)"
    and "\<exists>r. height_try_from r = Ok (tcs_latest_height cs)"
    and "\<exists>r. tcs_frozen_height cs = ok_opt (height_try_from r)"
    and "proof_specs_try_from ics (rtcs_proof_specs raw) = Ok (tcs_proof_specs cs)"
  using assms by (auto simp: tm_client_state_try_from_raw_def and_then_Ok_iff map_err_Ok_iff
      ok_or_Ok_iff)

text \<open>Writing a client state that was read and reading it again gives it back.\<close>

lemma tm_client_state_raw_stable:
  assumes "faithful_times tm" "tm_client_state_try_from_raw tm ics rfc raw = Ok cs"
  shows "tm_client_state_try_from_raw tm ics rfc (tm_client_state_to_raw tm cs) = Ok cs"
proof -
  note fields = tm_client_state_try_from_raw_OkD [OF assms(2)]
  have "chain_id_from_str (chain_id_str (tcs_chain_id cs)) = Ok (tcs_chain_id cs)"
    using chain_id_from_str_OkD [OF fields(1)] fields(1) by simp
  moreover have "trust_threshold_try_from (trust_threshold_to_raw (tcs_trust_level cs))
      = Ok (tcs_trust_level cs)"
    using fields(2) trust_threshold_raw_round_trip by blast
  moreover have
    "tm_duration_from_proto tm (tm_duration_to_proto tm (tcs_trusting_period cs)) = Some (tcs_trusting_period cs)"
    "tm_duration_from_proto tm (tm_duration_to_proto tm (tcs_unbonding_period cs)) = Some (tcs_unbonding_period cs)"
    "tm_duration_from_proto tm (tm_duration_to_proto tm (tcs_max_clock_drift cs)) = Some (tcs_max_clock_drift cs)"
    using fields(3-5) faithful_durationsD [OF assms(1)] by blast+
  moreover have "height_try_from (height_to_raw (tcs_latest_height cs)) = Ok (tcs_latest_height cs)"
    using fields(6) height_raw_stable by blast
  moreover obtain r where fr: "tcs_frozen_height cs = ok_opt (height_try_from r)"
    using fields(7) by blast
  moreover have "proof_specs_try_from ics (proof_specs_to_raw (tcs_proof_specs cs))
      = Ok (tcs_proof_specs cs)"
    using fields(8) proof_specs_try_from_OkD [OF fields(8)] by simp
  ultimately show ?thesis using frozen_height_raw_stable [of r]
    by (simp add: tm_client_state_try_from_raw_def tm_client_state_to_raw_def fr [symmetric])
qed

end
