(* ===== verification/Tendermint_Client.thy ===== *)
theory Tendermint_Client
  imports Tendermint_Types Light_Client
begin

text \<open>
  The operations of the Tendermint light client
  (\<open>ibc-clients/ics07-tendermint/src/client_state\<close>): verification of headers and of
  misbehaviour, the detection of misbehaviour, the status of a client, the verification of
  proofs and upgrades, and the operations that write the store.  They are generic in the
  context, as in the source: the record \<open>ext_client_bounds\<close> is what its trait bounds
  provide.
\<close>

type_synonym ('cs, 'cons) tm_bounds =
  "('cs, 'cons, tm_client_state, tm_consensus_state) ext_client_bounds"

section \<open>\<open>ClientStateCommon\<close>\<close>

definition tm_verify_consensus_state ::
  "('sh, 'vs, 'rsh, 'rvs) tendermint_ops \<Rightarrow> any_msg \<Rightarrow> (unit, client_error) result" where
  "tm_verify_consensus_state tm cons_any =
     and_then (tm_consensus_state_try_from_any tm cons_any) (\<lambda>cons.
     if commitment_root_is_empty (tc_root cons)
     then Err (OtherClientError ''empty commitment root'')
     else Ok ())"

definition tm_validate_proof_height ::
  "tm_client_state \<Rightarrow> height \<Rightarrow> (unit, client_error) result" where
  "tm_validate_proof_height self proof_height =
     (if tcs_latest_height self < proof_height
      then Err (InvalidProofHeight (tcs_latest_height self) proof_height)
      else Ok ())"

definition tm_verify_membership ::
  "'ep ics23_ops \<Rightarrow> proof_specs \<Rightarrow> commitment_prefix \<Rightarrow> commitment_proof_bytes \<Rightarrow> commitment_root
     \<Rightarrow> path \<Rightarrow> bytes \<Rightarrow> (unit, client_error) result" where
  "tm_verify_membership ics specs prefix proof root p value = (
     let merkle_path = apply_prefix prefix [path_to_string p] in
     and_then (map_err InvalidCommitmentProof (merkle_proof_try_from ics proof)) (\<lambda>merkle_proof.
     map_err Ics23Verification (merkle_verify_membership ics merkle_proof specs
       (commitment_root_bytes root) merkle_path value 0)))"

definition tm_verify_non_membership ::
  "'ep ics23_ops \<Rightarrow> proof_specs \<Rightarrow> commitment_prefix \<Rightarrow> commitment_proof_bytes \<Rightarrow> commitment_root
     \<Rightarrow> path \<Rightarrow> (unit, client_error) result" where
  "tm_verify_non_membership ics specs prefix proof root p = (
     let merkle_path = apply_prefix prefix [path_to_string p] in
     and_then (map_err InvalidCommitmentProof (merkle_proof_try_from ics proof)) (\<lambda>merkle_proof.
     map_err Ics23Verification (merkle_verify_non_membership ics merkle_proof specs
       (commitment_root_bytes root) merkle_path)))"

text \<open>The last key of the upgrade path is dropped before its first key is read; the two
  heights of the error are the other way around, as in the source.\<close>

definition tm_verify_upgrade_client ::
  "('sh, 'vs, 'rsh, 'rvs) tendermint_ops \<Rightarrow> 'ep ics23_ops \<Rightarrow> (tm_time \<Rightarrow> string)
     \<Rightarrow> (any_msg \<Rightarrow> bytes) \<Rightarrow> tm_client_state \<Rightarrow> any_msg \<Rightarrow> any_msg \<Rightarrow> commitment_proof_bytes
     \<Rightarrow> commitment_proof_bytes \<Rightarrow> commitment_root \<Rightarrow> (unit, client_error) result" where
  "tm_verify_upgrade_client tm ics rfc encode_any self upgraded_client_state
       upgraded_consensus_state proof_upgrade_client proof_upgrade_consensus_state root =
     and_then (tm_client_state_try_from_any tm ics rfc upgraded_client_state) (\<lambda>upgraded.
     and_then (tm_consensus_state_try_from_any tm upgraded_consensus_state) (\<lambda>_.
     let latest_height = tcs_latest_height self;
         upgraded_height = tcs_latest_height upgraded in
     if latest_height \<ge> upgraded_height
     then Err (Upgrade (LowUpgradeHeight latest_height upgraded_height))
     else if tcs_upgrade_path self = []
     then Err (ClientSpecific ''cannot upgrade client as no upgrade path has been set'')
     else
     and_then (index_res (butlast (tcs_upgrade_path self)) 0) (\<lambda>key.
     and_then (map_err InvalidCommitmentProof (commitment_prefix_try_from (string_bytes key)))
       (\<lambda>upgrade_path_prefix.
     let last_height = revision_height latest_height in
     and_then (tm_verify_membership ics (tcs_proof_specs self) upgrade_path_prefix
       proof_upgrade_client root (Path_UpgradeClient (UpgradedClientState last_height))
       (encode_any upgraded_client_state)) (\<lambda>_.
     and_then (tm_verify_membership ics (tcs_proof_specs self) upgrade_path_prefix
       proof_upgrade_consensus_state root
       (Path_UpgradeClient (UpgradedClientConsensusState last_height))
       (encode_any upgraded_consensus_state)) (\<lambda>_. Ok ()))))))"


section \<open>\<open>ClientStateValidation\<close>\<close>

text \<open>The consensus state of the client at a height, converted to the client's own type.\<close>

definition tm_consensus_state_at ::
  "('cs, 'cons) tm_bounds \<Rightarrow> ('cs, 'cons) ibc_store \<Rightarrow> client_id \<Rightarrow> height
     \<Rightarrow> (tm_consensus_state, client_error) result" where
  "tm_consensus_state_at cb ctx client_id h =
     and_then (map_err (ctx_err cb) (consensus_state ctx
       (ClientConsensusStatePath client_id (revision_number h) (revision_height h))))
       (cb_from_consensus_state cb)"

definition tm_verify_header ::
  "('cs, 'cons) tm_bounds \<Rightarrow> ('sh, 'vs, 'rsh, 'rvs) tendermint_ops \<Rightarrow> ('cs, 'cons) ibc_store
     \<Rightarrow> ('sh, 'vs) tm_header \<Rightarrow> client_id \<Rightarrow> chain_id \<Rightarrow> tm_options \<Rightarrow> (unit, client_error) result" where
  "tm_verify_header cb tm ctx header client_id chain_id options =
     and_then (map_err (tm_error_into_client tm) (tm_header_validate_basic tm header)) (\<lambda>_.
     and_then (map_err (tm_error_into_client tm)
       (verify_chain_id_version_matches_height tm header chain_id)) (\<lambda>_.
     and_then (tm_consensus_state_at cb ctx client_id (th_trusted_height header)) (\<lambda>trusted.
     and_then (check_trusted_next_validator_set tm header (tc_next_validators_hash trusted)) (\<lambda>_.
     and_then (map_err (\<lambda>e. OtherClientError (''failed to parse chain id: '' @ e))
       (tm_chain_id_try_from tm (chain_id_str chain_id))) (\<lambda>tm_chain_id.
     and_then (ok_or (tm_height_try_from tm (revision_height (th_trusted_height header)))
       (ClientSpecific (tm_error_to_string tm
          (InvalidHeaderHeight (revision_height (th_trusted_height header)))))) (\<lambda>h.
     let trusted_state = \<lparr>tb_chain_id = tm_chain_id, tb_header_time = tc_timestamp trusted,
           tb_height = h, tb_next_validators = th_trusted_next_validator_set header,
           tb_next_validators_hash = tc_next_validators_hash trusted\<rparr>;
         untrusted_state = \<lparr>ub_signed_header = th_signed_header header,
           ub_validators = th_validator_set header, ub_next_validators = None\<rparr> in
     and_then (map_err (ctx_err cb) (cb_host_timestamp cb ctx)) (\<lambda>ts.
     and_then (ok_or (ts_time ts)
       (ClientSpecific ''host timestamp is not a valid TM timestamp'')) (\<lambda>now.
     map_err (tm_error_into_client tm) (verdict_into_result
       (tm_verify_update_header tm untrusted_state trusted_state options now))))))))))"

definition verify_misbehaviour_header ::
  "('sh, 'vs, 'rsh, 'rvs) tendermint_ops \<Rightarrow> ('sh, 'vs) tm_header \<Rightarrow> chain_id \<Rightarrow> tm_options
     \<Rightarrow> tm_time \<Rightarrow> bytes \<Rightarrow> timestamp \<Rightarrow> (unit, client_error) result" where
  "verify_misbehaviour_header tm header chain_id options trusted_timestamp
       trusted_next_validator_hash current_timestamp =
     and_then (check_trusted_next_validator_set tm header trusted_next_validator_hash) (\<lambda>_.
     and_then (ok_or (timestamp_duration_since (tm_time_duration_since tm) current_timestamp
         (timestamp_from_time trusted_timestamp))
       (InvalidConsensusStateTimestamp (timestamp_from_time trusted_timestamp) current_timestamp))
       (\<lambda>duration_since_consensus_state.
     if duration_since_consensus_state \<ge> opt_trusting_period options
     then Err (tm_error_into_client tm (ConsensusStateTimestampGteTrustingPeriod
            duration_since_consensus_state (opt_trusting_period options)))
     else
     let untrusted_state = as_untrusted_block_state header in
     and_then (map_err (\<lambda>e. OtherClientError (''failed to parse chain id: '' @ e))
       (tm_chain_id_try_from tm (chain_id_str chain_id))) (\<lambda>tm_chain_id.
     and_then (map_err (tm_error_into_client tm) (as_trusted_block_state tm header tm_chain_id
       trusted_timestamp trusted_next_validator_hash)) (\<lambda>trusted_state.
     and_then (ok_or (ts_time current_timestamp)
       (OtherClientError ''host timestamp must not be zero'')) (\<lambda>now.
     map_err (tm_error_into_client tm) (verdict_into_result
       (tm_verify_misbehaviour_header tm untrusted_state trusted_state options now)))))))"

definition tm_verify_misbehaviour ::
  "('cs, 'cons) tm_bounds \<Rightarrow> ('sh, 'vs, 'rsh, 'rvs) tendermint_ops \<Rightarrow> ('cs, 'cons) ibc_store
     \<Rightarrow> ('sh, 'vs) tm_misbehaviour \<Rightarrow> client_id \<Rightarrow> chain_id \<Rightarrow> tm_options
     \<Rightarrow> (unit, client_error) result" where
  "tm_verify_misbehaviour cb tm ctx mb client_id chain_id options =
     and_then (map_err (tm_error_into_client tm) (tm_misbehaviour_validate_basic tm mb)) (\<lambda>_.
     let header_1 = tmb_header1 mb; header_2 = tmb_header2 mb in
     and_then (tm_consensus_state_at cb ctx client_id (th_trusted_height header_1)) (\<lambda>trusted_1.
     and_then (tm_consensus_state_at cb ctx client_id (th_trusted_height header_2)) (\<lambda>trusted_2.
     and_then (map_err (ctx_err cb) (cb_host_timestamp cb ctx)) (\<lambda>current_timestamp.
     and_then (verify_misbehaviour_header tm header_1 chain_id options (tc_timestamp trusted_1)
       (tc_next_validators_hash trusted_1) current_timestamp) (\<lambda>_.
     verify_misbehaviour_header tm header_2 chain_id options (tc_timestamp trusted_2)
       (tc_next_validators_hash trusted_2) current_timestamp)))))"

definition check_for_misbehaviour_on_misbehavior ::
  "('sh, 'vs, 'rsh, 'rvs) tendermint_ops \<Rightarrow> ('sh, 'vs) tm_header \<Rightarrow> ('sh, 'vs) tm_header
     \<Rightarrow> (bool, client_error) result" where
  "check_for_misbehaviour_on_misbehavior tm header_1 header_2 =
     and_then (tm_header_height tm header_1) (\<lambda>h1.
     and_then (tm_header_height tm header_2) (\<lambda>h2.
     if h1 = h2
     then Ok (tm_sh_commit_hash tm (th_signed_header header_1)
            \<noteq> tm_sh_commit_hash tm (th_signed_header header_2))
     else Ok (tm_sh_time tm (th_signed_header header_1)
            \<le> tm_sh_time tm (th_signed_header header_2))))"

definition check_for_misbehaviour_on_update ::
  "('cs, 'cons) tm_bounds \<Rightarrow> ('sh, 'vs, 'rsh, 'rvs) tendermint_ops \<Rightarrow> ('cs, 'cons) ibc_store
     \<Rightarrow> ('sh, 'vs) tm_header \<Rightarrow> client_id \<Rightarrow> height \<Rightarrow> (bool, client_error) result" where
  "check_for_misbehaviour_on_update cb tm ctx header client_id client_latest_height =
     and_then (tm_header_height tm header) (\<lambda>h.
     case ok_opt (consensus_state ctx
         (ClientConsensusStatePath client_id (revision_number h) (revision_height h))) of
       Some existing \<Rightarrow>
         and_then (cb_from_consensus_state cb existing) (\<lambda>existing_consensus_state.
         Ok (existing_consensus_state \<noteq> tm_consensus_state_from_header tm header))
     | None \<Rightarrow>
         and_then (map_err (ctx_err cb) (cb_prev_consensus_state cb ctx client_id h)) (\<lambda>maybe_prev_cs.
         and_then (transpose_map (cb_from_consensus_state cb) maybe_prev_cs) (\<lambda>prev_cs.
         if (case prev_cs of None \<Rightarrow> False
             | Some prev \<Rightarrow> tm_sh_time tm (th_signed_header header) \<le> tc_timestamp prev)
         then Ok True
         else if h < client_latest_height then
         and_then (map_err (ctx_err cb) (cb_next_consensus_state cb ctx client_id h)) (\<lambda>maybe_next_cs.
         and_then (transpose_map (cb_from_consensus_state cb) maybe_next_cs) (\<lambda>next_cs.
         if (case next_cs of None \<Rightarrow> False
             | Some next' \<Rightarrow> tm_sh_time tm (th_signed_header header) \<ge> tc_timestamp next')
         then Ok True
         else Ok False))
         else Ok False)))"

definition tm_verify_client_message ::
  "('cs, 'cons) tm_bounds \<Rightarrow> ('sh, 'vs, 'rsh, 'rvs) tendermint_ops \<Rightarrow> tm_client_state
     \<Rightarrow> ('cs, 'cons) ibc_store \<Rightarrow> client_id \<Rightarrow> any_msg \<Rightarrow> (unit, client_error) result" where
  "tm_verify_client_message cb tm self ctx client_id client_message =
     (if any_type_url client_message = tendermint_header_type_url then
        and_then (tm_header_try_from_any tm client_message) (\<lambda>header.
        and_then (map_err (tm_error_into_client tm)
          (as_light_client_options tm (cb_time_to_rfc3339 cb) self)) (\<lambda>options.
        tm_verify_header cb tm ctx header client_id (tcs_chain_id self) options))
      else if any_type_url client_message = tendermint_misbehaviour_type_url then
        and_then (tm_misbehaviour_try_from_any tm client_message) (\<lambda>mb.
        and_then (map_err (tm_error_into_client tm)
          (as_light_client_options tm (cb_time_to_rfc3339 cb) self)) (\<lambda>options.
        tm_verify_misbehaviour cb tm ctx mb client_id (tcs_chain_id self) options))
      else Err InvalidUpdateClientMessage)"

definition tm_check_for_misbehaviour ::
  "('cs, 'cons) tm_bounds \<Rightarrow> ('sh, 'vs, 'rsh, 'rvs) tendermint_ops \<Rightarrow> tm_client_state
     \<Rightarrow> ('cs, 'cons) ibc_store \<Rightarrow> client_id \<Rightarrow> any_msg \<Rightarrow> (bool, client_error) result" where
  "tm_check_for_misbehaviour cb tm self ctx client_id client_message =
     (if any_type_url client_message = tendermint_header_type_url then
        and_then (tm_header_try_from_any tm client_message) (\<lambda>header.
        check_for_misbehaviour_on_update cb tm ctx header client_id (tcs_latest_height self))
      else if any_type_url client_message = tendermint_misbehaviour_type_url then
        and_then (tm_misbehaviour_try_from_any tm client_message) (\<lambda>mb.
        check_for_misbehaviour_on_misbehavior tm (tmb_header1 mb) (tmb_header2 mb))
      else Err InvalidUpdateClientMessage)"

definition tm_status ::
  "('cs, 'cons) tm_bounds \<Rightarrow> ('sh, 'vs, 'rsh, 'rvs) tendermint_ops \<Rightarrow> tm_client_state
     \<Rightarrow> ('cs, 'cons) ibc_store \<Rightarrow> client_id \<Rightarrow> (status, client_error) result" where
  "tm_status cb tm self ctx client_id =
     (if tm_is_frozen self then Ok Frozen
      else case consensus_state ctx (ClientConsensusStatePath client_id
              (revision_number (tcs_latest_height self))
              (revision_height (tcs_latest_height self))) of
          Err _ \<Rightarrow> Ok StatusExpired
        | Panic \<Rightarrow> Panic
        | Ok cs \<Rightarrow>
            and_then (cb_from_consensus_state cb cs) (\<lambda>latest_consensus_state.
            and_then (map_err (ctx_err cb) (cb_host_timestamp cb ctx)) (\<lambda>now.
            case timestamp_duration_since (tm_time_duration_since tm) now
                (timestamp_from_time (tc_timestamp latest_consensus_state)) of
              Some elapsed \<Rightarrow>
                Ok (if elapsed > tcs_trusting_period self then StatusExpired else Active)
            | None \<Rightarrow> Ok Active)))"

definition tm_check_substitute ::
  "('sh, 'vs, 'rsh, 'rvs) tendermint_ops \<Rightarrow> 'ep ics23_ops \<Rightarrow> (tm_time \<Rightarrow> string)
     \<Rightarrow> tm_client_state \<Rightarrow> any_msg \<Rightarrow> (unit, client_error) result" where
  "tm_check_substitute tm ics rfc subject substitute_client_state =
     and_then (tm_client_state_try_from_any tm ics rfc substitute_client_state) (\<lambda>substitute.
     ensure (tcs_trust_level subject = tcs_trust_level substitute
         \<and> tcs_unbonding_period subject = tcs_unbonding_period substitute
         \<and> tcs_max_clock_drift subject = tcs_max_clock_drift substitute
         \<and> tcs_proof_specs subject = tcs_proof_specs substitute
         \<and> tcs_upgrade_path subject = tcs_upgrade_path substitute)
       ClientRecoveryStateMismatch)"


section \<open>\<open>ClientStateExecution\<close>\<close>

text \<open>The time and the height of the host, as the operations read them.\<close>

definition tm_host_time_height ::
  "('cs, 'cons) tm_bounds \<Rightarrow> (('cs, 'cons) ibc_store, timestamp \<times> height, client_error) exec" where
  "tm_host_time_height cb =
     exec_bind (exec_read (\<lambda>ctx. map_err (ctx_err cb) (cb_host_timestamp cb ctx))) (\<lambda>host_ts.
     exec_bind (exec_read (\<lambda>ctx. map_err (ctx_err cb) (host_height ctx))) (\<lambda>host_h.
     exec_return (host_ts, host_h)))"

definition put_update_meta ::
  "('cs, 'cons) tm_bounds \<Rightarrow> client_id \<Rightarrow> height \<Rightarrow> timestamp \<times> height
     \<Rightarrow> (('cs, 'cons) ibc_store, unit, client_error) exec" where
  "put_update_meta cb client_id h host = exec_map_err (ctx_err cb)
     (store_update_meta client_id h (fst host) (snd host))"

definition tm_initialise ::
  "('cs, 'cons) tm_bounds \<Rightarrow> ('sh, 'vs, 'rsh, 'rvs) tendermint_ops \<Rightarrow> tm_client_state \<Rightarrow> client_id
     \<Rightarrow> any_msg \<Rightarrow> (('cs, 'cons) ibc_store, unit, client_error) exec" where
  "tm_initialise cb tm self client_id cons_any =
     exec_bind (tm_host_time_height cb) (\<lambda>host.
     exec_bind (exec_lift (tm_consensus_state_try_from_any tm cons_any)) (\<lambda>cons.
     exec_bind (put_client_state cb client_id self) (\<lambda>_.
     exec_bind (put_consensus_state cb client_id (tcs_latest_height self) cons) (\<lambda>_.
     put_update_meta cb client_id (tcs_latest_height self) host))))"

text \<open>The loop of \<open>prune_oldest_consensus_state\<close>: it ends at the first height whose
  consensus state is not expired.\<close>

fun prune_loop ::
  "('cs, 'cons) tm_bounds \<Rightarrow> ('sh, 'vs, 'rsh, 'rvs) tendermint_ops \<Rightarrow> tm_client_state \<Rightarrow> client_id
     \<Rightarrow> height list \<Rightarrow> (('cs, 'cons) ibc_store, unit, client_error) exec" where
  "prune_loop cb tm self client_id [] = exec_return ()"
| "prune_loop cb tm self client_id (h # hs) =
     exec_bind (exec_read (\<lambda>ctx. tm_consensus_state_at cb ctx client_id h)) (\<lambda>cons.
     exec_bind (exec_read (\<lambda>ctx. map_err (ctx_err cb) (cb_host_timestamp cb ctx))) (\<lambda>ts.
     exec_bind (exec_lift (ok_or (ts_time ts)
       (OtherClientError ''host timestamp is not a valid TM timestamp''))) (\<lambda>host_ts.
     exec_bind (exec_lift (ok_or (tm_time_add tm (tc_timestamp cons) (tcs_trusting_period self))
       (OtherClientError
          ''Timestamp overflow error occurred while attempting to parse TmConsensusState''))) (\<lambda>expiry.
     if expiry > host_ts then exec_return ()
     else
     exec_bind (exec_map_err (ctx_err cb) (delete_consensus_state
       (ClientConsensusStatePath client_id (revision_number h) (revision_height h)))) (\<lambda>_.
     exec_bind (exec_map_err (ctx_err cb) (delete_update_meta client_id h)) (\<lambda>_.
     prune_loop cb tm self client_id hs))))))"

definition prune_oldest_consensus_state ::
  "('cs, 'cons) tm_bounds \<Rightarrow> ('sh, 'vs, 'rsh, 'rvs) tendermint_ops \<Rightarrow> tm_client_state \<Rightarrow> client_id
     \<Rightarrow> (('cs, 'cons) ibc_store, unit, client_error) exec" where
  "prune_oldest_consensus_state cb tm self client_id =
     exec_bind (exec_read (\<lambda>ctx. map_err (ctx_err cb)
       (cb_consensus_state_heights cb ctx client_id))) (\<lambda>heights.
     prune_loop cb tm self client_id (sort heights))"

text \<open>The part of \<open>update_state\<close> for a header whose height is not stored.\<close>

definition tm_add_header ::
  "('cs, 'cons) tm_bounds \<Rightarrow> ('sh, 'vs, 'rsh, 'rvs) tendermint_ops \<Rightarrow> tm_client_state \<Rightarrow> client_id
     \<Rightarrow> height \<Rightarrow> ('sh, 'vs) tm_header \<Rightarrow> (('cs, 'cons) ibc_store, unit, client_error) exec" where
  "tm_add_header cb tm self client_id header_height header =
     exec_bind (tm_host_time_height cb) (\<lambda>host.
     exec_bind (exec_lift (map_err (tm_error_into_client tm)
       (tm_client_state_with_header tm self header))) (\<lambda>new_client_state.
     exec_bind (put_consensus_state cb client_id header_height
       (tm_consensus_state_from_header tm header)) (\<lambda>_.
     exec_bind (put_client_state cb client_id new_client_state) (\<lambda>_.
     put_update_meta cb client_id header_height host))))"

definition tm_update_state ::
  "('cs, 'cons) tm_bounds \<Rightarrow> ('sh, 'vs, 'rsh, 'rvs) tendermint_ops \<Rightarrow> tm_client_state \<Rightarrow> client_id
     \<Rightarrow> any_msg \<Rightarrow> (('cs, 'cons) ibc_store, height list, client_error) exec" where
  "tm_update_state cb tm self client_id header_any =
     exec_bind (exec_lift (tm_header_try_from_any tm header_any)) (\<lambda>header.
     exec_bind (exec_lift (tm_header_height tm header)) (\<lambda>header_height.
     exec_bind (prune_oldest_consensus_state cb tm self client_id) (\<lambda>_.
     exec_bind (exec_read (\<lambda>ctx. Ok (ok_opt (consensus_state ctx (ClientConsensusStatePath client_id
       (revision_number header_height) (revision_height header_height)))))) (\<lambda>maybe_existing.
     exec_bind (if maybe_existing \<noteq> None then exec_return ()
       else tm_add_header cb tm self client_id header_height header) (\<lambda>_.
     exec_return [header_height])))))"

definition tm_update_on_misbehaviour ::
  "('cs, 'cons) tm_bounds \<Rightarrow> tm_client_state \<Rightarrow> client_id \<Rightarrow> any_msg
     \<Rightarrow> (('cs, 'cons) ibc_store, unit, client_error) exec" where
  "tm_update_on_misbehaviour cb self client_id client_message =
     put_client_state cb client_id (tm_client_state_with_frozen_height self (height_min 0))"

definition sentinel_root :: bytes where
  "sentinel_root = string_bytes ''sentinel_root''"

definition tm_update_on_upgrade ::
  "('cs, 'cons) tm_bounds \<Rightarrow> ('sh, 'vs, 'rsh, 'rvs) tendermint_ops \<Rightarrow> 'ep ics23_ops
     \<Rightarrow> tm_client_state \<Rightarrow> client_id \<Rightarrow> any_msg \<Rightarrow> any_msg
     \<Rightarrow> (('cs, 'cons) ibc_store, height, client_error) exec" where
  "tm_update_on_upgrade cb tm ics self client_id upgraded_client_state upgraded_consensus_state =
     exec_bind (exec_lift (tm_client_state_try_from_any tm ics (cb_time_to_rfc3339 cb)
       upgraded_client_state)) (\<lambda>decoded.
     exec_bind (exec_lift (tm_consensus_state_try_from_any tm upgraded_consensus_state))
       (\<lambda>upgraded_cons.
     let upgraded = zero_custom_fields decoded in
     exec_bind (exec_lift (map_err (tm_error_into_client tm) (tm_client_state_new tm
       (tcs_chain_id upgraded) (tcs_trust_level self) (tcs_trusting_period self)
       (tcs_unbonding_period upgraded) (tcs_max_clock_drift self) (tcs_latest_height upgraded)
       (tcs_proof_specs upgraded) (tcs_upgrade_path upgraded) (tcs_allow_update self))))
       (\<lambda>new_client_state.
     let new_consensus_state = tm_consensus_state_new (CommitmentRoot sentinel_root)
           (tc_timestamp upgraded_cons) (tc_next_validators_hash upgraded_cons);
         latest_height = tcs_latest_height new_client_state in
     exec_bind (tm_host_time_height cb) (\<lambda>host.
     exec_bind (put_client_state cb client_id new_client_state) (\<lambda>_.
     exec_bind (put_consensus_state cb client_id latest_height new_consensus_state) (\<lambda>_.
     exec_bind (put_update_meta cb client_id latest_height host) (\<lambda>_.
     exec_return latest_height)))))))"

definition tm_update_on_recovery ::
  "('cs, 'cons) tm_bounds \<Rightarrow> ('sh, 'vs, 'rsh, 'rvs) tendermint_ops \<Rightarrow> 'ep ics23_ops
     \<Rightarrow> tm_client_state \<Rightarrow> client_id \<Rightarrow> any_msg \<Rightarrow> any_msg
     \<Rightarrow> (('cs, 'cons) ibc_store, unit, client_error) exec" where
  "tm_update_on_recovery cb tm ics subject subject_client_id substitute_client_state
       substitute_consensus_state =
     exec_bind (exec_lift (tm_client_state_try_from_any tm ics (cb_time_to_rfc3339 cb)
       substitute_client_state)) (\<lambda>substitute.
     let new_client_state = subject\<lparr>tcs_chain_id := tcs_chain_id substitute,
           tcs_trusting_period := tcs_trusting_period substitute,
           tcs_latest_height := tcs_latest_height substitute, tcs_frozen_height := None\<rparr> in
     exec_bind (tm_host_time_height cb) (\<lambda>host.
     exec_bind (exec_lift (tm_consensus_state_try_from_any tm substitute_consensus_state)) (\<lambda>cons.
     exec_bind (put_consensus_state cb subject_client_id (tcs_latest_height new_client_state) cons)
       (\<lambda>_.
     exec_bind (put_client_state cb subject_client_id new_client_state) (\<lambda>_.
     put_update_meta cb subject_client_id (tcs_latest_height substitute) host)))))"


section \<open>The frame of the operations\<close>

lemma tm_host_time_height_frame [client_frame]: "keeps client_write (tm_host_time_height cb)"
  unfolding tm_host_time_height_def by (intro client_frame_rules client_frame)

lemma put_update_meta_frame [client_frame]: "keeps client_write (put_update_meta cb cid h host)"
  unfolding put_update_meta_def by (intro client_frame_rules client_frame)

lemma tm_add_header_frame [client_frame]: "keeps client_write (tm_add_header cb tm self cid h header)"
  unfolding tm_add_header_def by (intro client_frame_rules client_frame)

lemma prune_loop_frame [client_frame]: "keeps client_write (prune_loop cb tm self cid hs)"
  by (induction hs) (auto intro!: client_frame_rules client_frame)

lemma prune_frame [client_frame]: "keeps client_write (prune_oldest_consensus_state cb tm self cid)"
  unfolding prune_oldest_consensus_state_def by (intro client_frame_rules client_frame)

lemma tm_ops_frame:
  "keeps client_write (tm_initialise cb tm self cid a)"
  "keeps client_write (tm_update_state cb tm self cid a)"
  "keeps client_write (tm_update_on_misbehaviour cb self cid a)"
  "keeps client_write (tm_update_on_upgrade cb tm ics self cid a b)"
  "keeps client_write (tm_update_on_recovery cb tm ics self cid a b)"
  by (auto simp: tm_initialise_def tm_update_state_def tm_update_on_misbehaviour_def
      tm_update_on_upgrade_def tm_update_on_recovery_def Let_def intro!: client_frame_rules client_frame)

end
