(* ===== verification/Tendermint_Times.thy ===== *)
theory Tendermint_Times
  imports Tendermint_Client
begin

text \<open>
  The consensus states of a Tendermint client over time: their timestamps increase with
  their heights, none is above the latest height of the client, and pruning removes
  exactly the expired ones.  The client is written against the contexts of its host.  The
  locale \<open>client_context\<close> has what it relies on of the conversions and of the clock of the
  host; \<open>lists_heights\<close> and \<open>finds_neighbours\<close> are the documentation of the trait
  \<open>ExtClientValidationContext\<close>.  Theory \<open>Any_Client\<close> interprets the locale on the test host
  and shows for which listings of its store the two hold.
\<close>

section \<open>Stored consensus states\<close>

definition cons_at ::
  "('cs, 'cons) ibc_store \<Rightarrow> client_id \<Rightarrow> height \<Rightarrow> 'cons option" where
  "cons_at s cid h = consensus_state_store s
     (ClientConsensusStatePath cid (revision_number h) (revision_height h))"

definition stored_heights :: "('cs, 'cons) ibc_store \<Rightarrow> client_id \<Rightarrow> height set" where
  "stored_heights s cid = {h. revision_height h \<noteq> 0 \<and> cons_at s cid h \<noteq> None}"

text \<open>The time of the consensus state at a height, if there is one of this client's type.\<close>

definition tm_time_at ::
  "('cs, 'cons) tm_bounds \<Rightarrow> ('cs, 'cons) ibc_store \<Rightarrow> client_id \<Rightarrow> height \<Rightarrow> tm_time option" where
  "tm_time_at cb s cid h = (if revision_height h = 0 then None else
     Option.bind (cons_at s cid h) (\<lambda>c. map_option tc_timestamp (ok_opt (cb_from_consensus_state cb c))))"

definition times_increase ::
  "('cs, 'cons) tm_bounds \<Rightarrow> ('cs, 'cons) ibc_store \<Rightarrow> client_id \<Rightarrow> bool" where
  "times_increase cb s cid \<longleftrightarrow> (\<forall>g h t u. g < h \<longrightarrow> tm_time_at cb s cid g = Some t
     \<longrightarrow> tm_time_at cb s cid h = Some u \<longrightarrow> t < u)"

definition heights_bounded ::
  "('cs, 'cons) tm_bounds \<Rightarrow> ('cs, 'cons) ibc_store \<Rightarrow> client_id \<Rightarrow> bool" where
  "heights_bounded cb s cid \<longleftrightarrow> (\<forall>k g. client_state_store s (ClientStatePath cid)
     = Some (cb_into_client_state cb k) \<longrightarrow> g \<in> stored_heights s cid \<longrightarrow> g \<le> tcs_latest_height k)"

definition tm_history_ok ::
  "('cs, 'cons) tm_bounds \<Rightarrow> ('cs, 'cons) ibc_store \<Rightarrow> client_id \<Rightarrow> bool" where
  "tm_history_ok cb s cid \<longleftrightarrow> times_increase cb s cid \<and> heights_bounded cb s cid"

lemma times_increaseD:
  "times_increase cb s cid \<Longrightarrow> g < h \<Longrightarrow> tm_time_at cb s cid g = Some t
     \<Longrightarrow> tm_time_at cb s cid h = Some u \<Longrightarrow> t < u"
  unfolding times_increase_def by blast

lemma tm_time_at_Some_iff:
  "tm_time_at cb s cid h = Some t \<longleftrightarrow> revision_height h \<noteq> 0
     \<and> (\<exists>c k. cons_at s cid h = Some c \<and> cb_from_consensus_state cb c = Ok k \<and> t = tc_timestamp k)"
  by (auto simp: tm_time_at_def Option.bind_eq_Some_conv ok_opt_Some_iff)

lemma tm_time_at_stored: "tm_time_at cb s cid h = Some t \<Longrightarrow> h \<in> stored_heights s cid"
  by (auto simp: tm_time_at_Some_iff stored_heights_def)

text \<open>Reading at a height that is not zero is a lookup.\<close>

lemma ok_opt_consensus_state:
  "revision_height h \<noteq> 0 \<Longrightarrow> ok_opt (consensus_state s
     (ClientConsensusStatePath cid (revision_number h) (revision_height h))) = cons_at s cid h"
  by (cases "cons_at s cid h") (simp_all add: consensus_state_def cons_at_def height_new_def ok_opt_def)

lemma consensus_state_at_Ok_iff:
  "consensus_state s (ClientConsensusStatePath cid (revision_number h) (revision_height h)) = Ok c
     \<longleftrightarrow> revision_height h \<noteq> 0 \<and> cons_at s cid h = Some c"
  by (auto simp: consensus_state_def cons_at_def height_new_def result_simps split: if_splits)

lemma tm_consensus_state_at_Ok_iff:
  "tm_consensus_state_at cb s cid h = Ok k \<longleftrightarrow> revision_height h \<noteq> 0
     \<and> (\<exists>c. cons_at s cid h = Some c \<and> cb_from_consensus_state cb c = Ok k)"
  by (auto simp: tm_consensus_state_at_def and_then_Ok_iff map_err_Ok_iff consensus_state_at_Ok_iff)


section \<open>The interface to the stored consensus states\<close>

text \<open>What the trait says of its three functions: one returns all heights at which a
  consensus state is stored, in any order; the other two search for the lowest stored state
  above a height and for the highest one below it.\<close>

definition lists_heights ::
  "('cs, 'cons) tm_bounds \<Rightarrow> ('cs, 'cons) ibc_store \<Rightarrow> client_id \<Rightarrow> bool" where
  "lists_heights cb s cid \<longleftrightarrow>
     (\<forall>hs. cb_consensus_state_heights cb s cid = Ok hs \<longrightarrow> set hs = stored_heights s cid)"

definition lowest_above ::
  "('cs, 'cons) ibc_store \<Rightarrow> client_id \<Rightarrow> height \<Rightarrow> 'cons option \<Rightarrow> bool" where
  "lowest_above s cid h r \<longleftrightarrow> (case r of
     None \<Rightarrow> \<forall>g\<in>stored_heights s cid. g \<le> h
   | Some c \<Rightarrow> \<exists>g\<in>stored_heights s cid. h < g \<and> cons_at s cid g = Some c
       \<and> (\<forall>g'\<in>stored_heights s cid. h < g' \<longrightarrow> g \<le> g'))"

definition highest_below ::
  "('cs, 'cons) ibc_store \<Rightarrow> client_id \<Rightarrow> height \<Rightarrow> 'cons option \<Rightarrow> bool" where
  "highest_below s cid h r \<longleftrightarrow> (case r of
     None \<Rightarrow> \<forall>g\<in>stored_heights s cid. h \<le> g
   | Some c \<Rightarrow> \<exists>g\<in>stored_heights s cid. g < h \<and> cons_at s cid g = Some c
       \<and> (\<forall>g'\<in>stored_heights s cid. g' < h \<longrightarrow> g' \<le> g))"

definition finds_neighbours ::
  "('cs, 'cons) tm_bounds \<Rightarrow> ('cs, 'cons) ibc_store \<Rightarrow> client_id \<Rightarrow> bool" where
  "finds_neighbours cb s cid \<longleftrightarrow> (\<forall>h r.
     (cb_next_consensus_state cb s cid h = Ok r \<longrightarrow> lowest_above s cid h r)
     \<and> (cb_prev_consensus_state cb s cid h = Ok r \<longrightarrow> highest_below s cid h r))"

lemma finds_neighboursD:
  assumes "finds_neighbours cb s cid"
  shows "cb_next_consensus_state cb s cid h = Ok r \<Longrightarrow> lowest_above s cid h r"
    "cb_prev_consensus_state cb s cid h = Ok r \<Longrightarrow> highest_below s cid h r"
  using assms by (simp_all add: finds_neighbours_def)

text \<open>A header in which no misbehaviour is found fits between its neighbours in time.\<close>

lemma prev_in_order:
  assumes "finds_neighbours cb s cid" "times_increase cb s cid" "cb_prev_consensus_state cb s cid h = Ok m"
    and "transpose_map (cb_from_consensus_state cb) m = Ok p"
    and "case p of None \<Rightarrow> True | Some k \<Rightarrow> tc_timestamp k < u"
    and "g < h" "tm_time_at cb s cid g = Some t"
  shows "t < u"
proof (cases m)
  case None
  then have "h \<le> g"
    using finds_neighboursD(2) [OF assms(1,3)] tm_time_at_stored [OF assms(7)] by (simp add: highest_below_def)
  then show ?thesis using assms(6) by simp
next
  case (Some c)
  then obtain k where k: "cb_from_consensus_state cb c = Ok k" "p = Some k"
    using assms(4) by (auto simp: transpose_map_def result_simps)
  obtain g' where g': "g' \<in> stored_heights s cid" "cons_at s cid g' = Some c" "g \<le> g'"
    using finds_neighboursD(2) [OF assms(1,3)] assms(6) Some tm_time_at_stored [OF assms(7)]
    by (auto simp: highest_below_def)
  then have at: "tm_time_at cb s cid g' = Some (tc_timestamp k)"
    using k(1) by (auto simp: tm_time_at_Some_iff stored_heights_def)
  have "tc_timestamp k < u" using assms(5) k(2) by simp
  moreover have "t \<le> tc_timestamp k"
    using times_increaseD [OF assms(2) _ assms(7) at] at assms(7) g'(3) le_less [of g g'] le_less [of g' g] by auto
  ultimately show ?thesis by simp
qed

lemma next_in_order:
  assumes "finds_neighbours cb s cid" "times_increase cb s cid" "cb_next_consensus_state cb s cid h = Ok m"
    and "transpose_map (cb_from_consensus_state cb) m = Ok p"
    and "case p of None \<Rightarrow> True | Some k \<Rightarrow> u < tc_timestamp k"
    and "h < g" "tm_time_at cb s cid g = Some t"
  shows "u < t"
proof (cases m)
  case None
  then have "g \<le> h"
    using finds_neighboursD(1) [OF assms(1,3)] tm_time_at_stored [OF assms(7)] by (simp add: lowest_above_def)
  then show ?thesis using assms(6) by simp
next
  case (Some c)
  then obtain k where k: "cb_from_consensus_state cb c = Ok k" "p = Some k"
    using assms(4) by (auto simp: transpose_map_def result_simps)
  obtain g' where g': "g' \<in> stored_heights s cid" "cons_at s cid g' = Some c" "g' \<le> g"
    using finds_neighboursD(1) [OF assms(1,3)] assms(6) Some tm_time_at_stored [OF assms(7)]
    by (auto simp: lowest_above_def)
  then have at: "tm_time_at cb s cid g' = Some (tc_timestamp k)"
    using k(1) by (auto simp: tm_time_at_Some_iff stored_heights_def)
  have "u < tc_timestamp k" using assms(5) k(2) by simp
  moreover have "tc_timestamp k \<le> t"
    using times_increaseD [OF assms(2) _ at assms(7)] at assms(7) g'(3) le_less [of g g'] le_less [of g' g] by auto
  ultimately show ?thesis by simp
qed

lemma update_check_in_order:
  assumes contract: "finds_neighbours cb s cid" and inc: "times_increase cb s cid"
    and bnd: "\<forall>g\<in>stored_heights s cid. g \<le> latest"
    and chk: "check_for_misbehaviour_on_update cb tm s header cid latest = Ok False"
    and h: "(tm_header_height tm header :: (height, client_error) result) = Ok h"
    and at: "tm_time_at cb s cid g = Some t"
  shows "(g < h \<longrightarrow> t < tm_sh_time tm (th_signed_header header))
    \<and> (h < g \<longrightarrow> tm_sh_time tm (th_signed_header header) < t)"
proof -
  have nz: "revision_height h \<noteq> 0"
    using h by (auto simp: tm_header_height_Ok_iff height_new_def split: if_splits)
  show ?thesis
  proof (cases "cons_at s cid h")
    case (Some c)
    then have "cb_from_consensus_state cb c = Ok (tm_consensus_state_from_header tm header)"
      using chk by (simp add: check_for_misbehaviour_on_update_def h ok_opt_consensus_state [OF nz])
        (auto simp: and_then_Ok_iff)
    then have "tm_time_at cb s cid h = Some (tm_sh_time tm (th_signed_header header))"
      using Some nz by (auto simp: tm_time_at_Some_iff tm_consensus_state_from_header_def)
    then show ?thesis using times_increaseD [OF inc] at by blast
  next
    case None
    then obtain m p where prev: "cb_prev_consensus_state cb s cid h = Ok m"
        "transpose_map (cb_from_consensus_state cb) m = Ok p"
        "case p of None \<Rightarrow> True | Some k \<Rightarrow> tc_timestamp k < tm_sh_time tm (th_signed_header header)"
      and nxt: "h < latest \<Longrightarrow> \<exists>m p. cb_next_consensus_state cb s cid h = Ok m
        \<and> transpose_map (cb_from_consensus_state cb) m = Ok p
        \<and> (case p of None \<Rightarrow> True | Some k \<Rightarrow> tm_sh_time tm (th_signed_header header) < tc_timestamp k)"
      using chk by (simp add: check_for_misbehaviour_on_update_def h ok_opt_consensus_state [OF nz])
        (auto simp: and_then_Ok_iff map_err_Ok_iff not_le split: if_splits option.splits)
    have "h < g \<Longrightarrow> h < latest" using bnd tm_time_at_stored [OF at] by fastforce
    then show ?thesis
      using prev_in_order [OF contract inc prev(1,2,3) _ at] next_in_order [OF contract inc _ _ _ _ at] nxt
      by blast
  qed
qed


section \<open>What the writes do to the stored states\<close>

lemma height_parts_eq_iff:
  "revision_number g = revision_number h \<and> revision_height g = revision_height h \<longleftrightarrow> g = h"
  by (cases g; cases h) auto

lemma tm_header_height_any_error:
  "(tm_header_height tm x :: (height, 'e) result) = Ok h
     \<longleftrightarrow> (tm_header_height tm x :: (height, client_error) result) = Ok h"
  by (simp add: tm_header_height_Ok_iff)

lemma put_consensus_state_OkD:
  "put_consensus_state cb cid h c s = (Ok u, s') \<Longrightarrow>
     consensus_state_store s' = (consensus_state_store s)(ClientConsensusStatePath cid
       (revision_number h) (revision_height h) \<mapsto> cb_into_consensus_state cb c)
     \<and> client_state_store s' = client_state_store s"
  by (auto simp: put_consensus_state_def store_consensus_state_def result_simps)

lemma put_client_state_OkD:
  "put_client_state cb cid k s = (Ok u, s') \<Longrightarrow>
     client_state_store s' = (client_state_store s)(ClientStatePath cid \<mapsto> cb_into_client_state cb k)
     \<and> consensus_state_store s' = consensus_state_store s"
  by (auto simp: put_client_state_def store_client_state_def result_simps)

lemma put_update_meta_OkD:
  "put_update_meta cb cid h host s = (Ok u, s') \<Longrightarrow>
     consensus_state_store s' = consensus_state_store s
     \<and> client_state_store s' = client_state_store s"
  by (auto simp: put_update_meta_def store_update_meta_def Let_def result_simps)

lemma tm_host_time_height_OkD: "tm_host_time_height cb s = (Ok host, s') \<Longrightarrow> s' = s"
  by (auto simp: tm_host_time_height_def result_simps)

definition shrinks :: "('cs, 'cons) ibc_store \<Rightarrow> ('cs, 'cons) ibc_store \<Rightarrow> bool" where
  "shrinks s t \<longleftrightarrow> consensus_state_store t \<subseteq>\<^sub>m consensus_state_store s
     \<and> client_state_store t = client_state_store s"

lemma shrinks_refl: "reflp shrinks"
  by (simp add: reflp_def shrinks_def)

lemma shrinks_trans: "transp shrinks"
  by (auto simp: transp_def shrinks_def intro: map_le_trans)

lemma delete_consensus_state_shrinks: "keeps shrinks (delete_consensus_state p)"
  unfolding delete_consensus_state_def
  by (rule keeps_write) (auto simp: shrinks_def map_le_def)

lemma delete_update_meta_shrinks: "keeps shrinks (delete_update_meta cid h)"
  unfolding delete_update_meta_def Let_def
  by (intro keeps_intros keeps_write shrinks_trans) (simp_all add: shrinks_def)

lemmas shrinks_rules = keeps_intros shrinks_refl shrinks_trans delete_consensus_state_shrinks
  delete_update_meta_shrinks

lemma prune_loop_shrinks: "keeps shrinks (prune_loop cb tm k cid hs)"
  by (induction hs) (auto intro!: shrinks_rules)

lemma prune_shrinks: "keeps shrinks (prune_oldest_consensus_state cb tm k cid)"
  unfolding prune_oldest_consensus_state_def by (intro shrinks_rules prune_loop_shrinks)

lemma shrinks_cons_at: "shrinks s t \<Longrightarrow> cons_at t cid g = Some c \<Longrightarrow> cons_at s cid g = Some c"
  by (auto simp: shrinks_def map_le_def cons_at_def dom_def)

lemma shrinks_time_at:
  "shrinks s t \<Longrightarrow> tm_time_at cb t cid g = Some u \<Longrightarrow> tm_time_at cb s cid g = Some u"
  by (auto simp: tm_time_at_Some_iff dest: shrinks_cons_at)

lemma shrinks_stored: "shrinks s t \<Longrightarrow> stored_heights t cid \<subseteq> stored_heights s cid"
  by (auto simp: stored_heights_def dest: shrinks_cons_at)

lemma tm_history_shrinks:
  assumes "tm_history_ok cb s cid" "shrinks s t"
  shows "tm_history_ok cb t cid"
  unfolding tm_history_ok_def
proof
  show "times_increase cb t cid"
    using assms shrinks_time_at [OF assms(2)] unfolding tm_history_ok_def times_increase_def by blast
  have "client_state_store t = client_state_store s" using assms(2) by (simp add: shrinks_def)
  then show "heights_bounded cb t cid"
    using assms(1) shrinks_stored [OF assms(2)]
    unfolding tm_history_ok_def heights_bounded_def by auto
qed

lemma tm_add_header_OkD:
  assumes "tm_add_header cb tm k cid h header s = (Ok u, s')"
    and h: "(tm_header_height tm header :: (height, client_error) result) = Ok h"
  shows "consensus_state_store s' = (consensus_state_store s)(ClientConsensusStatePath cid
          (revision_number h) (revision_height h)
            \<mapsto> cb_into_consensus_state cb (tm_consensus_state_from_header tm header))
      \<and> client_state_store s' = (client_state_store s)(ClientStatePath cid
          \<mapsto> cb_into_client_state cb (k\<lparr>tcs_latest_height := max h (tcs_latest_height k)\<rparr>))"
proof -
  have "(tm_header_height tm header :: (height, tm_error) result) = Ok h"
    by (rule tm_header_height_any_error [THEN iffD2, OF h])
  then have k: "tm_client_state_with_header tm k header = Ok (k\<lparr>tcs_latest_height := max h (tcs_latest_height k)\<rparr>)"
    by (simp add: tm_client_state_with_header_def)
  show ?thesis
    using assms(1) unfolding tm_add_header_def k
    by (clarsimp simp: exec_bind_Ok_iff exec_lift_Ok_iff dest!: tm_host_time_height_OkD
        put_consensus_state_OkD put_client_state_OkD put_update_meta_OkD)
qed

text \<open>An update prunes, and then adds the header unless its height is taken.\<close>

lemma tm_update_state_OkD:
  assumes "tm_update_state cb tm k cid any s = (Ok hs, s')"
  obtains header h s1 u where "tm_header_try_from_any tm any = Ok header"
    "(tm_header_height tm header :: (height, client_error) result) = Ok h" "hs = [h]"
    "prune_oldest_consensus_state cb tm k cid s = (Ok u, s1)"
    "cons_at s1 cid h \<noteq> None \<and> s' = s1 \<or> cons_at s1 cid h = None
      \<and> consensus_state_store s' = (consensus_state_store s1)(ClientConsensusStatePath cid
          (revision_number h) (revision_height h)
            \<mapsto> cb_into_consensus_state cb (tm_consensus_state_from_header tm header))
      \<and> client_state_store s' = (client_state_store s1)(ClientStatePath cid
          \<mapsto> cb_into_client_state cb (k\<lparr>tcs_latest_height := max h (tcs_latest_height k)\<rparr>))"
proof -
  obtain header h s1 u v where header: "tm_header_try_from_any tm any = Ok header"
    and h: "(tm_header_height tm header :: (height, client_error) result) = Ok h"
    and prune: "prune_oldest_consensus_state cb tm k cid s = (Ok u, s1)"
    and rest: "hs = [h]" "(if ok_opt (consensus_state s1 (ClientConsensusStatePath cid
        (revision_number h) (revision_height h))) \<noteq> None then exec_return ()
      else tm_add_header cb tm k cid h header) s1 = (Ok v, s')"
    using assms unfolding tm_update_state_def
    by (clarsimp simp only: exec_bind_Ok_iff exec_lift_Ok_iff exec_read_Ok_iff exec_return_Ok_iff
        result.inject)
  have nz: "revision_height h \<noteq> 0"
    using h by (auto simp: tm_header_height_Ok_iff height_new_def split: if_splits)
  show thesis
  proof (rule that [OF header h rest(1) prune])
    show "cons_at s1 cid h \<noteq> None \<and> s' = s1 \<or> cons_at s1 cid h = None
      \<and> consensus_state_store s' = (consensus_state_store s1)(ClientConsensusStatePath cid
          (revision_number h) (revision_height h)
            \<mapsto> cb_into_consensus_state cb (tm_consensus_state_from_header tm header))
      \<and> client_state_store s' = (client_state_store s1)(ClientStatePath cid
          \<mapsto> cb_into_client_state cb (k\<lparr>tcs_latest_height := max h (tcs_latest_height k)\<rparr>))"
    proof (cases "cons_at s1 cid h")
      case None
      then have "tm_add_header cb tm k cid h header s1 = (Ok v, s')"
        using rest(2) unfolding ok_opt_consensus_state [OF nz] by simp
      with None show ?thesis by (blast dest: tm_add_header_OkD [OF _ h])
    next
      case Some
      then show ?thesis using rest(2) unfolding ok_opt_consensus_state [OF nz] by (simp add: exec_return_def)
    qed
  qed
qed

section \<open>Updates keep the history in order\<close>

text \<open>What the client relies on of the types and the clock of its host: its consensus states
  are read back from the type of the host, its client states are told apart there, and its
  own writes do not move the clock.\<close>

locale client_context =
  fixes cb :: "('cs, 'cons) tm_bounds"
  assumes from_into: "cb_from_consensus_state cb (cb_into_consensus_state cb d) = Ok d"
    and into_inject: "cb_into_client_state cb k = cb_into_client_state cb k' \<Longrightarrow> k = k'"
    and host_time_frame: "client_write s t \<Longrightarrow> cb_host_timestamp cb t = cb_host_timestamp cb s"
begin

lemma tm_history_insert:
  assumes ok: "tm_history_ok cb s cid" and nz: "revision_height h \<noteq> 0"
    and cons: "consensus_state_store s' = (consensus_state_store s)(ClientConsensusStatePath cid
      (revision_number h) (revision_height h) \<mapsto> cb_into_consensus_state cb c)"
    and client: "client_state_store s' (ClientStatePath cid) = Some (cb_into_client_state cb k)"
    and bnd: "h \<le> tcs_latest_height k" "\<And>g. g \<in> stored_heights s cid \<Longrightarrow> g \<le> tcs_latest_height k"
    and ord: "\<And>g t. tm_time_at cb s cid g = Some t
      \<Longrightarrow> (g < h \<longrightarrow> t < tc_timestamp c) \<and> (h < g \<longrightarrow> tc_timestamp c < t)"
  shows "tm_history_ok cb s' cid"
proof -
  have at: "cons_at s' cid g = (if g = h then Some (cb_into_consensus_state cb c) else cons_at s cid g)" for g
    by (simp add: cons_at_def cons height_parts_eq_iff)
  have time: "tm_time_at cb s' cid g = (if g = h then Some (tc_timestamp c) else tm_time_at cb s cid g)" for g
    using nz by (simp add: tm_time_at_def at from_into ok_opt_def)
  have "times_increase cb s' cid"
    using ok ord unfolding tm_history_ok_def times_increase_def time by (metis less_irrefl option.inject)
  moreover have "heights_bounded cb s' cid"
    unfolding heights_bounded_def
  proof (intro allI impI)
    fix k' g
    assume k': "client_state_store s' (ClientStatePath cid) = Some (cb_into_client_state cb k')"
      and g: "g \<in> stored_heights s' cid"
    have "k' = k" using into_inject k' client by (metis option.inject)
    moreover have "g = h \<or> g \<in> stored_heights s cid" using g by (auto simp: stored_heights_def at split: if_splits)
    ultimately show "g \<le> tcs_latest_height k'" using bnd by auto
  qed
  ultimately show ?thesis by (simp add: tm_history_ok_def)
qed

lemma tm_update_keeps_history:
  assumes contract: "finds_neighbours cb s cid" and ok: "tm_history_ok cb s cid"
    and client: "client_state_store s (ClientStatePath cid) = Some (cb_into_client_state cb k)"
    and chk: "tm_check_for_misbehaviour cb tm k s cid any = Ok False"
    and upd: "tm_update_state cb tm k cid any s = (Ok hs, s')"
  shows "tm_history_ok cb s' cid"
proof -
  obtain header h s1 u where header: "tm_header_try_from_any tm any = Ok header"
    and h: "(tm_header_height tm header :: (height, client_error) result) = Ok h"
    and prune: "prune_oldest_consensus_state cb tm k cid s = (Ok u, s1)"
    and cases: "cons_at s1 cid h \<noteq> None \<and> s' = s1 \<or> cons_at s1 cid h = None
      \<and> consensus_state_store s' = (consensus_state_store s1)(ClientConsensusStatePath cid
          (revision_number h) (revision_height h)
            \<mapsto> cb_into_consensus_state cb (tm_consensus_state_from_header tm header))
      \<and> client_state_store s' = (client_state_store s1)(ClientStatePath cid
          \<mapsto> cb_into_client_state cb (k\<lparr>tcs_latest_height := max h (tcs_latest_height k)\<rparr>))"
    by (rule tm_update_state_OkD [OF upd])
  have sh: "shrinks s s1" using keepsD [OF prune_shrinks prune] .
  have ok1: "tm_history_ok cb s1 cid" by (rule tm_history_shrinks [OF ok sh])
  have nz: "revision_height h \<noteq> 0"
    using h by (auto simp: tm_header_height_Ok_iff height_new_def split: if_splits)
  have bnd: "\<forall>g\<in>stored_heights s cid. g \<le> tcs_latest_height k"
    using ok client unfolding tm_history_ok_def heights_bounded_def by blast
  have "any_type_url any = tendermint_header_type_url"
    using header by (auto simp: tm_header_try_from_any_def split: if_splits)
  then have chk': "check_for_misbehaviour_on_update cb tm s header cid (tcs_latest_height k) = Ok False"
    using chk header by (simp add: tm_check_for_misbehaviour_def)
  have inc: "times_increase cb s cid" using ok by (simp add: tm_history_ok_def)
  have ord: "(g < h \<longrightarrow> t < tc_timestamp (tm_consensus_state_from_header tm header))
      \<and> (h < g \<longrightarrow> tc_timestamp (tm_consensus_state_from_header tm header) < t)"
    if "tm_time_at cb s1 cid g = Some t" for g t
    using update_check_in_order [OF contract inc bnd chk' h shrinks_time_at [OF sh that]]
    by (simp add: tm_consensus_state_from_header_def)
  show ?thesis
  proof (cases "cons_at s1 cid h")
    case None
    with cases have new: "consensus_state_store s' = (consensus_state_store s1)(ClientConsensusStatePath cid
          (revision_number h) (revision_height h)
            \<mapsto> cb_into_consensus_state cb (tm_consensus_state_from_header tm header))"
        "client_state_store s' (ClientStatePath cid)
          = Some (cb_into_client_state cb (k\<lparr>tcs_latest_height := max h (tcs_latest_height k)\<rparr>))"
      by auto
    show ?thesis
    proof (rule tm_history_insert [OF ok1 nz new _ _ ord])
      show "g \<le> tcs_latest_height (k\<lparr>tcs_latest_height := max h (tcs_latest_height k)\<rparr>)"
        if "g \<in> stored_heights s1 cid" for g
        using that bnd shrinks_stored [OF sh] by (auto simp: le_max_iff_disj)
    qed (simp_all)
  next
    case Some
    with cases ok1 show ?thesis by auto
  qed
qed

text \<open>Freezing a client leaves its history.\<close>

lemma tm_freeze_keeps_history:
  assumes "tm_history_ok cb s cid" "tm_update_on_misbehaviour cb k cid any s = (Ok u, s')"
    and client: "client_state_store s (ClientStatePath cid) = Some (cb_into_client_state cb k)"
  shows "tm_history_ok cb s' cid"
proof -
  have put: "put_client_state cb cid (tm_client_state_with_frozen_height k (height_min 0)) s = (Ok u, s')"
    using assms(2) by (simp add: tm_update_on_misbehaviour_def)
  note s' = put_client_state_OkD [OF put]
  have at: "cons_at s' cid = cons_at s cid" using s' by (simp add: cons_at_def fun_eq_iff)
  have "heights_bounded cb s' cid"
    unfolding heights_bounded_def
  proof (intro allI impI)
    fix k' g
    assume "client_state_store s' (ClientStatePath cid) = Some (cb_into_client_state cb k')"
      and g: "g \<in> stored_heights s' cid"
    then have "k' = tm_client_state_with_frozen_height k (height_min 0)"
      using into_inject s' by auto
    moreover have "g \<le> tcs_latest_height k"
      using assms(1) client g at unfolding tm_history_ok_def heights_bounded_def stored_heights_def by simp
    ultimately show "g \<le> tcs_latest_height k'" by (simp add: tm_client_state_with_frozen_height_def)
  qed
  then show ?thesis using assms(1) at by (simp add: tm_history_ok_def times_increase_def tm_time_at_def)
qed

end

section \<open>Pruning removes exactly the expired states\<close>

text \<open>Later instants stay later when the same duration is added.\<close>

definition monotone_time_add :: "('sh, 'vs, 'rsh, 'rvs) tendermint_ops \<Rightarrow> bool" where
  "monotone_time_add tm \<longleftrightarrow> (\<forall>t u d x y. t < u \<longrightarrow> tm_time_add tm t d = Some x
     \<longrightarrow> tm_time_add tm u d = Some y \<longrightarrow> x \<le> y)"

definition expired_at ::
  "('cs, 'cons) tm_bounds \<Rightarrow> ('sh, 'vs, 'rsh, 'rvs) tendermint_ops \<Rightarrow> ('cs, 'cons) ibc_store
     \<Rightarrow> client_id \<Rightarrow> duration \<Rightarrow> tm_time \<Rightarrow> height \<Rightarrow> bool" where
  "expired_at cb tm s cid period now h \<longleftrightarrow> (\<exists>t x. tm_time_at cb s cid h = Some t
     \<and> tm_time_add tm t period = Some x \<and> x \<le> now)"

lemma not_expired_later:
  assumes "monotone_time_add tm" "times_increase cb s cid" "tm_time_at cb s cid h = Some t"
    and "tm_time_add tm t period = Some x" "now < x" "h \<le> g"
  shows "\<not> expired_at cb tm s cid period now g"
proof
  assume "expired_at cb tm s cid period now g"
  then obtain u y where u: "tm_time_at cb s cid g = Some u" "tm_time_add tm u period = Some y" "y \<le> now"
    unfolding expired_at_def by blast
  have "x \<le> y"
  proof (cases "g = h")
    case False
    then have "t < u" using times_increaseD [OF assms(2) _ assms(3) u(1)] assms(6) by simp
    then show ?thesis using assms(1,4) u(2) unfolding monotone_time_add_def by blast
  qed (use assms(3,4) u in auto)
  then show False using assms(5) u(3) by simp
qed

text \<open>One round of the loop.\<close>

lemma exec_bind_assoc: "exec_bind (exec_bind m f) g = exec_bind m (\<lambda>a. exec_bind (f a) g)"
  by (rule ext) (auto simp: exec_bind_def split: prod.splits result.splits)

lemma prune_loop_Cons_OkD:
  assumes "prune_loop cb tm k cid (h # hs) s = (Ok u, s')"
  obtains t ts now x where "tm_time_at cb s cid h = Some t" "cb_host_timestamp cb s = Ok ts"
    "ts_time ts = Some now" "tm_time_add tm t (tcs_trusting_period k) = Some x"
    "now < x \<and> s' = s \<or> x \<le> now \<and> (\<exists>s1. client_write s s1
      \<and> consensus_state_store s1 = (consensus_state_store s)(ClientConsensusStatePath cid
          (revision_number h) (revision_height h) := None)
      \<and> prune_loop cb tm k cid hs s1 = (Ok u, s'))"
proof -
  let ?del = "exec_bind (exec_map_err (ctx_err cb) (delete_consensus_state
       (ClientConsensusStatePath cid (revision_number h) (revision_height h)))) (\<lambda>_.
     exec_map_err (ctx_err cb) (delete_update_meta cid h))"
  have frame: "keeps client_write ?del" by (intro client_frame_rules client_frame)
  obtain kc ts now x where at: "tm_consensus_state_at cb s cid h = Ok kc"
    and ts: "cb_host_timestamp cb s = Ok ts" "ts_time ts = Some now"
    and x: "tm_time_add tm (tc_timestamp kc) (tcs_trusting_period k) = Some x"
    and rest: "(if now < x then exec_return ()
      else exec_bind ?del (\<lambda>_. prune_loop cb tm k cid hs)) s = (Ok u, s')"
    using assms by (clarsimp simp only: prune_loop.simps exec_bind_assoc exec_bind_Ok_iff exec_lift_Ok_iff
        exec_read_Ok_iff ok_or_Ok_iff map_err_Ok_iff result.inject)
  then have cases: "now < x \<and> s' = s \<or> x \<le> now \<and> (\<exists>s1. ?del s = (Ok (), s1)
      \<and> prune_loop cb tm k cid hs s1 = (Ok u, s'))"
    by (cases "now < x") (auto simp: exec_bind_Ok_iff exec_return_def)
  have "consensus_state_store s1 = (consensus_state_store s)(ClientConsensusStatePath cid
          (revision_number h) (revision_height h) := None)" if "?del s = (Ok (), s1)" for s1
    using that by (auto simp: delete_consensus_state_def delete_update_meta_def Let_def result_simps)
  moreover have "client_write s s1" if "?del s = (Ok (), s1)" for s1
    using keepsD [OF frame that] .
  ultimately have "now < x \<and> s' = s \<or> x \<le> now \<and> (\<exists>s1. client_write s s1
      \<and> consensus_state_store s1 = (consensus_state_store s)(ClientConsensusStatePath cid
          (revision_number h) (revision_height h) := None)
      \<and> prune_loop cb tm k cid hs s1 = (Ok u, s'))"
    using cases by blast
  moreover have "tm_time_at cb s cid h = Some (tc_timestamp kc)"
    using at by (auto simp: tm_consensus_state_at_Ok_iff tm_time_at_Some_iff)
  ultimately show thesis using that ts x by blast
qed

context client_context
begin

lemma prune_loop_exact:
  assumes "monotone_time_add tm" "cb_host_timestamp cb s = Ok ts" "ts_time ts = Some now"
    "sorted hs" "times_increase cb s cid" "prune_loop cb tm k cid hs s = (Ok u, s')"
  shows "cons_at s' cid h = (if h \<in> set hs \<and> expired_at cb tm s cid (tcs_trusting_period k) now h
      then None else cons_at s cid h)"
  using assms(2,4-6)
proof (induction hs arbitrary: s)
  case Nil
  then show ?case by (simp add: exec_return_def)
next
  case (Cons g hs)
  obtain t ts' now' x where t: "tm_time_at cb s cid g = Some t"
      "tm_time_add tm t (tcs_trusting_period k) = Some x"
    and ts': "cb_host_timestamp cb s = Ok ts'" "ts_time ts' = Some now'"
    and "now' < x \<and> s' = s \<or> x \<le> now' \<and> (\<exists>s1. client_write s s1
      \<and> consensus_state_store s1 = (consensus_state_store s)(ClientConsensusStatePath cid
          (revision_number g) (revision_height g) := None)
      \<and> prune_loop cb tm k cid hs s1 = (Ok u, s'))"
    by (rule prune_loop_Cons_OkD [OF Cons.prems(4)])
  moreover have "now' = now" using ts' Cons.prems(1) assms(3) by simp
  ultimately have cases: "now < x \<and> s' = s \<or> x \<le> now \<and> (\<exists>s1. client_write s s1
      \<and> consensus_state_store s1 = (consensus_state_store s)(ClientConsensusStatePath cid
          (revision_number g) (revision_height g) := None)
      \<and> prune_loop cb tm k cid hs s1 = (Ok u, s'))"
    by simp
  show ?case
  proof (cases "now < x")
    case True
    have "\<not> expired_at cb tm s cid (tcs_trusting_period k) now h" if "h \<in> set (g # hs)"
      using not_expired_later [OF assms(1) Cons.prems(3) t True] that Cons.prems(2) by auto
    then show ?thesis using cases True by auto
  next
    case False
    then obtain s1 where s1: "client_write s s1"
        "consensus_state_store s1 = (consensus_state_store s)(ClientConsensusStatePath cid
          (revision_number g) (revision_height g) := None)"
        "prune_loop cb tm k cid hs s1 = (Ok u, s')"
      using cases by blast
    have at: "cons_at s1 cid i = (if i = g then None else cons_at s cid i)" for i
      using s1(2) by (simp add: cons_at_def height_parts_eq_iff)
    then have time: "tm_time_at cb s1 cid i = (if i = g then None else tm_time_at cb s cid i)" for i
      by (simp add: tm_time_at_def)
    have inc: "times_increase cb s1 cid"
      using Cons.prems(3) unfolding times_increase_def time by (metis option.distinct(1))
    have "cons_at s' cid h = (if h \<in> set hs \<and> expired_at cb tm s1 cid (tcs_trusting_period k) now h
        then None else cons_at s1 cid h)"
      using Cons.IH [OF _ _ inc s1(3)] host_time_frame [OF s1(1)] Cons.prems(1,2) by simp
    moreover have "expired_at cb tm s cid (tcs_trusting_period k) now g"
      using t False by (auto simp: expired_at_def)
    ultimately show ?thesis by (auto simp: at expired_at_def time)
  qed
qed

lemma prune_exact:
  assumes "monotone_time_add tm" "cb_host_timestamp cb s = Ok ts" "ts_time ts = Some now"
    "lists_heights cb s cid" "times_increase cb s cid"
    "prune_oldest_consensus_state cb tm k cid s = (Ok u, s')"
  shows "cons_at s' cid h = (if expired_at cb tm s cid (tcs_trusting_period k) now h
      then None else cons_at s cid h)"
proof -
  obtain hs where hs: "cb_consensus_state_heights cb s cid = Ok hs"
      "prune_loop cb tm k cid (sort hs) s = (Ok u, s')"
    using assms(6) by (auto simp: prune_oldest_consensus_state_def result_simps)
  note prune_loop_exact [OF assms(1-3) sorted_sort assms(5) hs(2), of h]
  moreover have "h \<in> set hs" if "expired_at cb tm s cid (tcs_trusting_period k) now h"
    using that assms(4) hs(1) by (auto simp: lists_heights_def expired_at_def dest: tm_time_at_stored)
  ultimately show ?thesis by auto
qed

end

end
