(* ===== verification/Any_Client.thy ===== *)
theory Any_Client
  imports Tendermint_Times Mock_Client
begin

text \<open>
  The clients of the test host (\<open>ibc-testkit/src/testapp/ibc/clients/mod.rs\<close>): its client
  and consensus states are those of the Tendermint client or of the mock client, and every
  operation is passed to the client of the variant, as the macros of \<open>ibc-derive\<close>
  generate it.  The context of the Tendermint client is the host store, whose consensus
  states are found by listing the keys of the store
  (\<open>ibc-testkit/src/testapp/ibc/core/client_ctx.rs\<close>).  The listing is an operation of the
  crate \<open>basecoin-store\<close> and a parameter, \<open>get_keys\<close>.
\<close>

section \<open>Client and consensus states\<close>

datatype any_client_state = AnyTendermint tm_client_state | AnyMock mock_client_state

datatype any_consensus_state =
    AnyTendermintConsensus tm_consensus_state
  | AnyMockConsensus mock_consensus_state

type_synonym any_store = "(any_client_state, any_consensus_state) ibc_store"

fun any_latest_height :: "any_client_state \<Rightarrow> height" where
  "any_latest_height (AnyTendermint cs) = tcs_latest_height cs"
| "any_latest_height (AnyMock cs) = mock_latest_height cs"

fun any_is_frozen :: "any_client_state \<Rightarrow> bool" where
  "any_is_frozen (AnyTendermint cs) = tm_is_frozen cs"
| "any_is_frozen (AnyMock cs) = mcs_frozen cs"

definition any_client_state_try_from_any ::
  "('sh, 'vs, 'rsh, 'rvs) tendermint_ops \<Rightarrow> 'ep ics23_ops \<Rightarrow> mock_codec \<Rightarrow> (tm_time \<Rightarrow> string)
     \<Rightarrow> any_msg \<Rightarrow> (any_client_state, client_error) result" where
  "any_client_state_try_from_any tm ics k rfc raw =
     (if any_type_url raw = tendermint_client_state_type_url
      then and_then (tm_client_state_try_from_any tm ics rfc raw) (\<lambda>cs. Ok (AnyTendermint cs))
      else if any_type_url raw = mock_client_state_type_url
      then and_then (mock_client_state_try_from_any k raw) (\<lambda>cs. Ok (AnyMock cs))
      else Err (OtherClientError ''failed to deserialize message''))"

fun any_client_state_to_any ::
  "('sh, 'vs, 'rsh, 'rvs) tendermint_ops \<Rightarrow> mock_codec \<Rightarrow> any_client_state
     \<Rightarrow> (any_msg, 'e) result" where
  "any_client_state_to_any tm k (AnyTendermint cs) = Ok (tm_client_state_to_any tm cs)"
| "any_client_state_to_any tm k (AnyMock cs) = mock_client_state_to_any k cs"

definition any_consensus_state_try_from_any ::
  "('sh, 'vs, 'rsh, 'rvs) tendermint_ops \<Rightarrow> mock_codec \<Rightarrow> any_msg
     \<Rightarrow> (any_consensus_state, client_error) result" where
  "any_consensus_state_try_from_any tm k raw =
     (if any_type_url raw = tendermint_consensus_state_type_url
      then and_then (tm_consensus_state_try_from_any tm raw) (\<lambda>cs. Ok (AnyTendermintConsensus cs))
      else if any_type_url raw = mock_consensus_state_type_url
      then and_then (mock_consensus_state_try_from_any k raw) (\<lambda>cs. Ok (AnyMockConsensus cs))
      else Err (OtherClientError ''failed to deserialize message''))"

fun any_consensus_state_to_any ::
  "('sh, 'vs, 'rsh, 'rvs) tendermint_ops \<Rightarrow> mock_codec \<Rightarrow> any_consensus_state
     \<Rightarrow> (any_msg, 'e) result" where
  "any_consensus_state_to_any tm k (AnyTendermintConsensus cs) = Ok (tm_consensus_state_to_any tm cs)"
| "any_consensus_state_to_any tm k (AnyMockConsensus cs) = mock_consensus_state_to_any k cs"

fun any_into_tm_consensus :: "any_consensus_state \<Rightarrow> (tm_consensus_state, client_error) result" where
  "any_into_tm_consensus (AnyTendermintConsensus cs) = Ok cs"
| "any_into_tm_consensus (AnyMockConsensus cs) =
     Err (OtherClientError ''failed to convert AnyConsensusState to TmConsensusState'')"

fun any_into_mock_consensus :: "any_consensus_state \<Rightarrow> (mock_consensus_state, client_error) result" where
  "any_into_mock_consensus (AnyMockConsensus cs) = Ok cs"
| "any_into_mock_consensus (AnyTendermintConsensus cs) =
     Err (OtherClientError ''failed to convert AnyConsensusState to MockConsensusState'')"

fun any_cons_root :: "any_consensus_state \<Rightarrow> commitment_root" where
  "any_cons_root (AnyTendermintConsensus cs) = tc_root cs"
| "any_cons_root (AnyMockConsensus cs) = mcons_root cs"

fun any_cons_timestamp :: "any_consensus_state \<Rightarrow> timestamp" where
  "any_cons_timestamp (AnyTendermintConsensus cs) = timestamp_from_time (tc_timestamp cs)"
| "any_cons_timestamp (AnyMockConsensus cs) = mock_consensus_timestamp cs"


section \<open>The consensus states of a client in the store\<close>

text \<open>\<open>get_keys\<close> lists the keys of the store that start with a text.\<close>

type_synonym key_listing = "any_store \<Rightarrow> string \<Rightarrow> string list"

definition consensus_states_prefix :: "client_id \<Rightarrow> string" where
  "consensus_states_prefix client_id = ''clients/'' @ client_id_str client_id @ ''/consensusStates''"

text \<open>The keys that are paths of consensus states, with the heights of the paths.  A key
  that is no path is skipped, the key \<open>clients\<close> makes the parser panic.\<close>

fun heights_of_keys :: "string list \<Rightarrow> (height list, context_error) result" where
  "heights_of_keys [] = Ok []"
| "heights_of_keys (key # keys) = (case path_from_str key of
     Panic \<Rightarrow> Panic
   | Ok (Path_ClientConsensusState (ClientConsensusStatePath c n i)) \<Rightarrow>
       and_then (map_err ClientError (height_new n i)) (\<lambda>h.
       and_then (heights_of_keys keys) (\<lambda>hs. Ok (h # hs)))
   | _ \<Rightarrow> heights_of_keys keys)"

definition host_consensus_state_heights ::
  "key_listing \<Rightarrow> any_store \<Rightarrow> client_id \<Rightarrow> (height list, context_error) result" where
  "host_consensus_state_heights get_keys self client_id =
     heights_of_keys (get_keys self (consensus_states_prefix client_id))"

text \<open>The first key, in the order of the list, whose height passes the test; a path of
  height zero panics.\<close>

fun find_consensus_path ::
  "(height \<Rightarrow> bool) \<Rightarrow> string list \<Rightarrow> (client_consensus_state_path option, context_error) result" where
  "find_consensus_path P [] = Ok None"
| "find_consensus_path P (key # keys) = (case path_from_str key of
     Panic \<Rightarrow> Panic
   | Ok (Path_ClientConsensusState (ClientConsensusStatePath c n i)) \<Rightarrow>
       (case (height_new n i :: (height, client_error) result) of
          Ok h \<Rightarrow> if P h then Ok (Some (ClientConsensusStatePath c n i))
                  else find_consensus_path P keys
        | _ \<Rightarrow> Panic)
   | _ \<Rightarrow> find_consensus_path P keys)"

definition fetch_found ::
  "any_store \<Rightarrow> client_id \<Rightarrow> height \<Rightarrow> client_consensus_state_path option
     \<Rightarrow> (any_consensus_state option, context_error) result" where
  "fetch_found self client_id h found = transpose_map (\<lambda>p.
     ok_or (consensus_state_store self p) (ClientError (ConsensusStateNotFound client_id h))) found"

definition host_next_consensus_state ::
  "key_listing \<Rightarrow> any_store \<Rightarrow> client_id \<Rightarrow> height \<Rightarrow> (any_consensus_state option, context_error) result" where
  "host_next_consensus_state get_keys self client_id h =
     and_then (find_consensus_path (\<lambda>g. h < g) (get_keys self (consensus_states_prefix client_id)))
       (fetch_found self client_id h)"

definition host_prev_consensus_state ::
  "key_listing \<Rightarrow> any_store \<Rightarrow> client_id \<Rightarrow> height \<Rightarrow> (any_consensus_state option, context_error) result" where
  "host_prev_consensus_state get_keys self client_id h =
     and_then (find_consensus_path (\<lambda>g. h > g) (rev (get_keys self (consensus_states_prefix client_id))))
       (fetch_found self client_id h)"


section \<open>The contexts of the two clients\<close>

definition any_host_timestamp :: "any_store \<Rightarrow> (timestamp, context_error) result" where
  "any_host_timestamp self = and_then (host_height self) (\<lambda>h.
     and_then (host_consensus_state self h) (\<lambda>c. Ok (any_cons_timestamp c)))"

definition tm_any_bounds ::
  "(tm_time \<Rightarrow> string) \<Rightarrow> key_listing \<Rightarrow> (any_client_state, any_consensus_state) tm_bounds" where
  "tm_any_bounds rfc get_keys =
     \<lparr>cb_host_timestamp = any_host_timestamp,
      cb_into_client_state = AnyTendermint, cb_into_consensus_state = AnyTendermintConsensus,
      cb_from_consensus_state = any_into_tm_consensus, cb_time_to_rfc3339 = rfc,
      cb_consensus_state_heights = host_consensus_state_heights get_keys,
      cb_next_consensus_state = host_next_consensus_state get_keys,
      cb_prev_consensus_state = host_prev_consensus_state get_keys\<rparr>"

definition mock_any_bounds ::
  "(tm_time \<Rightarrow> string) \<Rightarrow> (any_client_state, any_consensus_state, mock_client_state,
     mock_consensus_state) client_bounds" where
  "mock_any_bounds rfc =
     \<lparr>cb_host_timestamp = any_host_timestamp,
      cb_into_client_state = AnyMock, cb_into_consensus_state = AnyMockConsensus,
      cb_from_consensus_state = any_into_mock_consensus, cb_time_to_rfc3339 = rfc\<rparr>"


section \<open>The operations of the host's clients\<close>

text \<open>The match that the macro generates for each operation.\<close>

definition any_dispatch ::
  "(tm_client_state \<Rightarrow> 'a) \<Rightarrow> (mock_client_state \<Rightarrow> 'a) \<Rightarrow> any_client_state \<Rightarrow> 'a" where
  "any_dispatch f g self = (case self of AnyTendermint cs \<Rightarrow> f cs | AnyMock cs \<Rightarrow> g cs)"

record ('sh, 'vs, 'rsh, 'rvs, 'ep) host_env =
  he_ext :: externals
  he_tm :: "('sh, 'vs, 'rsh, 'rvs) tendermint_ops"
  he_ics :: "'ep ics23_ops"
  he_codec :: mock_codec
  he_keys :: key_listing

abbreviation he_tb ::
  "('sh, 'vs, 'rsh, 'rvs, 'ep) host_env \<Rightarrow> (any_client_state, any_consensus_state) tm_bounds" where
  "he_tb e \<equiv> tm_any_bounds (ext_time_to_rfc3339 (he_ext e)) (he_keys e)"

abbreviation he_mb ::
  "('sh, 'vs, 'rsh, 'rvs, 'ep) host_env \<Rightarrow> (any_client_state, any_consensus_state,
     mock_client_state, mock_consensus_state) client_bounds" where
  "he_mb e \<equiv> mock_any_bounds (ext_time_to_rfc3339 (he_ext e))"

definition any_verify_consensus_state ::
  "('sh, 'vs, 'rsh, 'rvs, 'ep) host_env \<Rightarrow> any_client_state \<Rightarrow> any_msg \<Rightarrow> (unit, client_error) result" where
  "any_verify_consensus_state e = any_dispatch
     (\<lambda>_. tm_verify_consensus_state (he_tm e)) (mock_verify_consensus_state (he_codec e))"

definition any_client_type :: "any_client_state \<Rightarrow> client_type" where
  "any_client_type = any_dispatch (\<lambda>_. tendermint_client_type) (\<lambda>_. mock_client_type)"

definition any_validate_proof_height :: "any_client_state \<Rightarrow> height \<Rightarrow> (unit, client_error) result" where
  "any_validate_proof_height = any_dispatch tm_validate_proof_height mock_validate_proof_height"

definition any_verify_upgrade_client ::
  "('sh, 'vs, 'rsh, 'rvs, 'ep) host_env \<Rightarrow> any_client_state \<Rightarrow> any_msg \<Rightarrow> any_msg
     \<Rightarrow> commitment_proof_bytes \<Rightarrow> commitment_proof_bytes \<Rightarrow> commitment_root
     \<Rightarrow> (unit, client_error) result" where
  "any_verify_upgrade_client e = any_dispatch
     (tm_verify_upgrade_client (he_tm e) (he_ics e) (ext_time_to_rfc3339 (he_ext e))
        (ext_encode_any (he_ext e)))
     (mock_verify_upgrade_client (he_codec e))"

definition any_verify_membership ::
  "('sh, 'vs, 'rsh, 'rvs, 'ep) host_env \<Rightarrow> any_client_state \<Rightarrow> commitment_prefix
     \<Rightarrow> commitment_proof_bytes \<Rightarrow> commitment_root \<Rightarrow> path \<Rightarrow> bytes \<Rightarrow> (unit, client_error) result" where
  "any_verify_membership e = any_dispatch
     (\<lambda>cs. tm_verify_membership (he_ics e) (tcs_proof_specs cs)) mock_verify_membership"

definition any_verify_non_membership ::
  "('sh, 'vs, 'rsh, 'rvs, 'ep) host_env \<Rightarrow> any_client_state \<Rightarrow> commitment_prefix
     \<Rightarrow> commitment_proof_bytes \<Rightarrow> commitment_root \<Rightarrow> path \<Rightarrow> (unit, client_error) result" where
  "any_verify_non_membership e = any_dispatch
     (\<lambda>cs. tm_verify_non_membership (he_ics e) (tcs_proof_specs cs)) mock_verify_non_membership"

definition any_verify_client_message ::
  "('sh, 'vs, 'rsh, 'rvs, 'ep) host_env \<Rightarrow> any_client_state \<Rightarrow> any_store \<Rightarrow> client_id \<Rightarrow> any_msg
     \<Rightarrow> (unit, client_error) result" where
  "any_verify_client_message e = any_dispatch
     (tm_verify_client_message (he_tb e) (he_tm e))
     (\<lambda>cs ctx cid. mock_verify_client_message (he_codec e) cs)"

definition any_check_for_misbehaviour ::
  "('sh, 'vs, 'rsh, 'rvs, 'ep) host_env \<Rightarrow> any_client_state \<Rightarrow> any_store \<Rightarrow> client_id \<Rightarrow> any_msg
     \<Rightarrow> (bool, client_error) result" where
  "any_check_for_misbehaviour e = any_dispatch
     (tm_check_for_misbehaviour (he_tb e) (he_tm e))
     (\<lambda>cs ctx cid. mock_check_for_misbehaviour (he_codec e) cs)"

definition any_status ::
  "('sh, 'vs, 'rsh, 'rvs, 'ep) host_env \<Rightarrow> any_client_state \<Rightarrow> any_store \<Rightarrow> client_id
     \<Rightarrow> (status, client_error) result" where
  "any_status e = any_dispatch (tm_status (he_tb e) (he_tm e))
     (mock_status (he_mb e) (ext_time_duration_since (he_ext e)))"

definition any_check_substitute ::
  "('sh, 'vs, 'rsh, 'rvs, 'ep) host_env \<Rightarrow> any_client_state \<Rightarrow> any_store \<Rightarrow> any_msg
     \<Rightarrow> (unit, client_error) result" where
  "any_check_substitute e = any_dispatch
     (\<lambda>cs ctx. tm_check_substitute (he_tm e) (he_ics e) (ext_time_to_rfc3339 (he_ext e)) cs)
     (\<lambda>cs ctx. mock_check_substitute cs)"

definition any_initialise ::
  "('sh, 'vs, 'rsh, 'rvs, 'ep) host_env \<Rightarrow> any_client_state \<Rightarrow> client_id \<Rightarrow> any_msg
     \<Rightarrow> (any_store, unit, client_error) exec" where
  "any_initialise e = any_dispatch (tm_initialise (he_tb e) (he_tm e))
     (mock_initialise (he_mb e) (he_codec e))"

definition any_update_state ::
  "('sh, 'vs, 'rsh, 'rvs, 'ep) host_env \<Rightarrow> any_client_state \<Rightarrow> client_id \<Rightarrow> any_msg
     \<Rightarrow> (any_store, height list, client_error) exec" where
  "any_update_state e = any_dispatch (tm_update_state (he_tb e) (he_tm e))
     (mock_update_state (he_mb e) (he_codec e))"

definition any_update_state_on_misbehaviour ::
  "('sh, 'vs, 'rsh, 'rvs, 'ep) host_env \<Rightarrow> any_client_state \<Rightarrow> client_id \<Rightarrow> any_msg
     \<Rightarrow> (any_store, unit, client_error) exec" where
  "any_update_state_on_misbehaviour e = any_dispatch (tm_update_on_misbehaviour (he_tb e))
     (mock_update_state_on_misbehaviour (he_mb e))"

definition any_update_state_on_upgrade ::
  "('sh, 'vs, 'rsh, 'rvs, 'ep) host_env \<Rightarrow> any_client_state \<Rightarrow> client_id \<Rightarrow> any_msg \<Rightarrow> any_msg
     \<Rightarrow> (any_store, height, client_error) exec" where
  "any_update_state_on_upgrade e = any_dispatch
     (tm_update_on_upgrade (he_tb e) (he_tm e) (he_ics e))
     (mock_update_state_on_upgrade (he_mb e) (he_codec e))"

definition any_update_on_recovery ::
  "('sh, 'vs, 'rsh, 'rvs, 'ep) host_env \<Rightarrow> any_client_state \<Rightarrow> client_id \<Rightarrow> any_msg \<Rightarrow> any_msg
     \<Rightarrow> (any_store, unit, client_error) exec" where
  "any_update_on_recovery e = any_dispatch
     (tm_update_on_recovery (he_tb e) (he_tm e) (he_ics e))
     (mock_update_on_recovery (he_mb e) (he_codec e))"

definition any_client_ops ::
  "('sh, 'vs, 'rsh, 'rvs, 'ep) host_env \<Rightarrow> (any_client_state, any_consensus_state) client_ops" where
  "any_client_ops e = externals.extend (he_ext e) (client_ops.fields
     (any_client_state_try_from_any (he_tm e) (he_ics e) (he_codec e) (ext_time_to_rfc3339 (he_ext e)))
     (any_client_state_to_any (he_tm e) (he_codec e)) any_is_frozen
     (any_verify_consensus_state e) any_client_type any_latest_height any_validate_proof_height
     (any_verify_upgrade_client e) (any_verify_membership e) (any_verify_non_membership e)
     (any_verify_client_message e) (any_check_for_misbehaviour e) (any_status e)
     (any_check_substitute e) (any_initialise e) (any_update_state e)
     (any_update_state_on_misbehaviour e) (any_update_state_on_upgrade e)
     (any_update_on_recovery e)
     (any_consensus_state_to_any (he_tm e) (he_codec e)) any_cons_root any_cons_timestamp)"

lemma any_client_ops_simps [simp]:
  "cs_try_from_any (any_client_ops e) = any_client_state_try_from_any (he_tm e) (he_ics e)
     (he_codec e) (ext_time_to_rfc3339 (he_ext e))"
  "cs_to_any (any_client_ops e) = any_client_state_to_any (he_tm e) (he_codec e)"
  "cs_is_frozen (any_client_ops e) = any_is_frozen"
  "cs_verify_consensus_state (any_client_ops e) = any_verify_consensus_state e"
  "cs_client_type (any_client_ops e) = any_client_type"
  "cs_latest_height (any_client_ops e) = any_latest_height"
  "cs_validate_proof_height (any_client_ops e) = any_validate_proof_height"
  "cs_verify_upgrade_client (any_client_ops e) = any_verify_upgrade_client e"
  "cs_verify_membership (any_client_ops e) = any_verify_membership e"
  "cs_verify_non_membership (any_client_ops e) = any_verify_non_membership e"
  "cs_verify_client_message (any_client_ops e) = any_verify_client_message e"
  "cs_check_for_misbehaviour (any_client_ops e) = any_check_for_misbehaviour e"
  "cs_status (any_client_ops e) = any_status e"
  "cs_check_substitute (any_client_ops e) = any_check_substitute e"
  "cs_initialise (any_client_ops e) = any_initialise e"
  "cs_update_state (any_client_ops e) = any_update_state e"
  "cs_update_state_on_misbehaviour (any_client_ops e) = any_update_state_on_misbehaviour e"
  "cs_update_state_on_upgrade (any_client_ops e) = any_update_state_on_upgrade e"
  "cs_update_on_recovery (any_client_ops e) = any_update_on_recovery e"
  "cons_to_any (any_client_ops e) = any_consensus_state_to_any (he_tm e) (he_codec e)"
  "cons_root (any_client_ops e) = any_cons_root"
  "cons_timestamp (any_client_ops e) = any_cons_timestamp"
  "ext_hash (any_client_ops e) = ext_hash (he_ext e)"
  "ext_time_add (any_client_ops e) = ext_time_add (he_ext e)"
  by (simp_all add: any_client_ops_def externals.defs client_ops.defs)

text \<open>Both clients keep the frame of the handlers, so the host's clients do.\<close>

interpretation host: light_client "any_client_ops e"
  by unfold_locales (auto simp: any_initialise_def any_update_state_def
      any_update_state_on_misbehaviour_def any_update_state_on_upgrade_def any_update_on_recovery_def
      any_dispatch_def tm_ops_frame mock_ops_frame split: any_client_state.splits)

lemma any_host_timestamp_eq: "host_timestamp (any_client_ops e) = any_host_timestamp"
  by (simp add: fun_eq_iff host_timestamp_def any_host_timestamp_def)


section \<open>The listing of the store\<close>

text \<open>Among the keys of the listing, those that are paths of consensus states.\<close>

definition consensus_key :: "string \<Rightarrow> client_consensus_state_path option" where
  "consensus_key key = (case path_from_str key of
     Ok (Path_ClientConsensusState p) \<Rightarrow> Some p | _ \<Rightarrow> None)"

abbreviation cons_path :: "client_id \<Rightarrow> height \<Rightarrow> client_consensus_state_path" where
  "cons_path cid h \<equiv> ClientConsensusStatePath cid (revision_number h) (revision_height h)"

text \<open>The keys of the store below the prefix are those of the consensus states at the heights
  \<open>hs\<close>, in this order, and these are all.\<close>

definition lists_keys :: "key_listing \<Rightarrow> any_store \<Rightarrow> client_id \<Rightarrow> height list \<Rightarrow> bool" where
  "lists_keys get_keys s cid hs \<longleftrightarrow>
     List.map_filter consensus_key (get_keys s (consensus_states_prefix cid)) = map (cons_path cid) hs
     \<and> set hs = stored_heights s cid"

lemma height_new_self: "revision_height h \<noteq> 0 \<Longrightarrow> height_new (revision_number h) (revision_height h) = Ok h"
  by (simp add: height_new_def)

lemma map_filter_Cons: "List.map_filter f (x # xs)
    = (case f x of None \<Rightarrow> List.map_filter f xs | Some y \<Rightarrow> y # List.map_filter f xs)"
  by (simp add: List.map_filter_simps)

lemma consensus_key_cases:
  obtains (panic) "path_from_str key = Panic"
  | (cons) c n i where "path_from_str key = Ok (Path_ClientConsensusState (ClientConsensusStatePath c n i))"
      "consensus_key key = Some (ClientConsensusStatePath c n i)"
  | (other) "consensus_key key = None" "path_from_str key \<noteq> Panic"
      "\<And>P keys. find_consensus_path P (key # keys) = find_consensus_path P keys"
      "\<And>keys. heights_of_keys (key # keys) = heights_of_keys keys"
proof (cases "path_from_str key")
  case (Ok p)
  show thesis
  proof (cases p)
    case (Path_ClientConsensusState q)
    with Ok show thesis by (cases q) (auto intro!: cons simp: consensus_key_def)
  qed (use Ok other in \<open>auto simp: consensus_key_def\<close>)
qed (use panic other in \<open>auto simp: consensus_key_def\<close>)

lemma heights_of_keys_Ok:
  assumes "heights_of_keys keys = Ok hs" "List.map_filter consensus_key keys = map (cons_path cid) gs"
  shows "hs = gs"
  using assms
proof (induction keys arbitrary: hs gs)
  case Nil
  then show ?case by (simp add: List.map_filter_simps)
next
  case (Cons key keys)
  show ?case
  proof (cases key rule: consensus_key_cases)
    case (cons c n i)
    with Cons.prems obtain h hs' where h: "height_new n i = Ok h" "heights_of_keys keys = Ok hs'" "hs = h # hs'"
      by (auto simp: result_simps)
    from Cons.prems(2) cons obtain g gs' where gs: "gs = g # gs'" "cons_path cid g = ClientConsensusStatePath c n i"
      "List.map_filter consensus_key keys = map (cons_path cid) gs'"
      by (cases gs) (auto simp: map_filter_Cons)
    have "h = g" using h(1) gs(2) by (cases g) (auto simp: height_new_def split: if_splits)
    then show ?thesis using Cons.IH [OF h(2) gs(3)] h(3) gs(1) by simp
  next
    case other
    then show ?thesis using Cons.IH Cons.prems by (simp add: map_filter_Cons)
  qed (use Cons.prems in simp)
qed

text \<open>The search over an ordered list of keys finds the first height that passes.\<close>

lemma find_consensus_path_Ok:
  assumes "find_consensus_path P keys = Ok r" "List.map_filter consensus_key keys = map (cons_path cid) gs"
  shows "r = map_option (cons_path cid) (find P gs)"
  using assms
proof (induction keys arbitrary: gs)
  case Nil
  then show ?case by (simp add: List.map_filter_simps)
next
  case (Cons key keys)
  show ?case
  proof (cases key rule: consensus_key_cases)
    case (cons c n i)
    from Cons.prems(2) cons obtain g gs' where gs: "gs = g # gs'" "cons_path cid g = ClientConsensusStatePath c n i"
      "List.map_filter consensus_key keys = map (cons_path cid) gs'"
      by (cases gs) (auto simp: map_filter_Cons)
    then have "(height_new n i :: (height, client_error) result) = Ok g \<or> i = 0"
      by (cases g) (auto simp: height_new_def)
    then have "P g \<and> r = Some (cons_path cid g) \<or> \<not> P g \<and> find_consensus_path P keys = Ok r"
      using Cons.prems(1) cons(1) gs(2) by (auto simp: height_new_def split: if_splits)
    then show ?thesis using Cons.IH [OF _ gs(3)] gs(1) by auto
  next
    case other
    then show ?thesis using Cons.IH Cons.prems by (simp add: map_filter_Cons)
  qed (use Cons.prems in simp)
qed

lemma fetch_found_Ok:
  assumes "fetch_found s cid h (map_option (cons_path cid) f) = Ok r"
  shows "case f of None \<Rightarrow> r = None | Some g \<Rightarrow> \<exists>c. r = Some c \<and> cons_at s cid g = Some c"
  using assms by (cases f) (auto simp: fetch_found_def transpose_map_def cons_at_def result_simps)

lemma find_sorted:
  assumes "find (\<lambda>g. h < g) gs = Some x" "sorted_wrt (<) (gs :: height list)"
  shows "x \<in> set gs \<and> h < x \<and> (\<forall>y\<in>set gs. h < y \<longrightarrow> x \<le> y)"
  using assms by (induction gs) (auto split: if_splits)

lemma find_rev_sorted:
  assumes "find (\<lambda>g. g < h) (rev gs) = Some x" "sorted_wrt (<) (gs :: height list)"
  shows "x \<in> set gs \<and> x < h \<and> (\<forall>y\<in>set gs. y < h \<longrightarrow> y \<le> x)"
proof -
  have "sorted_wrt (>) (rev gs)" using assms(2) by (simp add: sorted_wrt_rev)
  moreover have "x \<in> set xs \<and> x < h \<and> (\<forall>y\<in>set xs. y < h \<longrightarrow> y \<le> x)"
    if "sorted_wrt (>) xs" "find (\<lambda>g. g < h) xs = Some x" for xs :: "height list"
    using that by (induction xs) (auto split: if_splits)
  ultimately show ?thesis using assms(1) by force
qed

lemma map_filter_rev: "List.map_filter f (rev xs) = rev (List.map_filter f xs)"
  by (simp add: List.map_filter_def rev_map rev_filter)

text \<open>The neighbours that the test host finds are the documented ones when its store lists the
  keys by height; all heights are found on every listing.\<close>

lemma host_next_lowest_above:
  assumes "lists_keys get_keys s cid hs" "sorted_wrt (<) hs" "host_next_consensus_state get_keys s cid h = Ok r"
  shows "lowest_above s cid h r"
proof -
  have keys: "List.map_filter consensus_key (get_keys s (consensus_states_prefix cid)) = map (cons_path cid) hs"
    and set: "set hs = stored_heights s cid"
    using assms(1) by (simp_all add: lists_keys_def)
  obtain p where "find_consensus_path (\<lambda>g. h < g) (get_keys s (consensus_states_prefix cid)) = Ok p"
      "fetch_found s cid h p = Ok r"
    using assms(3) by (auto simp: host_next_consensus_state_def result_simps)
  then have "case find (\<lambda>g. h < g) hs of None \<Rightarrow> r = None | Some g \<Rightarrow> \<exists>c. r = Some c \<and> cons_at s cid g = Some c"
    using fetch_found_Ok find_consensus_path_Ok [OF _ keys] by blast
  then show ?thesis
    by (cases "find (\<lambda>g. h < g) hs")
      (use find_sorted [OF _ assms(2), of h] in \<open>auto simp: lowest_above_def set find_None_iff not_less\<close>)
qed

lemma host_prev_highest_below:
  assumes "lists_keys get_keys s cid hs" "sorted_wrt (<) hs" "host_prev_consensus_state get_keys s cid h = Ok r"
  shows "highest_below s cid h r"
proof -
  have keys: "List.map_filter consensus_key (rev (get_keys s (consensus_states_prefix cid))) = map (cons_path cid) (rev hs)"
    and set: "set hs = stored_heights s cid"
    using assms(1) by (simp_all add: lists_keys_def map_filter_rev rev_map)
  obtain p where "find_consensus_path (\<lambda>g. g < h) (rev (get_keys s (consensus_states_prefix cid))) = Ok p"
      "fetch_found s cid h p = Ok r"
    using assms(3) by (auto simp: host_prev_consensus_state_def result_simps)
  then have "case find (\<lambda>g. g < h) (rev hs) of None \<Rightarrow> r = None | Some g \<Rightarrow> \<exists>c. r = Some c \<and> cons_at s cid g = Some c"
    using fetch_found_Ok find_consensus_path_Ok [OF _ keys] by blast
  then show ?thesis
    by (cases "find (\<lambda>g. g < h) (rev hs)")
      (use find_rev_sorted [OF _ assms(2), of h] in \<open>auto simp: highest_below_def set find_None_iff not_less\<close>)
qed

lemma client_write_host_time: "client_write s t \<Longrightarrow> any_host_timestamp t = any_host_timestamp s"
  by (simp add: any_host_timestamp_def host_height_def host_consensus_state_def client_write_fields)

lemma tm_any_bounds_simps [simp]:
  "cb_host_timestamp (tm_any_bounds rfc get_keys) = any_host_timestamp"
  "cb_into_client_state (tm_any_bounds rfc get_keys) = AnyTendermint"
  "cb_into_consensus_state (tm_any_bounds rfc get_keys) = AnyTendermintConsensus"
  "cb_from_consensus_state (tm_any_bounds rfc get_keys) = any_into_tm_consensus"
  "cb_consensus_state_heights (tm_any_bounds rfc get_keys) = host_consensus_state_heights get_keys"
  "cb_next_consensus_state (tm_any_bounds rfc get_keys) = host_next_consensus_state get_keys"
  "cb_prev_consensus_state (tm_any_bounds rfc get_keys) = host_prev_consensus_state get_keys"
  by (simp_all add: tm_any_bounds_def)

lemma host_finds_neighbours:
  assumes "lists_keys get_keys s cid hs" "sorted_wrt (<) hs"
  shows "finds_neighbours (tm_any_bounds rfc get_keys) s cid"
  using host_next_lowest_above [OF assms] host_prev_highest_below [OF assms]
  by (simp add: finds_neighbours_def)

lemma host_lists_heights:
  assumes "lists_keys get_keys s cid hs"
  shows "lists_heights (tm_any_bounds rfc get_keys) s cid"
  using assms heights_of_keys_Ok
  by (fastforce simp: lists_heights_def lists_keys_def host_consensus_state_heights_def)

interpretation tm_host: client_context "tm_any_bounds rfc get_keys"
  by unfold_locales (simp_all add: client_write_host_time)

end
