(* ===== verification/Client_Updates.thy ===== *)
theory Client_Updates
  imports Any_Client Packet_Handlers
begin

text \<open>
  The messages of ICS-02 on the clients of the host: what an accepted update does to the
  consensus states of a Tendermint client, and what a frozen client stops.
\<close>

section \<open>What an accepted update does\<close>

definition same_clients :: "('cs, 'cons) ibc_store \<Rightarrow> ('cs, 'cons) ibc_store \<Rightarrow> bool" where
  "same_clients s t \<longleftrightarrow> consensus_state_store t = consensus_state_store s
     \<and> client_state_store t = client_state_store s"

lemma emit_ibc_event_same_clients: "emit_ibc_event ev s = (Ok u, t) \<Longrightarrow> same_clients s t"
  by (auto simp: emit_ibc_event_def result_simps same_clients_def)

lemma update_client_execute_OkD:
  assumes "update_client_execute env msg s = (Ok u, s')"
  obtains (misbehaviour) cs v s1 where
    "client_state_store s (ClientStatePath (uom_client_id msg)) = Some cs"
    "cs_check_for_misbehaviour env cs s (uom_client_id msg) (uom_client_message msg) = Ok True"
    "cs_update_state_on_misbehaviour env cs (uom_client_id msg) (uom_client_message msg) s = (Ok v, s1)"
    "same_clients s1 s'"
  | (update) cs m hs s1 where
    "client_state_store s (ClientStatePath (uom_client_id msg)) = Some cs"
    "cs_check_for_misbehaviour env cs s (uom_client_id msg) (uom_client_message msg) = Ok False"
    "msg = UpdateClient m"
    "cs_update_state env cs (uom_client_id msg) (uom_client_message msg) s = (Ok hs, s1)"
    "same_clients s1 s'"
proof -
  obtain cs found where cs: "client_state_store s (ClientStatePath (uom_client_id msg)) = Some cs"
    and chk: "cs_check_for_misbehaviour env cs s (uom_client_id msg) (uom_client_message msg) = Ok found"
    using assms by (auto simp: update_client_execute_def Let_def exec_bind_Ok_iff exec_read_Ok_iff
        client_state_def ok_or_Ok_iff map_err_Ok_iff)
  show thesis
  proof (cases found)
    case True
    with assms cs chk obtain v s1 s2 where "cs_update_state_on_misbehaviour env cs (uom_client_id msg)
        (uom_client_message msg) s = (Ok v, s1)" and "same_clients s1 s2" "same_clients s2 s'"
      by (auto simp: update_client_execute_def Let_def exec_bind_Ok_iff exec_read_Ok_iff
          exec_map_err_Ok_iff client_state_def dest!: emit_ibc_event_same_clients)
    with cs chk True show thesis by (auto intro!: misbehaviour simp: same_clients_def)
  next
    case False
    with assms cs chk obtain m hs s1 s2 where m: "msg = UpdateClient m"
      and "cs_update_state env cs (uom_client_id msg) (uom_client_message msg) s = (Ok hs, s1)"
        "same_clients s1 s2" "same_clients s2 s'"
      by (cases msg) (auto simp: update_client_execute_def Let_def exec_bind_Ok_iff exec_read_Ok_iff
          exec_map_err_Ok_iff exec_lift_Ok_iff client_state_def dest!: emit_ibc_event_same_clients)
    with cs chk False show thesis by (auto intro!: update simp: same_clients_def)
  qed
qed

lemma tm_history_same_clients:
  assumes "same_clients s t"
  shows "tm_history_ok cb t cid \<longleftrightarrow> tm_history_ok cb s cid"
proof -
  have "cons_at t = cons_at s" using assms by (simp add: same_clients_def cons_at_def fun_eq_iff)
  then show ?thesis
    using assms by (simp add: tm_history_ok_def times_increase_def heights_bounded_def tm_time_at_def
        stored_heights_def same_clients_def)
qed

text \<open>A host with Tendermint clients passes the operations of their states on to the client;
  the dispatch that the macros of \<open>ibc-derive\<close> generate does.\<close>

definition runs_tendermint ::
  "('cs, 'cons) client_ops \<Rightarrow> ('cs, 'cons) tm_bounds \<Rightarrow> ('sh, 'vs, 'rsh, 'rvs) tendermint_ops \<Rightarrow> bool" where
  "runs_tendermint env cb tm \<longleftrightarrow> (\<forall>k.
     cs_initialise env (cb_into_client_state cb k) = tm_initialise cb tm k
     \<and> cs_check_for_misbehaviour env (cb_into_client_state cb k) = tm_check_for_misbehaviour cb tm k
     \<and> cs_update_state env (cb_into_client_state cb k) = tm_update_state cb tm k
     \<and> cs_update_state_on_misbehaviour env (cb_into_client_state cb k) = tm_update_on_misbehaviour cb k)"

lemma any_runs_tendermint: "runs_tendermint (any_client_ops e) (he_tb e) (he_tm e)"
  by (simp add: runs_tendermint_def fun_eq_iff any_initialise_def any_check_for_misbehaviour_def
      any_update_state_def any_update_state_on_misbehaviour_def any_dispatch_def)

context client_context
begin

lemma tm_initialise_history:
  assumes "stored_heights s cid = {}" "tm_initialise cb tm k cid a s = (Ok u, s')"
    and "revision_height (tcs_latest_height k) \<noteq> 0"
  shows "tm_history_ok cb s' cid"
proof -
  obtain host c s1 s2 s3 u1 u2 where w: "tm_host_time_height cb s = (Ok host, s1)"
      "put_client_state cb cid k s1 = (Ok u1, s2)"
      "put_consensus_state cb cid (tcs_latest_height k) c s2 = (Ok u2, s3)"
      "put_update_meta cb cid (tcs_latest_height k) host s3 = (Ok u, s')"
    using assms(2) unfolding tm_initialise_def by (auto simp: exec_bind_Ok_iff exec_lift_Ok_iff)
  note effects = tm_host_time_height_OkD [OF w(1)] put_client_state_OkD [OF w(2)]
    put_consensus_state_OkD [OF w(3)] put_update_meta_OkD [OF w(4)]
  have cons: "consensus_state_store s' = (consensus_state_store s2)(ClientConsensusStatePath cid
      (revision_number (tcs_latest_height k)) (revision_height (tcs_latest_height k))
        \<mapsto> cb_into_consensus_state cb c)"
    and client: "client_state_store s' (ClientStatePath cid) = Some (cb_into_client_state cb k)"
    using effects by simp_all
  have none: "stored_heights s2 cid = {}"
    using assms(1) effects by (simp add: stored_heights_def cons_at_def)
  then have time: "tm_time_at cb s2 cid g = None" for g
    by (cases "tm_time_at cb s2 cid g") (auto dest: tm_time_at_stored)
  then have "tm_history_ok cb s2 cid"
    using none by (simp add: tm_history_ok_def times_increase_def heights_bounded_def)
  then show ?thesis
    by (rule tm_history_insert [OF _ assms(3) cons client]) (use none time in auto)
qed

lemma update_client_keeps_history:
  assumes run: "runs_tendermint env cb tm" and contract: "finds_neighbours cb s cid"
    and hist: "tm_history_ok cb s cid" and client: "client_state_store s (ClientStatePath cid) = Some (cb_into_client_state cb k)"
    and cid: "uom_client_id msg = cid" and upd: "update_client_execute env msg s = (Ok u, s')"
  shows "tm_history_ok cb s' cid"
  using upd
proof (cases rule: update_client_execute_OkD)
  case (misbehaviour cs v s1)
  then have "tm_update_on_misbehaviour cb k cid (uom_client_message msg) s = (Ok v, s1)"
    using run client cid by (auto simp: runs_tendermint_def)
  then show ?thesis
    using tm_freeze_keeps_history [OF hist _ client] tm_history_same_clients [OF misbehaviour(4)] by simp
next
  case (update cs m hs s1)
  then have "tm_check_for_misbehaviour cb tm k s cid (uom_client_message msg) = Ok False"
      "tm_update_state cb tm k cid (uom_client_message msg) s = (Ok hs, s1)"
    using run client cid by (auto simp: runs_tendermint_def)
  then show ?thesis
    using tm_update_keeps_history [OF contract hist client] tm_history_same_clients [OF update(5)] by simp
qed

end


section \<open>Frozen clients\<close>

lemma any_status_frozen: "any_is_frozen cs \<Longrightarrow> any_status e cs s cid = Ok Frozen"
  by (cases cs) (simp_all add: any_status_def any_dispatch_def tm_status_def mock_status_def)

text \<open>A client that is found to misbehave is frozen.\<close>

lemma any_misbehaviour_freezes:
  assumes "any_update_state_on_misbehaviour e cs cid m s = (Ok u, s')"
  shows "\<exists>cs'. client_state_store s' (ClientStatePath cid) = Some cs' \<and> any_is_frozen cs'"
proof (cases cs)
  case (AnyTendermint k)
  with assms have "put_client_state (he_tb e) cid (tm_client_state_with_frozen_height k (height_min 0)) s = (Ok u, s')"
    by (simp add: any_update_state_on_misbehaviour_def any_dispatch_def tm_update_on_misbehaviour_def)
  from put_client_state_OkD [OF this] show ?thesis
    by (simp add: tm_client_state_with_frozen_height_def tm_is_frozen_def)
next
  case (AnyMock k)
  with assms show ?thesis
    by (auto simp: any_update_state_on_misbehaviour_def any_dispatch_def
        mock_update_state_on_misbehaviour_def put_client_state_def store_client_state_def
        mock_any_bounds_def mock_frozen_def result_simps)
qed

text \<open>Nothing is verified with a frozen client.\<close>

lemma frozen_not_verified:
  assumes "client_state_store s (ClientStatePath (ce_client_id conn)) = Some cs" "any_is_frozen cs"
  shows "\<not> verified_at (any_client_ops e) s conn h cs' cons"
  using assms by (auto simp: verified_at_def any_status_frozen)


section \<open>Proofs\<close>

text \<open>Two proofs of a Tendermint client for one path under one root show the same value.\<close>

lemma tm_membership_unique:
  assumes "binding_trees ics" "tm_verify_membership ics specs prefix p root path v = Ok u"
    and "tm_verify_membership ics specs prefix q root path w = Ok u'"
  shows "v = w"
  using assms(2,3) merkle_membership_unique [OF assms(1)]
  by (auto simp: tm_verify_membership_def Let_def and_then_Ok_iff map_err_Ok_iff)

end
