(* ===== verification/Tendermint_Sample.thy ===== *)
theory Tendermint_Sample
  imports Client_Updates Test_App
begin

text \<open>
  A small host with one Tendermint client, for the examples of the theorems about clients.
  The code outside the repository is replaced by simple functions: a signed header is its
  height, made at ten times its height; messages are one byte long.
\<close>

section \<open>The functions that stand for other crates\<close>

definition tms_spec :: proof_spec where
  "tms_spec = \<lparr>ps_leaf_spec = None, ps_inner_spec = None, ps_max_depth = 0, ps_min_depth = 0,
     ps_prehash_key_before_comparison = False\<rparr>"

definition tms_raw_header :: "u64 \<Rightarrow> (u64, unit) raw_tm_header" where
  "tms_raw_header h = \<lparr>rth_signed_header = Some h, rth_validator_set = Some (),
     rth_trusted_height = Some \<lparr>rh_revision_number = 0, rh_revision_height = 3\<rparr>,
     rth_trusted_validators = Some ()\<rparr>"

definition tms_raw_client :: "u64 \<Rightarrow> raw_tm_client_state" where
  "tms_raw_client h = \<lparr>rtcs_chain_id = ''chain'', rtcs_trust_level = Some \<lparr>rf_numerator = 1, rf_denominator = 3\<rparr>,
     rtcs_trusting_period = Some \<lparr>pd_seconds = 0, pd_nanos = 80\<rparr>,
     rtcs_unbonding_period = Some \<lparr>pd_seconds = 0, pd_nanos = 200\<rparr>,
     rtcs_max_clock_drift = Some \<lparr>pd_seconds = 0, pd_nanos = 5\<rparr>,
     rtcs_frozen_height = Some \<lparr>rh_revision_number = 0, rh_revision_height = 0\<rparr>,
     rtcs_latest_height = Some \<lparr>rh_revision_number = 0, rh_revision_height = h\<rparr>,
     rtcs_proof_specs = [tms_spec, tms_spec], rtcs_upgrade_path = [''upgrade'', ''upgradedIBCState''],
     rtcs_allow_update_after_expiry = False, rtcs_allow_update_after_misbehaviour = False\<rparr>"

definition tms_raw_cons :: "u64 \<Rightarrow> raw_tm_consensus_state" where
  "tms_raw_cons h = \<lparr>rtc_timestamp = Some \<lparr>pt_seconds = 0, pt_nanos = 10 * int (unat h)\<rparr>,
     rtc_root = Some [1], rtc_next_validators_hash = [2]\<rparr>"

definition tms_ops :: "(u64, unit, u64, unit) tendermint_ops" where
  "tms_ops =
     \<lparr>tm_sh_chain_id = (\<lambda>_. ''chain''), tm_sh_height = (\<lambda>h. h),
      tm_sh_time = (\<lambda>h. 10 * int (unat h)),
      tm_sh_validators_hash = (\<lambda>_. [2]), tm_sh_next_validators_hash = (\<lambda>_. [2]),
      tm_sh_app_hash = (\<lambda>_. [1]), tm_sh_commit_hash = (\<lambda>h. [ucast h]), tm_vs_hash = (\<lambda>_. [2]),
      tm_max_chain_id_len = 50, tm_trust_threshold_new = (\<lambda>n d. Ok (n, d)),
      tm_chain_id_try_from = Ok, tm_height_try_from = Some, tm_hash_from_bytes = Ok,
      tm_hash_to_string = (\<lambda>_. []), tm_time_add = (\<lambda>t d. Some (t + int d)),
      tm_time_duration_since = (\<lambda>t u. if u \<le> t then Some (nat (t - u)) else None),
      tm_verify_update_header = (\<lambda>_ _ _ _. VerdictSuccess),
      tm_verify_misbehaviour_header = (\<lambda>_ _ _ _. VerdictSuccess),
      tm_duration_from_proto = (\<lambda>d. Some (nat (pd_seconds d * 1000000000 + pd_nanos d))),
      tm_duration_to_proto = (\<lambda>d. \<lparr>pd_seconds = 0, pd_nanos = int d\<rparr>),
      tm_time_from_proto = (\<lambda>t. Ok (pt_seconds t * 1000000000 + pt_nanos t)),
      tm_time_to_proto = (\<lambda>t. \<lparr>pt_seconds = 0, pt_nanos = t\<rparr>),
      tm_sh_from_raw = Ok, tm_sh_to_raw = (\<lambda>h. h), tm_vs_from_raw = Ok, tm_vs_to_raw = (\<lambda>v. v),
      tm_encode_header = (\<lambda>_. []), tm_decode_header = (\<lambda>b. Some (tms_raw_header (sample_height b))),
      tm_encode_client_state = (\<lambda>_. []),
      tm_decode_client_state = (\<lambda>b. Some (tms_raw_client (sample_height b))),
      tm_encode_consensus_state = (\<lambda>_. []),
      tm_decode_consensus_state = (\<lambda>b. Some (tms_raw_cons (sample_height b))),
      tm_encode_misbehaviour = (\<lambda>_. []),
      tm_decode_misbehaviour = (\<lambda>b. Some \<lparr>rtmb_client_id = ''07-tendermint-0'',
        rtmb_header_1 = Some (tms_raw_header (sample_height b)),
        rtmb_header_2 = Some (tms_raw_header (sample_height b + 1))\<rparr>),
      tm_decode_error = (\<lambda>_. []), tm_convert_error = (\<lambda>_. [])\<rparr>"

lemma tms_ops_sel [simp]:
  "tm_sh_chain_id tms_ops = (\<lambda>_. ''chain'')" "tm_sh_height tms_ops = (\<lambda>h. h)"
  "tm_sh_time tms_ops = (\<lambda>h. 10 * int (unat h))" "tm_sh_next_validators_hash tms_ops = (\<lambda>_. [2])"
  "tm_sh_app_hash tms_ops = (\<lambda>_. [1])" "tm_time_add tms_ops = (\<lambda>t d. Some (t + int d))"
  "tm_sh_from_raw tms_ops = Ok" "tm_vs_from_raw tms_ops = Ok"
  "tm_decode_header tms_ops = (\<lambda>b. Some (tms_raw_header (sample_height b)))"
  by (simp_all add: tms_ops_def)

text \<open>A proof of existence is the value it proves: the root is the value under every key but
  those that start with an \<open>n\<close>, which are absent.\<close>

definition tms_absent :: "bytes \<Rightarrow> bool" where
  "tms_absent key \<longleftrightarrow> take 1 key = string_bytes ''n''"

definition tms_ics :: "bytes ics23_ops" where
  "tms_ics = \<lparr>ics_is_hash_op = (\<lambda>_. True), ics_is_length_op = (\<lambda>_. True), ics_iavl_spec = tms_spec,
     ics_tendermint_spec = tms_spec, ics_existence_root = Some,
     ics_verify_membership = (\<lambda>_ _ root key v. \<not> tms_absent key \<and> v = root),
     ics_verify_non_membership = (\<lambda>_ _ _ key. tms_absent key),
     ics_encode_proofs = (\<lambda>_. []),
     ics_decode_proofs = (\<lambda>b. Some (if b = [1]
       then [Some (Nonexist \<lparr>nep_key = [], nep_left = Some b, nep_right = None\<rparr>), Some (Exist b)]
       else [Some (Exist b), Some (Exist b)])),
     ics_decode_error = (\<lambda>_. [])\<rparr>"

lemma tms_binding: "binding_trees tms_ics"
  by (simp add: binding_trees_def tms_ics_def)

lemma tms_monotone: "monotone_time_add tms_ops"
  by (simp add: monotone_time_add_def)


section \<open>Identifiers\<close>

definition tms_client :: client_id where
  "tms_client = ClientId ''07-tendermint-0''"

lemma tms_client_valid: "valid_client_id tms_client"
  by (simp add: tms_client_def valid_client_id_def) code_simp

lemma tms_chain: "chain_id_from_str ''chain'' = Ok \<lparr>chain_id_str = ''chain'', chain_revision_number = 0\<rparr>"
  by code_simp


section \<open>The host\<close>

text \<open>The client has the consensus states 0-1 and 0-3, made at the instants 10 and 30; at the
  instant 100 of the host the first has expired.\<close>

definition tms_keys :: key_listing where
  "tms_keys s prefix = map (\<lambda>h. path_to_string (Path_ClientConsensusState (cons_path tms_client h)))
     (filter (\<lambda>h. cons_at s tms_client h \<noteq> None) [Height 0 1, Height 0 2, Height 0 3])"

definition tms_env :: "(u64, unit, u64, unit, bytes) host_env" where
  "tms_env = \<lparr>he_ext = sample_ext, he_tm = tms_ops, he_ics = tms_ics, he_codec = sample_codec,
     he_keys = tms_keys\<rparr>"

definition tms_state :: tm_client_state where
  "tms_state = \<lparr>tcs_chain_id = \<lparr>chain_id_str = ''chain'', chain_revision_number = 0\<rparr>,
     tcs_trust_level = trust_threshold_one_third, tcs_trusting_period = 80, tcs_unbonding_period = 200,
     tcs_max_clock_drift = 5, tcs_latest_height = Height 0 3,
     tcs_proof_specs = ProofSpecs [tms_spec, tms_spec],
     tcs_upgrade_path = [''upgrade'', ''upgradedIBCState''],
     tcs_allow_update = \<lparr>au_after_expiry = False, au_after_misbehaviour = False\<rparr>, tcs_frozen_height = None\<rparr>"

definition tms_cons :: "int \<Rightarrow> any_consensus_state" where
  "tms_cons t = AnyTendermintConsensus \<lparr>tc_timestamp = t, tc_root = CommitmentRoot [1],
     tc_next_validators_hash = [2]\<rparr>"

definition tms_store :: any_store where
  "tms_store = (ibc_store_new 0 10 (\<lambda>_. False))\<lparr>
     client_state_store := [ClientStatePath tms_client \<mapsto> AnyTendermint tms_state],
     consensus_state_store := [ClientConsensusStatePath tms_client 0 1 \<mapsto> tms_cons 10,
       ClientConsensusStatePath tms_client 0 3 \<mapsto> tms_cons 30],
     host_consensus_states := [10 \<mapsto> tms_cons 100]\<rparr>"

lemma tms_store_sel [simp]:
  "client_state_store tms_store = [ClientStatePath tms_client \<mapsto> AnyTendermint tms_state]"
  "consensus_state_store tms_store = [ClientConsensusStatePath tms_client 0 1 \<mapsto> tms_cons 10,
       ClientConsensusStatePath tms_client 0 3 \<mapsto> tms_cons 30]"
  "st_refuses tms_store = (\<lambda>_. False)" "st_revision_number tms_store = 0" "st_current_height tms_store = 10"
  "host_consensus_states tms_store = [10 \<mapsto> tms_cons 100]"
  by (simp_all add: tms_store_def ibc_store_new_def)

lemma tms_cons_at:
  "cons_at tms_store tms_client h = (if h = Height 0 1 then Some (tms_cons 10)
     else if h = Height 0 3 then Some (tms_cons 30) else None)"
  by (cases h) (auto simp: cons_at_def)

lemma tms_stored: "stored_heights tms_store tms_client = {Height 0 1, Height 0 3}"
  by (auto simp: stored_heights_def tms_cons_at split: if_splits)

lemma tms_path_from:
  "path_from_str (path_to_string (Path_ClientConsensusState (ClientConsensusStatePath tms_client n i)))
     = Ok (Path_ClientConsensusState (ClientConsensusStatePath tms_client n i))"
  by (rule path_from_to_string) (simp add: tms_client_valid)

lemma tms_consensus_key:
  "consensus_key (path_to_string (Path_ClientConsensusState (ClientConsensusStatePath tms_client n i)))
     = Some (ClientConsensusStatePath tms_client n i)"
  by (simp add: consensus_key_def tms_path_from del: path_to_string.simps)

lemma tms_listed: "lists_keys (he_keys tms_env) tms_store tms_client [Height 0 1, Height 0 3]"
  by (simp add: lists_keys_def tms_env_def tms_keys_def tms_cons_at tms_stored List.map_filter_simps
      tms_consensus_key del: path_to_string.simps)

lemma tms_neighbours: "finds_neighbours (he_tb tms_env) tms_store tms_client"
  by (rule host_finds_neighbours [OF tms_listed]) (simp add: less_height_def height_cmp_def)

lemma tms_history: "tm_history_ok (he_tb tms_env) tms_store tms_client"
  by (auto simp: tm_history_ok_def times_increase_def heights_bounded_def tms_stored tm_time_at_def
      tms_cons_at tms_cons_def ok_opt_def tms_state_def less_eq_height_def less_height_def height_cmp_def
      split: if_splits)

definition tms_update :: msg_update_or_misbehaviour where
  "tms_update = UpdateClient \<lparr>uc_client_id = tms_client,
     uc_client_message = \<lparr>any_type_url = tendermint_header_type_url, any_value = [2]\<rparr>,
     uc_signer = sample_signer\<rparr>"

lemma tms_header: "tm_header_try_from_any tms_ops \<lparr>any_type_url = tendermint_header_type_url, any_value = [n]\<rparr>
    = Ok \<lparr>th_signed_header = ucast n, th_validator_set = (), th_trusted_height = Height 0 3,
         th_trusted_next_validator_set = ()\<rparr>"
  by (simp add: tm_header_try_from_any_def protobuf_decode_def tms_raw_header_def sample_height_def
      tm_header_try_from_raw_def height_try_from_def height_new_def ok_opt_def)

lemma tms_header_height: "tm_header_height tms_ops h
    = (if th_signed_header h = 0 then Panic else Ok (Height 0 (th_signed_header h)))"
  by (simp add: tm_header_height_def tms_chain height_new_def)

lemma tms_host_time: "any_host_timestamp tms_store = Ok (timestamp_from_time 100)"
  by (simp add: any_host_timestamp_def host_height_def host_consensus_state_def height_new_def tms_cons_def)

lemma tms_check: "tm_check_for_misbehaviour (he_tb tms_env) tms_ops tms_state tms_store tms_client
    \<lparr>any_type_url = tendermint_header_type_url, any_value = [2]\<rparr> = Ok False"
  by (simp add: tm_check_for_misbehaviour_def tms_header check_for_misbehaviour_on_update_def tms_header_height
      consensus_state_def height_new_def ok_opt_def host_prev_consensus_state_def host_next_consensus_state_def
      tms_env_def tms_keys_def tms_cons_at tms_path_from fetch_found_def transpose_map_def
      less_height_def height_cmp_def tms_cons_def tms_state_def del: path_to_string.simps)

definition tms_pruned :: any_store where
  "tms_pruned = tms_store\<lparr>consensus_state_store := [ClientConsensusStatePath tms_client 0 3 \<mapsto> tms_cons 30],
     client_processed_times := (client_processed_times tms_store)(ClientUpdateTimePath tms_client 0 1 := None),
     client_processed_heights := (client_processed_heights tms_store)(ClientUpdateHeightPath tms_client 0 1 := None)\<rparr>"

lemma tms_prune_listing:
  assumes "host_consensus_state_heights keys tms_store tms_client = Ok hs" "sort hs = [Height 0 1, Height 0 3]"
  shows "prune_oldest_consensus_state (tm_any_bounds rfc keys) tms_ops tms_state tms_client tms_store
    = (Ok (), tms_pruned)"
  unfolding prune_oldest_consensus_state_def
  by (simp add: exec_bind_def exec_read_def assms exec_lift_def exec_map_err_def exec_write_def
      tm_consensus_state_at_def consensus_state_def height_new_def tms_cons_def tms_host_time
      timestamp_from_time_def tms_state_def delete_consensus_state_def delete_update_meta_def Let_def
      any_host_timestamp_def host_height_def host_consensus_state_def exec_return_def tms_pruned_def
      fun_upd_twist [of "ClientConsensusStatePath tms_client 0 1"])

lemma tms_prune: "prune_oldest_consensus_state (he_tb tms_env) tms_ops tms_state tms_client tms_store = (Ok (), tms_pruned)"
  by (rule tms_prune_listing [of _ "[Height 0 1, Height 0 3]"])
    (simp_all add: tms_env_def host_consensus_state_heights_def tms_keys_def tms_cons_at tms_path_from height_new_def
      less_eq_height_def height_cmp_def del: path_to_string.simps)

text \<open>The same store with its keys listed from the last to the first.\<close>

definition tms_back_keys :: key_listing where
  "tms_back_keys s prefix = rev (tms_keys s prefix)"

abbreviation tms_back_bounds :: "(any_client_state, any_consensus_state) tm_bounds" where
  "tms_back_bounds \<equiv> tm_any_bounds (\<lambda>_. []) tms_back_keys"

lemma tms_back_listed: "lists_keys tms_back_keys tms_store tms_client [Height 0 3, Height 0 1]"
  by (simp add: lists_keys_def tms_back_keys_def tms_keys_def tms_cons_at tms_stored List.map_filter_simps
      tms_consensus_key insert_commute del: path_to_string.simps)

lemma tms_back_heights:
  "host_consensus_state_heights tms_back_keys tms_store tms_client = Ok [Height 0 3, Height 0 1]"
  by (simp add: tms_back_keys_def host_consensus_state_heights_def tms_keys_def tms_cons_at tms_path_from
      height_new_def del: path_to_string.simps)

lemma tms_back_prune: "prune_oldest_consensus_state tms_back_bounds tms_ops tms_state tms_client tms_store
    = (Ok (), tms_pruned)"
  by (rule tms_prune_listing [OF tms_back_heights]) (simp add: less_eq_height_def height_cmp_def)

lemma tms_update_state:
  obtains s where "tm_update_state (he_tb tms_env) tms_ops tms_state tms_client
      \<lparr>any_type_url = tendermint_header_type_url, any_value = [2]\<rparr> tms_store = (Ok [Height 0 2], s)"
    "cons_at s tms_client (Height 0 2) = Some (tms_cons 20)"
proof -
  have none: "ok_opt (consensus_state tms_pruned (ClientConsensusStatePath tms_client 0 2)) = None"
    by (simp add: consensus_state_def height_new_def tms_pruned_def ok_opt_def)
  have host: "tm_host_time_height (he_tb tms_env) tms_pruned = (Ok (timestamp_from_time 100, Height 0 10), tms_pruned)"
    by (simp add: tm_host_time_height_def exec_bind_def exec_read_def any_host_timestamp_def host_height_def
        host_consensus_state_def height_new_def tms_pruned_def tms_cons_def exec_return_def)
  have refuses: "st_refuses tms_pruned = (\<lambda>_. False)" by (simp add: tms_pruned_def)
  let ?h = "\<lparr>th_signed_header = 2 :: u64, th_validator_set = (), th_trusted_height = Height 0 3,
         th_trusted_next_validator_set = ()\<rparr>"
  obtain s where add: "tm_add_header (he_tb tms_env) tms_ops tms_state tms_client (Height 0 2) ?h tms_pruned = (Ok (), s)"
    by (simp add: tm_add_header_def exec_bind_def host exec_lift_def tm_client_state_with_header_def tms_header_height
        put_consensus_state_def put_client_state_def put_update_meta_def store_consensus_state_def
        store_client_state_def store_update_meta_def typed_set_def Let_def exec_map_err_def refuses)
  have "tm_update_state (he_tb tms_env) tms_ops tms_state tms_client
      \<lparr>any_type_url = tendermint_header_type_url, any_value = [2]\<rparr> tms_store = (Ok [Height 0 2], s)"
    by (simp add: tm_update_state_def exec_bind_def exec_lift_def tms_header tms_header_height tms_prune
        exec_read_def none add exec_return_def)
  moreover have "cons_at s tms_client (Height 0 2) = Some (tms_cons 20)"
    using tm_add_header_OkD [OF add] by (simp add: tms_header_height cons_at_def tm_consensus_state_from_header_def tms_cons_def)
  ultimately show thesis by (rule that)
qed

lemma tms_update_execute:
  obtains s where "update_client_execute (any_client_ops tms_env) tms_update tms_store = (Ok (), s)"
    "cons_at s tms_client (Height 0 2) = Some (tms_cons 20)"
proof -
  obtain s where s: "tm_update_state (he_tb tms_env) tms_ops tms_state tms_client
      \<lparr>any_type_url = tendermint_header_type_url, any_value = [2]\<rparr> tms_store = (Ok [Height 0 2], s)"
    "cons_at s tms_client (Height 0 2) = Some (tms_cons 20)" by (rule tms_update_state)
  have tm: "he_tm tms_env = tms_ops" by (simp add: tms_env_def)
  obtain t where "update_client_execute (any_client_ops tms_env) tms_update tms_store = (Ok (), t)"
      "cons_at t tms_client (Height 0 2) = Some (tms_cons 20)"
    using s tms_check
    by (simp add: update_client_execute_def tms_update_def uom_client_id_def uom_client_message_def Let_def
        exec_bind_def exec_read_def client_state_def any_check_for_misbehaviour_def any_update_state_def
        any_dispatch_def tm exec_map_err_def exec_lift_def emit_ibc_event_eq cons_at_def)
  then show thesis by (rule that)
qed


section \<open>Misbehaviour\<close>

definition tms_evidence :: msg_submit_misbehaviour where
  "tms_evidence = \<lparr>sm_client_id = tms_client,
     sm_misbehaviour = \<lparr>any_type_url = tendermint_misbehaviour_type_url, any_value = [5]\<rparr>,
     sm_signer = sample_signer\<rparr>"

lemma tms_client_from_str: "client_id_from_str ''07-tendermint-0'' = Ok tms_client"
  using parse_valid_ids(1) [OF tms_client_valid] by (simp add: tms_client_def ok_opt_Some_iff)

lemma tms_evidence_found:
  "tm_check_for_misbehaviour (he_tb tms_env) tms_ops tms_state tms_store tms_client
     \<lparr>any_type_url = tendermint_misbehaviour_type_url, any_value = [5]\<rparr> = Ok True"
proof -
  have header: "tm_header_try_from_raw tms_ops (tms_raw_header n) = Ok \<lparr>th_signed_header = n, th_validator_set = (),
      th_trusted_height = Height 0 3, th_trusted_next_validator_set = ()\<rparr>" for n
    by (simp add: tm_header_try_from_raw_def tms_raw_header_def height_try_from_def height_new_def ok_opt_def)
  have "tm_misbehaviour_try_from_any tms_ops \<lparr>any_type_url = tendermint_misbehaviour_type_url, any_value = [5]\<rparr>
      = Ok \<lparr>tmb_client_id = tms_client,
          tmb_header1 = \<lparr>th_signed_header = 5, th_validator_set = (), th_trusted_height = Height 0 3,
            th_trusted_next_validator_set = ()\<rparr>,
          tmb_header2 = \<lparr>th_signed_header = 6, th_validator_set = (), th_trusted_height = Height 0 3,
            th_trusted_next_validator_set = ()\<rparr>\<rparr>"
    by (simp add: tm_misbehaviour_try_from_any_def protobuf_decode_def tms_ops_def [THEN arg_cong [of _ _ tm_decode_misbehaviour]]
        tm_misbehaviour_try_from_raw_def sample_height_def tms_client_from_str header)
  then show ?thesis
    by (simp add: tm_check_for_misbehaviour_def tendermint_misbehaviour_type_url_def tendermint_header_type_url_def
        check_for_misbehaviour_on_misbehavior_def tms_header_height)
qed

lemma tms_evidence_execute:
  obtains s where "update_client_execute (any_client_ops tms_env) (Misbehaviour tms_evidence) tms_store = (Ok (), s)"
proof -
  have tm: "he_tm tms_env = tms_ops" by (simp add: tms_env_def)
  obtain s where "tm_update_on_misbehaviour (he_tb tms_env) tms_state tms_client
      \<lparr>any_type_url = tendermint_misbehaviour_type_url, any_value = [5]\<rparr> tms_store = (Ok (), s)"
    by (simp add: tm_update_on_misbehaviour_def put_client_state_def store_client_state_def typed_set_def exec_map_err_def)
  then obtain t where "update_client_execute (any_client_ops tms_env) (Misbehaviour tms_evidence) tms_store = (Ok (), t)"
    using tms_evidence_found
    by (simp add: update_client_execute_def tms_evidence_def uom_client_id_def uom_client_message_def Let_def
        exec_bind_def exec_read_def client_state_def any_check_for_misbehaviour_def
        any_update_state_on_misbehaviour_def any_dispatch_def tm exec_map_err_def emit_ibc_event_eq)
  then show thesis by (rule that)
qed


section \<open>A channel over the client\<close>

definition tms_conn :: connection_end where
  "tms_conn = \<lparr>ce_state = ConnOpen, ce_client_id = tms_client,
     ce_counterparty = \<lparr>ccp_client_id = tms_client, ccp_connection_id = Some (connection_id_new 7),
       ccp_prefix = CommitmentPrefix (string_bytes ''ibc'')\<rparr>,
     ce_versions = version_compatibles, ce_delay_period = 0\<rparr>"

definition tms_chan :: channel_end where
  "tms_chan = \<lparr>ch_state = Open, ch_ordering = Unordered,
     ch_remote = packet_counterparty_on_a (sample_packet 1), ch_connection_hops = [connection_id_new 0],
     ch_version = ChanVersion []\<rparr>"

text \<open>The store with an open connection and an open channel over a client, whose latest
  consensus state commits to the packet.\<close>

definition tms_commitment :: bytes where
  "tms_commitment = commitment_hash_input (\<lambda>b. b) [42] (At (Height 0 100)) 0"

definition tms_linked :: "tm_client_state \<Rightarrow> any_store" where
  "tms_linked k = tms_store\<lparr>client_state_store := [ClientStatePath tms_client \<mapsto> AnyTendermint k],
     consensus_state_store := [ClientConsensusStatePath tms_client 0 3 \<mapsto> AnyTendermintConsensus
       \<lparr>tc_timestamp = 30, tc_root = CommitmentRoot tms_commitment, tc_next_validators_hash = [2]\<rparr>],
     client_processed_times := [ClientUpdateTimePath tms_client 0 3 \<mapsto> timestamp_from_time 40],
     client_processed_heights := [ClientUpdateHeightPath tms_client 0 3 \<mapsto> Height 0 4],
     connection_end_store := [ConnectionPath (connection_id_new 0) \<mapsto> tms_conn],
     channel_end_store := [chan_end_path_on_b (sample_packet 1) \<mapsto> tms_chan]\<rparr>"

definition tms_frozen_state :: tm_client_state where
  "tms_frozen_state = tms_state\<lparr>tcs_frozen_height := Some (height_min 0)\<rparr>"

definition tms_recv :: msg_recv_packet where
  "tms_recv = \<lparr>rcv_packet = sample_packet 1, rcv_proof_commitment_on_a = CommitmentProofBytes tms_commitment,
     rcv_proof_height_on_a = Height 0 3, rcv_signer = sample_signer\<rparr>"

lemma tms_linked_sel [simp]:
  "client_state_store (tms_linked k) (ClientStatePath tms_client) = Some (AnyTendermint k)"
  "connection_end_store (tms_linked k) (ConnectionPath (connection_id_new 0)) = Some tms_conn"
  "channel_end_store (tms_linked k) (chan_end_path_on_b (sample_packet 1)) = Some tms_chan"
  "consensus_state_store (tms_linked k) (ClientConsensusStatePath tms_client 0 3) = Some (AnyTendermintConsensus
       \<lparr>tc_timestamp = 30, tc_root = CommitmentRoot tms_commitment, tc_next_validators_hash = [2]\<rparr>)"
  "client_processed_times (tms_linked k) (ClientUpdateTimePath tms_client 0 3) = Some (timestamp_from_time 40)"
  "client_processed_heights (tms_linked k) (ClientUpdateHeightPath tms_client 0 3) = Some (Height 0 4)"
  "st_revision_number (tms_linked k) = 0" "st_current_height (tms_linked k) = 10"
  "host_consensus_states (tms_linked k) = [10 \<mapsto> tms_cons 100]"
  "packet_ack_store (tms_linked k) = Map.empty" "packet_receipt_store (tms_linked k) = {}"
  by (simp_all add: tms_linked_def) (simp_all add: tms_store_def ibc_store_new_def)

lemma tms_commitment_size: "length tms_commitment = 25"
  by (simp add: tms_commitment_def commitment_hash_input_def to_be_bytes_def)

lemma tms_commitment_shape: "tms_commitment \<noteq> []" "tms_commitment \<noteq> [1]"
  using tms_commitment_size by (auto dest: arg_cong [of _ _ length])

text \<open>The packet is accepted.\<close>

lemma tms_membership:
  "tm_verify_membership tms_ics (ProofSpecs [tms_spec, tms_spec]) (CommitmentPrefix (string_bytes ''ibc''))
     (CommitmentProofBytes tms_commitment) (CommitmentRoot tms_commitment)
     (Path_Commitment (commitment_path_on_a (sample_packet 1))) tms_commitment = Ok ()"
proof -
  have "commitment_prefix_debug (CommitmentPrefix (string_bytes ''ibc'')) = ''ibc''" by code_simp
  then show ?thesis using tms_commitment_shape
    by (simp add: tm_verify_membership_def apply_prefix_def merkle_proof_try_from_def protobuf_decode_def
        merkle_verify_membership_def tms_ics_def Let_def commitment_root_bytes_def proof_specs_to_raw_def
        commitment_proof_bytes_of_def commitment_path_on_a_def tms_absent_def string_bytes_def)
qed

lemma tms_recv_accepted: "recv_packet_validate (any_client_ops tms_env) (tms_linked tms_state) tms_recv = Ok ()"
proof -
  have commitment: "(packet_commitment_of (any_client_ops tms_env) (sample_packet 1)
      :: (packet_commitment, 'e) result) = Ok (PacketCommitment tms_commitment)"
    by (simp add: packet_commitment_of_def compute_packet_commitment_def sample_packet_def tms_env_def
        sample_ext_def timestamp_none_def nanoseconds_def tms_commitment_def)
  have host: "host_timestamp (any_client_ops tms_env) (tms_linked k) = Ok (timestamp_from_time 100)"
     "host_height (tms_linked k) = Ok (Height 0 10)" for k
    by (simp_all add: host_timestamp_def host_height_def host_consensus_state_def height_new_def tms_cons_def)
  have active: "any_status tms_env (AnyTendermint tms_state) (tms_linked tms_state) tms_client = Ok Active"
    using host(2) by (simp add: any_status_def any_dispatch_def tm_status_def tms_state_def tm_is_frozen_def
        consensus_state_def height_new_def any_host_timestamp_def host_consensus_state_def tms_cons_def
        timestamp_duration_since_def timestamp_from_time_def tms_env_def tms_ops_def)
  have add: "ext_time_add (he_ext tms_env) = (\<lambda>t d. Some (t + int d))" by (simp add: tms_env_def sample_ext_def)
  have delay: "verify_conn_delay_passed (any_client_ops tms_env) (tms_linked tms_state) (Height 0 3) tms_conn = Ok ()"
    by (simp add: verify_conn_delay_passed_def host client_update_meta_def tms_conn_def Let_def block_delay_def
        calculate_block_delay_def as_secs_def timestamp_add_def timestamp_from_time_def add less_timestamp_def less_eq_timestamp_def
        height_add_def less_height_def height_cmp_def)
  let ?cons = "AnyTendermintConsensus \<lparr>tc_timestamp = 30, tc_root = CommitmentRoot tms_commitment,
    tc_next_validators_hash = [2]\<rparr>"
  have verified: "verified_at (any_client_ops tms_env) (tms_linked tms_state) tms_conn (Height 0 3)
      (AnyTendermint tms_state) ?cons"
    using active by (simp add: verified_at_def tms_conn_def any_validate_proof_height_def any_dispatch_def
        tm_validate_proof_height_def tms_state_def consensus_state_at_def consensus_state_def height_new_def)
  have member: "any_verify_membership tms_env (AnyTendermint tms_state) (ccp_prefix (ce_counterparty tms_conn))
      (CommitmentProofBytes tms_commitment) (any_cons_root ?cons)
      (Path_Commitment (commitment_path_on_a (sample_packet 1))) tms_commitment = Ok ()"
    using tms_membership by (simp add: any_verify_membership_def any_dispatch_def tms_env_def tms_state_def tms_conn_def)
  have fresh: "\<not> has_expired (timeout_height_on_b (sample_packet 1)) (Height 0 10)"
      "check_expiry (timestamp_from_time 100) (timeout_timestamp_on_b (sample_packet 1)) \<noteq> Expired"
    by (simp_all add: sample_packet_def has_expired_def less_height_def height_cmp_def check_expiry_def
        timestamp_none_def timestamp_from_time_def)
  have order: "recv_packet_validate_order (tms_linked tms_state) tms_recv Unordered = Ok ()"
    by (simp add: recv_packet_validate_order_def validate_write_acknowledgement_def get_packet_receipt_def
        get_packet_acknowledgement_def tms_recv_def Let_def is_ok_def receipt_path_sequence_def)
  show ?thesis unfolding recv_packet_validate_Ok_iff Let_def
    by (intro exI [of _ tms_chan] exI [of _ tms_conn] exI [of _ "Height 0 10"] exI [of _ "timestamp_from_time 100"]
        exI [of _ "AnyTendermint tms_state"] exI [of _ ?cons] exI [of _ "PacketCommitment tms_commitment"])
      (use commitment host verified delay member fresh order in \<open>simp add: tms_recv_def tms_chan_def tms_conn_def\<close>)
qed


section \<open>An upgrade\<close>

lemma tms_spec_ok: "proof_specs_try_from tms_ics [tms_spec, tms_spec] = Ok (ProofSpecs [tms_spec, tms_spec])"
  by (simp add: proof_specs_try_from_def proof_spec_try_from_def tms_spec_def transpose_map_def valid_depth_range_def)

lemma tms_chain_length: "chain_id_validate_length \<lparr>chain_id_str = ''chain'', chain_revision_number = 0\<rparr> 3 50 = Ok ()"
  by code_simp

lemma tms_client_from_any:
  "tm_client_state_try_from_any tms_ops tms_ics rfc \<lparr>any_type_url = tendermint_client_state_type_url, any_value = [9]\<rparr>
     = Ok (tms_state\<lparr>tcs_latest_height := Height 0 9\<rparr>)"
  by (simp add: tm_client_state_try_from_any_def protobuf_decode_def tms_ops_def tms_raw_client_def sample_height_def
      tm_client_state_try_from_raw_def tms_chain trust_threshold_try_from_def trust_threshold_new_def
      tms_spec_ok height_try_from_def height_new_def ok_opt_def tms_state_def trust_threshold_one_third_def)

lemma tms_cons_from_any:
  "tm_consensus_state_try_from_any tms_ops \<lparr>any_type_url = tendermint_consensus_state_type_url, any_value = [9]\<rparr>
     = Ok \<lparr>tc_timestamp = 90, tc_root = CommitmentRoot [1], tc_next_validators_hash = [2]\<rparr>"
  by (simp add: tm_consensus_state_try_from_any_def protobuf_decode_def tms_ops_def tms_raw_cons_def sample_height_def
      tm_consensus_state_try_from_raw_def)

lemma tms_upgraded_new: "tm_client_state_new tms_ops (tcs_chain_id tms_state) (tcs_trust_level tms_state)
    (tcs_trusting_period tms_state) (tcs_unbonding_period tms_state) (tcs_max_clock_drift tms_state) (Height 0 9)
    (tcs_proof_specs tms_state) (tcs_upgrade_path tms_state) (tcs_allow_update tms_state)
    = Ok (tms_state\<lparr>tcs_latest_height := Height 0 9\<rparr>)"
proof -
  have "str_trim ''upgrade'' \<noteq> []" "str_trim ''upgradedIBCState'' \<noteq> []" by code_simp+
  then show ?thesis
    by (simp add: tm_client_state_new_Ok_iff tm_client_state_validate_Ok_iff tms_state_def tms_ops_def tms_chain_length
        trust_threshold_one_third_def trust_threshold_zero_def is_ok_def proof_specs_validate_def
        proof_specs_is_empty_def validate_depths_Ok_iff valid_depth_range_def tms_spec_def)
qed

lemma tms_upgrade:
  obtains s where "any_update_state_on_upgrade tms_env (AnyTendermint tms_state) tms_client
       \<lparr>any_type_url = tendermint_client_state_type_url, any_value = [9]\<rparr>
       \<lparr>any_type_url = tendermint_consensus_state_type_url, any_value = [9]\<rparr> tms_store = (Ok (Height 0 9), s)"
proof -
  have env: "he_tm tms_env = tms_ops" "he_ics tms_env = tms_ics" by (simp_all add: tms_env_def)
  have host: "tm_host_time_height (he_tb tms_env) tms_store = (Ok (timestamp_from_time 100, Height 0 10), tms_store)"
    by (simp add: tm_host_time_height_def exec_bind_def exec_read_def tms_host_time host_height_def height_new_def
        exec_return_def)
  have "tcs_latest_height (tms_state\<lparr>tcs_latest_height := Height 0 9\<rparr>) = Height 0 9" by simp
  then obtain s where "any_update_state_on_upgrade tms_env (AnyTendermint tms_state) tms_client
       \<lparr>any_type_url = tendermint_client_state_type_url, any_value = [9]\<rparr>
       \<lparr>any_type_url = tendermint_consensus_state_type_url, any_value = [9]\<rparr> tms_store = (Ok (Height 0 9), s)"
    using tms_upgraded_new
    by (simp add: any_update_state_on_upgrade_def any_dispatch_def tm_update_on_upgrade_def env tms_client_from_any
        tms_cons_from_any Let_def zero_custom_fields_def exec_bind_def exec_lift_def host put_consensus_state_def
        put_client_state_def put_update_meta_def store_consensus_state_def store_client_state_def
        store_update_meta_def typed_set_def exec_map_err_def exec_return_def)
  then show thesis by (rule that)
qed

end
