(* ===== verification/Client_Safety.thy ===== *)
theory Client_Safety
  imports Tendermint_Sample
begin

text \<open>
  The theorems about light clients: the history of a Tendermint client, the effect of
  misbehaviour, and what the proofs it verifies exclude.
\<close>

section \<open>The history of a client\<close>

text \<open>C7: the consensus states of a Tendermint client are ordered in time.  A new client
  starts with such a history, and an accepted update or misbehaviour message keeps it: a
  higher consensus state is a later one, and none is above the latest height of the client.
  This holds on every host that runs the client (\<open>runs_tendermint\<close>, \<open>client_context\<close>) and on
  which the searches for the neighbours of a height find, in the store that is updated, what
  the documentation of \<open>ExtClientValidationContext\<close> says, the lowest consensus state above
  it and the highest below it (\<open>finds_neighbours\<close>).\<close>

theorem client_history_ordered:
  assumes "client_context cb" "runs_tendermint env cb tm"
  shows "(stored_heights s cid = {} \<and> revision_height (tcs_latest_height k) \<noteq> 0
      \<and> cs_initialise env (cb_into_client_state cb k) cid a s = (Ok u, s') \<longrightarrow> tm_history_ok cb s' cid)
    \<and> (tm_history_ok cb s cid \<and> finds_neighbours cb s cid
      \<and> client_state_store s (ClientStatePath cid) = Some (cb_into_client_state cb k)
      \<and> uom_client_id msg = cid \<and> update_client_execute env msg s = (Ok u, s') \<longrightarrow> tm_history_ok cb s' cid)"
proof (intro conjI impI; elim conjE)
  assume "stored_heights s cid = {}" "revision_height (tcs_latest_height k) \<noteq> 0"
    "cs_initialise env (cb_into_client_state cb k) cid a s = (Ok u, s')"
  then show "tm_history_ok cb s' cid"
    using client_context.tm_initialise_history [OF assms(1)] assms(2) by (simp add: runs_tendermint_def)
qed (rule client_context.update_client_keeps_history [OF assms])

theorem client_history_ordered_witness:
  "\<exists>s. update_client_execute (any_client_ops tms_env) tms_update tms_store = (Ok (), s)
     \<and> cons_at s tms_client (Height 0 2) = Some (tms_cons 20) \<and> tm_history_ok (he_tb tms_env) s tms_client"
proof -
  obtain s where s: "update_client_execute (any_client_ops tms_env) tms_update tms_store = (Ok (), s)"
    "cons_at s tms_client (Height 0 2) = Some (tms_cons 20)" by (rule tms_update_execute)
  have "client_state_store tms_store (ClientStatePath tms_client) = Some (cb_into_client_state (he_tb tms_env) tms_state)"
    "uom_client_id tms_update = tms_client" by (simp_all add: uom_client_id_def tms_update_def)
  then show ?thesis
    using client_history_ordered [OF tm_host.client_context_axioms any_runs_tendermint,
        of tms_store tms_client tms_state tms_env _ "()" s tms_update]
      tms_history tms_neighbours s by blast
qed

text \<open>C10: pruning removes exactly the expired consensus states.  The loop sorts the heights
  and stops at the first state that is not expired; on a history that is ordered in time
  (\<open>times_increase\<close>) this is the same as testing every state: a consensus state is gone if
  and only if its time plus the trusting period is not after the time of the host.  The host
  returns all heights at which a consensus state is stored, in any order
  (\<open>lists_heights\<close>), and adding a period to a later time gives no earlier time.\<close>

theorem pruning_is_exact:
  assumes "client_context cb" "monotone_time_add tm" "cb_host_timestamp cb s = Ok ts" "ts_time ts = Some now"
    and "lists_heights cb s cid" "times_increase cb s cid"
    and "prune_oldest_consensus_state cb tm k cid s = (Ok u, s')"
  shows "cons_at s' cid h = (if expired_at cb tm s cid (tcs_trusting_period k) now h
    then None else cons_at s cid h)"
  by (rule client_context.prune_exact [OF assms])

theorem pruning_is_exact_witness:
  "host_consensus_state_heights tms_back_keys tms_store tms_client = Ok [Height 0 3, Height 0 1]
     \<and> prune_oldest_consensus_state tms_back_bounds tms_ops tms_state tms_client tms_store
         = (Ok (), tms_pruned)
     \<and> expired_at tms_back_bounds tms_ops tms_store tms_client 80 100 (Height 0 1)
     \<and> cons_at tms_pruned tms_client (Height 0 1) = None
     \<and> cons_at tms_pruned tms_client (Height 0 3) = cons_at tms_store tms_client (Height 0 3)"
proof -
  let ?cb = tms_back_bounds
  have period: "tcs_trusting_period tms_state = 80" by (simp add: tms_state_def)
  have time: "cb_host_timestamp ?cb tms_store = Ok (timestamp_from_time 100)" by (simp add: tms_host_time)
  have inc: "times_increase ?cb tms_store tms_client"
    using tms_history by (simp add: tm_history_ok_def times_increase_def tm_time_at_def)
  have exact: "cons_at tms_pruned tms_client h = (if expired_at ?cb tms_ops tms_store tms_client 80 100 h
      then None else cons_at tms_store tms_client h)" for h
    using pruning_is_exact [OF tm_host.client_context_axioms tms_monotone time _ host_lists_heights [OF tms_back_listed]
        inc tms_back_prune, of 100 h]
    by (simp add: period timestamp_from_time_def)
  have "expired_at ?cb tms_ops tms_store tms_client 80 100 (Height 0 1)"
    "\<not> expired_at ?cb tms_ops tms_store tms_client 80 100 (Height 0 3)"
    by (simp_all add: expired_at_def tm_time_at_def tms_cons_at tms_cons_def ok_opt_def)
  then show ?thesis using exact tms_back_prune tms_back_heights by simp
qed


section \<open>Misbehaviour\<close>

text \<open>C9: accepted misbehaviour freezes the client.  A misbehaviour message is executed only
  when misbehaviour is found, and then the stored state of the client is frozen.\<close>

theorem misbehaviour_freezes_client:
  assumes "update_client_execute (any_client_ops e) (Misbehaviour m) s = (Ok u, s')"
  shows "\<exists>cs. client_state_store s' (ClientStatePath (sm_client_id m)) = Some cs \<and> any_is_frozen cs"
  using assms
proof (cases rule: update_client_execute_OkD)
  case (misbehaviour cs v s1)
  then have "any_update_state_on_misbehaviour e cs (sm_client_id m) (sm_misbehaviour m) s = (Ok v, s1)"
    by (simp add: uom_client_id_def uom_client_message_def)
  from any_misbehaviour_freezes [OF this] show ?thesis
    using misbehaviour(4) by (simp add: same_clients_def)
qed simp

text \<open>C8: a frozen client is unusable.  On a channel whose connection uses the client, no
  packet is sent or received, and no packet that is still committed to is acknowledged,
  timed out or timed out because the other end of the channel is closed; nor is the client
  updated.\<close>

theorem frozen_client_is_unusable:
  assumes "client_state_store s (ClientStatePath cid) = Some cs" "any_is_frozen cs"
    and "connection_end_store s (ConnectionPath (ch_connection_hops c ! 0)) = Some conn"
    and "ce_client_id conn = cid"
  shows "(channel_end_store s (chan_end_path_on_a p) = Some c
      \<longrightarrow> send_packet_validate (any_client_ops e) p s \<noteq> Ok ())
    \<and> (channel_end_store s (chan_end_path_on_b (rcv_packet r)) = Some c
      \<longrightarrow> recv_packet_validate (any_client_ops e) s r \<noteq> Ok ())
    \<and> (channel_end_store s (chan_end_path_on_a (ack_packet a)) = Some c
        \<and> packet_commitment_store s (commitment_path_on_a (ack_packet a)) \<noteq> None
      \<longrightarrow> acknowledgement_validate_core (any_client_ops e) s a \<noteq> Ok ())
    \<and> (channel_end_store s (chan_end_path_on_a (tmo_packet t)) = Some c
        \<and> packet_commitment_store s (commitment_path_on_a (tmo_packet t)) \<noteq> None
      \<longrightarrow> timeout_validate_core (any_client_ops e) s t \<noteq> Ok ())
    \<and> (channel_end_store s (chan_end_path_on_a (toc_packet t')) = Some c
        \<and> packet_commitment_store s (commitment_path_on_a (toc_packet t')) \<noteq> None
      \<longrightarrow> timeout_on_close_validate (any_client_ops e) s t' \<noteq> Ok ())
    \<and> (uom_client_id m = cid \<longrightarrow> update_client_validate (any_client_ops e) s m \<noteq> Ok ())"
proof -
  have frozen: "\<not> verified_at (any_client_ops e) s conn h cs' cons" for h cs' cons
    using frozen_not_verified assms(1,2,4) by blast
  have status: "any_status e cs s cid = Ok Frozen" by (rule any_status_frozen [OF assms(2)])
  then have "uom_client_id m = cid \<longrightarrow> update_client_validate (any_client_ops e) s m \<noteq> Ok ()"
    using assms(1) by (auto simp: update_client_validate_def Let_def result_simps client_state_def verify_is_active_def)
  moreover have "channel_end_store s (chan_end_path_on_a p) = Some c
      \<longrightarrow> send_packet_validate (any_client_ops e) p s \<noteq> Ok ()"
    using status assms by (auto simp: send_packet_validate_Ok_iff send_allowed_def)
  ultimately show ?thesis
    using frozen assms(3)
    by (auto simp: recv_packet_validate_Ok_iff acknowledgement_validate_Ok_iff timeout_validate_Ok_iff
        timeout_on_close_validate_Ok_iff Let_def)
qed

theorem misbehaviour_freezes_client_witness:
  "\<exists>s cs. update_client_execute (any_client_ops tms_env) (Misbehaviour tms_evidence) tms_store = (Ok (), s)
     \<and> client_state_store s (ClientStatePath tms_client) = Some cs \<and> any_is_frozen cs"
proof -
  obtain s where s: "update_client_execute (any_client_ops tms_env) (Misbehaviour tms_evidence) tms_store = (Ok (), s)"
    by (rule tms_evidence_execute)
  show ?thesis using misbehaviour_freezes_client [OF s] s by (auto simp: tms_evidence_def)
qed

theorem frozen_client_is_unusable_witness:
  "recv_packet_validate (any_client_ops tms_env) (tms_linked tms_state) tms_recv = Ok ()
     \<and> recv_packet_validate (any_client_ops tms_env) (tms_linked tms_frozen_state) tms_recv \<noteq> Ok ()"
proof -
  have "any_is_frozen (AnyTendermint tms_frozen_state)" by (simp add: tms_frozen_state_def tm_is_frozen_def)
  moreover have "connection_end_store (tms_linked tms_frozen_state) (ConnectionPath (ch_connection_hops tms_chan ! 0))
      = Some tms_conn" "ce_client_id tms_conn = tms_client" by (simp_all add: tms_chan_def tms_conn_def)
  moreover have "channel_end_store (tms_linked tms_frozen_state) (chan_end_path_on_b (rcv_packet tms_recv)) = Some tms_chan"
    by (simp add: tms_recv_def)
  ultimately show ?thesis
    using frozen_client_is_unusable [OF tms_linked_sel(1)] tms_recv_accepted by blast
qed


section \<open>What a proof excludes\<close>

text \<open>C6: a client cannot be shown two packets for one commitment.  Two packets of the same
  source channel with the same sequence number that are accepted on one destination channel
  at the same proof height have the same commitment, whatever proofs come with them.  The
  clients of the store are Tendermint clients, and the trees of the proofs are assumed to
  bind: under one root, a key has one value.\<close>

theorem received_packets_agree:
  fixes e :: "('sh, 'vs, 'rsh, 'rvs, 'ep) host_env"
  assumes "binding_trees (he_ics e)"
    and "\<forall>cid cs. client_state_store s (ClientStatePath cid) = Some cs \<longrightarrow> (\<exists>k. cs = AnyTendermint k)"
    and "recv_packet_validate (any_client_ops e) s m = Ok ()" "recv_packet_validate (any_client_ops e) s n = Ok ()"
    and "rcv_proof_height_on_a m = rcv_proof_height_on_a n"
    and "chan_end_path_on_b (rcv_packet m) = chan_end_path_on_b (rcv_packet n)"
    and "commitment_path_on_a (rcv_packet m) = commitment_path_on_a (rcv_packet n)"
  shows "(packet_commitment_of (any_client_ops e) (rcv_packet m) :: (packet_commitment, context_error) result)
    = packet_commitment_of (any_client_ops e) (rcv_packet n)"
proof -
  let ?env = "any_client_ops e"
  obtain c conn cs cons k where m: "channel_end_store s (chan_end_path_on_b (rcv_packet m)) = Some c"
      "connection_end_store s (ConnectionPath (ch_connection_hops c ! 0)) = Some conn"
      "verified_at ?env s conn (rcv_proof_height_on_a m) cs cons"
      "packet_commitment_of ?env (rcv_packet m) = (Ok k :: (packet_commitment, context_error) result)"
      "any_verify_membership e cs (ccp_prefix (ce_counterparty conn)) (rcv_proof_commitment_on_a m)
         (any_cons_root cons) (Path_Commitment (commitment_path_on_a (rcv_packet m))) (packet_commitment_bytes k) = Ok ()"
    using assms(3) unfolding recv_packet_validate_Ok_iff Let_def any_client_ops_simps by blast
  obtain c' conn' cs' cons' k' where n: "channel_end_store s (chan_end_path_on_b (rcv_packet n)) = Some c'"
      "connection_end_store s (ConnectionPath (ch_connection_hops c' ! 0)) = Some conn'"
      "verified_at ?env s conn' (rcv_proof_height_on_a n) cs' cons'"
      "packet_commitment_of ?env (rcv_packet n) = (Ok k' :: (packet_commitment, context_error) result)"
      "any_verify_membership e cs' (ccp_prefix (ce_counterparty conn')) (rcv_proof_commitment_on_a n)
         (any_cons_root cons') (Path_Commitment (commitment_path_on_a (rcv_packet n))) (packet_commitment_bytes k') = Ok ()"
    using assms(4) unfolding recv_packet_validate_Ok_iff Let_def any_client_ops_simps by blast
  have same: "conn' = conn" "cs' = cs" "cons' = cons"
    using m(1-3) n(1-3) assms(5,6) by (auto simp: verified_at_def)
  obtain tk where "cs = AnyTendermint tk" using m(3) assms(2) unfolding verified_at_def by blast
  then have "packet_commitment_bytes k = packet_commitment_bytes k'"
    using m(5) n(5) assms(7) tm_membership_unique [OF assms(1)]
    by (auto simp: same any_verify_membership_def any_dispatch_def)
  then show ?thesis using m(4) n(4) by (cases k; cases k') simp
qed

theorem received_packets_agree_witness:
  "binding_trees (he_ics tms_env)
     \<and> recv_packet_validate (any_client_ops tms_env) (tms_linked tms_state) tms_recv = Ok ()
     \<and> (packet_commitment_of (any_client_ops tms_env) (sample_packet 1) :: (packet_commitment, context_error) result)
        = packet_commitment_of (any_client_ops tms_env) (rcv_packet (tms_recv\<lparr>rcv_signer := Signer []\<rparr>))"
proof -
  have bind: "binding_trees (he_ics tms_env)" using tms_binding by (simp add: tms_env_def)
  have tm: "\<forall>cid cs. client_state_store (tms_linked tms_state) (ClientStatePath cid) = Some cs
      \<longrightarrow> (\<exists>k. cs = AnyTendermint k)"
    by (auto simp: tms_linked_def split: if_splits)
  let ?n = "tms_recv\<lparr>rcv_signer := Signer []\<rparr>"
  have other: "recv_packet_validate (any_client_ops tms_env) (tms_linked tms_state) ?n = Ok ()"
  proof -
    have ack: "validate_write_acknowledgement (tms_linked tms_state) ?n
        = validate_write_acknowledgement (tms_linked tms_state) tms_recv"
      by (simp add: validate_write_acknowledgement_def)
    have "recv_packet_validate_order (tms_linked tms_state) ?n x = recv_packet_validate_order (tms_linked tms_state) tms_recv x" for x
      by (cases x) (simp_all add: recv_packet_validate_order_def Let_def ack cong: if_cong)
    then show ?thesis using tms_recv_accepted by (simp add: recv_packet_validate_Ok_iff)
  qed
  show ?thesis
    using received_packets_agree [OF bind tm tms_recv_accepted other] bind tms_recv_accepted
    by (simp add: tms_recv_def)
qed

text \<open>C11: a proof of absence and a proof of presence exclude each other.  When a Tendermint
  client accepts that a path is absent under a root, it accepts no value for the path under
  this root.\<close>

theorem absence_excludes_presence:
  assumes "binding_trees ics" "tm_verify_non_membership ics specs prefix absent root p = Ok u"
  shows "tm_verify_membership ics specs prefix present root p v \<noteq> Ok ()"
proof
  assume "tm_verify_membership ics specs prefix present root p v = Ok ()"
  then show False
    using assms(2) merkle_absence_excludes_presence [OF assms(1)]
    by (auto simp: tm_verify_membership_def tm_verify_non_membership_def Let_def and_then_Ok_iff map_err_Ok_iff)
qed

theorem absence_excludes_presence_witness:
  "tm_verify_non_membership tms_ics (ProofSpecs [tms_spec, tms_spec]) (CommitmentPrefix (string_bytes ''ibc''))
       (CommitmentProofBytes [1]) (CommitmentRoot [1]) Path_NextClientSequence = Ok ()
     \<and> tm_verify_membership tms_ics (ProofSpecs [tms_spec, tms_spec]) (CommitmentPrefix (string_bytes ''ibc''))
       (CommitmentProofBytes [7]) (CommitmentRoot [1]) Path_NextClientSequence [1] \<noteq> Ok ()"
proof -
  have "commitment_prefix_debug (CommitmentPrefix (string_bytes ''ibc'')) = ''ibc''" by code_simp
  then have "tm_verify_non_membership tms_ics (ProofSpecs [tms_spec, tms_spec]) (CommitmentPrefix (string_bytes ''ibc''))
       (CommitmentProofBytes [1]) (CommitmentRoot [1]) Path_NextClientSequence = Ok ()"
    by (simp add: tm_verify_non_membership_def apply_prefix_def merkle_proof_try_from_def protobuf_decode_def
        merkle_verify_non_membership_def merkle_verify_membership_def tms_ics_def Let_def commitment_root_bytes_def
        proof_specs_to_raw_def commitment_proof_bytes_of_def tms_absent_def string_bytes_def list_get_def
        calculate_non_existence_root_def)
  then show ?thesis using absence_excludes_presence [OF tms_binding] by blast
qed


section \<open>Client states\<close>

text \<open>C13: a Tendermint client state survives the wire.  Writing a client state that was read
  from protobuf and reading it again gives the same client state.  The protobuf forms of
  durations and instants, of another crate, are assumed to be read back.\<close>

theorem client_state_wire_round_trip:
  assumes "faithful_times tm" "tm_client_state_try_from_raw tm ics rfc raw = Ok cs"
  shows "tm_client_state_try_from_raw tm ics rfc (tm_client_state_to_raw tm cs) = Ok cs"
  by (rule tm_client_state_raw_stable [OF assms])

theorem client_state_wire_round_trip_witness:
  "faithful_times tms_ops \<and> tm_client_state_try_from_raw tms_ops tms_ics (\<lambda>_. [])
     (tm_client_state_to_raw tms_ops (tms_state\<lparr>tcs_latest_height := Height 0 9\<rparr>))
     = Ok (tms_state\<lparr>tcs_latest_height := Height 0 9\<rparr>)"
proof -
  have times: "faithful_times tms_ops" by (auto simp: faithful_times_def tms_ops_def)
  have "tm_client_state_try_from_raw tms_ops tms_ics (\<lambda>_. []) (tms_raw_client 9)
      = Ok (tms_state\<lparr>tcs_latest_height := Height 0 9\<rparr>)"
    using tms_client_from_any [of "\<lambda>_. []"]
    by (simp add: tm_client_state_try_from_any_def protobuf_decode_def map_err_Ok_iff tms_ops_def
        sample_height_def split: result.splits)
  from client_state_wire_round_trip [OF times this] times show ?thesis by blast
qed

text \<open>C12: an upgrade leaves what the client chose.  The client state stored by an upgrade
  takes chain identifier, unbonding period, latest height, proof specifications and upgrade
  path from the upgraded state, and keeps trust level, trusting period, clock drift and
  update flags; it is valid and not frozen, whatever the upgraded state says of them.\<close>

theorem upgrade_keeps_client_parameters:
  assumes "tm_client_state_try_from_any (he_tm e) (he_ics e) (ext_time_to_rfc3339 (he_ext e)) ucs = Ok up"
    and "any_update_state_on_upgrade e (AnyTendermint k) cid ucs ucons s = (Ok h, s')"
  shows "client_state_store s' (ClientStatePath cid) = Some (AnyTendermint
      (up\<lparr>tcs_trust_level := tcs_trust_level k, tcs_trusting_period := tcs_trusting_period k,
        tcs_max_clock_drift := tcs_max_clock_drift k, tcs_allow_update := tcs_allow_update k,
        tcs_frozen_height := None\<rparr>))
    \<and> h = tcs_latest_height up
    \<and> tm_client_state_validate (he_tm e) (up\<lparr>tcs_trust_level := tcs_trust_level k,
        tcs_trusting_period := tcs_trusting_period k, tcs_max_clock_drift := tcs_max_clock_drift k,
        tcs_allow_update := tcs_allow_update k, tcs_frozen_height := None\<rparr>) = Ok ()"
proof -
  let ?new = "up\<lparr>tcs_trust_level := tcs_trust_level k, tcs_trusting_period := tcs_trusting_period k,
    tcs_max_clock_drift := tcs_max_clock_drift k, tcs_allow_update := tcs_allow_update k, tcs_frozen_height := None\<rparr>"
  obtain new c host s1 s2 s3 u1 u2 u3 where new: "tm_client_state_new (he_tm e) (tcs_chain_id up)
        (tcs_trust_level k) (tcs_trusting_period k) (tcs_unbonding_period up) (tcs_max_clock_drift k)
        (tcs_latest_height up) (tcs_proof_specs up) (tcs_upgrade_path up) (tcs_allow_update k) = Ok new"
      and w: "tm_host_time_height (he_tb e) s = (Ok host, s1)" "put_client_state (he_tb e) cid new s1 = (Ok u1, s2)"
      "put_consensus_state (he_tb e) cid (tcs_latest_height new) c s2 = (Ok u2, s3)"
      "put_update_meta (he_tb e) cid (tcs_latest_height new) host s3 = (Ok u3, s')" "h = tcs_latest_height new"
    using assms by (auto simp: any_update_state_on_upgrade_def any_dispatch_def tm_update_on_upgrade_def Let_def
        tm_any_bounds_def zero_custom_fields_def exec_bind_Ok_iff exec_lift_Ok_iff exec_return_Ok_iff map_err_Ok_iff)
  have "new = ?new" "tm_client_state_validate (he_tm e) new = Ok ()"
    using new by (auto simp: tm_client_state_new_Ok_iff)
  moreover have "client_state_store s' (ClientStatePath cid) = Some (AnyTendermint new)"
    using put_client_state_OkD [OF w(2)] put_consensus_state_OkD [OF w(3)] put_update_meta_OkD [OF w(4)] by simp
  ultimately show ?thesis using w(5) by simp
qed

theorem upgrade_keeps_client_parameters_witness:
  "\<exists>s. any_update_state_on_upgrade tms_env (AnyTendermint tms_state) tms_client
       \<lparr>any_type_url = tendermint_client_state_type_url, any_value = [9]\<rparr>
       \<lparr>any_type_url = tendermint_consensus_state_type_url, any_value = [9]\<rparr> tms_store = (Ok (Height 0 9), s)
     \<and> client_state_store s (ClientStatePath tms_client)
       = Some (AnyTendermint (tms_state\<lparr>tcs_latest_height := Height 0 9\<rparr>))"
proof -
  let ?ucs = "\<lparr>any_type_url = tendermint_client_state_type_url, any_value = [9]\<rparr>"
  let ?ucons = "\<lparr>any_type_url = tendermint_consensus_state_type_url, any_value = [9]\<rparr>"
  have env: "he_tm tms_env = tms_ops" "he_ics tms_env = tms_ics" by (simp_all add: tms_env_def)
  have up: "tm_client_state_try_from_any (he_tm tms_env) (he_ics tms_env) (ext_time_to_rfc3339 (he_ext tms_env)) ?ucs
      = Ok (tms_state\<lparr>tcs_latest_height := Height 0 9\<rparr>)"
    by (simp add: env tms_client_from_any)
  obtain s where s: "any_update_state_on_upgrade tms_env (AnyTendermint tms_state) tms_client ?ucs ?ucons tms_store
      = (Ok (Height 0 9), s)"
    by (rule tms_upgrade)
  show ?thesis using upgrade_keeps_client_parameters [OF up s] s
    by (auto simp: tms_state_def)
qed

text \<open>C14: the verification of an upgrade panics on an upgrade path of one key.  The last key
  of the path is dropped before the first is read, so a path of one key, which \<open>validate\<close>
  accepts, makes \<open>verify_upgrade_client\<close> read from an empty list.\<close>

theorem upgrade_path_of_one_key_panics:
  assumes "tm_client_state_try_from_any tm ics rfc ucs = Ok up" "tm_consensus_state_try_from_any tm ucons = Ok c"
    and "tcs_latest_height k < tcs_latest_height up" "tcs_upgrade_path k = [key]"
  shows "tm_verify_upgrade_client tm ics rfc encode_any k ucs ucons proof_client proof_cons root = Panic"
  using assms by (simp add: tm_verify_upgrade_client_def index_res_def Let_def)

theorem upgrade_path_of_one_key_panics_witness:
  "tm_client_state_validate tms_ops (tms_state\<lparr>tcs_upgrade_path := [''upgrade'']\<rparr>) = Ok ()
     \<and> tm_verify_upgrade_client tms_ops tms_ics (\<lambda>_. []) any_value (tms_state\<lparr>tcs_upgrade_path := [''upgrade'']\<rparr>)
       \<lparr>any_type_url = tendermint_client_state_type_url, any_value = [9]\<rparr>
       \<lparr>any_type_url = tendermint_consensus_state_type_url, any_value = [9]\<rparr>
       sample_proof sample_proof (CommitmentRoot [1]) = Panic"
proof -
  have "str_trim ''upgrade'' \<noteq> []" by code_simp
  then have "tm_client_state_validate tms_ops (tms_state\<lparr>tcs_upgrade_path := [''upgrade'']\<rparr>) = Ok ()"
    by (simp add: tm_client_state_validate_Ok_iff tms_state_def tms_ops_def tms_chain_length trust_threshold_one_third_def
        trust_threshold_zero_def is_ok_def proof_specs_validate_def proof_specs_is_empty_def validate_depths_Ok_iff
        valid_depth_range_def tms_spec_def)
  moreover have "tcs_latest_height (tms_state\<lparr>tcs_upgrade_path := [''upgrade'']\<rparr>)
      < tcs_latest_height (tms_state\<lparr>tcs_latest_height := Height 0 9\<rparr>)"
    by (simp add: tms_state_def less_height_def height_cmp_def)
  ultimately show ?thesis
    using upgrade_path_of_one_key_panics [OF tms_client_from_any tms_cons_from_any] by simp
qed

end
