(* ===== verification/Spec2Isabelle.thy ===== *)
theory Spec2Isabelle
  imports Test_App Transfer_Sample Messages Events Client_Safety
begin

text \<open>
  A verification of ibc-rs, the Rust implementation of the Inter-Blockchain Communication
  protocol: the core handlers (clients, connections, channels and packets), the Tendermint and
  the mock light client, the token transfer application, and the host of the test kit that runs
  them.  Paths below are relative to \<open>src/\<close>.

  \<^bold>\<open>The program.\<close>  A relayer submits a message to a chain.  The message is decoded from its protobuf
  form by its type URL (\<open>MsgEnvelope::try_from\<close>), then \<open>dispatch\<close> (\<open>ibc-core/ics25-handler\<close>) runs its
  validation and its execution.  Both read and write the store of the host, call the light client
  of the counterparty to verify proofs, and call back the application bound to the port.
  Execution emits events, from which relayers learn what to submit to the other chain.

  \<^bold>\<open>The model.\<close>  Fallible code returns \<open>('a, 'e) result\<close>, that is \<open>Ok\<close>, \<open>Err\<close> or \<open>Panic\<close>: an index out
  of range, a failed \<open>expect\<close> and an overflow that aborts are values.  Code with effects is a
  function of the store that returns a result and the store (\<open>exec\<close>).  Machine integers are words of
  their width.  Texts are lists of characters, one for each byte.  Code of other
  crates is a parameter: the records \<open>externals\<close>, \<open>client_ops\<close>, \<open>tendermint_ops\<close>, \<open>ics23_ops\<close>,
  \<open>transfer_ext\<close>, \<open>msg_codec\<close>, \<open>abci_ops\<close> and \<open>host_env\<close> hold its functions, and the hypotheses on
  them are named predicates, each shown to hold of a concrete instance.

  \<^bold>\<open>The theories.\<close>
  \<^item> \<open>Prelude\<close>: results, effects, words, digits and strings, with the collections of lemmas that the
    proofs share.  \<open>Transitions\<close>: transition systems, invariants and simulations as locales.
  \<^item> \<open>Primitives\<close>, \<open>Identifiers\<close>, \<open>Paths\<close>: timestamps and signers (\<open>ibc-primitives\<close>), the identifiers,
    their validation and the paths of the store (\<open>ibc-core/ics24-host/types\<close>).
  \<^item> \<open>Heights\<close>, \<open>Connection_Types\<close>, \<open>Channel_Types\<close>, \<open>Handler_Types\<close>, \<open>Error_Texts\<close>: the data of
    ICS-02, ICS-03, ICS-04, ICS-25 and ICS-26, with the texts of their errors.
  \<^item> \<open>Messages\<close>: the protobuf forms of all messages and the decoding of envelopes.  The locale
    \<open>wire_form\<close> says what a conversion promises and is interpreted for every message.
    \<open>Events\<close>: the attributes of every event and the conversion to ABCI.
  \<^item> \<open>Host_Store\<close>: the store and the contexts of the test host
    (\<open>ibc-testkit/src/testapp/ibc/core\<close>); its maps are instances of \<open>typed_store\<close>.
  \<^item> \<open>Client_Handlers\<close>, \<open>Connection_Handlers\<close>, \<open>Channel_Handlers\<close>, \<open>Packet_Handlers\<close>, \<open>Entrypoint\<close>:
    validation and execution of every message, one definition per function of
    \<open>ibc-core/ics02-client/src\<close>, \<open>ics03-connection/src\<close>, \<open>ics04-channel/src\<close> and
    \<open>ics25-handler/src/entrypoint.rs\<close>.
  \<^item> \<open>Core_Spec\<close>, \<open>Core_Invariants\<close>, \<open>Light_Client\<close>, \<open>Refinement\<close>, \<open>Protocol\<close>: an abstract machine of
    connections, channels and packets, its invariants, what the handlers rely on of a light client
    (the locale \<open>light_client\<close>), and the proof that the handlers follow the machine.
  \<^item> \<open>Mock_Client\<close>, \<open>Test_App\<close>: the mock client and the application of the test kit, with a run of
    messages that the examples use.
  \<^item> \<open>Commitments\<close>, \<open>Tendermint_Types\<close>, \<open>Tendermint_Client\<close>, \<open>Tendermint_Times\<close>: the proofs of ICS-23
    and the Tendermint client of ICS-07.  \<open>Any_Client\<close>, \<open>Client_Updates\<close>: the clients of the test
    host and the messages of ICS-02 on them.  \<open>Tendermint_Sample\<close> has the examples,
    \<open>Client_Safety\<close> the theorems.
  \<^item> \<open>Transfer_Types\<close>, \<open>Transfer_Handlers\<close>, \<open>Transfer_Ledger\<close>, \<open>Transfer_Sample\<close>: the token transfer of
    ICS-20 over a bank of the host, an abstract ledger and two chains that exchange tokens.

  \<^bold>\<open>What is shown.\<close>
  \<^item> Packets (this theory): a packet is delivered at most once, in order on an ordered channel; a
    settled packet stays settled; an accepted packet was proved by an active client and is not
    expired; every accepted message is a step of the abstract machine; ends of connections and
    channels are well formed and only move forward; identifiers are fresh.
  \<^item> Clients (\<open>Client_Safety\<close>): on a host whose searches for neighbouring consensus states follow the
    documentation of \<open>ExtClientValidationContext\<close>, the history of a Tendermint client is ordered in
    time; on an ordered history pruning removes exactly the expired states; misbehaviour freezes a client and a frozen client is unusable, and
    proofs cannot contradict each other as long as one tree of ICS-23 is binding.  The test host
    meets the documentation (\<open>host_finds_neighbours\<close>) as long as its store lists the keys of a client's
    consensus states by height.  A listing by text does so only for heights of as many digits:
    it has the key of 0-10 before that of 0-9.  The heights themselves it returns on every
    listing (\<open>host_lists_heights\<close>), and pruning sorts them.
  \<^item> The wire (\<open>Messages\<close>, \<open>Events\<close>): decoding never panics and follows the type URL, messages survive
    the wire with one exception, and the events of packets identify them.
  \<^item> Tokens (this theory): vouchers are backed by escrowed tokens, a failed or timed out transfer is
    refunded, a received transfer is always acknowledged, and denominations survive printing.

  \<^bold>\<open>Bounds.\<close>  No definition has fuel: every loop of the modelled code is a recursion on a list or on
  a number that decreases.  The counters of identifiers and sequences are 64-bit words, so the
  invariants hold for runs of fewer than \<open>2 ^ 64 - 1\<close> messages (\<open>u64_range - 1\<close>, the bound of
  \<open>counted_invariant\<close>); a longer run would wrap a sequence number.

  \<^bold>\<open>Not modelled.\<close>
  \<^item> Signature and header verification, hashing, the trees of ICS-23, protobuf and JSON codecs, the
    store crate and its listing of keys, and the attribute type of ABCI: other crates, parameters.
  \<^item> What the store loses or rejects when it writes a value as bytes: the maps of the store keep the
    values.  The delay period of a connection, a duration that its protobuf form cuts to 64 bits
    of nanoseconds, is kept whole.
  \<^item> Unicode: the tests of characters and \<open>str::trim\<close> are those of ASCII, and \<open>Coin::from_str\<close>
    (\<open>ibc-apps/ics20-transfer/types/src/coin.rs\<close>), whose split depends on the numeric characters of
    Unicode and can panic, is left out.
  \<^item> The serialisers that derive macros generate (serde, borsh, SCALE, JSON schemas).
  \<^item> ICS-721 (\<open>ibc-apps/ics721-nft-transfer\<close>), the types of ICS-08 and the CosmWasm adapter
    (\<open>ibc-clients\<close>), the upgrade proposals of a Cosmos host (\<open>ibc-core/ics24-host/cosmos\<close>) and the query
    services (\<open>ibc-query\<close>): these parts are separate from the handlers and are left out so far.
  \<^item> The relayer, the fixtures and the chain generators of the test kit, which build the inputs of
    tests, and the crates that only re-export others.
  \<^item> Concurrency: a chain handles one message at a time, and so does the model.
\<close>

section \<open>The life of an application\<close>

text \<open>C1: no packet is delivered twice.  Whatever messages an application handles, the
  packets for which it emitted a receive event are on pairwise different acknowledgement
  paths, and each of them has its acknowledgement stored.\<close>

theorem packets_received_once:
  assumes "light_client env" "reaches env mops es (s, r)"
  shows "distinct (map ack_path_on_b (received_packets (events s)))
    \<and> (\<forall>p\<in>set (received_packets (events s)). packet_ack_store s (ack_path_on_b p) \<noteq> None)"
  using reachable_inv [OF assms] by (simp add: core_inv_def delivered_once_def)

theorem packets_received_once_witness:
  "\<exists>es s r. light_client sample_env \<and> reaches sample_env dummy_transfer_ops es (s, r)
     \<and> received_packets (events s) = [sample_packet 2, sample_packet 1]
     \<and> distinct (map ack_path_on_b (received_packets (events s)))"
proof -
  obtain es s r c where *: "reaches sample_env dummy_transfer_ops es (s, r)"
      "received_packets (events s) = [sample_packet 2, sample_packet 1]" by (rule sample_unordered_facts)
  then show ?thesis using packets_received_once [OF sample_light_client *(1)] sample_light_client
    by metis
qed

text \<open>C2: an ordered channel delivers its packets in order.  The packets received on it
  carry the sequence numbers 1, 2, 3 and so on, without a gap, and the next sequence
  number to receive is the one after the last.\<close>

theorem ordered_delivery:
  assumes "light_client env" "reaches env mops es (s, r)"
    and "channel_end_store s (ChannelEndPath port ident) = Some c" "ch_ordering c = Ordered"
    and "ps = filter (\<lambda>p. chan_end_path_on_b p = ChannelEndPath port ident) (received_packets (events s))"
  shows "map seq_on_a ps = map of_nat [1..<Suc (length ps)]
    \<and> recv_sequence_store s (SeqRecvPath port ident) = Some (of_nat (Suc (length ps)))"
  using reachable_inv [OF assms(1,2)] assms(3-5)
  by (simp add: core_inv_def in_order_def delivered_on_def Let_def)

theorem ordered_delivery_witness:
  "\<exists>es s r ps. reaches sample_env dummy_transfer_ops es (s, r)
     \<and> received_packets (events s) = [sample_packet 1]
     \<and> ps = filter (\<lambda>p. chan_end_path_on_b p = ChannelEndPath port_id_transfer (channel_id_new 0))
         (received_packets (events s))
     \<and> map seq_on_a ps = map of_nat [1..<Suc (length ps)]"
proof -
  obtain es s r c where *: "reaches sample_env dummy_transfer_ops es (s, r)"
      "received_packets (events s) = [sample_packet 1]"
      "channel_end_store s (ChannelEndPath port_id_transfer (channel_id_new 0)) = Some c"
      "ch_ordering c = Ordered" by (rule sample_ordered_facts)
  show ?thesis using ordered_delivery [OF sample_light_client *(1,3,4) refl] *(1,2) by metis
qed

text \<open>C15: connections and channels only move forward.  Between two moments of the life of
  an application, a stored connection end keeps its client, delay and counterparty client
  and its state goes only from \<open>Init\<close> or \<open>TryOpen\<close> to \<open>Open\<close>; a stored channel end keeps its
  ordering, hops and counterparty port, its state goes only forward to \<open>Open\<close> and \<open>Closed\<close>,
  a closed channel stays closed, and versions and counterparties never change after the
  opening.\<close>

theorem ends_move_forward:
  assumes "light_client env" "reaches env mops es (s, r)" "run (app_step env mops) (s, r) fs (s', r')"
    and "length es + length fs < u64_range - 1"
  shows "(\<forall>p c. connection_end_store s p = Some c
      \<longrightarrow> (\<exists>d. connection_end_store s' p = Some d \<and> conn_le c d))
    \<and> (\<forall>p c. channel_end_store s p = Some c
      \<longrightarrow> (\<exists>d. channel_end_store s' p = Some d \<and> chan_le c d))"
  using reachable_progress [OF assms] by (simp add: progress_def)

theorem ends_move_forward_witness:
  "\<exists>es s r s' c d. reaches sample_env dummy_transfer_ops es (s, r)
     \<and> run (app_step sample_env dummy_transfer_ops) (s, r) [Commit 11] (s', r)
     \<and> channel_end_store s (ChannelEndPath port_id_transfer (channel_id_new 0)) = Some c
     \<and> channel_end_store s' (ChannelEndPath port_id_transfer (channel_id_new 0)) = Some d
     \<and> ch_state c = Open \<and> chan_le c d"
proof -
  obtain es s r c where *: "reaches sample_env dummy_transfer_ops es (s, r)" "length es < 200"
      "channel_end_store s (ChannelEndPath port_id_transfer (channel_id_new 0)) = Some c"
      "ch_state c = Open" by (rule sample_ordered_facts)
  let ?s' = "s\<lparr>st_current_height := 11, st_refuses := (\<lambda>_. False)\<rparr>"
  have run: "run (app_step sample_env dummy_transfer_ops) (s, r) [Commit 11] (?s', r)"
    by (rule run_single) (rule committed)
  have "length es + length [Commit 11 :: mock_consensus_state app_event] < u64_range - 1"
    using *(2) by (simp add: u64_range_def)
  then show ?thesis using ends_move_forward [OF sample_light_client *(1) run] *(1,3,4) run by blast
qed

text \<open>C17: the stored ends are well formed.  A stored connection has a version and knows its
  counterparty's connection unless it is in \<open>Init\<close>; a stored channel has an ordering, a
  connection and its three sequence numbers, and knows its counterparty's channel unless
  it is in \<open>Init\<close>; no end is \<open>Uninitialized\<close>.\<close>

theorem stored_ends_well_formed:
  assumes "light_client env" "reaches env mops es (s, r)"
  shows "(\<forall>p c. connection_end_store s p = Some c \<longrightarrow> conn_wf c)
    \<and> (\<forall>port ident c. channel_end_store s (ChannelEndPath port ident) = Some c \<longrightarrow> chan_wf c
        \<and> send_sequence_store s (SeqSendPath port ident) \<noteq> None
        \<and> recv_sequence_store s (SeqRecvPath port ident) \<noteq> None
        \<and> ack_sequence_store s (SeqAckPath port ident) \<noteq> None)"
  using reachable_inv [OF assms] by (simp add: core_inv_def core_wf_def)

theorem stored_ends_well_formed_witness:
  "\<exists>es s r c. reaches sample_env dummy_transfer_ops es (s, r)
     \<and> channel_end_store s (ChannelEndPath port_id_transfer (channel_id_new 0)) = Some c \<and> chan_wf c"
proof -
  obtain es s r c where *: "reaches sample_env dummy_transfer_ops es (s, r)"
      "channel_end_store s (ChannelEndPath port_id_transfer (channel_id_new 0)) = Some c"
    by (rule sample_ordered_facts)
  then show ?thesis using stored_ends_well_formed [OF sample_light_client *(1)] by blast
qed

text \<open>C18: a channel rests on its connection.  The first hop of a stored channel is a stored
  connection, and an open channel is on an open connection.\<close>

theorem channel_on_connection:
  assumes "light_client env" "reaches env mops es (s, r)" "channel_end_store s p = Some c"
  shows "\<exists>h hs conn. ch_connection_hops c = h # hs
    \<and> connection_end_store s (ConnectionPath h) = Some conn
    \<and> (ch_state c = Open \<longrightarrow> ce_state conn = ConnOpen)"
proof -
  have inv: "core_wf (core_abs s)" "anchored (core_abs s)"
    using reachable_inv [OF assms(1,2)] by (simp_all add: core_inv_def)
  have "ch_connection_hops c \<noteq> []"
    using inv(1) assms(3) by (cases p) (auto simp: core_wf_def chan_wf_def)
  then obtain h hs where "ch_connection_hops c = h # hs" by (cases "ch_connection_hops c") auto
  then show ?thesis using inv(2) assms(3) by (fastforce simp: anchored_def conn_open_def)
qed

theorem channel_on_connection_witness:
  "\<exists>es s r conn. reaches sample_env dummy_transfer_ops es (s, r)
     \<and> connection_end_store s (ConnectionPath (connection_id_new 0)) = Some conn
     \<and> ce_state conn = ConnOpen"
proof -
  obtain es s r c where *: "reaches sample_env dummy_transfer_ops es (s, r)"
      "channel_end_store s (ChannelEndPath port_id_transfer (channel_id_new 0)) = Some c"
      "ch_state c = Open" "ch_connection_hops c = [connection_id_new 0]"
    by (rule sample_ordered_facts)
  then show ?thesis using channel_on_connection [OF sample_light_client *(1,2)] by auto
qed
text \<open>C3: a packet is settled once.  When a sequence number was used on a channel and its
  commitment is gone, because the packet was acknowledged or timed out, the commitment
  never comes back: the packet can never be acknowledged or timed out again.\<close>

theorem settled_packet_stays_settled:
  assumes "light_client env" "reaches env mops es (s, r)" "run (app_step env mops) (s, r) fs (s', r')"
    and "length es + length fs < u64_range - 1"
    and "channel_end_store s (ChannelEndPath port ident) \<noteq> None"
    and "send_sequence_store s (SeqSendPath port ident) = Some k" "unat n < unat k"
    and "packet_commitment_store s (CommitmentPath port ident n) = None"
  shows "packet_commitment_store s' (CommitmentPath port ident n) = None"
  using reachable_settles [OF assms(1-4)] assms(5-8)
  by (auto simp: settles_def settled_on_def)

theorem settled_packet_stays_settled_witness:
  "\<exists>es s r s'. reaches sample_env dummy_transfer_ops es (s, r)
     \<and> run (app_step sample_env dummy_transfer_ops) (s, r) [Commit 11] (s', r)
     \<and> send_sequence_store s (SeqSendPath port_id_transfer (channel_id_new 0)) = Some 3
     \<and> packet_commitment_store s' (CommitmentPath port_id_transfer (channel_id_new 0) 1) = None"
proof -
  obtain es s r c where *: "reaches sample_env dummy_transfer_ops es (s, r)" "length es < 200"
      "channel_end_store s (ChannelEndPath port_id_transfer (channel_id_new 0)) = Some c"
      "send_sequence_store s (SeqSendPath port_id_transfer (channel_id_new 0)) = Some 3"
      "packet_commitment_store s (CommitmentPath port_id_transfer (channel_id_new 0) 1) = None"
    by (rule sample_sender_facts)
  have run: "run (app_step sample_env dummy_transfer_ops) (s, r) [Commit 11]
      (s\<lparr>st_current_height := 11\<rparr>, r)" by (rule run_single) (rule commit_step)
  have "length es + length [Commit 11 :: mock_consensus_state app_event] < u64_range - 1"
    using *(2) by (simp add: u64_range_def)
  then have "packet_commitment_store (s\<lparr>st_current_height := 11\<rparr>)
      (CommitmentPath port_id_transfer (channel_id_new 0) 1) = None"
    using settled_packet_stays_settled [OF sample_light_client *(1) run, of port_id_transfer
        "channel_id_new 0" 3 1] *(3-5) by simp
  then show ?thesis using *(1,4) run by metis
qed

text \<open>C20: commitments are outstanding only for sequence numbers that were used: those from 1
  up to the next sequence number to send.\<close>

theorem commitments_in_window:
  assumes "light_client env" "reaches env mops es (s, r)"
    and "channel_end_store s (ChannelEndPath port ident) \<noteq> None"
    and "packet_commitment_store s (CommitmentPath port ident n) \<noteq> None"
  shows "\<exists>k. send_sequence_store s (SeqSendPath port ident) = Some k \<and> 1 \<le> n \<and> n < k"
  using reachable_inv [OF assms(1,2)] assms(3,4)
  by (fastforce simp: core_inv_def send_window_def word_less_nat_alt word_le_nat_alt)

theorem commitments_in_window_witness:
  "\<exists>es s r k. reaches sample_env dummy_transfer_ops es (s, r)
     \<and> packet_commitment_store s (CommitmentPath port_id_transfer (channel_id_new 0) 2) \<noteq> None
     \<and> send_sequence_store s (SeqSendPath port_id_transfer (channel_id_new 0)) = Some k
     \<and> (2 :: u64) < k"
proof -
  obtain es s r c where *: "reaches sample_env dummy_transfer_ops es (s, r)"
      "channel_end_store s (ChannelEndPath port_id_transfer (channel_id_new 0)) = Some c"
      "packet_commitment_store s (CommitmentPath port_id_transfer (channel_id_new 0) 2) \<noteq> None"
    by (rule sample_sender_facts)
  then show ?thesis using commitments_in_window [OF sample_light_client *(1) _ *(3)] by fastforce
qed

text \<open>The end that a handshake message opens: its port and its fields but the version, which
  the module has a say in.\<close>

fun opened_end ::
  "channel_msg \<Rightarrow> (port_id \<times> (chan_version \<Rightarrow> channel_end)) option" where
  "opened_end (ChanOpenInit m) = Some (hoi_port_id_on_a m,
     \<lambda>v. \<lparr>ch_state = Init, ch_ordering = hoi_ordering m,
       ch_remote = \<lparr>hcp_port_id = hoi_port_id_on_b m, hcp_channel_id = None\<rparr>,
       ch_connection_hops = hoi_connection_hops_on_a m, ch_version = v\<rparr>)"
| "opened_end (ChanOpenTry m) = Some (hot_port_id_on_b m,
     \<lambda>v. \<lparr>ch_state = TryOpen, ch_ordering = hot_ordering m,
       ch_remote = \<lparr>hcp_port_id = hot_port_id_on_a m, hcp_channel_id = Some (hot_chan_id_on_a m)\<rparr>,
       ch_connection_hops = hot_connection_hops_on_b m, ch_version = v\<rparr>)"
| "opened_end _ = None"

lemma dispatch_opens_channel:
  assumes "dispatch env mops (ChannelEnvelope msg) (s, r) = (Ok (), (s', r'))" "opened_end msg = Some (port, c)"
  obtains n v evs ls extras where "channel_counter_store s = Some n"
    "s' = with_output evs ls extras (with_new_channel port n (c v) s)"
proof (cases msg)
  case (ChanOpenInit m)
  then obtain u u' where "chan_open_init_execute mops m (s, u) = (Ok (), (s', u'))"
    using assms(1) by (auto simp: dispatch_def execute_def channel_msg_execute_def result_simps)
  from chan_open_init_execute_OkD [OF this] show thesis using that assms(2) ChanOpenInit by auto
next
  case (ChanOpenTry m)
  then obtain u u' where "chan_open_try_execute mops m (s, u) = (Ok (), (s', u'))"
    using assms(1) by (auto simp: dispatch_def execute_def channel_msg_execute_def result_simps)
  from chan_open_try_execute_OkD [OF this] show thesis using that assms(2) ChanOpenTry by auto
qed (use assms(2) in simp_all)

text \<open>C19: a new channel is fresh.  A channel opened by \<open>MsgChannelOpenInit\<close> or
  \<open>MsgChannelOpenTry\<close> gets an identifier no channel of any port has, its end has the order,
  counterparty and connections of the message, and its sequence numbers for sending,
  receiving and acknowledging all start at 1.\<close>

theorem new_channel_is_fresh:
  assumes "light_client env" "reaches env mops es (s, r)"
    and "dispatch env mops (ChannelEnvelope msg) (s, r) = (Ok (), (s', r'))" "opened_end msg = Some (port, c)"
  shows "\<exists>n v. channel_counter_store s = Some n \<and> channel_counter_store s' = Some (n + 1)
    \<and> (\<forall>q. channel_end_store s (ChannelEndPath q (channel_id_new n)) = None)
    \<and> channel_end_store s' (ChannelEndPath port (channel_id_new n)) = Some (c v)
    \<and> send_sequence_store s' (SeqSendPath port (channel_id_new n)) = Some 1
    \<and> recv_sequence_store s' (SeqRecvPath port (channel_id_new n)) = Some 1
    \<and> ack_sequence_store s' (SeqAckPath port (channel_id_new n)) = Some 1"
proof -
  obtain n v evs ls extras where n: "channel_counter_store s = Some n"
      "s' = with_output evs ls extras (with_new_channel port n (c v) s)"
    by (rule dispatch_opens_channel [OF assms(3,4)])
  have "fresh (length es) (core_abs s)"
    using reachable_inv [OF assms(1,2)] by (simp add: core_inv_def)
  then have "\<forall>q. channel_end_store s (ChannelEndPath q (channel_id_new n)) = None"
    using fresh_channel n(1) by fastforce
  then show ?thesis using n by (auto simp: with_output_def with_new_channel_def)
qed

theorem new_channel_is_fresh_witness:
  "\<exists>es s r s' r' n. reaches sample_env dummy_transfer_ops es (s, r)
     \<and> dispatch sample_env dummy_transfer_ops (ChannelEnvelope (ChanOpenInit sample_chan_init)) (s, r)
         = (Ok (), (s', r'))
     \<and> channel_counter_store s = Some n
     \<and> (\<forall>port. channel_end_store s (ChannelEndPath port (channel_id_new n)) = None)
     \<and> ack_sequence_store s' (SeqAckPath (hoi_port_id_on_a sample_chan_init) (channel_id_new n)) = Some 1"
proof -
  obtain es s r s' r' where *: "reaches sample_env dummy_transfer_ops es (s, r)"
      "dispatch sample_env dummy_transfer_ops (ChannelEnvelope (ChanOpenInit sample_chan_init)) (s, r)
         = (Ok (), (s', r'))" by (rule sample_init_facts)
  then show ?thesis using new_channel_is_fresh [OF sample_light_client * opened_end.simps(1)] by metis
qed

text \<open>C5: the handlers implement the abstract protocol.  A message that \<open>dispatch\<close> accepts is
  a step of the abstract machine between the abstractions of the two stores, with the
  action of that message.\<close>

theorem dispatch_follows_core_spec:
  assumes "light_client env" "dispatch env mops msg (s, r) = (Ok (), (s', r'))"
  shows "core_step (commits_to env) (action_of msg) (core_abs s) (core_abs s')"
  using assms by (rule dispatch_core_step)

theorem dispatch_follows_core_spec_witness:
  "\<exists>s r s' r'. dispatch sample_env dummy_transfer_ops (sample_recv 1) (s, r) = (Ok (), (s', r'))
     \<and> received_packets (events s') = [sample_packet 1]
     \<and> core_step (commits_to sample_env) (action_of (sample_recv 1)) (core_abs s) (core_abs s')"
proof -
  obtain es s r s' r' where *:
      "dispatch sample_env dummy_transfer_ops (sample_recv 1) (s, r) = (Ok (), (s', r'))"
      "received_packets (events s') = [sample_packet 1]" by (rule sample_recv_facts)
  then show ?thesis using dispatch_follows_core_spec [OF sample_light_client *(1)] by metis
qed


section \<open>Packets\<close>

text \<open>C4: a received packet is authentic and in time.  When \<open>dispatch\<close> accepts a packet, its
  channel and connection are open and match the packet, the packet has not timed out at the
  height and time of the host, the client of the connection is active and knows the height
  of the proof for long enough, and the client has verified, under the counterparty's
  prefix and at the root of that height, that the counterparty stores the commitment to
  exactly this packet at the packet's path.\<close>

theorem received_packet_is_authentic:
  assumes "dispatch env mops (PacketEnvelope (PacketRecv msg)) (s, r) = (Ok (), (s', r'))"
    and "p = rcv_packet msg"
  shows "\<exists>c conn now_h now cs cons k.
     channel_end_store s (chan_end_path_on_b p) = Some c \<and> ch_state c = Open
     \<and> ch_remote c = packet_counterparty_on_a p
     \<and> connection_end_store s (ConnectionPath (hd (ch_connection_hops c))) = Some conn
     \<and> ce_state conn = ConnOpen
     \<and> host_height s = Ok now_h \<and> \<not> has_expired (timeout_height_on_b p) now_h
     \<and> host_timestamp env s = Ok now \<and> check_expiry now (timeout_timestamp_on_b p) \<noteq> Expired
     \<and> verified_at env s conn (rcv_proof_height_on_a msg) cs cons
     \<and> verify_conn_delay_passed env s (rcv_proof_height_on_a msg) conn = Ok ()
     \<and> commits_to env p k
     \<and> cs_verify_membership env cs (ccp_prefix (ce_counterparty conn)) (rcv_proof_commitment_on_a msg)
         (cons_root env cons) (Path_Commitment (commitment_path_on_a p)) (packet_commitment_bytes k)
       = Ok ()"
proof -
  have "recv_packet_validate env s msg = Ok ()"
    using assms(1) by (auto simp: dispatch_def validate_def packet_msg_validate_def result_simps)
  then show ?thesis unfolding recv_packet_validate_Ok_iff Let_def assms(2)
    by (fastforce simp: commits_to_def hd_conv_nth)
qed

theorem received_packet_is_authentic_witness:
  "\<exists>s r s' r' c. dispatch sample_env dummy_transfer_ops (sample_recv 1) (s, r) = (Ok (), (s', r'))
     \<and> channel_end_store s (chan_end_path_on_b (sample_packet 1)) = Some c \<and> ch_state c = Open"
proof -
  obtain es s r s' r' where *:
      "dispatch sample_env dummy_transfer_ops (sample_recv 1) (s, r) = (Ok (), (s', r'))"
    by (rule sample_recv_facts)
  show ?thesis using received_packet_is_authentic [OF * [unfolded sample_recv_def] refl] * by auto
qed

text \<open>C16: a packet that was delivered is never accepted again on an unordered channel, not
  even as a no-op: its acknowledgement is stored, which the validation refuses.\<close>

theorem redelivery_is_rejected:
  assumes "light_client env" "reaches env mops es (s, r)" "p \<in> set (received_packets (events s))"
    and "rcv_packet msg = p" "channel_end_store s (chan_end_path_on_b p) = Some c"
    and "ch_ordering c = Unordered"
  shows "fst (dispatch env mops (PacketEnvelope (PacketRecv msg)) (s, r)) \<noteq> Ok ()"
proof
  assume "fst (dispatch env mops (PacketEnvelope (PacketRecv msg)) (s, r)) = Ok ()"
  then have "validate env mops (PacketEnvelope (PacketRecv msg)) (s, r) = Ok ()"
    by (cases "dispatch env mops (PacketEnvelope (PacketRecv msg)) (s, r)")
      (auto simp: dispatch_def result_simps)
  then have "recv_packet_validate env s msg = Ok ()"
    by (auto simp: validate_def packet_msg_validate_def result_simps)
  then have "packet_ack_store s (ack_path_on_b p) = None"
    using assms(4-6) unfolding recv_packet_validate_Ok_iff
    by (auto simp: Let_def recv_packet_validate_order_Ok_iff)
  then show False using reachable_inv [OF assms(1,2)] assms(3)
    by (auto simp: core_inv_def delivered_once_def)
qed

theorem redelivery_is_rejected_witness:
  "\<exists>es s r. reaches sample_env dummy_transfer_ops es (s, r)
     \<and> sample_packet 1 \<in> set (received_packets (events s))
     \<and> fst (dispatch sample_env dummy_transfer_ops (sample_recv 1) (s, r)) \<noteq> Ok ()"
proof -
  obtain es s r c where *: "reaches sample_env dummy_transfer_ops es (s, r)"
      "received_packets (events s) = [sample_packet 2, sample_packet 1]"
      "channel_end_store s (ChannelEndPath port_id_transfer (channel_id_new 0)) = Some c"
      "ch_ordering c = Unordered" by (rule sample_unordered_facts)
  have "chan_end_path_on_b (sample_packet 1) = ChannelEndPath port_id_transfer (channel_id_new 0)"
    by (simp add: sample_packet_def chan_end_path_on_b_def)
  then have "channel_end_store s (chan_end_path_on_b (sample_packet 1)) = Some c" using *(3) by simp
  then have "fst (dispatch sample_env dummy_transfer_ops (sample_recv 1) (s, r)) \<noteq> Ok ()"
    unfolding sample_recv_def
    by (intro redelivery_is_rejected [OF sample_light_client *(1) _ _ _ *(4)]) (simp_all add: *(2))
  moreover have "sample_packet 1 \<in> set (received_packets (events s))" by (simp add: *(2))
  ultimately show ?thesis using *(1) by metis
qed

section \<open>Token transfers\<close>

text \<open>C21: tokens are conserved.  Two chains exchange transfers over one channel, with banks
  that keep their books.  Whatever they send, receive, acknowledge, time out or do besides,
  the tokens a chain holds in escrow for the channel are the vouchers on the other chain
  plus the transfers that are neither delivered nor refunded, in both directions.\<close>

theorem vouchers_are_backed:
  assumes "\<And>X. keeps_books (link_ops L X) view" "faithful_texts te"
    and "transfer_reaches env te L view n"
    and "is_sender_chain_source (link_port L X) (link_chan L X) d"
  shows "escrowed (view (net_bank n X)) (link_port L X) (link_chan L X) d
    = total_supply (view (net_bank n (other X))) (voucher L (other X) d)
      + flows te d (unsettled n X) + flows te (voucher L (other X) d) (unsettled n (other X))"
  using net_invD(2) [OF net_inv_reachable [OF assms(1,2,3)] assms(4)] by (simp add: vouchers_backed_def)

theorem vouchers_are_backed_witness:
  "keeps_books sample_bank_ops (\<lambda>l. l) \<and> faithful_texts sample_te
   \<and> transfer_reaches sample_env sample_te sample_link (\<lambda>l. l) sample_net_received
   \<and> escrowed (net_bank sample_net_received ChainA) port_id_transfer (channel_id_new 0) sample_denom = 10
   \<and> total_supply (net_bank sample_net_received ChainB) (voucher sample_link ChainB sample_denom) = 10"
proof -
  have src: "is_sender_chain_source (link_port sample_link ChainA) (link_chan sample_link ChainA) sample_denom"
    by (simp add: is_sender_chain_source_def sample_denom_native)
  have "escrowed (net_bank sample_net_received ChainA) port_id_transfer (channel_id_new 0) sample_denom = 10"
    by (simp add: sample_net_received_def sample_net_sent_def sample_sent_bank_def ledger_escrow_def
        debit_def credit_def sample_transfer_def sample_bank_def)
  then show ?thesis
    using vouchers_are_backed [of sample_link "\<lambda>l. l", OF _ sample_te_faithful sample_reachable_nets(2) src]
      sample_keeps_books sample_te_faithful sample_reachable_nets(2)
    by (simp add: unsettled_def sample_net_received_def sample_net_sent_def sample_net_def)
qed

text \<open>C22: a transfer of a token of the chain itself can always be refunded.  While it is on
  its way the escrow account holds enough, so that with a bank that releases what is in
  escrow the timeout callback succeeds.\<close>

theorem timed_out_transfer_is_refunded:
  assumes "\<And>X. keeps_books (link_ops L X) view" "faithful_texts te"
    and "transfer_reaches env te L view n"
    and "releases_escrow (link_ops L X) view" "p \<in> set (in_flight n X)"
    and "json_to_packet_data te (packet_data p) = Some data"
    and "is_sender_chain_source (link_port L X) (link_chan L X) (coin_denom (td_token data))"
  shows "\<exists>ex t'. transfer_on_timeout_packet_execute te (link_ops L X) p (net_bank n X) = ((ex, Ok ()), t')"
  using timeout_callback_succeeds [OF assms(4) net_inv_reachable [OF assms(1,2,3)] assms(5,6,7)] .

theorem timed_out_transfer_is_refunded_witness:
  "transfer_reaches sample_env sample_te sample_link (\<lambda>l. l) sample_net_sent
   \<and> (\<exists>ex t'. transfer_on_timeout_packet_execute sample_te sample_bank_ops sample_transfer_packet
        (net_bank sample_net_sent ChainA) = ((ex, Ok ()), t'))"
proof -
  have "releases_escrow (link_ops sample_link ChainA) (\<lambda>l. l)"
    by (simp add: releases_escrow_def sample_bank_ops_def ledger_exec_def ledger_unescrow_def debit_def)
  moreover have "sample_transfer_packet \<in> set (in_flight sample_net_sent ChainA)"
    by (simp add: sample_net_sent_def)
  moreover have "is_sender_chain_source (link_port sample_link ChainA) (link_chan sample_link ChainA)
      (coin_denom (td_token (mt_packet_data sample_transfer)))"
    by (simp add: is_sender_chain_source_def sample_denom_native sample_transfer_def)
  ultimately show ?thesis
    using timed_out_transfer_is_refunded [of sample_link "\<lambda>l. l", OF _ sample_te_faithful
        sample_reachable_nets(1) _ _ sample_packet_data, of ChainA]
      sample_keeps_books sample_reachable_nets(1)
    by simp
qed

text \<open>C23: a refund undoes the transfer.  When a transfer was sent and its timeout is handled,
  the bank has again the balances, escrow accounts and supplies of before.\<close>

theorem refund_undoes_transfer:
  assumes "keeps_books ops view" "faithful_texts te" "msg_transfer_try_from te raw = Ok msg"
    and "send_transfer env te ops msg (s, t) = (Ok (), (s', t'))"
    and "transfer_on_timeout_packet_execute te ops (transfer_packet te msg seq p_b c_b) t' = ((ex, Ok ()), t'')"
  shows "view t'' = view t"
proof -
  have data: "json_to_packet_data te (packet_data (transfer_packet te msg seq p_b c_b))
      = Some (mt_packet_data msg)"
    using json_packet_data_round_trip [of te "mt_packet_data msg"] assms(2) msg_transfer_printable [OF assms(3)]
    by (simp add: transfer_packet_def faithful_texts_def)
  obtain a where a: "to_account ops (td_sender (mt_packet_data msg)) = Some a"
    and send: "ledger_send a (mt_port_id_on_a msg) (mt_chan_id_on_a msg) (td_token (mt_packet_data msg))
      (view t) = Some (view t')"
    using assms(1,4) by (rule send_transfer_ledger)
  have refund: "refund_packet_token_execute ops (transfer_packet te msg seq p_b c_b) (mt_packet_data msg) t'
      = (Ok (), t'')"
    using timeout_callback_OkD [OF assms(5)] data by auto
  obtain b where "to_account ops (td_sender (mt_packet_data msg)) = Some b"
    "ledger_refund b (mt_port_id_on_a msg) (mt_chan_id_on_a msg) (td_token (mt_packet_data msg))
      (view t') = Some (view t'')"
    using refund_ledger [OF assms(1) refund] by (auto simp: transfer_packet_def)
  then show ?thesis using a ledger_refund_send [OF send] by simp
qed

theorem refund_undoes_transfer_witness:
  "\<exists>s s' ex t'' seq p_b c_b.
     send_transfer sample_env sample_te sample_bank_ops sample_transfer (s, sample_bank 100)
       = (Ok (), (s', sample_sent_bank))
     \<and> transfer_on_timeout_packet_execute sample_te sample_bank_ops
         (transfer_packet sample_te sample_transfer seq p_b c_b) sample_sent_bank = ((ex, Ok ()), t'')
     \<and> t'' = sample_bank 100"
proof -
  obtain s s' where send: "send_transfer sample_env sample_te sample_bank_ops sample_transfer
      (s, sample_bank 100) = (Ok (), (s', sample_sent_bank))" by (rule sample_send_facts)
  have "refund_packet_token_execute sample_bank_ops sample_transfer_packet (mt_packet_data sample_transfer)
      sample_sent_bank = (Ok (), sample_bank 100)"
    using ledger_unescrow_escrow [OF sample_escrow]
    by (simp add: refund_packet_token_execute_def sample_bank_ops_def sample_transfer_packet_def
        transfer_packet_def sample_transfer_def is_sender_chain_source_def sample_denom_native
        exec_bind_lift_Ok ledger_exec_def)
  then obtain ex where timeout: "transfer_on_timeout_packet_execute sample_te sample_bank_ops
      sample_transfer_packet sample_sent_bank = ((ex, Ok ()), sample_bank 100)"
    using sample_packet_data by (simp add: transfer_on_timeout_packet_execute_def)
  then show ?thesis
    using refund_undoes_transfer [OF sample_keeps_books sample_te_faithful sample_transfer_parses send]
      send unfolding sample_transfer_packet_def by blast
qed


text \<open>C24: receiving a transfer always ends in an acknowledgement.  The callback answers on
  every input; if the answer is an error the bank is as before, and if it is the success
  acknowledgement the account of the receiver that the packet names was paid the coin of the
  packet, out of escrow when the token comes home and as a new voucher otherwise.\<close>

theorem receive_always_acknowledged:
  assumes "keeps_books ops view" "receives_without_panic ops"
  shows "\<exists>ex ack t'. transfer_on_recv_packet_execute te ops p t = ((Ok (ex, ack) :: (_, unit) result), t')
    \<and> (error_ack ack \<and> view t' = view t
       \<or> ack = success_ack \<and> (\<exists>data a. json_to_packet_data te (packet_data p) = Some data
           \<and> to_account ops (td_receiver data) = Some a
           \<and> ledger_receive a p (td_token data) (view t) = Some (view t')))"
  using recv_callback_total [OF assms(2), of te p t] recv_callback_ledger [OF assms(1)] by metis

theorem receive_always_acknowledged_witness:
  "keeps_books sample_bank_ops (\<lambda>l. l) \<and> receives_without_panic sample_bank_ops
   \<and> (\<exists>ex data a. transfer_on_recv_packet_execute sample_te sample_bank_ops sample_transfer_packet (sample_bank 0)
        = ((Ok (ex, success_ack) :: (_, unit) result), sample_received_bank)
      \<and> json_to_packet_data sample_te (packet_data sample_transfer_packet) = Some data
      \<and> to_account sample_bank_ops (td_receiver data) = Some a
      \<and> ledger_receive a sample_transfer_packet (td_token data) (sample_bank 0) = Some sample_received_bank)"
proof -
  have quiet: "receives_without_panic sample_bank_ops"
    by (simp add: receives_without_panic_def sample_bank_ops_def ledger_exec_def split: option.splits)
  obtain ex where run: "transfer_on_recv_packet_execute sample_te sample_bank_ops sample_transfer_packet (sample_bank 0)
      = ((Ok (ex, success_ack) :: (_, unit) result), sample_received_bank)" by (rule sample_recv_run)
  show ?thesis
    using receive_always_acknowledged [OF sample_keeps_books quiet, of sample_te sample_transfer_packet "sample_bank 0"]
      run error_ack_not_success quiet sample_keeps_books by auto
qed

text \<open>C25: printing a denomination that was parsed gives back the text.\<close>

theorem denom_print_of_parse:
  assumes "prefixed_denom_from_str s = Ok d"
  shows "prefixed_denom_to_string d = s \<and> valid_trace_path (trace_path d)
    \<and> str_trim (base_denom_str (base_denom d)) \<noteq> []"
  using prefixed_denom_print_parse [OF assms] by simp

theorem denom_print_of_parse_witness:
  "prefixed_denom_from_str ''uatom'' = Ok sample_denom \<and> prefixed_denom_to_string sample_denom = ''uatom''"
  using sample_denom_parses denom_print_of_parse [OF sample_denom_parses] by simp

text \<open>C26: parsing a printed denomination gives it back exactly when its base does not begin
  with a hop (or the denomination has no hops and its base is nothing but hops).\<close>

theorem denom_parse_of_print:
  assumes "valid_trace_path (trace_path d)" "str_trim (base_denom_str (base_denom d)) \<noteq> []"
  shows "prefixed_denom_from_str (prefixed_denom_to_string d) = Ok d \<longleftrightarrow>
    trace_prefix_strip (base_denom_str (base_denom d)) = None
    \<or> trace_prefixes (trace_path d) = [] \<and> snd (trace_path_trim (base_denom_str (base_denom d))) = None"
  using assms by (rule prefixed_denom_parse_print)

theorem denom_parse_of_print_witness:
  "\<exists>d. d = voucher sample_link ChainB sample_denom
     \<and> prefixed_denom_from_str (prefixed_denom_to_string d) = Ok d"
proof -
  let ?d = "voucher sample_link ChainB sample_denom"
  have "valid_trace_path (trace_path ?d)"
    by (simp add: voucher_def link_prefix_def add_trace_prefix_def sample_denom_def
        prefixed_denom_from_base_def trace_path_add_prefix_def trace_path_empty_def
        valid_trace_path_def valid_trace_prefix_def trace_prefix_new_def)
  moreover have "base_denom_str (base_denom ?d) = ''uatom''"
    by (simp add: voucher_def add_trace_prefix_def sample_denom_def prefixed_denom_from_base_def)
  moreover have "str_trim ''uatom'' \<noteq> []" "trace_prefix_strip ''uatom'' = None" by code_simp+
  ultimately show ?thesis using denom_parse_of_print [of ?d] by simp
qed

end
